(* ===== verification/Px4_Prelude.thy ===== *)
theory Px4_Prelude
  imports Main "HOL-Library.Word"
begin

text \<open>
  Shared vocabulary of the development: the machine-integer types of the C++ code, the time
  literals of \<^verbatim>\<open>src/src/drivers/drv_hrt.h\<close>, the collections of simplification rules the
  component theories fill, and the generic facts on lists and words that several components
  need.
\<close>

unbundle bit_operations_syntax

section \<open>Machine types and time literals\<close>

type_synonym u8 = "8 word"
type_synonym u16 = "16 word"
type_synonym u32 = "32 word"
type_synonym u64 = "64 word"

text \<open>\<^verbatim>\<open>hrt_abstime\<close> is an unsigned 64-bit count of microseconds since boot.\<close>

type_synonym hrt_abstime = u64

definition time_s :: "u64 \<Rightarrow> hrt_abstime" where
  "time_s seconds = seconds * 1000000"

definition time_ms :: "u64 \<Rightarrow> hrt_abstime" where
  "time_ms milliseconds = milliseconds * 1000"

text \<open>Time since \<open>before\<close>; never negative.\<close>

definition hrt_elapsed_time :: "hrt_abstime \<Rightarrow> hrt_abstime \<Rightarrow> hrt_abstime" where
  "hrt_elapsed_time now before = (if before > now then 0 else now - before)"

section \<open>Collections of facts\<close>

named_theorems mode_defs \<open>definitions of the navigation state constants\<close>
named_theorems fs_frame \<open>which fields of the failsafe state an operation leaves alone\<close>
named_theorems fs_inv_intros \<open>preservation of the failsafe table invariant\<close>

section \<open>Single-bit masks\<close>

text \<open>\<^verbatim>\<open>1u << n\<close> for a \<^verbatim>\<open>uint8_t\<close> shift count, at 32 bits.\<close>

definition bit_mask :: "u8 \<Rightarrow> u32" where
  "bit_mask n = push_bit (unat n) 1"

lemma bit_bit_mask: "bit (bit_mask n) k \<longleftrightarrow> k = unat n \<and> k < 32"
  by (auto simp: bit_mask_def bit_simps)

lemma and_bit_mask_eq_0: "(w AND bit_mask n = 0) \<longleftrightarrow> \<not> bit w (unat n)"
proof -
  have "(w AND bit_mask n = 0) \<longleftrightarrow> (\<forall>k. \<not> bit (w AND bit_mask n) k)"
    by (auto intro: bit_word_eqI)
  also have "\<dots> \<longleftrightarrow> \<not> bit w (unat n)"
    using bit_imp_le_length [of w "unat n"] by (auto simp: bit_and_iff bit_bit_mask)
  finally show ?thesis .
qed

lemma bit_255: "bit (255 :: int) n \<longleftrightarrow> n < 8"
proof -
  have "bit (mask 8 :: int) n \<longleftrightarrow> n < 8" by (simp add: bit_mask_iff)
  then show ?thesis by (simp add: mask_eq_exp_minus_1)
qed

section \<open>Byte buffers\<close>

text \<open>\<^verbatim>\<open>memcpy\<close> of some bytes to an offset of a buffer.\<close>

definition write_bytes :: "nat \<Rightarrow> u8 list \<Rightarrow> u8 list \<Rightarrow> u8 list" where
  "write_bytes offset bytes buffer =
     take offset buffer @ bytes @ drop (offset + length bytes) buffer"

lemma length_write_bytes [simp]:
  "offset + length bytes \<le> length buffer \<Longrightarrow> length (write_bytes offset bytes buffer) = length buffer"
  by (simp add: write_bytes_def)

lemma nth_write_bytes:
  "offset + length bytes \<le> length buffer \<Longrightarrow> i < length buffer \<Longrightarrow>
     write_bytes offset bytes buffer ! i =
       (if offset \<le> i \<and> i < offset + length bytes then bytes ! (i - offset) else buffer ! i)"
  by (auto simp: write_bytes_def nth_append)

section \<open>Lists\<close>

text \<open>A slot update keeps a property of all elements.\<close>

lemma list_all_update: "list_all P xs \<Longrightarrow> P x \<Longrightarrow> list_all P (xs[i := x])"
  by (auto simp: list_all_iff dest: set_update_subset_insert [THEN subsetD])

lemma nth_mem_update: "i < length xs \<Longrightarrow> x \<in> set (xs[i := x])"
  by (rule set_update_memI)

text \<open>An element other than the overwritten one survives a slot update.\<close>

lemma mem_update_other:
  assumes "y \<in> set xs" and "xs ! i \<noteq> y"
  shows "y \<in> set (xs[i := x])"
proof -
  from assms(1) obtain j where "j < length xs" and "xs ! j = y"
    by (auto simp: in_set_conv_nth)
  moreover from \<open>xs ! j = y\<close> assms(2) have "i \<noteq> j" by auto
  ultimately have "j < length (xs[i := x])" and "xs[i := x] ! j = y"
    by simp_all
  then show ?thesis by (metis nth_mem)
qed

text \<open>Keys are unique among the selected elements.\<close>

definition unique_on :: "('a \<Rightarrow> bool) \<Rightarrow> ('a \<Rightarrow> 'k) \<Rightarrow> 'a list \<Rightarrow> bool" where
  "unique_on P f xs \<longleftrightarrow> distinct (map f (filter P xs))"

lemma unique_on_nth:
  "unique_on P f xs \<longleftrightarrow>
     (\<forall>i < length xs. \<forall>j < length xs.
        P (xs ! i) \<longrightarrow> P (xs ! j) \<longrightarrow> f (xs ! i) = f (xs ! j) \<longrightarrow> i = j)"
proof (induction xs)
  case (Cons x xs)
  have "unique_on P f (x # xs) \<longleftrightarrow>
      (P x \<longrightarrow> (\<forall>y \<in> set xs. P y \<longrightarrow> f x \<noteq> f y)) \<and> unique_on P f xs"
    by (auto simp: unique_on_def)
  also have "\<dots> \<longleftrightarrow>
      (P x \<longrightarrow> (\<forall>i < length xs. P (xs ! i) \<longrightarrow> f x \<noteq> f (xs ! i))) \<and> unique_on P f xs"
    by (simp add: all_set_conv_all_nth)
  finally show ?case
    unfolding Cons.IH length_Cons All_less_Suc2 nth_Cons_0 nth_Cons_Suc by auto
qed (simp add: unique_on_def)

lemma unique_on_map:
  assumes "unique_on P f xs" and "\<And>x. P (g x) \<Longrightarrow> P x \<and> f (g x) = f x"
  shows "unique_on P f (map g xs)"
  using assms by (auto simp: unique_on_nth)

lemma unique_on_update:
  assumes "unique_on P f xs"
    and "\<And>j. j < length xs \<Longrightarrow> j \<noteq> i \<Longrightarrow> P (xs ! j) \<Longrightarrow> f (xs ! j) \<noteq> f x"
  shows "unique_on P f (xs[i := x])"
  unfolding unique_on_nth length_list_update
proof (intro allI impI)
  fix j k
  assume "j < length xs" "k < length xs" "P (xs[i := x] ! j)" "P (xs[i := x] ! k)"
    and eq: "f (xs[i := x] ! j) = f (xs[i := x] ! k)"
  then show "j = k"
    using assms(1) [unfolded unique_on_nth] assms(2)
    by (cases "j = i"; cases "k = i") (simp_all, metis)
qed

end
