(* ===== verification/Vehicle_Messages.thy ===== *)
theory Vehicle_Messages
  imports Px4_Prelude
begin

text \<open>
  The parts of the uORB messages that the commander components exchange: the navigation states
  and vehicle types of \<^verbatim>\<open>src/msg/versioned/VehicleStatus.msg\<close>, the battery warnings of
  \<^verbatim>\<open>BatteryStatus.msg\<close>, and \<^verbatim>\<open>failsafe_flags_s\<close> of \<^verbatim>\<open>FailsafeFlags.msg\<close>, which the health
  checks fill and the failsafe state machine reads. The boolean fields of the struct are indexed
  by their name (\<open>FsFlag\<close>) and the mode requirement masks by theirs (\<open>ModeReq\<close>), because the
  code addresses the former by \<^verbatim>\<open>offsetof\<close>.
\<close>

section \<open>Constants of the vehicle status\<close>

abbreviation NAVIGATION_STATE_MANUAL :: u8 where
  "NAVIGATION_STATE_MANUAL \<equiv> 0"

abbreviation NAVIGATION_STATE_ALTCTL :: u8 where
  "NAVIGATION_STATE_ALTCTL \<equiv> 1"

abbreviation NAVIGATION_STATE_POSCTL :: u8 where
  "NAVIGATION_STATE_POSCTL \<equiv> 2"

abbreviation NAVIGATION_STATE_AUTO_MISSION :: u8 where
  "NAVIGATION_STATE_AUTO_MISSION \<equiv> 3"

abbreviation NAVIGATION_STATE_AUTO_LOITER :: u8 where
  "NAVIGATION_STATE_AUTO_LOITER \<equiv> 4"

abbreviation NAVIGATION_STATE_AUTO_RTL :: u8 where
  "NAVIGATION_STATE_AUTO_RTL \<equiv> 5"

abbreviation NAVIGATION_STATE_POSITION_SLOW :: u8 where
  "NAVIGATION_STATE_POSITION_SLOW \<equiv> 6"

abbreviation NAVIGATION_STATE_GUIDED_COURSE :: u8 where
  "NAVIGATION_STATE_GUIDED_COURSE \<equiv> 7"

abbreviation NAVIGATION_STATE_ALTITUDE_CRUISE :: u8 where
  "NAVIGATION_STATE_ALTITUDE_CRUISE \<equiv> 8"

abbreviation NAVIGATION_STATE_FREE3 :: u8 where
  "NAVIGATION_STATE_FREE3 \<equiv> 9"

abbreviation NAVIGATION_STATE_ACRO :: u8 where
  "NAVIGATION_STATE_ACRO \<equiv> 10"

abbreviation NAVIGATION_STATE_FREE2 :: u8 where
  "NAVIGATION_STATE_FREE2 \<equiv> 11"

abbreviation NAVIGATION_STATE_DESCEND :: u8 where
  "NAVIGATION_STATE_DESCEND \<equiv> 12"

abbreviation NAVIGATION_STATE_TERMINATION :: u8 where
  "NAVIGATION_STATE_TERMINATION \<equiv> 13"

abbreviation NAVIGATION_STATE_OFFBOARD :: u8 where
  "NAVIGATION_STATE_OFFBOARD \<equiv> 14"

abbreviation NAVIGATION_STATE_STAB :: u8 where
  "NAVIGATION_STATE_STAB \<equiv> 15"

abbreviation NAVIGATION_STATE_FREE1 :: u8 where
  "NAVIGATION_STATE_FREE1 \<equiv> 16"

abbreviation NAVIGATION_STATE_AUTO_TAKEOFF :: u8 where
  "NAVIGATION_STATE_AUTO_TAKEOFF \<equiv> 17"

abbreviation NAVIGATION_STATE_AUTO_LAND :: u8 where
  "NAVIGATION_STATE_AUTO_LAND \<equiv> 18"

abbreviation NAVIGATION_STATE_AUTO_FOLLOW_TARGET :: u8 where
  "NAVIGATION_STATE_AUTO_FOLLOW_TARGET \<equiv> 19"

abbreviation NAVIGATION_STATE_AUTO_PRECLAND :: u8 where
  "NAVIGATION_STATE_AUTO_PRECLAND \<equiv> 20"

abbreviation NAVIGATION_STATE_ORBIT :: u8 where
  "NAVIGATION_STATE_ORBIT \<equiv> 21"

abbreviation NAVIGATION_STATE_AUTO_VTOL_TAKEOFF :: u8 where
  "NAVIGATION_STATE_AUTO_VTOL_TAKEOFF \<equiv> 22"

abbreviation NAVIGATION_STATE_EXTERNAL1 :: u8 where
  "NAVIGATION_STATE_EXTERNAL1 \<equiv> 23"

abbreviation NAVIGATION_STATE_EXTERNAL2 :: u8 where
  "NAVIGATION_STATE_EXTERNAL2 \<equiv> 24"

abbreviation NAVIGATION_STATE_EXTERNAL3 :: u8 where
  "NAVIGATION_STATE_EXTERNAL3 \<equiv> 25"

abbreviation NAVIGATION_STATE_EXTERNAL4 :: u8 where
  "NAVIGATION_STATE_EXTERNAL4 \<equiv> 26"

abbreviation NAVIGATION_STATE_EXTERNAL5 :: u8 where
  "NAVIGATION_STATE_EXTERNAL5 \<equiv> 27"

abbreviation NAVIGATION_STATE_EXTERNAL6 :: u8 where
  "NAVIGATION_STATE_EXTERNAL6 \<equiv> 28"

abbreviation NAVIGATION_STATE_EXTERNAL7 :: u8 where
  "NAVIGATION_STATE_EXTERNAL7 \<equiv> 29"

abbreviation NAVIGATION_STATE_EXTERNAL8 :: u8 where
  "NAVIGATION_STATE_EXTERNAL8 \<equiv> 30"

abbreviation NAVIGATION_STATE_MAX :: u8 where
  "NAVIGATION_STATE_MAX \<equiv> 31"

abbreviation VEHICLE_TYPE_UNSPECIFIED :: u8 where
  "VEHICLE_TYPE_UNSPECIFIED \<equiv> 0"

abbreviation VEHICLE_TYPE_ROTARY_WING :: u8 where
  "VEHICLE_TYPE_ROTARY_WING \<equiv> 1"

abbreviation VEHICLE_TYPE_FIXED_WING :: u8 where
  "VEHICLE_TYPE_FIXED_WING \<equiv> 2"

abbreviation VEHICLE_TYPE_ROVER :: u8 where
  "VEHICLE_TYPE_ROVER \<equiv> 3"

abbreviation WARNING_NONE :: u8 where
  "WARNING_NONE \<equiv> 0"

abbreviation WARNING_LOW :: u8 where
  "WARNING_LOW \<equiv> 1"

abbreviation WARNING_CRITICAL :: u8 where
  "WARNING_CRITICAL \<equiv> 2"

abbreviation WARNING_EMERGENCY :: u8 where
  "WARNING_EMERGENCY \<equiv> 3"

abbreviation WARNING_FAILED :: u8 where
  "WARNING_FAILED \<equiv> 4"

section \<open>The failsafe flags\<close>

datatype ModeReq =
    mode_req_angular_velocity
  | mode_req_attitude
  | mode_req_local_alt
  | mode_req_local_position
  | mode_req_local_position_relaxed
  | mode_req_global_position
  | mode_req_global_position_relaxed
  | mode_req_mission
  | mode_req_offboard_signal
  | mode_req_home_position
  | mode_req_wind_and_flight_time_compliance
  | mode_req_prevent_arming
  | mode_req_manual_control
  | mode_req_other

datatype FsFlag =
    angular_velocity_invalid
  | attitude_invalid
  | local_altitude_invalid
  | local_position_invalid
  | local_position_invalid_relaxed
  | local_velocity_invalid
  | global_position_invalid
  | global_position_invalid_relaxed
  | auto_mission_missing
  | offboard_control_signal_lost
  | home_position_invalid
  | manual_control_signal_lost
  | gcs_connection_lost
  | battery_low_remaining_time
  | battery_unhealthy
  | fd_critical_failure
  | fd_esc_arming_failure
  | fd_imbalanced_prop
  | fd_motor_failure
  | fd_alt_loss
  | geofence_breached
  | mission_failure
  | vtol_fixed_wing_system_failure
  | wind_limit_exceeded
  | flight_time_limit_exceeded
  | position_accuracy_low
  | navigator_failure
  | parachute_unhealthy
  | traffic_avoidance_unhealthy
  | remote_id_unhealthy
  | gnss_lost

record failsafe_flags_s =
  ff_mode_req :: "ModeReq \<Rightarrow> u32"
  ff_flag :: "FsFlag \<Rightarrow> bool"
  ff_battery_warning :: u8

definition failsafe_flags_zero :: failsafe_flags_s where
  "failsafe_flags_zero =
     \<lparr>ff_mode_req = (\<lambda>_. 0), ff_flag = (\<lambda>_. False), ff_battery_warning = 0\<rparr>"

text \<open>
  The byte offsets of the boolean fields are fixed by the struct the build generates from the
  message file. The code relies on them only as identifiers: distinct fields have distinct
  offsets, and every offset lies inside the struct.
\<close>

record flags_layout =
  fl_offsetof :: "FsFlag \<Rightarrow> int"
  fl_sizeof :: int

definition layout_ok :: "flags_layout \<Rightarrow> bool" where
  "layout_ok L \<longleftrightarrow>
     inj (fl_offsetof L) \<and> (\<forall>f. 0 \<le> fl_offsetof L f \<and> fl_offsetof L f < fl_sizeof L)"

lemma layout_okD:
  assumes "layout_ok L"
  shows "fl_offsetof L f = fl_offsetof L g \<longleftrightarrow> f = g"
    and "0 \<le> fl_offsetof L f" and "fl_offsetof L f < fl_sizeof L"
  using assms by (auto simp: layout_ok_def inj_eq)

text \<open>
  One layout that satisfies this: the fields in declaration order behind the 64-bit timestamp
  and the fourteen 32-bit masks, one byte each (\<^verbatim>\<open>battery_warning\<close> is the byte at offset 77).
\<close>

fun msg_offset :: "FsFlag \<Rightarrow> int" where
  "msg_offset angular_velocity_invalid = 64"
| "msg_offset attitude_invalid = 65"
| "msg_offset local_altitude_invalid = 66"
| "msg_offset local_position_invalid = 67"
| "msg_offset local_position_invalid_relaxed = 68"
| "msg_offset local_velocity_invalid = 69"
| "msg_offset global_position_invalid = 70"
| "msg_offset global_position_invalid_relaxed = 71"
| "msg_offset auto_mission_missing = 72"
| "msg_offset offboard_control_signal_lost = 73"
| "msg_offset home_position_invalid = 74"
| "msg_offset manual_control_signal_lost = 75"
| "msg_offset gcs_connection_lost = 76"
| "msg_offset battery_low_remaining_time = 78"
| "msg_offset battery_unhealthy = 79"
| "msg_offset fd_critical_failure = 80"
| "msg_offset fd_esc_arming_failure = 81"
| "msg_offset fd_imbalanced_prop = 82"
| "msg_offset fd_motor_failure = 83"
| "msg_offset fd_alt_loss = 84"
| "msg_offset geofence_breached = 85"
| "msg_offset mission_failure = 86"
| "msg_offset vtol_fixed_wing_system_failure = 87"
| "msg_offset wind_limit_exceeded = 88"
| "msg_offset flight_time_limit_exceeded = 89"
| "msg_offset position_accuracy_low = 90"
| "msg_offset navigator_failure = 91"
| "msg_offset parachute_unhealthy = 92"
| "msg_offset traffic_avoidance_unhealthy = 93"
| "msg_offset remote_id_unhealthy = 94"
| "msg_offset gnss_lost = 95"

definition msg_layout :: flags_layout where
  "msg_layout = \<lparr>fl_offsetof = msg_offset, fl_sizeof = 96\<rparr>"

lemma msg_offset_inverse:
  "map_of
     [(64, angular_velocity_invalid), (65, attitude_invalid), (66, local_altitude_invalid),
      (67, local_position_invalid), (68, local_position_invalid_relaxed), (69,
      local_velocity_invalid), (70, global_position_invalid), (71,
      global_position_invalid_relaxed), (72, auto_mission_missing), (73,
      offboard_control_signal_lost), (74, home_position_invalid), (75,
      manual_control_signal_lost), (76, gcs_connection_lost), (78,
      battery_low_remaining_time), (79, battery_unhealthy), (80, fd_critical_failure), (81,
      fd_esc_arming_failure), (82, fd_imbalanced_prop), (83, fd_motor_failure), (84,
      fd_alt_loss), (85, geofence_breached), (86, mission_failure), (87,
      vtol_fixed_wing_system_failure), (88, wind_limit_exceeded), (89,
      flight_time_limit_exceeded), (90, position_accuracy_low), (91, navigator_failure), (92,
      parachute_unhealthy), (93, traffic_avoidance_unhealthy), (94, remote_id_unhealthy), (95,
      gnss_lost)]
     (msg_offset f) = Some f"
  by (cases f) simp_all

lemma msg_layout_ok: "layout_ok msg_layout"
proof -
  have "inj msg_offset"
    by (rule injI) (metis msg_offset_inverse option.inject)
  moreover have "0 \<le> msg_offset f \<and> msg_offset f < 96" for f
    by (cases f) simp_all
  ultimately show ?thesis by (simp add: layout_ok_def msg_layout_def)
qed

end
