(* ===== verification/Mode_Util.thy ===== *)
theory Mode_Util
  imports Vehicle_Messages
begin

text \<open>
  Which estimates and signals a mode requires
  (\<^verbatim>\<open>src/src/modules/commander/ModeUtil/mode_requirements.cpp\<close>), and whether it can run.
\<close>

section \<open>Mode requirements\<close>

definition setRequirement :: "u8 \<Rightarrow> ModeReq \<Rightarrow> failsafe_flags_s \<Rightarrow> failsafe_flags_s" where
  "setRequirement nav_state req flags =
     flags\<lparr>ff_mode_req := (ff_mode_req flags)(req := ff_mode_req flags req OR bit_mask nav_state)\<rparr>"

text \<open>The requirements of one mode: the calls the code makes for it, in its order.\<close>

definition require_mode :: "u8 \<Rightarrow> ModeReq list \<Rightarrow> failsafe_flags_s \<Rightarrow> failsafe_flags_s" where
  "require_mode nav_state reqs flags = fold (setRequirement nav_state) reqs flags"

definition clear_requirements :: "failsafe_flags_s \<Rightarrow> failsafe_flags_s" where
  "clear_requirements flags = flags\<lparr>ff_mode_req := (\<lambda>_. 0)\<rparr>"

definition manual_mode_requirements :: "failsafe_flags_s \<Rightarrow> failsafe_flags_s" where
  "manual_mode_requirements flags =
    (let flags = require_mode NAVIGATION_STATE_MANUAL [mode_req_manual_control] flags;
         flags = require_mode NAVIGATION_STATE_ALTCTL
                   [mode_req_angular_velocity, mode_req_attitude, mode_req_local_alt,
                    mode_req_manual_control] flags;
         flags = require_mode NAVIGATION_STATE_ALTITUDE_CRUISE
                   [mode_req_angular_velocity, mode_req_attitude, mode_req_local_alt,
                    mode_req_manual_control] flags;
         flags = require_mode NAVIGATION_STATE_POSCTL
                   [mode_req_angular_velocity, mode_req_attitude, mode_req_local_alt,
                    mode_req_local_position_relaxed, mode_req_manual_control] flags;
         flags = require_mode NAVIGATION_STATE_POSITION_SLOW
                   [mode_req_angular_velocity, mode_req_attitude, mode_req_local_alt,
                    mode_req_local_position_relaxed, mode_req_manual_control] flags
     in flags)"

text \<open>The position requirements that depend on the vehicle type.\<close>

definition position_requirements :: "u8 \<Rightarrow> ModeReq list" where
  "position_requirements vehicle_type =
    (if vehicle_type = VEHICLE_TYPE_FIXED_WING
     then [mode_req_global_position_relaxed, mode_req_local_position_relaxed]
     else [mode_req_global_position, mode_req_local_position])"

definition auto_mode_requirements :: "u8 \<Rightarrow> failsafe_flags_s \<Rightarrow> failsafe_flags_s" where
  "auto_mode_requirements vehicle_type flags =
    (let flags = require_mode NAVIGATION_STATE_AUTO_MISSION
                   ([mode_req_angular_velocity, mode_req_attitude]
                    @ position_requirements vehicle_type
                    @ [mode_req_local_alt, mode_req_mission,
                       mode_req_wind_and_flight_time_compliance]) flags;
         flags = require_mode NAVIGATION_STATE_AUTO_LOITER
                   ([mode_req_angular_velocity, mode_req_attitude]
                    @ position_requirements vehicle_type
                    @ [mode_req_local_alt, mode_req_wind_and_flight_time_compliance]) flags;
         flags = require_mode NAVIGATION_STATE_GUIDED_COURSE
                   [mode_req_angular_velocity, mode_req_attitude, mode_req_local_alt,
                    mode_req_wind_and_flight_time_compliance,
                    mode_req_local_position_relaxed] flags;
         flags = require_mode NAVIGATION_STATE_AUTO_RTL
                   ([mode_req_angular_velocity, mode_req_attitude]
                    @ position_requirements vehicle_type
                    @ [mode_req_local_alt, mode_req_home_position, mode_req_prevent_arming]) flags
     in flags)"

definition basic_mode_requirements :: "failsafe_flags_s \<Rightarrow> failsafe_flags_s" where
  "basic_mode_requirements flags =
    (let flags = require_mode NAVIGATION_STATE_ACRO
                   [mode_req_angular_velocity, mode_req_manual_control] flags;
         flags = require_mode NAVIGATION_STATE_DESCEND
                   [mode_req_angular_velocity, mode_req_attitude, mode_req_prevent_arming] flags;
         flags = require_mode NAVIGATION_STATE_TERMINATION [mode_req_prevent_arming] flags;
         flags = require_mode NAVIGATION_STATE_OFFBOARD
                   [mode_req_angular_velocity, mode_req_attitude, mode_req_offboard_signal] flags;
         flags = require_mode NAVIGATION_STATE_STAB
                   [mode_req_angular_velocity, mode_req_attitude, mode_req_manual_control] flags
     in flags)"

definition takeoff_land_requirements :: "u8 \<Rightarrow> failsafe_flags_s \<Rightarrow> failsafe_flags_s" where
  "takeoff_land_requirements vehicle_type flags =
    (let flags = require_mode NAVIGATION_STATE_AUTO_TAKEOFF
                   ([mode_req_angular_velocity, mode_req_attitude, mode_req_local_alt]
                    @ (if vehicle_type = VEHICLE_TYPE_ROTARY_WING
                       then [mode_req_local_position] else [])) flags;
         flags = require_mode NAVIGATION_STATE_AUTO_LAND
                   [mode_req_angular_velocity, mode_req_attitude, mode_req_local_alt,
                    mode_req_local_position_relaxed, mode_req_prevent_arming] flags;
         flags = require_mode NAVIGATION_STATE_AUTO_FOLLOW_TARGET
                   [mode_req_angular_velocity, mode_req_attitude, mode_req_local_position,
                    mode_req_local_alt, mode_req_prevent_arming,
                    mode_req_wind_and_flight_time_compliance] flags;
         flags = require_mode NAVIGATION_STATE_AUTO_PRECLAND
                   [mode_req_angular_velocity, mode_req_attitude, mode_req_local_position,
                    mode_req_local_alt, mode_req_prevent_arming] flags;
         flags = require_mode NAVIGATION_STATE_ORBIT
                   [mode_req_angular_velocity, mode_req_attitude, mode_req_local_position,
                    mode_req_local_alt, mode_req_prevent_arming,
                    mode_req_wind_and_flight_time_compliance] flags;
         flags = require_mode NAVIGATION_STATE_AUTO_VTOL_TAKEOFF
                   ([mode_req_angular_velocity, mode_req_attitude, mode_req_local_alt]
                    @ (if vehicle_type = VEHICLE_TYPE_FIXED_WING
                       then [mode_req_local_position_relaxed]
                       else [mode_req_local_position])) flags
     in flags)"

definition getModeRequirements :: "u8 \<Rightarrow> failsafe_flags_s \<Rightarrow> failsafe_flags_s" where
  "getModeRequirements vehicle_type flags =
    takeoff_land_requirements vehicle_type
     (basic_mode_requirements
       (auto_mode_requirements vehicle_type
         (manual_mode_requirements (clear_requirements flags))))"

section \<open>Which modes can run\<close>

definition modeCanRun :: "failsafe_flags_s \<Rightarrow> u8 \<Rightarrow> bool" where
  "modeCanRun status_flags mode =
    (let mode_mask = bit_mask mode in
     (\<not> ff_flag status_flags angular_velocity_invalid \<or>
       ff_mode_req status_flags mode_req_angular_velocity AND mode_mask = 0) \<and>
     (\<not> ff_flag status_flags attitude_invalid \<or>
       ff_mode_req status_flags mode_req_attitude AND mode_mask = 0) \<and>
     (\<not> ff_flag status_flags local_position_invalid \<or>
       ff_mode_req status_flags mode_req_local_position AND mode_mask = 0) \<and>
     (\<not> ff_flag status_flags local_position_invalid_relaxed \<or>
       ff_mode_req status_flags mode_req_local_position_relaxed AND mode_mask = 0) \<and>
     (\<not> ff_flag status_flags global_position_invalid \<or>
       ff_mode_req status_flags mode_req_global_position AND mode_mask = 0) \<and>
     (\<not> ff_flag status_flags global_position_invalid_relaxed \<or>
       ff_mode_req status_flags mode_req_global_position_relaxed AND mode_mask = 0) \<and>
     (\<not> ff_flag status_flags local_altitude_invalid \<or>
       ff_mode_req status_flags mode_req_local_alt AND mode_mask = 0) \<and>
     (\<not> ff_flag status_flags auto_mission_missing \<or>
       ff_mode_req status_flags mode_req_mission AND mode_mask = 0) \<and>
     (\<not> ff_flag status_flags offboard_control_signal_lost \<or>
       ff_mode_req status_flags mode_req_offboard_signal AND mode_mask = 0) \<and>
     (\<not> ff_flag status_flags home_position_invalid \<or>
       ff_mode_req status_flags mode_req_home_position AND mode_mask = 0) \<and>
     ff_mode_req status_flags mode_req_other AND mode_mask = 0)"

text \<open>Requirement \<open>req\<close> is set for the mode.\<close>

definition requires :: "failsafe_flags_s \<Rightarrow> u8 \<Rightarrow> ModeReq \<Rightarrow> bool" where
  "requires flags mode req \<longleftrightarrow> bit (ff_mode_req flags req) (unat mode)"

lemma requires_setRequirement:
  "requires (setRequirement n r flags) m q \<longleftrightarrow>
     requires flags m q \<or> (q = r \<and> m = n \<and> unat n < 32)"
  by (auto simp: requires_def setRequirement_def bit_or_iff bit_bit_mask word_unat_eq_iff)

lemma requires_require_mode:
  "requires (require_mode n rs flags) m q \<longleftrightarrow>
     requires flags m q \<or> (m = n \<and> unat n < 32 \<and> q \<in> set rs)"
  by (induction rs arbitrary: flags)
     (auto simp: require_mode_def requires_setRequirement)

lemma requires_clear [simp]: "\<not> requires (clear_requirements flags) m q"
  by (simp add: requires_def clear_requirements_def)

lemma require_mode_frame [simp]:
  "ff_flag (require_mode n rs flags) = ff_flag flags"
  "ff_battery_warning (require_mode n rs flags) = ff_battery_warning flags"
  by (induction rs arbitrary: flags) (auto simp: require_mode_def setRequirement_def)

lemmas mode_requirements_defs =
  getModeRequirements_def takeoff_land_requirements_def basic_mode_requirements_def
  auto_mode_requirements_def manual_mode_requirements_def position_requirements_def Let_def

lemma getModeRequirements_frame [simp]:
  "ff_flag (getModeRequirements vt flags) = ff_flag flags"
  "ff_battery_warning (getModeRequirements vt flags) = ff_battery_warning flags"
  by (simp_all add: mode_requirements_defs clear_requirements_def)

lemma modeCanRun_requires:
  "modeCanRun flags mode \<longleftrightarrow>
     (\<forall>(f, r) \<in> set
       [(angular_velocity_invalid, mode_req_angular_velocity),
        (attitude_invalid, mode_req_attitude),
        (local_position_invalid, mode_req_local_position),
        (local_position_invalid_relaxed, mode_req_local_position_relaxed),
        (global_position_invalid, mode_req_global_position),
        (global_position_invalid_relaxed, mode_req_global_position_relaxed),
        (local_altitude_invalid, mode_req_local_alt),
        (auto_mission_missing, mode_req_mission),
        (offboard_control_signal_lost, mode_req_offboard_signal),
        (home_position_invalid, mode_req_home_position)].
       ff_flag flags f \<longrightarrow> \<not> requires flags mode r) \<and>
     \<not> requires flags mode mode_req_other"
  by (auto simp: modeCanRun_def requires_def and_bit_mask_eq_0 Let_def)

section \<open>The modes the failsafes fall back to\<close>

lemma requires_fallback_modes:
  "requires (getModeRequirements vt f) NAVIGATION_STATE_POSCTL q \<longleftrightarrow>
     q \<in> {mode_req_angular_velocity, mode_req_attitude, mode_req_local_alt,
          mode_req_local_position_relaxed, mode_req_manual_control}"
  "requires (getModeRequirements vt f) NAVIGATION_STATE_ALTCTL q \<longleftrightarrow>
     q \<in> {mode_req_angular_velocity, mode_req_attitude, mode_req_local_alt,
          mode_req_manual_control}"
  "requires (getModeRequirements vt f) NAVIGATION_STATE_STAB q \<longleftrightarrow>
     q \<in> {mode_req_angular_velocity, mode_req_attitude, mode_req_manual_control}"
  "requires (getModeRequirements vt f) NAVIGATION_STATE_AUTO_LOITER q \<longleftrightarrow>
     q \<in> {mode_req_angular_velocity, mode_req_attitude, mode_req_local_alt,
          mode_req_wind_and_flight_time_compliance} \<union> set (position_requirements vt)"
  "requires (getModeRequirements vt f) NAVIGATION_STATE_AUTO_RTL q \<longleftrightarrow>
     q \<in> {mode_req_angular_velocity, mode_req_attitude, mode_req_local_alt, mode_req_home_position,
          mode_req_prevent_arming} \<union> set (position_requirements vt)"
  "requires (getModeRequirements vt f) NAVIGATION_STATE_AUTO_LAND q \<longleftrightarrow>
     q \<in> {mode_req_angular_velocity, mode_req_attitude, mode_req_local_alt,
          mode_req_local_position_relaxed, mode_req_prevent_arming}"
  "requires (getModeRequirements vt f) NAVIGATION_STATE_DESCEND q \<longleftrightarrow>
     q \<in> {mode_req_angular_velocity, mode_req_attitude, mode_req_prevent_arming}"
  by (auto simp: getModeRequirements_def takeoff_land_requirements_def basic_mode_requirements_def
      auto_mode_requirements_def manual_mode_requirements_def Let_def requires_require_mode)

text \<open>A mode whose requirements are a subset of another's can run whenever the other can.\<close>

lemma modeCanRun_mono:
  assumes "\<And>q. requires f m q \<Longrightarrow> requires f m' q" and "modeCanRun f m'"
  shows "modeCanRun f m"
  using assms unfolding modeCanRun_requires by fastforce

end
