(* ===== verification/Control_Mode.thy ===== *)
theory Control_Mode
  imports Mode_Util
begin

text \<open>
  Which controllers run in a mode (\<^verbatim>\<open>ModeUtil/control_mode.cpp\<close>) and with which setpoint type
  (\<^verbatim>\<open>ModeUtil/setpoint_types.cpp\<close>).
\<close>

section \<open>Setpoint types\<close>

datatype SetpointType =
    SP_Invalid
  | SP_DirectActuators
  | SP_Goto
  | SP_FixedwingLateralLongitudinal
  | SP_Trajectory
  | SP_Rates
  | SP_Attitude
  | SP_RoverPosition
  | SP_RoverSpeedAttitude
  | SP_RoverSpeedRate
  | SP_RoverSpeedSteering
  | SP_RoverThrottleAttitude
  | SP_RoverThrottleRate
  | SP_RoverThrottleSteering
  | SP_Trajectory_6dof
  | SP_ThrustAndTorque
  | SP_PositionTriplet

datatype SetpointTypeResult = SPR_Success | SPR_FailureOther | SPR_Unknown | SPR_Unsupported

record vehicle_control_mode_s =
  flag_armed :: bool
  flag_multicopter_position_control_enabled :: bool
  flag_control_manual_enabled :: bool
  flag_control_auto_enabled :: bool
  flag_control_offboard_enabled :: bool
  flag_control_position_enabled :: bool
  flag_control_velocity_enabled :: bool
  flag_control_altitude_enabled :: bool
  flag_control_climb_rate_enabled :: bool
  flag_control_attitude_enabled :: bool
  flag_control_rates_enabled :: bool
  flag_control_allocation_enabled :: bool

definition vehicle_control_mode_zero :: vehicle_control_mode_s where
  "vehicle_control_mode_zero =
     \<lparr>flag_armed = False, flag_multicopter_position_control_enabled = False,
      flag_control_manual_enabled = False, flag_control_auto_enabled = False,
      flag_control_offboard_enabled = False, flag_control_position_enabled = False,
      flag_control_velocity_enabled = False, flag_control_altitude_enabled = False,
      flag_control_climb_rate_enabled = False, flag_control_attitude_enabled = False,
      flag_control_rates_enabled = False, flag_control_allocation_enabled = False\<rparr>"

fun getControlMode :: "SetpointType \<Rightarrow> vehicle_control_mode_s \<Rightarrow> vehicle_control_mode_s" where
  "getControlMode SP_Invalid m =
     m"
| "getControlMode SP_DirectActuators m =
     m"
| "getControlMode SP_Goto m =
     m\<lparr>flag_control_allocation_enabled := True, flag_control_rates_enabled := True,
        flag_control_attitude_enabled := True, flag_control_altitude_enabled := True,
        flag_control_velocity_enabled := True, flag_control_position_enabled := True,
        flag_control_climb_rate_enabled := True\<rparr>"
| "getControlMode SP_FixedwingLateralLongitudinal m =
     m\<lparr>flag_control_allocation_enabled := True, flag_control_rates_enabled := True,
        flag_control_attitude_enabled := True, flag_control_altitude_enabled := True,
        flag_control_velocity_enabled := True, flag_control_position_enabled := True,
        flag_control_climb_rate_enabled := True\<rparr>"
| "getControlMode SP_Trajectory m =
     m\<lparr>flag_control_allocation_enabled := True, flag_control_rates_enabled := True,
        flag_control_attitude_enabled := True, flag_control_altitude_enabled := True,
        flag_control_velocity_enabled := True, flag_control_position_enabled := True,
        flag_control_climb_rate_enabled := True\<rparr>"
| "getControlMode SP_Rates m =
     m\<lparr>flag_control_allocation_enabled := True, flag_control_rates_enabled :=
        True\<rparr>"
| "getControlMode SP_Attitude m =
     m\<lparr>flag_control_allocation_enabled := True, flag_control_rates_enabled := True,
        flag_control_attitude_enabled := True\<rparr>"
| "getControlMode SP_RoverPosition m =
     m\<lparr>flag_control_allocation_enabled := True, flag_control_rates_enabled := True,
        flag_control_attitude_enabled := True, flag_control_velocity_enabled := True,
        flag_control_position_enabled := True\<rparr>"
| "getControlMode SP_RoverSpeedAttitude m =
     m\<lparr>flag_control_allocation_enabled := True, flag_control_rates_enabled := True,
        flag_control_attitude_enabled := True, flag_control_velocity_enabled := True\<rparr>"
| "getControlMode SP_RoverSpeedRate m =
     m\<lparr>flag_control_allocation_enabled := True, flag_control_rates_enabled := True,
        flag_control_velocity_enabled := True\<rparr>"
| "getControlMode SP_RoverSpeedSteering m =
     m\<lparr>flag_control_allocation_enabled := True, flag_control_velocity_enabled :=
        True\<rparr>"
| "getControlMode SP_RoverThrottleAttitude m =
     m\<lparr>flag_control_allocation_enabled := True, flag_control_rates_enabled := True,
        flag_control_attitude_enabled := True, flag_control_velocity_enabled := True\<rparr>"
| "getControlMode SP_RoverThrottleRate m =
     m\<lparr>flag_control_allocation_enabled := True, flag_control_rates_enabled := True,
        flag_control_velocity_enabled := True\<rparr>"
| "getControlMode SP_RoverThrottleSteering m =
     m\<lparr>flag_control_allocation_enabled := True, flag_control_velocity_enabled :=
        True\<rparr>"
| "getControlMode SP_Trajectory_6dof m =
     m\<lparr>flag_control_allocation_enabled := True, flag_control_rates_enabled := True,
        flag_control_attitude_enabled := True, flag_control_altitude_enabled := True,
        flag_control_velocity_enabled := True, flag_control_position_enabled := True,
        flag_control_climb_rate_enabled := True\<rparr>"
| "getControlMode SP_ThrustAndTorque m =
     m\<lparr>flag_control_allocation_enabled := True\<rparr>"
| "getControlMode SP_PositionTriplet m =
     m\<lparr>flag_control_allocation_enabled := True, flag_control_rates_enabled := True,
        flag_control_attitude_enabled := True, flag_control_altitude_enabled := True,
        flag_control_velocity_enabled := True, flag_control_position_enabled := True,
        flag_control_climb_rate_enabled := True, flag_control_auto_enabled := True\<rparr>"

fun isSetpointTypeValid :: "SetpointType \<Rightarrow> u8 \<Rightarrow> SetpointTypeResult" where
  "isSetpointTypeValid SP_Invalid vehicle_type = SPR_Unknown"
| "isSetpointTypeValid SP_DirectActuators vehicle_type = SPR_Success"
| "isSetpointTypeValid SP_Goto vehicle_type =
     (if vehicle_type = VEHICLE_TYPE_ROTARY_WING then SPR_Success else SPR_Unsupported)"
| "isSetpointTypeValid SP_FixedwingLateralLongitudinal vehicle_type =
     (if vehicle_type = VEHICLE_TYPE_FIXED_WING then SPR_Success else SPR_Unsupported)"
| "isSetpointTypeValid SP_Trajectory vehicle_type = SPR_Success"
| "isSetpointTypeValid SP_Rates vehicle_type = SPR_Success"
| "isSetpointTypeValid SP_Attitude vehicle_type = SPR_Success"
| "isSetpointTypeValid SP_Trajectory_6dof vehicle_type =
     (if vehicle_type = VEHICLE_TYPE_UNSPECIFIED then SPR_Success else SPR_Unsupported)"
| "isSetpointTypeValid SP_ThrustAndTorque vehicle_type = SPR_Success"
| "isSetpointTypeValid SP_PositionTriplet vehicle_type = SPR_Success"
| "isSetpointTypeValid _ vehicle_type =
     (if vehicle_type = VEHICLE_TYPE_ROVER then SPR_Success else SPR_Unsupported)"

section \<open>Control mode of a navigation state\<close>

record offboard_control_mode_s =
  ocm_position :: bool
  ocm_velocity :: bool
  ocm_acceleration :: bool
  ocm_attitude :: bool
  ocm_body_rate :: bool
  ocm_thrust_and_torque :: bool
  ocm_direct_actuator :: bool

definition stabilization_required :: "u8 \<Rightarrow> bool" where
  "stabilization_required vehicle_type \<longleftrightarrow> vehicle_type = VEHICLE_TYPE_ROTARY_WING"

definition offboard_control_flags ::
  "offboard_control_mode_s \<Rightarrow> vehicle_control_mode_s \<Rightarrow> vehicle_control_mode_s" where
  "offboard_control_flags ocm m =
    (if ocm_position ocm then getControlMode SP_Trajectory m
     else if ocm_velocity ocm
       then (getControlMode SP_Trajectory m)\<lparr>flag_control_position_enabled := False\<rparr>
     else if ocm_acceleration ocm
       then (getControlMode SP_Trajectory m)
              \<lparr>flag_control_velocity_enabled := True, flag_control_position_enabled := False,
               flag_control_altitude_enabled := False,
               flag_control_climb_rate_enabled := False\<rparr>
     else if ocm_attitude ocm then getControlMode SP_Attitude m
     else if ocm_body_rate ocm then getControlMode SP_Rates m
     else if ocm_thrust_and_torque ocm then getControlMode SP_ThrustAndTorque m
     else if ocm_direct_actuator ocm then getControlMode SP_DirectActuators m
     else m)"

definition getVehicleControlMode ::
  "u8 \<Rightarrow> u8 \<Rightarrow> offboard_control_mode_s \<Rightarrow> SetpointType \<Rightarrow>
   vehicle_control_mode_s \<Rightarrow> vehicle_control_mode_s" where
  "getVehicleControlMode nav_state vehicle_type ocm external_mode_setpoint_type m =
    (if nav_state = NAVIGATION_STATE_MANUAL then
       (let m = m\<lparr>flag_control_manual_enabled := True\<rparr> in
        if stabilization_required vehicle_type then getControlMode SP_Attitude m
        else getControlMode SP_ThrustAndTorque m)
     else if nav_state = NAVIGATION_STATE_STAB then
       getControlMode SP_Attitude (m\<lparr>flag_control_manual_enabled := True\<rparr>)
     else if nav_state \<in> {NAVIGATION_STATE_ALTCTL, NAVIGATION_STATE_ALTITUDE_CRUISE} then
       (getControlMode SP_Trajectory (m\<lparr>flag_control_manual_enabled := True\<rparr>))
         \<lparr>flag_control_velocity_enabled := False, flag_control_position_enabled := False\<rparr>
     else if nav_state \<in> {NAVIGATION_STATE_POSCTL, NAVIGATION_STATE_POSITION_SLOW} then
       getControlMode SP_Trajectory (m\<lparr>flag_control_manual_enabled := True\<rparr>)
     else if nav_state \<in> {NAVIGATION_STATE_AUTO_RTL, NAVIGATION_STATE_AUTO_LAND,
         NAVIGATION_STATE_AUTO_PRECLAND, NAVIGATION_STATE_AUTO_MISSION,
         NAVIGATION_STATE_AUTO_LOITER, NAVIGATION_STATE_GUIDED_COURSE,
         NAVIGATION_STATE_AUTO_TAKEOFF, NAVIGATION_STATE_AUTO_VTOL_TAKEOFF} then
       getControlMode SP_PositionTriplet m
     else if nav_state = NAVIGATION_STATE_ACRO then
       getControlMode SP_Rates (m\<lparr>flag_control_manual_enabled := True\<rparr>)
     else if nav_state = NAVIGATION_STATE_DESCEND then
       m\<lparr>flag_control_auto_enabled := True, flag_control_climb_rate_enabled := True,
         flag_control_attitude_enabled := True, flag_control_rates_enabled := True,
         flag_control_allocation_enabled := True\<rparr>
     else if nav_state = NAVIGATION_STATE_TERMINATION then m
     else if nav_state = NAVIGATION_STATE_OFFBOARD then
       offboard_control_flags ocm (m\<lparr>flag_control_offboard_enabled := True\<rparr>)
     else if nav_state \<in> {NAVIGATION_STATE_AUTO_FOLLOW_TARGET, NAVIGATION_STATE_ORBIT} then
       getControlMode SP_Trajectory (m\<lparr>flag_control_manual_enabled := False\<rparr>)
     else if NAVIGATION_STATE_EXTERNAL1 \<le> nav_state \<and> nav_state \<le> NAVIGATION_STATE_EXTERNAL8 then
       getControlMode external_mode_setpoint_type m
     else m)"

text \<open>
  \<^verbatim>\<open>Commander::updateControlMode\<close> starts from the zero message, fills in the flags of the active
  mode and derives the two summary flags.
\<close>

definition updateControlMode ::
  "u8 \<Rightarrow> u8 \<Rightarrow> bool \<Rightarrow> offboard_control_mode_s \<Rightarrow> SetpointType \<Rightarrow> vehicle_control_mode_s" where
  "updateControlMode nav_state vehicle_type armed ocm external_mode_setpoint_type =
    (let m = getVehicleControlMode nav_state vehicle_type ocm external_mode_setpoint_type
               vehicle_control_mode_zero;
         m = m\<lparr>flag_armed := armed\<rparr>
     in m\<lparr>flag_multicopter_position_control_enabled :=
            vehicle_type = VEHICLE_TYPE_ROTARY_WING \<and>
            (flag_control_altitude_enabled m \<or> flag_control_climb_rate_enabled m \<or>
             flag_control_position_enabled m \<or> flag_control_velocity_enabled m)\<rparr>)"

text \<open>
  The controllers form a cascade: an outer loop is enabled only together with the inner loops
  that execute its setpoints, and at most one of manual, autonomous and offboard control owns
  the vehicle.
\<close>

definition cascade_ok :: "vehicle_control_mode_s \<Rightarrow> bool" where
  "cascade_ok m \<longleftrightarrow>
     (flag_control_rates_enabled m \<longrightarrow> flag_control_allocation_enabled m) \<and>
     (flag_control_attitude_enabled m \<longrightarrow> flag_control_rates_enabled m) \<and>
     (flag_control_velocity_enabled m \<longrightarrow> flag_control_allocation_enabled m) \<and>
     (flag_control_position_enabled m \<longrightarrow> flag_control_velocity_enabled m) \<and>
     (flag_control_altitude_enabled m \<longrightarrow> flag_control_climb_rate_enabled m) \<and>
     (flag_control_climb_rate_enabled m \<longrightarrow> flag_control_attitude_enabled m) \<and>
     \<not> (flag_control_manual_enabled m \<and> flag_control_auto_enabled m) \<and>
     \<not> (flag_control_manual_enabled m \<and> flag_control_offboard_enabled m) \<and>
     \<not> (flag_control_auto_enabled m \<and> flag_control_offboard_enabled m)"

text \<open>The flags set in one control mode are set in another.\<close>

definition flags_subset :: "vehicle_control_mode_s \<Rightarrow> vehicle_control_mode_s \<Rightarrow> bool" where
  "flags_subset m m' \<longleftrightarrow>
     (flag_armed m \<longrightarrow> flag_armed m') \<and>
     (flag_multicopter_position_control_enabled m \<longrightarrow>
        flag_multicopter_position_control_enabled m') \<and>
     (flag_control_manual_enabled m \<longrightarrow> flag_control_manual_enabled m') \<and>
     (flag_control_auto_enabled m \<longrightarrow> flag_control_auto_enabled m') \<and>
     (flag_control_offboard_enabled m \<longrightarrow> flag_control_offboard_enabled m') \<and>
     (flag_control_position_enabled m \<longrightarrow> flag_control_position_enabled m') \<and>
     (flag_control_velocity_enabled m \<longrightarrow> flag_control_velocity_enabled m') \<and>
     (flag_control_altitude_enabled m \<longrightarrow> flag_control_altitude_enabled m') \<and>
     (flag_control_climb_rate_enabled m \<longrightarrow> flag_control_climb_rate_enabled m') \<and>
     (flag_control_attitude_enabled m \<longrightarrow> flag_control_attitude_enabled m') \<and>
     (flag_control_rates_enabled m \<longrightarrow> flag_control_rates_enabled m') \<and>
     (flag_control_allocation_enabled m \<longrightarrow> flag_control_allocation_enabled m')"

lemma getControlMode_only_sets: "flags_subset m (getControlMode t m)"
  by (cases t) (simp_all add: flags_subset_def)

lemma getControlMode_cascade:
  assumes "\<not> flag_control_position_enabled m" "\<not> flag_control_velocity_enabled m"
    "\<not> flag_control_altitude_enabled m" "\<not> flag_control_climb_rate_enabled m"
    "\<not> flag_control_attitude_enabled m" "\<not> flag_control_rates_enabled m"
    "\<not> flag_control_manual_enabled m" "\<not> flag_control_auto_enabled m"
    "\<not> flag_control_offboard_enabled m"
  shows "cascade_ok (getControlMode t m)"
  using assms by (cases t) (simp_all add: cascade_ok_def)

lemma offboard_control_flags_cascade:
  "cascade_ok (offboard_control_flags ocm
     (vehicle_control_mode_zero\<lparr>flag_control_offboard_enabled := True\<rparr>))"
  by (simp add: offboard_control_flags_def cascade_ok_def vehicle_control_mode_zero_def)

lemma getVehicleControlMode_cascade:
  "cascade_ok (getVehicleControlMode nav vt ocm t vehicle_control_mode_zero)"
proof -
  have ext: "cascade_ok (getControlMode t vehicle_control_mode_zero)"
    by (rule getControlMode_cascade) (simp_all add: vehicle_control_mode_zero_def)
  have zero: "cascade_ok vehicle_control_mode_zero"
    by (simp add: cascade_ok_def vehicle_control_mode_zero_def)
  show ?thesis
    using ext zero offboard_control_flags_cascade [of ocm]
    unfolding getVehicleControlMode_def
    by (simp add: cascade_ok_def vehicle_control_mode_zero_def Let_def split del: if_split
             cong: if_cong) (simp add: cascade_ok_def vehicle_control_mode_zero_def)
qed

end
