(* ===== verification/Custom_Mode.thy ===== *)
theory Custom_Mode
  imports Control_Mode
begin

text \<open>
  How a navigation state is reported (\<^verbatim>\<open>ModeUtil/conversions.hpp\<close>, \<^verbatim>\<open>px4_custom_mode.h\<close>) and how
  the \<^verbatim>\<open>DO_SET_MODE\<close> command decodes a requested mode (\<^verbatim>\<open>Commander::handle_command\<close>).
\<close>

section \<open>Navigation modes of the events interface\<close>

datatype navigation_mode_t =
    nm_unknown
  | nm_manual
  | nm_altctl
  | nm_altitude_cruise
  | nm_posctl
  | nm_auto_mission
  | nm_auto_loiter
  | nm_auto_course
  | nm_auto_rtl
  | nm_position_slow
  | nm_acro
  | nm_offboard
  | nm_stab
  | nm_auto_takeoff
  | nm_auto_land
  | nm_descend
  | nm_auto_follow_target
  | nm_auto_precland
  | nm_orbit
  | nm_auto_vtol_takeoff
  | nm_external1
  | nm_external2
  | nm_external3
  | nm_external4
  | nm_external5
  | nm_external6
  | nm_external7
  | nm_external8

definition navigation_mode :: "u8 \<Rightarrow> navigation_mode_t" where
  "navigation_mode nav_state =
    (if nav_state = NAVIGATION_STATE_MANUAL then nm_manual
     else if nav_state = NAVIGATION_STATE_ALTCTL then nm_altctl
     else if nav_state = NAVIGATION_STATE_ALTITUDE_CRUISE then nm_altitude_cruise
     else if nav_state = NAVIGATION_STATE_POSCTL then nm_posctl
     else if nav_state = NAVIGATION_STATE_AUTO_MISSION then nm_auto_mission
     else if nav_state = NAVIGATION_STATE_AUTO_LOITER then nm_auto_loiter
     else if nav_state = NAVIGATION_STATE_GUIDED_COURSE then nm_auto_course
     else if nav_state = NAVIGATION_STATE_AUTO_RTL then nm_auto_rtl
     else if nav_state = NAVIGATION_STATE_POSITION_SLOW then nm_position_slow
     else if nav_state = NAVIGATION_STATE_ACRO then nm_acro
     else if nav_state = NAVIGATION_STATE_OFFBOARD then nm_offboard
     else if nav_state = NAVIGATION_STATE_STAB then nm_stab
     else if nav_state = NAVIGATION_STATE_AUTO_TAKEOFF then nm_auto_takeoff
     else if nav_state = NAVIGATION_STATE_AUTO_LAND then nm_auto_land
     else if nav_state = NAVIGATION_STATE_DESCEND then nm_descend
     else if nav_state = NAVIGATION_STATE_AUTO_FOLLOW_TARGET then nm_auto_follow_target
     else if nav_state = NAVIGATION_STATE_AUTO_PRECLAND then nm_auto_precland
     else if nav_state = NAVIGATION_STATE_ORBIT then nm_orbit
     else if nav_state = NAVIGATION_STATE_AUTO_VTOL_TAKEOFF then nm_auto_vtol_takeoff
     else if nav_state = NAVIGATION_STATE_EXTERNAL1 then nm_external1
     else if nav_state = NAVIGATION_STATE_EXTERNAL2 then nm_external2
     else if nav_state = NAVIGATION_STATE_EXTERNAL3 then nm_external3
     else if nav_state = NAVIGATION_STATE_EXTERNAL4 then nm_external4
     else if nav_state = NAVIGATION_STATE_EXTERNAL5 then nm_external5
     else if nav_state = NAVIGATION_STATE_EXTERNAL6 then nm_external6
     else if nav_state = NAVIGATION_STATE_EXTERNAL7 then nm_external7
     else if nav_state = NAVIGATION_STATE_EXTERNAL8 then nm_external8
     else nm_unknown)"

section \<open>The MAVLink custom mode\<close>

abbreviation PX4_CUSTOM_MAIN_MODE_MANUAL :: u8 where
  "PX4_CUSTOM_MAIN_MODE_MANUAL \<equiv> 1"

abbreviation PX4_CUSTOM_MAIN_MODE_ALTCTL :: u8 where
  "PX4_CUSTOM_MAIN_MODE_ALTCTL \<equiv> 2"

abbreviation PX4_CUSTOM_MAIN_MODE_POSCTL :: u8 where
  "PX4_CUSTOM_MAIN_MODE_POSCTL \<equiv> 3"

abbreviation PX4_CUSTOM_MAIN_MODE_AUTO :: u8 where
  "PX4_CUSTOM_MAIN_MODE_AUTO \<equiv> 4"

abbreviation PX4_CUSTOM_MAIN_MODE_ACRO :: u8 where
  "PX4_CUSTOM_MAIN_MODE_ACRO \<equiv> 5"

abbreviation PX4_CUSTOM_MAIN_MODE_OFFBOARD :: u8 where
  "PX4_CUSTOM_MAIN_MODE_OFFBOARD \<equiv> 6"

abbreviation PX4_CUSTOM_MAIN_MODE_STABILIZED :: u8 where
  "PX4_CUSTOM_MAIN_MODE_STABILIZED \<equiv> 7"

abbreviation PX4_CUSTOM_MAIN_MODE_RATTITUDE_LEGACY :: u8 where
  "PX4_CUSTOM_MAIN_MODE_RATTITUDE_LEGACY \<equiv> 8"

abbreviation PX4_CUSTOM_MAIN_MODE_SIMPLE :: u8 where
  "PX4_CUSTOM_MAIN_MODE_SIMPLE \<equiv> 9"

abbreviation PX4_CUSTOM_MAIN_MODE_TERMINATION :: u8 where
  "PX4_CUSTOM_MAIN_MODE_TERMINATION \<equiv> 10"

abbreviation PX4_CUSTOM_MAIN_MODE_ALTITUDE_CRUISE :: u8 where
  "PX4_CUSTOM_MAIN_MODE_ALTITUDE_CRUISE \<equiv> 11"

abbreviation PX4_CUSTOM_SUB_MODE_AUTO_READY :: u8 where
  "PX4_CUSTOM_SUB_MODE_AUTO_READY \<equiv> 1"

abbreviation PX4_CUSTOM_SUB_MODE_AUTO_TAKEOFF :: u8 where
  "PX4_CUSTOM_SUB_MODE_AUTO_TAKEOFF \<equiv> 2"

abbreviation PX4_CUSTOM_SUB_MODE_AUTO_LOITER :: u8 where
  "PX4_CUSTOM_SUB_MODE_AUTO_LOITER \<equiv> 3"

abbreviation PX4_CUSTOM_SUB_MODE_AUTO_MISSION :: u8 where
  "PX4_CUSTOM_SUB_MODE_AUTO_MISSION \<equiv> 4"

abbreviation PX4_CUSTOM_SUB_MODE_AUTO_RTL :: u8 where
  "PX4_CUSTOM_SUB_MODE_AUTO_RTL \<equiv> 5"

abbreviation PX4_CUSTOM_SUB_MODE_AUTO_LAND :: u8 where
  "PX4_CUSTOM_SUB_MODE_AUTO_LAND \<equiv> 6"

abbreviation PX4_CUSTOM_SUB_MODE_AUTO_RESERVED_DO_NOT_USE :: u8 where
  "PX4_CUSTOM_SUB_MODE_AUTO_RESERVED_DO_NOT_USE \<equiv> 7"

abbreviation PX4_CUSTOM_SUB_MODE_AUTO_FOLLOW_TARGET :: u8 where
  "PX4_CUSTOM_SUB_MODE_AUTO_FOLLOW_TARGET \<equiv> 8"

abbreviation PX4_CUSTOM_SUB_MODE_AUTO_PRECLAND :: u8 where
  "PX4_CUSTOM_SUB_MODE_AUTO_PRECLAND \<equiv> 9"

abbreviation PX4_CUSTOM_SUB_MODE_AUTO_VTOL_TAKEOFF :: u8 where
  "PX4_CUSTOM_SUB_MODE_AUTO_VTOL_TAKEOFF \<equiv> 10"

abbreviation PX4_CUSTOM_SUB_MODE_EXTERNAL1 :: u8 where
  "PX4_CUSTOM_SUB_MODE_EXTERNAL1 \<equiv> 11"

abbreviation PX4_CUSTOM_SUB_MODE_EXTERNAL2 :: u8 where
  "PX4_CUSTOM_SUB_MODE_EXTERNAL2 \<equiv> 12"

abbreviation PX4_CUSTOM_SUB_MODE_EXTERNAL3 :: u8 where
  "PX4_CUSTOM_SUB_MODE_EXTERNAL3 \<equiv> 13"

abbreviation PX4_CUSTOM_SUB_MODE_EXTERNAL4 :: u8 where
  "PX4_CUSTOM_SUB_MODE_EXTERNAL4 \<equiv> 14"

abbreviation PX4_CUSTOM_SUB_MODE_EXTERNAL5 :: u8 where
  "PX4_CUSTOM_SUB_MODE_EXTERNAL5 \<equiv> 15"

abbreviation PX4_CUSTOM_SUB_MODE_EXTERNAL6 :: u8 where
  "PX4_CUSTOM_SUB_MODE_EXTERNAL6 \<equiv> 16"

abbreviation PX4_CUSTOM_SUB_MODE_EXTERNAL7 :: u8 where
  "PX4_CUSTOM_SUB_MODE_EXTERNAL7 \<equiv> 17"

abbreviation PX4_CUSTOM_SUB_MODE_EXTERNAL8 :: u8 where
  "PX4_CUSTOM_SUB_MODE_EXTERNAL8 \<equiv> 18"

abbreviation PX4_CUSTOM_SUB_MODE_GUIDED_COURSE :: u8 where
  "PX4_CUSTOM_SUB_MODE_GUIDED_COURSE \<equiv> 19"

abbreviation PX4_CUSTOM_SUB_MODE_AUTO_DESCEND :: u8 where
  "PX4_CUSTOM_SUB_MODE_AUTO_DESCEND \<equiv> 20"

abbreviation PX4_CUSTOM_SUB_MODE_POSCTL_POSCTL :: u8 where
  "PX4_CUSTOM_SUB_MODE_POSCTL_POSCTL \<equiv> 0"

abbreviation PX4_CUSTOM_SUB_MODE_POSCTL_ORBIT :: u8 where
  "PX4_CUSTOM_SUB_MODE_POSCTL_ORBIT \<equiv> 1"

abbreviation PX4_CUSTOM_SUB_MODE_POSCTL_SLOW :: u8 where
  "PX4_CUSTOM_SUB_MODE_POSCTL_SLOW \<equiv> 2"

record px4_custom_mode =
  main_mode :: u8
  sub_mode :: u8

text \<open>
  The union's 32-bit view on the little-endian targets: two reserved bytes, then the main mode,
  then the sub mode.
\<close>

definition custom_mode_data :: "px4_custom_mode \<Rightarrow> u32" where
  "custom_mode_data c = push_bit 16 (ucast (main_mode c)) OR push_bit 24 (ucast (sub_mode c))"

definition get_px4_custom_mode :: "u8 \<Rightarrow> px4_custom_mode" where
  "get_px4_custom_mode nav_state =
    (let custom_mode = \<lparr>main_mode = 0, sub_mode = 0\<rparr> in
     if nav_state = NAVIGATION_STATE_MANUAL then
       custom_mode\<lparr>main_mode := PX4_CUSTOM_MAIN_MODE_MANUAL\<rparr>
     else if nav_state = NAVIGATION_STATE_ALTCTL then
       custom_mode\<lparr>main_mode := PX4_CUSTOM_MAIN_MODE_ALTCTL\<rparr>
     else if nav_state = NAVIGATION_STATE_ALTITUDE_CRUISE then
       custom_mode\<lparr>main_mode := PX4_CUSTOM_MAIN_MODE_ALTITUDE_CRUISE\<rparr>
     else if nav_state = NAVIGATION_STATE_POSCTL then
       custom_mode\<lparr>main_mode := PX4_CUSTOM_MAIN_MODE_POSCTL\<rparr>
     else if nav_state = NAVIGATION_STATE_POSITION_SLOW then
       custom_mode\<lparr>main_mode := PX4_CUSTOM_MAIN_MODE_POSCTL,
         sub_mode := PX4_CUSTOM_SUB_MODE_POSCTL_SLOW\<rparr>
     else if nav_state = NAVIGATION_STATE_AUTO_MISSION then
       custom_mode\<lparr>main_mode := PX4_CUSTOM_MAIN_MODE_AUTO,
         sub_mode := PX4_CUSTOM_SUB_MODE_AUTO_MISSION\<rparr>
     else if nav_state = NAVIGATION_STATE_AUTO_LOITER then
       custom_mode\<lparr>main_mode := PX4_CUSTOM_MAIN_MODE_AUTO,
         sub_mode := PX4_CUSTOM_SUB_MODE_AUTO_LOITER\<rparr>
     else if nav_state = NAVIGATION_STATE_AUTO_RTL then
       custom_mode\<lparr>main_mode := PX4_CUSTOM_MAIN_MODE_AUTO,
         sub_mode := PX4_CUSTOM_SUB_MODE_AUTO_RTL\<rparr>
     else if nav_state = NAVIGATION_STATE_ACRO then
       custom_mode\<lparr>main_mode := PX4_CUSTOM_MAIN_MODE_ACRO\<rparr>
     else if nav_state = NAVIGATION_STATE_DESCEND then
       custom_mode\<lparr>main_mode := PX4_CUSTOM_MAIN_MODE_AUTO,
         sub_mode := PX4_CUSTOM_SUB_MODE_AUTO_DESCEND\<rparr>
     else if nav_state = NAVIGATION_STATE_TERMINATION then
       custom_mode\<lparr>main_mode := PX4_CUSTOM_MAIN_MODE_TERMINATION\<rparr>
     else if nav_state = NAVIGATION_STATE_OFFBOARD then
       custom_mode\<lparr>main_mode := PX4_CUSTOM_MAIN_MODE_OFFBOARD\<rparr>
     else if nav_state = NAVIGATION_STATE_STAB then
       custom_mode\<lparr>main_mode := PX4_CUSTOM_MAIN_MODE_STABILIZED\<rparr>
     else if nav_state = NAVIGATION_STATE_AUTO_TAKEOFF then
       custom_mode\<lparr>main_mode := PX4_CUSTOM_MAIN_MODE_AUTO,
         sub_mode := PX4_CUSTOM_SUB_MODE_AUTO_TAKEOFF\<rparr>
     else if nav_state = NAVIGATION_STATE_AUTO_LAND then
       custom_mode\<lparr>main_mode := PX4_CUSTOM_MAIN_MODE_AUTO,
         sub_mode := PX4_CUSTOM_SUB_MODE_AUTO_LAND\<rparr>
     else if nav_state = NAVIGATION_STATE_AUTO_FOLLOW_TARGET then
       custom_mode\<lparr>main_mode := PX4_CUSTOM_MAIN_MODE_AUTO,
         sub_mode := PX4_CUSTOM_SUB_MODE_AUTO_FOLLOW_TARGET\<rparr>
     else if nav_state = NAVIGATION_STATE_AUTO_PRECLAND then
       custom_mode\<lparr>main_mode := PX4_CUSTOM_MAIN_MODE_AUTO,
         sub_mode := PX4_CUSTOM_SUB_MODE_AUTO_PRECLAND\<rparr>
     else if nav_state = NAVIGATION_STATE_ORBIT then
       custom_mode\<lparr>main_mode := PX4_CUSTOM_MAIN_MODE_POSCTL,
         sub_mode := PX4_CUSTOM_SUB_MODE_POSCTL_ORBIT\<rparr>
     else if nav_state = NAVIGATION_STATE_AUTO_VTOL_TAKEOFF then
       custom_mode\<lparr>main_mode := PX4_CUSTOM_MAIN_MODE_AUTO,
         sub_mode := PX4_CUSTOM_SUB_MODE_AUTO_VTOL_TAKEOFF\<rparr>
     else if nav_state = NAVIGATION_STATE_GUIDED_COURSE then
       custom_mode\<lparr>main_mode := PX4_CUSTOM_MAIN_MODE_AUTO,
         sub_mode := PX4_CUSTOM_SUB_MODE_GUIDED_COURSE\<rparr>
     else if nav_state = NAVIGATION_STATE_EXTERNAL1 then
       custom_mode\<lparr>main_mode := PX4_CUSTOM_MAIN_MODE_AUTO,
         sub_mode := PX4_CUSTOM_SUB_MODE_EXTERNAL1\<rparr>
     else if nav_state = NAVIGATION_STATE_EXTERNAL2 then
       custom_mode\<lparr>main_mode := PX4_CUSTOM_MAIN_MODE_AUTO,
         sub_mode := PX4_CUSTOM_SUB_MODE_EXTERNAL2\<rparr>
     else if nav_state = NAVIGATION_STATE_EXTERNAL3 then
       custom_mode\<lparr>main_mode := PX4_CUSTOM_MAIN_MODE_AUTO,
         sub_mode := PX4_CUSTOM_SUB_MODE_EXTERNAL3\<rparr>
     else if nav_state = NAVIGATION_STATE_EXTERNAL4 then
       custom_mode\<lparr>main_mode := PX4_CUSTOM_MAIN_MODE_AUTO,
         sub_mode := PX4_CUSTOM_SUB_MODE_EXTERNAL4\<rparr>
     else if nav_state = NAVIGATION_STATE_EXTERNAL5 then
       custom_mode\<lparr>main_mode := PX4_CUSTOM_MAIN_MODE_AUTO,
         sub_mode := PX4_CUSTOM_SUB_MODE_EXTERNAL5\<rparr>
     else if nav_state = NAVIGATION_STATE_EXTERNAL6 then
       custom_mode\<lparr>main_mode := PX4_CUSTOM_MAIN_MODE_AUTO,
         sub_mode := PX4_CUSTOM_SUB_MODE_EXTERNAL6\<rparr>
     else if nav_state = NAVIGATION_STATE_EXTERNAL7 then
       custom_mode\<lparr>main_mode := PX4_CUSTOM_MAIN_MODE_AUTO,
         sub_mode := PX4_CUSTOM_SUB_MODE_EXTERNAL7\<rparr>
     else if nav_state = NAVIGATION_STATE_EXTERNAL8 then
       custom_mode\<lparr>main_mode := PX4_CUSTOM_MAIN_MODE_AUTO,
         sub_mode := PX4_CUSTOM_SUB_MODE_EXTERNAL8\<rparr>
     else custom_mode)"

section \<open>Decoding a mode request\<close>

abbreviation VEHICLE_MODE_FLAG_CUSTOM_MODE_ENABLED :: u8 where
  "VEHICLE_MODE_FLAG_CUSTOM_MODE_ENABLED \<equiv> 1"

abbreviation VEHICLE_MODE_FLAG_AUTO_ENABLED :: u8 where
  "VEHICLE_MODE_FLAG_AUTO_ENABLED \<equiv> 4"

abbreviation VEHICLE_MODE_FLAG_GUIDED_ENABLED :: u8 where
  "VEHICLE_MODE_FLAG_GUIDED_ENABLED \<equiv> 8"

abbreviation VEHICLE_MODE_FLAG_STABILIZE_ENABLED :: u8 where
  "VEHICLE_MODE_FLAG_STABILIZE_ENABLED \<equiv> 16"

abbreviation VEHICLE_MODE_FLAG_MANUAL_INPUT_ENABLED :: u8 where
  "VEHICLE_MODE_FLAG_MANUAL_INPUT_ENABLED \<equiv> 64"

text \<open>
  The desired navigation state of a \<^verbatim>\<open>DO_SET_MODE\<close> command; \<^const>\<open>None\<close> where the code leaves
  \<^verbatim>\<open>NAVIGATION_STATE_MAX\<close> and sets the result to \<^verbatim>\<open>TRANSITION_DENIED\<close>.
\<close>

definition auto_sub_mode_nav_state :: "u8 \<Rightarrow> u8 option" where
  "auto_sub_mode_nav_state custom_sub_mode =
    (if custom_sub_mode > 0 then
       (if custom_sub_mode = PX4_CUSTOM_SUB_MODE_AUTO_LOITER then Some NAVIGATION_STATE_AUTO_LOITER
        else if custom_sub_mode = PX4_CUSTOM_SUB_MODE_AUTO_MISSION
          then Some NAVIGATION_STATE_AUTO_MISSION
        else if custom_sub_mode = PX4_CUSTOM_SUB_MODE_AUTO_RTL then Some NAVIGATION_STATE_AUTO_RTL
        else if custom_sub_mode = PX4_CUSTOM_SUB_MODE_AUTO_TAKEOFF
          then Some NAVIGATION_STATE_AUTO_TAKEOFF
        else if custom_sub_mode = PX4_CUSTOM_SUB_MODE_AUTO_LAND then Some NAVIGATION_STATE_AUTO_LAND
        else if custom_sub_mode = PX4_CUSTOM_SUB_MODE_AUTO_FOLLOW_TARGET
          then Some NAVIGATION_STATE_AUTO_FOLLOW_TARGET
        else if custom_sub_mode = PX4_CUSTOM_SUB_MODE_AUTO_PRECLAND
          then Some NAVIGATION_STATE_AUTO_PRECLAND
        else if custom_sub_mode = PX4_CUSTOM_SUB_MODE_GUIDED_COURSE
          then Some NAVIGATION_STATE_GUIDED_COURSE
        else if PX4_CUSTOM_SUB_MODE_EXTERNAL1 \<le> custom_sub_mode \<and>
                custom_sub_mode \<le> PX4_CUSTOM_SUB_MODE_EXTERNAL8
          then Some (NAVIGATION_STATE_EXTERNAL1 +
                     (custom_sub_mode - PX4_CUSTOM_SUB_MODE_EXTERNAL1))
        else None)
     else Some NAVIGATION_STATE_AUTO_MISSION)"

definition set_mode_nav_state :: "u8 \<Rightarrow> u8 \<Rightarrow> u8 \<Rightarrow> u8 option" where
  "set_mode_nav_state base_mode custom_main_mode custom_sub_mode =
    (if base_mode AND VEHICLE_MODE_FLAG_CUSTOM_MODE_ENABLED \<noteq> 0 then
       (if custom_main_mode = PX4_CUSTOM_MAIN_MODE_MANUAL then Some NAVIGATION_STATE_MANUAL
        else if custom_main_mode = PX4_CUSTOM_MAIN_MODE_ALTCTL then Some NAVIGATION_STATE_ALTCTL
        else if custom_main_mode = PX4_CUSTOM_MAIN_MODE_ALTITUDE_CRUISE
          then Some NAVIGATION_STATE_ALTITUDE_CRUISE
        else if custom_main_mode = PX4_CUSTOM_MAIN_MODE_POSCTL
          then (if custom_sub_mode = PX4_CUSTOM_SUB_MODE_POSCTL_SLOW
                then Some NAVIGATION_STATE_POSITION_SLOW
                else Some NAVIGATION_STATE_POSCTL)
        else if custom_main_mode = PX4_CUSTOM_MAIN_MODE_AUTO
          then auto_sub_mode_nav_state custom_sub_mode
        else if custom_main_mode = PX4_CUSTOM_MAIN_MODE_ACRO then Some NAVIGATION_STATE_ACRO
        else if custom_main_mode = PX4_CUSTOM_MAIN_MODE_STABILIZED then Some NAVIGATION_STATE_STAB
        else if custom_main_mode = PX4_CUSTOM_MAIN_MODE_OFFBOARD then Some NAVIGATION_STATE_OFFBOARD
        else None)
     else if base_mode AND VEHICLE_MODE_FLAG_AUTO_ENABLED \<noteq> 0
       then Some NAVIGATION_STATE_AUTO_MISSION
     else if base_mode AND VEHICLE_MODE_FLAG_MANUAL_INPUT_ENABLED \<noteq> 0 then
       (if base_mode AND VEHICLE_MODE_FLAG_GUIDED_ENABLED \<noteq> 0 then Some NAVIGATION_STATE_POSCTL
        else if base_mode AND VEHICLE_MODE_FLAG_STABILIZE_ENABLED \<noteq> 0
          then Some NAVIGATION_STATE_STAB
        else Some NAVIGATION_STATE_MANUAL)
     else None)"

text \<open>Selecting the mode that is being reported.\<close>

definition reselect_mode :: "u8 \<Rightarrow> u8 option" where
  "reselect_mode nav_state =
    (let c = get_px4_custom_mode nav_state in
     set_mode_nav_state VEHICLE_MODE_FLAG_CUSTOM_MODE_ENABLED (main_mode c) (sub_mode c))"

text \<open>The navigation states the firmware names.\<close>

definition nav_states :: "u8 list" where
  "nav_states = [
     NAVIGATION_STATE_MANUAL, NAVIGATION_STATE_ALTCTL, 
     NAVIGATION_STATE_ALTITUDE_CRUISE, NAVIGATION_STATE_POSCTL, 
     NAVIGATION_STATE_POSITION_SLOW, NAVIGATION_STATE_AUTO_MISSION, 
     NAVIGATION_STATE_AUTO_LOITER, NAVIGATION_STATE_AUTO_RTL, 
     NAVIGATION_STATE_ACRO, NAVIGATION_STATE_DESCEND, 
     NAVIGATION_STATE_TERMINATION, NAVIGATION_STATE_OFFBOARD, 
     NAVIGATION_STATE_STAB, NAVIGATION_STATE_AUTO_TAKEOFF, 
     NAVIGATION_STATE_AUTO_LAND, NAVIGATION_STATE_AUTO_FOLLOW_TARGET, 
     NAVIGATION_STATE_AUTO_PRECLAND, NAVIGATION_STATE_ORBIT, 
     NAVIGATION_STATE_AUTO_VTOL_TAKEOFF, NAVIGATION_STATE_GUIDED_COURSE, 
     NAVIGATION_STATE_EXTERNAL1, NAVIGATION_STATE_EXTERNAL2, 
     NAVIGATION_STATE_EXTERNAL3, NAVIGATION_STATE_EXTERNAL4, 
     NAVIGATION_STATE_EXTERNAL5, NAVIGATION_STATE_EXTERNAL6, 
     NAVIGATION_STATE_EXTERNAL7, NAVIGATION_STATE_EXTERNAL8]"

lemma reselect_mode_all:
  "map reselect_mode nav_states =
     map (\<lambda>n. if n = NAVIGATION_STATE_ORBIT then Some NAVIGATION_STATE_POSCTL
              else if n \<in> {NAVIGATION_STATE_DESCEND, NAVIGATION_STATE_TERMINATION,
                           NAVIGATION_STATE_AUTO_VTOL_TAKEOFF} then None
              else Some n) nav_states"
  by (simp add: nav_states_def reselect_mode_def get_px4_custom_mode_def set_mode_nav_state_def
      auto_sub_mode_nav_state_def Let_def)

lemma custom_mode_data_main: "drop_bit 16 (custom_mode_data c) AND 255 = ucast (main_mode c)"
  by (rule bit_word_eqI)
     (auto simp: custom_mode_data_def bit_simps bit_255 dest: bit_imp_le_length)

lemma custom_mode_data_sub: "drop_bit 24 (custom_mode_data c) AND 255 = ucast (sub_mode c)"
  by (rule bit_word_eqI)
     (auto simp: custom_mode_data_def bit_simps bit_255 dest: bit_imp_le_length)

end
