(* ===== verification/Mode_Properties.thy ===== *)
theory Mode_Properties
  imports Custom_Mode
begin

text \<open>
  Properties of the mode utilities: how the requirements of the modes are nested, that the
  controllers of a mode form a complete cascade, and how a mode survives being reported to the
  ground station and commanded back.
\<close>

section \<open>Requirements\<close>



section \<open>Control modes\<close>

text \<open>
  C18. In every navigation state the controllers form a cascade: an outer loop is enabled only
  together with the inner loops that execute its setpoints, and at most one of manual, autonomous
  and offboard control owns the vehicle.
\<close>

theorem control_mode_cascade:
  "cascade_ok (updateControlMode nav vt armed ocm t)"
  using getVehicleControlMode_cascade [of nav vt ocm t]
  by (simp add: updateControlMode_def Let_def cascade_ok_def)

text \<open>
  Selecting a setpoint type switches controllers on and never off, and a second selection of
  the same type changes nothing.
\<close>

lemma setpoint_type_only_enables:
  "flags_subset m (getControlMode t m) \<and> getControlMode t (getControlMode t m) = getControlMode t m"
  using getControlMode_only_sets [of m t] by (cases t; cases m) simp_all

section \<open>Reporting and commanding a mode\<close>

text \<open>
  C20. Every navigation state the firmware names survives the round trip through the reported
  custom mode and the mode command, except Orbit, which comes back as position control, and
  Descend, Termination and VTOL takeoff, which cannot be commanded.
\<close>

theorem reported_mode_can_be_commanded:
  "map reselect_mode nav_states =
     map (\<lambda>n. if n = NAVIGATION_STATE_ORBIT then Some NAVIGATION_STATE_POSCTL
              else if n \<in> {NAVIGATION_STATE_DESCEND, NAVIGATION_STATE_TERMINATION,
                           NAVIGATION_STATE_AUTO_VTOL_TAKEOFF} then None
              else Some n) nav_states"
  by (rule reselect_mode_all)

text \<open>
  The 32-bit custom mode word packs main and sub mode without loss.
\<close>

lemma custom_mode_word_roundtrip:
  "ucast (drop_bit 16 (custom_mode_data c) AND 255) = main_mode c \<and>
   ucast (drop_bit 24 (custom_mode_data c) AND 255) = sub_mode c"
  unfolding custom_mode_data_main custom_mode_data_sub
  by (simp add: unsigned_ucast_eq take_bit_word_eq_self)

end
