(* ===== verification/Failsafe_Types.thy ===== *)
theory Failsafe_Types
  imports Mode_Util
begin

text \<open>
  The data of the failsafe state machine, \<^verbatim>\<open>src/src/modules/commander/failsafe/framework.h\<close>: the
  actions in their order of precedence, the clear conditions, the table entries
  (\<^verbatim>\<open>ActionOptions\<close>), the result of an action selection and the object state of
  \<^verbatim>\<open>FailsafeBase\<close>.
\<close>

section \<open>Enumerations\<close>

text \<open>\<^verbatim>\<open>enum class Action\<close>: actions further down take precedence.\<close>

datatype Action =
    A_None
  | A_Warn
  | A_FallbackPosCtrl
  | A_FallbackAltCtrl
  | A_FallbackStab
  | A_Hold
  | A_RTL
  | A_Land
  | A_Descend
  | A_Disarm
  | A_Terminate
  | A_Count

fun action_value :: "Action \<Rightarrow> nat" where
  "action_value A_None = 0"
| "action_value A_Warn = 1"
| "action_value A_FallbackPosCtrl = 2"
| "action_value A_FallbackAltCtrl = 3"
| "action_value A_FallbackStab = 4"
| "action_value A_Hold = 5"
| "action_value A_RTL = 6"
| "action_value A_Land = 7"
| "action_value A_Descend = 8"
| "action_value A_Disarm = 9"
| "action_value A_Terminate = 10"
| "action_value A_Count = 11"

lemma action_value_inject [simp]: "action_value a = action_value b \<longleftrightarrow> a = b"
  by (cases a; cases b) simp_all

instantiation Action :: linorder
begin

definition less_eq_Action :: "Action \<Rightarrow> Action \<Rightarrow> bool" where
  "less_eq_Action a b \<longleftrightarrow> action_value a \<le> action_value b"

definition less_Action :: "Action \<Rightarrow> Action \<Rightarrow> bool" where
  "less_Action a b \<longleftrightarrow> action_value a < action_value b"

instance
  by standard (auto simp: less_eq_Action_def less_Action_def)

end

lemmas action_order = less_eq_Action_def less_Action_def

lemma A_None_least [simp]: "A_None \<le> a" "\<not> a < A_None"
  by (simp_all add: action_order)

lemma A_Terminate_greatest: "a \<noteq> A_Count \<Longrightarrow> a \<le> A_Terminate"
  by (cases a) (simp_all add: action_order)

datatype ClearCondition = WhenConditionClears | OnModeChangeOrDisarm | OnDisarm | ClearNever

datatype Cause =
    C_Generic
  | C_ManualControlLoss
  | C_GCSConnectionLoss
  | C_BatteryLow
  | C_BatteryCritical
  | C_BatteryEmergency
  | C_RemainingFlightTimeLow
  | C_Count

datatype UserTakeoverAllowed = UT_Always | UT_AlwaysModeSwitchOnly | UT_Auto | UT_Never

fun takeover_value :: "UserTakeoverAllowed \<Rightarrow> nat" where
  "takeover_value UT_Always = 0"
| "takeover_value UT_AlwaysModeSwitchOnly = 1"
| "takeover_value UT_Auto = 2"
| "takeover_value UT_Never = 3"

lemma takeover_value_inject [simp]: "takeover_value a = takeover_value b \<longleftrightarrow> a = b"
  by (cases a; cases b) simp_all

instantiation UserTakeoverAllowed :: linorder
begin

definition less_eq_UserTakeoverAllowed ::
  "UserTakeoverAllowed \<Rightarrow> UserTakeoverAllowed \<Rightarrow> bool" where
  "less_eq_UserTakeoverAllowed a b \<longleftrightarrow> takeover_value a \<le> takeover_value b"

definition less_UserTakeoverAllowed ::
  "UserTakeoverAllowed \<Rightarrow> UserTakeoverAllowed \<Rightarrow> bool" where
  "less_UserTakeoverAllowed a b \<longleftrightarrow> takeover_value a < takeover_value b"

instance
  by standard (auto simp: less_eq_UserTakeoverAllowed_def less_UserTakeoverAllowed_def)

end

lemmas takeover_order = less_eq_UserTakeoverAllowed_def less_UserTakeoverAllowed_def

fun actionStr :: "Action \<Rightarrow> string" where
  "actionStr A_None = ''None''"
| "actionStr A_Warn = ''Warn''"
| "actionStr A_FallbackPosCtrl = ''Fallback to PosCtrl''"
| "actionStr A_FallbackAltCtrl = ''Fallback to AltCtrl''"
| "actionStr A_FallbackStab = ''Fallback to Stabilized''"
| "actionStr A_Hold = ''Hold''"
| "actionStr A_RTL = ''RTL''"
| "actionStr A_Land = ''Land''"
| "actionStr A_Descend = ''Descend''"
| "actionStr A_Disarm = ''Disarm''"
| "actionStr A_Terminate = ''Terminate''"
| "actionStr A_Count = ''(invalid)''"

section \<open>Table entries\<close>

record ActionOptions =
  ao_action :: Action
  ao_clear_condition :: ClearCondition
  ao_cause :: Cause
  ao_allow_user_takeover :: UserTakeoverAllowed
  ao_can_be_deferred :: bool
  ao_state_failure :: bool
  ao_activated :: bool
  ao_id :: int

definition actionOptions :: "Action \<Rightarrow> ActionOptions" where
  "actionOptions action =
     \<lparr>ao_action = action, ao_clear_condition = WhenConditionClears, ao_cause = C_Generic,
      ao_allow_user_takeover = UT_Auto, ao_can_be_deferred = True,
      ao_state_failure = False, ao_activated = False, ao_id = -1\<rparr>"

definition allowUserTakeover :: "UserTakeoverAllowed \<Rightarrow> ActionOptions \<Rightarrow> ActionOptions" where
  "allowUserTakeover allow opt = opt\<lparr>ao_allow_user_takeover := allow\<rparr>"

definition clearOn :: "ClearCondition \<Rightarrow> ActionOptions \<Rightarrow> ActionOptions" where
  "clearOn clear_condition opt = opt\<lparr>ao_clear_condition := clear_condition\<rparr>"

definition causedBy :: "Cause \<Rightarrow> ActionOptions \<Rightarrow> ActionOptions" where
  "causedBy cause opt = opt\<lparr>ao_cause := cause\<rparr>"

definition cannotBeDeferred :: "ActionOptions \<Rightarrow> ActionOptions" where
  "cannotBeDeferred opt = opt\<lparr>ao_can_be_deferred := False\<rparr>"

definition ao_valid :: "ActionOptions \<Rightarrow> bool" where
  "ao_valid opt \<longleftrightarrow> ao_id opt \<noteq> -1"

definition setInvalid :: "ActionOptions \<Rightarrow> ActionOptions" where
  "setInvalid opt = opt\<lparr>ao_id := -1\<rparr>"

lemmas option_defs =
  actionOptions_def allowUserTakeover_def clearOn_def causedBy_def cannotBeDeferred_def

section \<open>Vehicle state, selection result, object state\<close>

record fs_vehicle_state =
  st_armed :: bool
  st_user_intended_mode :: u8
  st_vehicle_type :: u8
  st_vtol_in_transition_mode :: bool
  st_mission_finished :: bool

record SelectedActionState =
  sas_action :: Action
  sas_delayed_action :: Action
  sas_cause :: Cause
  sas_updated_user_intended_mode :: u8
  sas_user_takeover :: bool
  sas_failsafe_deferred :: bool

definition SelectedActionState_init :: SelectedActionState where
  "SelectedActionState_init =
     \<lparr>sas_action = A_None, sas_delayed_action = A_None, sas_cause = C_Generic,
      sas_updated_user_intended_mode = 0, sas_user_takeover = False,
      sas_failsafe_deferred = False\<rparr>"

abbreviation max_num_actions :: nat where
  "max_num_actions \<equiv> 8"

text \<open>\<^verbatim>\<open>DEFAULT_DEFER_TIMEOUT = 30_s\<close>.\<close>

definition DEFAULT_DEFER_TIMEOUT :: hrt_abstime where
  "DEFAULT_DEFER_TIMEOUT = time_s 30"

text \<open>
  The float parameter \<^verbatim>\<open>COM_FAIL_ACT_T\<close> enters the code in two expressions only:
  \<^verbatim>\<open>_param_com_fail_act_t.get() * 1_s\<close> converted to \<^verbatim>\<open>hrt_abstime\<close>, and
  \<^verbatim>\<open>_param_com_fail_act_t.get() > 0.1f\<close>. The state holds the values of these two expressions,
  so no statement depends on how the float arithmetic rounds.
\<close>

record FailsafeBase =
  fb_actions :: "ActionOptions list"
  fb_last_update :: hrt_abstime
  fb_last_armed :: bool
  fb_last_user_intended_mode :: u8
  fb_last_status_flags :: failsafe_flags_s
  fb_selected_action :: Action
  fb_user_takeover_active :: bool
  fb_pending_notification_cause :: Cause
  fb_defer_failsafes :: bool
  fb_defer_timeout :: hrt_abstime
  fb_failsafe_defer_started :: hrt_abstime
  fb_current_start_delay :: hrt_abstime
  fb_current_delay :: hrt_abstime
  fb_next_caller_id :: int
  fb_duplicate_reported_once :: bool
  fb_on_notify_user_cb :: bool
  fb_com_fail_act_t_us :: hrt_abstime
  fb_com_fail_act_t_gt_0_1 :: bool

section \<open>Small queries\<close>

definition inFailsafe :: "'a FailsafeBase_scheme \<Rightarrow> bool" where
  "inFailsafe s \<longleftrightarrow> fb_selected_action s \<noteq> A_None \<and> fb_selected_action s \<noteq> A_Warn"

definition failsafeDeferred :: "'a FailsafeBase_scheme \<Rightarrow> bool" where
  "failsafeDeferred s \<longleftrightarrow> fb_failsafe_defer_started s \<noteq> 0"

definition genCallerId :: "'a FailsafeBase_scheme \<Rightarrow> int \<times> 'a FailsafeBase_scheme" where
  "genCallerId s =
    (let s = s\<lparr>fb_next_caller_id := fb_next_caller_id s + 1\<rparr> in (fb_next_caller_id s, s))"

definition actionAllowsUserTakeover :: "Action \<Rightarrow> bool" where
  "actionAllowsUserTakeover action \<longleftrightarrow>
     action = A_Hold \<or> action = A_RTL \<or> action = A_Land \<or> action = A_Descend"

fun modeFromAction :: "Action \<Rightarrow> u8 \<Rightarrow> u8" where
  "modeFromAction A_FallbackPosCtrl user_intended_mode = NAVIGATION_STATE_POSCTL"
| "modeFromAction A_FallbackAltCtrl user_intended_mode = NAVIGATION_STATE_ALTCTL"
| "modeFromAction A_FallbackStab user_intended_mode = NAVIGATION_STATE_STAB"
| "modeFromAction A_Hold user_intended_mode = NAVIGATION_STATE_AUTO_LOITER"
| "modeFromAction A_RTL user_intended_mode = NAVIGATION_STATE_AUTO_RTL"
| "modeFromAction A_Land user_intended_mode = NAVIGATION_STATE_AUTO_LAND"
| "modeFromAction A_Descend user_intended_mode = NAVIGATION_STATE_DESCEND"
| "modeFromAction _ user_intended_mode = user_intended_mode"

end
