(* ===== verification/Failsafe_Actions.thy ===== *)
theory Failsafe_Actions
  imports Failsafe_Types
begin

text \<open>
  The configured reactions of \<^verbatim>\<open>src/src/modules/commander/failsafe/failsafe.cpp\<close>: each
  \<^verbatim>\<open>from...ActParam\<close> turns the integer value of a parameter into the options of a failsafe
  action. A value outside the enumeration takes the \<^verbatim>\<open>default\<close> branch of the switch, as in the
  code. \<open>isFailsafeIgnored\<close> tests the link loss exception bits.
\<close>

section \<open>Option builders shared by the switches\<close>

text \<open>\<^verbatim>\<open>ActionOptions options{}\<close> with the action set.\<close>

abbreviation on_mode_change :: "Action \<Rightarrow> ActionOptions" where
  "on_mode_change a \<equiv> clearOn OnModeChangeOrDisarm (actionOptions a)"

abbreviation terminate_for_good :: ActionOptions where
  "terminate_for_good \<equiv>
     (actionOptions A_Terminate)
       \<lparr>ao_allow_user_takeover := UT_Never, ao_clear_condition := ClearNever\<rparr>"

definition manualControlFallbackAction :: "Action \<Rightarrow> bool" where
  "manualControlFallbackAction action \<longleftrightarrow>
     action = A_FallbackPosCtrl \<or> action = A_FallbackAltCtrl \<or> action = A_FallbackStab"

section \<open>Parameter values to options\<close>

definition fromNavDllOrRclActParam :: "int \<Rightarrow> ActionOptions" where
  "fromNavDllOrRclActParam param_value =
    (if param_value = 1 then on_mode_change A_Hold
     else if param_value = 2 then on_mode_change A_RTL
     else if param_value = 3 then on_mode_change A_Land
     else if param_value = 5 then terminate_for_good
     else if param_value = 6
       then (actionOptions A_Disarm)\<lparr>ao_allow_user_takeover := UT_Never\<rparr>
     else actionOptions A_None)"

definition fromGfActParam :: "int \<Rightarrow> ActionOptions" where
  "fromGfActParam param_value =
    (if param_value = 0 then actionOptions A_None
     else if param_value = 2
       then (on_mode_change A_Hold)\<lparr>ao_allow_user_takeover := UT_AlwaysModeSwitchOnly\<rparr>
     else if param_value = 3 then on_mode_change A_RTL
     else if param_value = 4 then terminate_for_good
     else if param_value = 5 then on_mode_change A_Land
     else actionOptions A_Warn)"

definition fromActuatorFailureActParam :: "int \<Rightarrow> ActionOptions" where
  "fromActuatorFailureActParam param_value =
    (if param_value = 1 then actionOptions A_Hold
     else if param_value = 2 then on_mode_change A_Land
     else if param_value = 3 then on_mode_change A_RTL
     else if param_value = 4 then clearOn ClearNever (actionOptions A_Terminate)
     else actionOptions A_Warn)"

text \<open>\<^verbatim>\<open>LowBatteryAction\<close>: 0 warning, 1 return, 2 land, 3 return or land.\<close>

definition fromBatteryWarningActParam :: "int \<Rightarrow> u8 \<Rightarrow> ActionOptions" where
  "fromBatteryWarningActParam param_value battery_warning =
    (if battery_warning = WARNING_LOW then causedBy C_BatteryLow (actionOptions A_Warn)
     else if battery_warning = WARNING_CRITICAL then
       causedBy C_BatteryCritical (actionOptions
         (if param_value = 1 \<or> param_value = 3 then A_RTL
          else if param_value = 2 then A_Land
          else A_Warn))
     else if battery_warning = WARNING_EMERGENCY then
       causedBy C_BatteryEmergency (actionOptions
         (if param_value = 1 then A_RTL
          else if param_value = 3 \<or> param_value = 2 then A_Land
          else A_Warn))
     else actionOptions A_None)"

definition fromQuadchuteActParam :: "int \<Rightarrow> ActionOptions" where
  "fromQuadchuteActParam param_value =
    (if param_value = 0 then on_mode_change A_RTL
     else if param_value = 1 then on_mode_change A_Land
     else if param_value = 2 then on_mode_change A_Hold
     else actionOptions A_Warn)"

text \<open>The by-reference argument \<^verbatim>\<open>user_intended_mode\<close> is returned beside the action.\<close>

definition fromOffboardLossActParam :: "int \<Rightarrow> u8 \<Rightarrow> Action \<times> u8" where
  "fromOffboardLossActParam param_value user_intended_mode =
    (if param_value = 1 then (A_FallbackAltCtrl, NAVIGATION_STATE_ALTCTL)
     else if param_value = 2 then (A_FallbackStab, NAVIGATION_STATE_STAB)
     else if param_value = 3 then (A_RTL, NAVIGATION_STATE_AUTO_RTL)
     else if param_value = 4 then (A_Land, NAVIGATION_STATE_AUTO_LAND)
     else if param_value = 5 then (A_Hold, NAVIGATION_STATE_AUTO_LOITER)
     else if param_value = 6 then (A_Terminate, NAVIGATION_STATE_TERMINATION)
     else if param_value = 7 then (A_Disarm, user_intended_mode)
     else (A_FallbackPosCtrl, NAVIGATION_STATE_POSCTL))"

definition fromHighWindLimitActParam :: "int \<Rightarrow> ActionOptions" where
  "fromHighWindLimitActParam param_value =
    (if param_value = 0 then actionOptions A_None
     else if param_value = 2
       then (on_mode_change A_Hold)\<lparr>ao_allow_user_takeover := UT_AlwaysModeSwitchOnly\<rparr>
     else if param_value = 3 then on_mode_change A_RTL
     else if param_value = 4 then terminate_for_good
     else if param_value = 5 then on_mode_change A_Land
     else actionOptions A_Warn)"

definition fromPosLowActParam :: "int \<Rightarrow> ActionOptions" where
  "fromPosLowActParam param_value =
    (let options = (actionOptions A_None)\<lparr>ao_allow_user_takeover := UT_AlwaysModeSwitchOnly\<rparr> in
     if param_value = 0 then options
     else if param_value = 2
       then options\<lparr>ao_action := A_Hold, ao_clear_condition := WhenConditionClears\<rparr>
     else if param_value = 3
       then options\<lparr>ao_action := A_RTL, ao_clear_condition := WhenConditionClears\<rparr>
     else if param_value = 4
       then options\<lparr>ao_allow_user_takeover := UT_Never, ao_action := A_Terminate,
                    ao_clear_condition := ClearNever\<rparr>
     else if param_value = 5
       then options\<lparr>ao_action := A_Land, ao_clear_condition := WhenConditionClears\<rparr>
     else options\<lparr>ao_action := A_Warn\<rparr>)"

definition fromGnssLossActParam :: "int \<Rightarrow> ActionOptions" where
  "fromGnssLossActParam param_value =
    (if param_value = 1 then on_mode_change A_RTL
     else if param_value = 2 then on_mode_change A_Land
     else if param_value = 3 then terminate_for_good
     else actionOptions A_Warn)"

definition fromParachuteActParam :: "int \<Rightarrow> ActionOptions" where
  "fromParachuteActParam param_value =
    (if param_value = 1 \<or> param_value = 2
       then clearOn WhenConditionClears (actionOptions A_Warn)
     else if param_value = 3 then on_mode_change A_RTL
     else if param_value = 4 then on_mode_change A_Land
     else actionOptions A_None)"

text \<open>\<^verbatim>\<open>traffic_avoidance::FailsafeMode\<close> of \<^verbatim>\<open>failsafe_action_modes.h\<close>.\<close>

definition fromTrafficAvoidanceActParam :: "int \<Rightarrow> ActionOptions" where
  "fromTrafficAvoidanceActParam param_value =
    (if param_value = 1 \<or> param_value = 2
       then clearOn WhenConditionClears (actionOptions A_Warn)
     else if param_value = 3 then on_mode_change A_RTL
     else if param_value = 4 then on_mode_change A_Land
     else actionOptions A_None)"

definition traffic_avoidance_isEnabled :: "int \<Rightarrow> bool" where
  "traffic_avoidance_isEnabled mode \<longleftrightarrow> mode \<ge> 1"

definition traffic_avoidance_blocksArming :: "int \<Rightarrow> bool" where
  "traffic_avoidance_blocksArming mode \<longleftrightarrow> mode \<ge> 2"

definition fromRemainingFlightTimeLowActParam :: "int \<Rightarrow> ActionOptions" where
  "fromRemainingFlightTimeLowActParam param_value =
    (let options = (actionOptions A_None)
           \<lparr>ao_allow_user_takeover := UT_Auto, ao_cause := C_RemainingFlightTimeLow\<rparr> in
     if param_value = 1 then options\<lparr>ao_action := A_Warn\<rparr>
     else if param_value = 3
       then options\<lparr>ao_action := A_RTL, ao_clear_condition := OnModeChangeOrDisarm\<rparr>
     else options)"

definition fromOdidFailActParam :: "int \<Rightarrow> ActionOptions" where
  "fromOdidFailActParam param_value =
    (if param_value = 3 then on_mode_change A_RTL
     else if param_value = 4 then on_mode_change A_Land
     else if param_value = 5 then terminate_for_good
     else actionOptions A_None)"

section \<open>Link loss exceptions\<close>

text \<open>\<^verbatim>\<open>LinkLossExceptionBits\<close>, tested against the two's complement parameter value.\<close>

definition isFailsafeIgnored :: "u8 \<Rightarrow> int \<Rightarrow> bool" where
  "isFailsafeIgnored user_intended_mode exception_mask_parameter =
    (if user_intended_mode = NAVIGATION_STATE_AUTO_MISSION
       then exception_mask_parameter AND 1 \<noteq> 0
     else if user_intended_mode \<in> {NAVIGATION_STATE_AUTO_LOITER, NAVIGATION_STATE_AUTO_TAKEOFF,
         NAVIGATION_STATE_AUTO_VTOL_TAKEOFF, NAVIGATION_STATE_AUTO_LAND,
         NAVIGATION_STATE_AUTO_RTL, NAVIGATION_STATE_DESCEND,
         NAVIGATION_STATE_AUTO_FOLLOW_TARGET, NAVIGATION_STATE_AUTO_PRECLAND,
         NAVIGATION_STATE_ORBIT, NAVIGATION_STATE_GUIDED_COURSE}
       then exception_mask_parameter AND 2 \<noteq> 0
     else if user_intended_mode = NAVIGATION_STATE_OFFBOARD
       then exception_mask_parameter AND 4 \<noteq> 0
     else if user_intended_mode \<in> {NAVIGATION_STATE_EXTERNAL1, NAVIGATION_STATE_EXTERNAL2,
         NAVIGATION_STATE_EXTERNAL3, NAVIGATION_STATE_EXTERNAL4, NAVIGATION_STATE_EXTERNAL5,
         NAVIGATION_STATE_EXTERNAL6, NAVIGATION_STATE_EXTERNAL7, NAVIGATION_STATE_EXTERNAL8}
       then exception_mask_parameter AND 8 \<noteq> 0
     else if user_intended_mode = NAVIGATION_STATE_ALTITUDE_CRUISE
       then exception_mask_parameter AND 16 \<noteq> 0
     else False)"

section \<open>What every configuration guarantees\<close>

lemmas act_param_defs =
  fromNavDllOrRclActParam_def fromGfActParam_def fromActuatorFailureActParam_def
  fromBatteryWarningActParam_def fromQuadchuteActParam_def fromHighWindLimitActParam_def
  fromPosLowActParam_def fromGnssLossActParam_def fromParachuteActParam_def
  fromTrafficAvoidanceActParam_def fromRemainingFlightTimeLowActParam_def fromOdidFailActParam_def

text \<open>
  Options as the code builds them: a fresh entry (no identifier, not active), an action that
  exists, and a termination is never cleared.
\<close>

definition fresh_options :: "ActionOptions \<Rightarrow> bool" where
  "fresh_options opt \<longleftrightarrow>
     ao_id opt = -1 \<and> \<not> ao_state_failure opt \<and> \<not> ao_activated opt \<and> ao_action opt \<noteq> A_Count"

lemma fresh_options_builders [simp]:
  "fresh_options (actionOptions a) \<longleftrightarrow> a \<noteq> A_Count"
  "fresh_options (allowUserTakeover t opt) \<longleftrightarrow> fresh_options opt"
  "fresh_options (clearOn c opt) \<longleftrightarrow> fresh_options opt"
  "fresh_options (causedBy cs opt) \<longleftrightarrow> fresh_options opt"
  "fresh_options (cannotBeDeferred opt) \<longleftrightarrow> fresh_options opt"
  by (auto simp: fresh_options_def option_defs)

lemma fresh_options_act_params [simp]:
  "fresh_options (fromNavDllOrRclActParam p)"
  "fresh_options (fromGfActParam p)"
  "fresh_options (fromActuatorFailureActParam p)"
  "fresh_options (fromBatteryWarningActParam p w)"
  "fresh_options (fromQuadchuteActParam p)"
  "fresh_options (fromHighWindLimitActParam p)"
  "fresh_options (fromPosLowActParam p)"
  "fresh_options (fromGnssLossActParam p)"
  "fresh_options (fromParachuteActParam p)"
  "fresh_options (fromTrafficAvoidanceActParam p)"
  "fresh_options (fromRemainingFlightTimeLowActParam p)"
  "fresh_options (fromOdidFailActParam p)"
  by (simp_all add: act_param_defs fresh_options_def option_defs Let_def)

lemma fromOffboardLossActParam_action:
  "fst (fromOffboardLossActParam p m) \<in>
     {A_FallbackPosCtrl, A_FallbackAltCtrl, A_FallbackStab, A_RTL, A_Land, A_Hold, A_Terminate,
      A_Disarm}"
  by (simp add: fromOffboardLossActParam_def)

end
