(* ===== verification/Failsafe_Framework.thy ===== *)
theory Failsafe_Framework
  imports Failsafe_Actions Custom_Mode
begin

text \<open>
  The failsafe state machine of \<^verbatim>\<open>src/src/modules/commander/failsafe/framework.cpp\<close>, class
  \<^verbatim>\<open>FailsafeBase\<close>. Every method is a function on the object state \<open>'a FailsafeBase_scheme\<close>; the
  record is extensible, as the class is. The virtual methods a subclass provides are the fields
  of a table of functions. What the code sends to the user (events, log messages, the registered
  callback) is returned as a list of notifications.
\<close>

section \<open>Virtual methods and notifications\<close>

record 's failsafe_vtable =
  vt_checkStateAndMode :: "hrt_abstime \<Rightarrow> fs_vehicle_state \<Rightarrow> failsafe_flags_s \<Rightarrow> 's \<Rightarrow> 's"
  vt_checkModeFallback :: "'s \<Rightarrow> failsafe_flags_s \<Rightarrow> u8 \<Rightarrow> Action"
  vt_modifyUserIntendedMode :: "Action \<Rightarrow> Action \<Rightarrow> u8 \<Rightarrow> u8"

datatype event_arg = Arg_mode u32 | Arg_action Action | Arg_seconds u16 | Arg_cause Cause

datatype notification =
    N_callback
  | N_event string "event_arg list"
  | N_mavlink_critical string "int list"

section \<open>Delays and deferral\<close>

definition updateFailsafeDeferState ::
  "hrt_abstime \<Rightarrow> bool \<Rightarrow> 'a FailsafeBase_scheme \<Rightarrow> 'a FailsafeBase_scheme" where
  "updateFailsafeDeferState time_us defer s =
    (if defer then
       (if fb_failsafe_defer_started s = 0 then s\<lparr>fb_failsafe_defer_started := time_us\<rparr> else s)
     else s\<lparr>fb_failsafe_defer_started := 0\<rparr>)"

definition updateStartDelay ::
  "hrt_abstime \<Rightarrow> bool \<Rightarrow> 'a FailsafeBase_scheme \<Rightarrow> 'a FailsafeBase_scheme" where
  "updateStartDelay dt delay_active s =
    (if delay_active then
       (if dt < fb_current_start_delay s
        then s\<lparr>fb_current_start_delay := fb_current_start_delay s - dt\<rparr>
        else s\<lparr>fb_current_start_delay := 0\<rparr>)
     else
       (let s = s\<lparr>fb_current_start_delay := fb_current_start_delay s + dt div 4\<rparr>;
            configured_delay = fb_com_fail_act_t_us s
        in if fb_current_start_delay s > configured_delay
           then s\<lparr>fb_current_start_delay := configured_delay\<rparr> else s))"

text \<open>\<^verbatim>\<open>updateParams\<close> with the two values the new \<^verbatim>\<open>COM_FAIL_ACT_T\<close> yields.\<close>

definition updateParams ::
  "hrt_abstime \<Rightarrow> bool \<Rightarrow> 'a FailsafeBase_scheme \<Rightarrow> 'a FailsafeBase_scheme" where
  "updateParams fail_act_t_us fail_act_t_gt s =
    (let s = s\<lparr>fb_com_fail_act_t_us := fail_act_t_us, fb_com_fail_act_t_gt_0_1 := fail_act_t_gt\<rparr>
     in s\<lparr>fb_current_start_delay := fb_com_fail_act_t_us s\<rparr>)"

definition updateDelay ::
  "hrt_abstime \<Rightarrow> 'a FailsafeBase_scheme \<Rightarrow> 'a FailsafeBase_scheme" where
  "updateDelay elapsed_us s =
    (if fb_current_delay s < elapsed_us then s\<lparr>fb_current_delay := 0\<rparr>
     else s\<lparr>fb_current_delay := fb_current_delay s - elapsed_us\<rparr>)"

definition clearDelayIfNeeded ::
  "failsafe_flags_s \<Rightarrow> 'a FailsafeBase_scheme \<Rightarrow> 'a FailsafeBase_scheme" where
  "clearDelayIfNeeded status_flags s =
    (if fb_selected_action s > A_Hold \<or>
        \<not> modeCanRun status_flags NAVIGATION_STATE_AUTO_LOITER \<or>
        fb_user_takeover_active s
     then s\<lparr>fb_current_delay := 0\<rparr> else s)"

text \<open>\<^verbatim>\<open>timeout_s * 1_s\<close>: the 32-bit value is converted to 64 bits before the multiplication.\<close>

definition deferFailsafes ::
  "bool \<Rightarrow> int \<Rightarrow> 'a FailsafeBase_scheme \<Rightarrow> bool \<times> 'a FailsafeBase_scheme" where
  "deferFailsafes enabled timeout_s s =
    (if enabled \<and> fb_selected_action s > A_Warn then (False, s)
     else
       (let s = (if \<not> enabled \<and> fb_defer_failsafes s \<and> fb_failsafe_defer_started s = 0
                 then s\<lparr>fb_current_delay := 0\<rparr> else s);
            s = (if timeout_s = 0 then s\<lparr>fb_defer_timeout := DEFAULT_DEFER_TIMEOUT\<rparr>
                 else if timeout_s < 0 then s\<lparr>fb_defer_timeout := 0\<rparr>
                 else s\<lparr>fb_defer_timeout := time_s (of_int timeout_s)\<rparr>)
        in (True, s\<lparr>fb_defer_failsafes := enabled\<rparr>)))"

section \<open>The action table\<close>

definition removeActions ::
  "ClearCondition \<Rightarrow> 'a FailsafeBase_scheme \<Rightarrow> 'a FailsafeBase_scheme" where
  "removeActions condition s =
    s\<lparr>fb_actions := map (\<lambda>cur_action.
        if ao_valid cur_action \<and> \<not> ao_state_failure cur_action \<and>
           ao_clear_condition cur_action = condition
        then setInvalid cur_action else cur_action) (fb_actions s)\<rparr>"

definition removeAction :: "'a FailsafeBase_scheme \<Rightarrow> ActionOptions \<Rightarrow> ActionOptions" where
  "removeAction s action =
    (let remove_while_deferring = fb_defer_failsafes s \<and> ao_can_be_deferred action in
     if ao_clear_condition action = WhenConditionClears \<or> remove_while_deferring
     then setInvalid action
     else action\<lparr>ao_state_failure := False\<rparr>)"

definition removeNonActivatedActions ::
  "'a FailsafeBase_scheme \<Rightarrow> 'a FailsafeBase_scheme" where
  "removeNonActivatedActions s =
    s\<lparr>fb_actions := map (\<lambda>cur_action.
        (if ao_valid cur_action \<and> \<not> ao_activated cur_action
         then removeAction s cur_action else cur_action)\<lparr>ao_activated := False\<rparr>)
      (fb_actions s)\<rparr>"

text \<open>
  The first loop of \<^verbatim>\<open>checkFailsafe\<close>: the last free slot seen and, if there is one, the slot of
  the caller, at which the loop stops. An index of \<^verbatim>\<open>-1\<close> is \<^const>\<open>None\<close>.
\<close>

fun find_slot ::
  "int \<Rightarrow> nat \<Rightarrow> nat option \<Rightarrow> ActionOptions list \<Rightarrow> nat option \<times> nat option" where
  "find_slot caller_id i free_idx [] = (free_idx, None)"
| "find_slot caller_id i free_idx (a # as) =
     (if \<not> ao_valid a then find_slot caller_id (Suc i) (Some i) as
      else if ao_id a = caller_id then (free_idx, Some i)
      else find_slot caller_id (Suc i) free_idx as)"

text \<open>The second loop: with no free slot, the last entry of a lower action is replaced.\<close>

fun find_replaceable ::
  "Action \<Rightarrow> nat \<Rightarrow> nat option \<Rightarrow> ActionOptions list \<Rightarrow> nat option" where
  "find_replaceable action i free_idx [] = free_idx"
| "find_replaceable action i free_idx (a # as) =
     find_replaceable action (Suc i) (if action > ao_action a then Some i else free_idx) as"

definition update_entry ::
  "nat \<Rightarrow> ActionOptions \<Rightarrow> 'a FailsafeBase_scheme \<Rightarrow> 'a FailsafeBase_scheme" where
  "update_entry found_idx options s =
    (let entry = fb_actions s ! found_idx;
         s = (if ao_activated entry \<and> \<not> fb_duplicate_reported_once s
              then s\<lparr>fb_duplicate_reported_once := True\<rparr> else s)
     in s\<lparr>fb_actions := (fb_actions s)[found_idx :=
            entry\<lparr>ao_state_failure := True, ao_activated := True,
                  ao_action := ao_action options\<rparr>]\<rparr>)"

definition add_entry ::
  "int \<Rightarrow> nat \<Rightarrow> ActionOptions \<Rightarrow> 'a FailsafeBase_scheme \<Rightarrow> 'a FailsafeBase_scheme" where
  "add_entry caller_id free_idx options s =
    (let entry = options\<lparr>ao_id := caller_id, ao_state_failure := True, ao_activated := True\<rparr>;
         delay = (if ao_allow_user_takeover options = UT_Auto \<and> fb_com_fail_act_t_gt_0_1 s \<and>
                     ao_action options \<noteq> A_Warn \<and> fb_current_delay s = 0
                  then fb_current_start_delay s else fb_current_delay s);
         entry = (if ao_allow_user_takeover options = UT_Auto
                  then entry\<lparr>ao_allow_user_takeover :=
                         if fb_com_fail_act_t_gt_0_1 s then UT_Always
                         else UT_AlwaysModeSwitchOnly\<rparr>
                  else entry);
         s = s\<lparr>fb_actions := (fb_actions s)[free_idx := entry], fb_current_delay := delay\<rparr>;
         s = (if ao_action options \<noteq> A_None
              then s\<lparr>fb_pending_notification_cause := ao_cause options\<rparr> else s)
     in if ao_action options \<ge> A_Hold then s\<lparr>fb_user_takeover_active := False\<rparr> else s)"

text \<open>
  \<^verbatim>\<open>checkFailsafe\<close> returns its argument \<^verbatim>\<open>cur_state_failure\<close>, which the callers that keep it
  store themselves; the function below is its effect on the object.
\<close>

definition checkFailsafe ::
  "int \<Rightarrow> bool \<Rightarrow> bool \<Rightarrow> ActionOptions \<Rightarrow> 'a FailsafeBase_scheme \<Rightarrow> 'a FailsafeBase_scheme"
where
  "checkFailsafe caller_id last_state_failure cur_state_failure options s =
    (if cur_state_failure then
       (case find_slot caller_id 0 None (fb_actions s) of
          (_, Some found_idx) \<Rightarrow> update_entry found_idx options s
        | (free_idx, None) \<Rightarrow>
            (case (if free_idx = None
                   then find_replaceable (ao_action options) 0 None (fb_actions s)
                   else free_idx) of
               Some idx \<Rightarrow> add_entry caller_id idx options s
             | None \<Rightarrow> s))
     else if last_state_failure then
       s\<lparr>fb_actions := map (\<lambda>a. if ao_id a = caller_id then removeAction s a else a)
                         (fb_actions s)\<rparr>
     else s)"

text \<open>
  The macro \<^verbatim>\<open>CHECK_FAILSAFE\<close>: the byte offset of the flag is the caller's identifier, and the
  previous value of the flag comes from the last update.
\<close>

definition CHECK_FAILSAFE ::
  "flags_layout \<Rightarrow> failsafe_flags_s \<Rightarrow> FsFlag \<Rightarrow> ActionOptions \<Rightarrow>
   'a FailsafeBase_scheme \<Rightarrow> 'a FailsafeBase_scheme" where
  "CHECK_FAILSAFE L status_flags flag_name options s =
     checkFailsafe (fl_offsetof L flag_name) (ff_flag (fb_last_status_flags s) flag_name)
       (ff_flag status_flags flag_name) options s"

section \<open>Selecting an action\<close>

text \<open>The loop over the active actions: the worst action and its cause, the most restrictive
  takeover setting, and whether every action may be deferred.\<close>

type_synonym worst_action = "Action \<times> Cause \<times> UserTakeoverAllowed \<times> bool"

fun select_step :: "ActionOptions \<Rightarrow> worst_action \<Rightarrow> worst_action" where
  "select_step cur_action (selected_action, cause, allow_user_takeover, deferrable) =
    (if ao_valid cur_action \<and> ao_action cur_action \<noteq> A_None then
       (if ao_action cur_action > selected_action then ao_action cur_action else selected_action,
        if ao_action cur_action > selected_action then ao_cause cur_action else cause,
        if ao_allow_user_takeover cur_action > allow_user_takeover
          then ao_allow_user_takeover cur_action else allow_user_takeover,
        if \<not> ao_can_be_deferred cur_action then False else deferrable)
     else (selected_action, cause, allow_user_takeover, deferrable))"

definition select_worst :: "ActionOptions list \<Rightarrow> worst_action" where
  "select_worst actions = fold select_step actions (A_None, C_Generic, UT_Always, True)"

definition action_can_be_delayed :: "Action \<Rightarrow> bool" where
  "action_can_be_delayed selected_action \<longleftrightarrow>
     selected_action \<noteq> A_None \<and> selected_action \<noteq> A_Warn \<and> selected_action \<noteq> A_Disarm \<and>
     selected_action \<noteq> A_Terminate \<and> selected_action \<noteq> A_Hold"

text \<open>The fall-through switch that replaces an action whose mode cannot run. Each function is one
  case label: it stays if its mode can run, and otherwise falls to the next label with the cause
  reset.\<close>

definition try_descend :: "failsafe_flags_s \<Rightarrow> Cause \<Rightarrow> Action \<times> Cause" where
  "try_descend f cause =
    (if modeCanRun f NAVIGATION_STATE_DESCEND then (A_Descend, cause)
     else (A_Terminate, C_Generic))"

definition try_land :: "failsafe_flags_s \<Rightarrow> Cause \<Rightarrow> Action \<times> Cause" where
  "try_land f cause =
    (if modeCanRun f NAVIGATION_STATE_AUTO_LAND then (A_Land, cause) else try_descend f C_Generic)"

definition try_rtl :: "failsafe_flags_s \<Rightarrow> Cause \<Rightarrow> Action \<times> Cause" where
  "try_rtl f cause =
    (if modeCanRun f NAVIGATION_STATE_AUTO_RTL then (A_RTL, cause) else try_land f C_Generic)"

definition try_hold :: "failsafe_flags_s \<Rightarrow> Cause \<Rightarrow> Action \<times> Cause" where
  "try_hold f cause =
    (if modeCanRun f NAVIGATION_STATE_AUTO_LOITER then (A_Hold, cause) else try_rtl f C_Generic)"

definition try_stab :: "failsafe_flags_s \<Rightarrow> Cause \<Rightarrow> Action \<times> Cause" where
  "try_stab f cause =
    (if modeCanRun f NAVIGATION_STATE_STAB then (A_FallbackStab, cause) else try_hold f C_Generic)"

definition try_altctl :: "failsafe_flags_s \<Rightarrow> Cause \<Rightarrow> Action \<times> Cause" where
  "try_altctl f cause =
    (if modeCanRun f NAVIGATION_STATE_ALTCTL then (A_FallbackAltCtrl, cause)
     else try_stab f C_Generic)"

definition try_posctl :: "failsafe_flags_s \<Rightarrow> Cause \<Rightarrow> Action \<times> Cause" where
  "try_posctl f cause =
    (if modeCanRun f NAVIGATION_STATE_POSCTL then (A_FallbackPosCtrl, cause)
     else try_altctl f C_Generic)"

fun fallback_switch :: "failsafe_flags_s \<Rightarrow> Action \<Rightarrow> Cause \<Rightarrow> Action \<times> Cause" where
  "fallback_switch f A_FallbackPosCtrl cause = try_posctl f cause"
| "fallback_switch f A_FallbackAltCtrl cause = try_altctl f cause"
| "fallback_switch f A_FallbackStab cause = try_stab f cause"
| "fallback_switch f A_Hold cause = try_hold f cause"
| "fallback_switch f A_RTL cause = try_rtl f cause"
| "fallback_switch f A_Land cause = try_land f cause"
| "fallback_switch f A_Descend cause = try_descend f cause"
| "fallback_switch f A_Terminate cause = (A_Terminate, cause)"
| "fallback_switch f A_Disarm cause = (A_Disarm, cause)"
| "fallback_switch f A_None cause = (A_None, cause)"
| "fallback_switch f A_Warn cause = (A_Warn, cause)"
| "fallback_switch f A_Count cause = (A_Count, cause)"

text \<open>Changing a failsafe to a warning when the vehicle already does what it asks for.\<close>

definition soften_step ::
  "failsafe_flags_s \<Rightarrow> u8 \<Rightarrow> u8 \<Rightarrow> Action set \<Rightarrow> Action \<times> Action \<Rightarrow> Action \<times> Action" where
  "soften_step f user_intended_mode mode covered r =
    (let (selected_action, delayed_action) = r in
     if user_intended_mode = mode \<and>
        (selected_action \<in> covered \<or> delayed_action \<in> covered) \<and> modeCanRun f mode
     then (A_Warn, A_None) else r)"

definition soften :: "failsafe_flags_s \<Rightarrow> u8 \<Rightarrow> Action \<times> Action \<Rightarrow> Action \<times> Action" where
  "soften f user_intended_mode r =
    soften_step f user_intended_mode NAVIGATION_STATE_AUTO_PRECLAND {A_RTL, A_Land}
     (soften_step f user_intended_mode NAVIGATION_STATE_AUTO_RTL {A_RTL}
       (soften_step f user_intended_mode NAVIGATION_STATE_AUTO_LAND {A_RTL} r))"

text \<open>The part of the selection that handles a user who takes over.\<close>

definition takeover_allowed ::
  "'a FailsafeBase_scheme \<Rightarrow> UserTakeoverAllowed \<Rightarrow> bool \<Rightarrow> bool \<Rightarrow> bool" where
  "takeover_allowed s allow_user_takeover user_intended_mode_updated rc_sticks_takeover_request =
    (let want_user_takeover_mode_switch =
           user_intended_mode_updated \<and> fb_selected_action s > A_Warn;
         want_user_takeover = want_user_takeover_mode_switch \<or> rc_sticks_takeover_request
     in (allow_user_takeover = UT_Always \<and> (fb_user_takeover_active s \<or> want_user_takeover)) \<or>
        (allow_user_takeover = UT_AlwaysModeSwitchOnly \<and>
          (fb_user_takeover_active s \<or> want_user_takeover_mode_switch)))"

definition take_over ::
  "('s \<Rightarrow> failsafe_flags_s \<Rightarrow> u8 \<Rightarrow> Action) \<Rightarrow> 's \<Rightarrow> bool \<Rightarrow> failsafe_flags_s \<Rightarrow> bool \<Rightarrow>
   SelectedActionState \<Rightarrow> SelectedActionState" where
  "take_over checkModeFallback s user_takeover_active status_flags rc_sticks_takeover_request r =
    (let r = (if \<not> user_takeover_active \<and> rc_sticks_takeover_request
              then r\<lparr>sas_updated_user_intended_mode := NAVIGATION_STATE_POSCTL\<rparr> else r);
         r = r\<lparr>sas_action := A_Warn, sas_user_takeover := True, sas_delayed_action := A_None\<rparr>;
         mode_fallback = checkModeFallback s status_flags
           (modeFromAction (sas_action r) (sas_updated_user_intended_mode r))
     in if mode_fallback > sas_action r then r\<lparr>sas_action := mode_fallback\<rparr> else r)"

text \<open>The action that would be taken without a user: the worst one, or Hold while its delay runs.\<close>

definition delayed_selection ::
  "'a FailsafeBase_scheme \<Rightarrow> UserTakeoverAllowed \<Rightarrow> SelectedActionState \<Rightarrow>
   SelectedActionState \<times> UserTakeoverAllowed" where
  "delayed_selection s allow_user_takeover r =
    (if fb_current_delay s > 0 \<and> \<not> fb_user_takeover_active s \<and>
        allow_user_takeover \<le> UT_AlwaysModeSwitchOnly \<and> action_can_be_delayed (sas_action r)
     then (r\<lparr>sas_delayed_action := sas_action r, sas_action := A_Hold\<rparr>, UT_AlwaysModeSwitchOnly)
     else (r, allow_user_takeover))"

definition getSelectedAction ::
  "('a FailsafeBase_scheme \<Rightarrow> failsafe_flags_s \<Rightarrow> u8 \<Rightarrow> Action) \<Rightarrow> fs_vehicle_state \<Rightarrow>
   failsafe_flags_s \<Rightarrow> bool \<Rightarrow> bool \<Rightarrow> 'a FailsafeBase_scheme \<Rightarrow>
   SelectedActionState \<times> notification list" where
  "getSelectedAction checkModeFallback state status_flags user_intended_mode_updated
      rc_sticks_takeover_request s =
    (let r = SelectedActionState_init
               \<lparr>sas_updated_user_intended_mode := st_user_intended_mode state,
                sas_cause := C_Generic\<rparr>
     in
     if st_user_intended_mode state = NAVIGATION_STATE_TERMINATION \<or>
        fb_selected_action s = A_Terminate
     then (r\<lparr>sas_action := A_Terminate\<rparr>, [])
     else if \<not> st_armed state then (r\<lparr>sas_action := A_None\<rparr>, [])
     else
       (let (selected_action, cause, allow_user_takeover, allow_failsafe_to_be_deferred) =
              select_worst (fb_actions s);
            r = r\<lparr>sas_action := selected_action, sas_cause := cause\<rparr>
        in
        if fb_defer_failsafes s \<and> allow_failsafe_to_be_deferred \<and> selected_action \<noteq> A_None
        then (r\<lparr>sas_failsafe_deferred := (selected_action > A_Warn), sas_action := A_None\<rparr>, [])
        else
          (let (r, allow_user_takeover) = delayed_selection s allow_user_takeover r;
               takeover = actionAllowsUserTakeover (sas_action r) \<and>
                 takeover_allowed s allow_user_takeover user_intended_mode_updated
                   rc_sticks_takeover_request;
               notes = (if takeover \<and> \<not> fb_user_takeover_active s
                        then [N_event ''failsafe_rc_override'' []] else []);
               r = (if takeover
                    then take_over checkModeFallback s (fb_user_takeover_active s) status_flags
                           rc_sticks_takeover_request r
                    else r);
               (selected_action, cause) =
                 fallback_switch status_flags (sas_action r) (sas_cause r);
               (selected_action, delayed_action) =
                 soften status_flags (sas_updated_user_intended_mode r)
                   (selected_action, sas_delayed_action r)
           in (r\<lparr>sas_action := selected_action, sas_cause := cause,
                 sas_delayed_action := delayed_action\<rparr>, notes))))"

section \<open>Notifying the user\<close>

definition notifyUser ::
  "u8 \<Rightarrow> Action \<Rightarrow> Action \<Rightarrow> Cause \<Rightarrow> 'a FailsafeBase_scheme \<Rightarrow> notification list" where
  "notifyUser user_intended_mode action delayed_action cause s =
    (let delay_s = (fb_current_delay s + time_ms 500) div time_s 1;
         mavlink_mode = custom_mode_data (get_px4_custom_mode user_intended_mode)
     in
     (if fb_on_notify_user_cb s then [N_callback] else []) @
     (if action = A_Hold \<and> delayed_action \<noteq> A_None then
        (if cause = C_Generic
         then [N_event ''commander_failsafe_enter_generic_hold''
                 [Arg_mode mavlink_mode, Arg_action delayed_action, Arg_seconds (ucast delay_s)]]
         else [N_event ''commander_failsafe_enter_hold''
                 [Arg_mode mavlink_mode, Arg_action delayed_action, Arg_seconds (ucast delay_s),
                  Arg_cause cause]]) @
        [N_mavlink_critical ''Failsafe activated: entering Hold for %i seconds''
           [sint (ucast delay_s :: u32)]]
      else
        (if cause = C_Generic then
           (if action = A_Warn
            then [N_event ''commander_failsafe_enter_generic_warn'' [Arg_mode mavlink_mode]]
            else if action = A_Descend \<or> action = A_FallbackAltCtrl \<or> action = A_FallbackStab
            then [N_event ''commander_failsafe_enter_autopilot_disengaged''
                    [Arg_mode mavlink_mode, Arg_action action]]
            else [N_event ''commander_failsafe_enter_generic''
                    [Arg_mode mavlink_mode, Arg_action action]])
         else if action = A_Warn then
           (if cause = C_BatteryLow then [N_event ''commander_failsafe_enter_low_bat'' []]
            else if cause = C_BatteryCritical
            then [N_event ''commander_failsafe_enter_crit_bat_warn'' []]
            else if cause = C_BatteryEmergency
            then [N_event ''commander_failsafe_enter_crit_low_bat_warn'' []]
            else if cause = C_RemainingFlightTimeLow
            then [N_event ''commander_failsafe_enter_low_flight_time_warn'' []]
            else [N_event ''commander_failsafe_enter_warn''
                    [Arg_mode mavlink_mode, Arg_cause cause]])
         else [N_event ''commander_failsafe_enter''
                 [Arg_mode mavlink_mode, Arg_action action, Arg_cause cause]]) @
        (if action \<noteq> A_Warn then [N_mavlink_critical ''Failsafe activated'' []] else [])))"

section \<open>The update step\<close>

text \<open>The part of \<^verbatim>\<open>update\<close> before the checks run: actions cleared by arming, disarming or a mode
  change, the deferral timeout and the delay.\<close>

definition begin_update ::
  "hrt_abstime \<Rightarrow> fs_vehicle_state \<Rightarrow> bool \<Rightarrow> 'a FailsafeBase_scheme \<Rightarrow> 'a FailsafeBase_scheme"
where
  "begin_update time_us state user_intended_mode_updated s =
    (let s = (if fb_last_update s = 0 then s\<lparr>fb_last_update := time_us\<rparr> else s);
         s = (if fb_last_armed s \<noteq> st_armed state
              then (removeActions OnModeChangeOrDisarm (removeActions OnDisarm s))
                     \<lparr>fb_user_takeover_active := False\<rparr>
              else s);
         s = (if user_intended_mode_updated \<or> fb_user_takeover_active s
              then removeActions OnModeChangeOrDisarm s else s);
         s = (if fb_defer_failsafes s \<and> fb_failsafe_defer_started s \<noteq> 0 \<and>
                 fb_defer_timeout s > 0 \<and>
                 time_us > fb_failsafe_defer_started s + fb_defer_timeout s
              then s\<lparr>fb_defer_failsafes := False\<rparr> else s)
     in if fb_failsafe_defer_started s = 0
        then updateDelay (time_us - fb_last_update s) s else s)"

text \<open>The part after the selection: delays, notification and the members kept for the next call.\<close>

definition finish_update ::
  "(Action \<Rightarrow> Action \<Rightarrow> u8 \<Rightarrow> u8) \<Rightarrow> hrt_abstime \<Rightarrow> fs_vehicle_state \<Rightarrow> failsafe_flags_s \<Rightarrow>
   SelectedActionState \<Rightarrow> 'a FailsafeBase_scheme \<Rightarrow> notification list \<times> 'a FailsafeBase_scheme"
where
  "finish_update modifyUserIntendedMode time_us state status_flags action_state s =
    (let s = updateStartDelay (time_us - fb_last_update s)
               (sas_delayed_action action_state \<noteq> A_None) s;
         s = updateFailsafeDeferState time_us (sas_failsafe_deferred action_state) s;
         notes = (if sas_action action_state > fb_selected_action s
                  then notifyUser (st_user_intended_mode state) (sas_action action_state)
                         (sas_delayed_action action_state) (sas_cause action_state) s
                  else if fb_pending_notification_cause s \<noteq> C_Count
                  then notifyUser (st_user_intended_mode state) A_Warn A_None
                         (fb_pending_notification_cause s) s
                  else []);
         s = s\<lparr>fb_pending_notification_cause := C_Count\<rparr>
     in (notes,
         s\<lparr>fb_last_user_intended_mode :=
             modifyUserIntendedMode (fb_selected_action s) (sas_action action_state)
               (sas_updated_user_intended_mode action_state),
           fb_user_takeover_active := sas_user_takeover action_state,
           fb_selected_action := sas_action action_state,
           fb_last_update := time_us,
           fb_last_status_flags := status_flags,
           fb_last_armed := st_armed state\<rparr>))"

definition update ::
  "'a FailsafeBase_scheme failsafe_vtable \<Rightarrow> hrt_abstime \<Rightarrow> fs_vehicle_state \<Rightarrow> bool \<Rightarrow> bool \<Rightarrow>
   failsafe_flags_s \<Rightarrow> 'a FailsafeBase_scheme \<Rightarrow>
   u8 \<times> notification list \<times> 'a FailsafeBase_scheme" where
  "update vt time_us state user_intended_mode_updated rc_sticks_takeover_request status_flags s =
    (let user_intended_mode_updated =
           (user_intended_mode_updated \<or> fb_last_user_intended_mode s \<noteq> st_user_intended_mode state);
         s = begin_update time_us state user_intended_mode_updated s;
         s = vt_checkStateAndMode vt time_us state status_flags s;
         s = removeNonActivatedActions s;
         s = clearDelayIfNeeded status_flags s;
         (action_state, takeover_notes) =
           getSelectedAction (vt_checkModeFallback vt) state status_flags
             user_intended_mode_updated rc_sticks_takeover_request s;
         (notes, s) = finish_update (vt_modifyUserIntendedMode vt) time_us state status_flags
             action_state s
     in (fb_last_user_intended_mode s, takeover_notes @ notes, s))"

end
