(* ===== verification/Failsafe_Table.thy ===== *)
theory Failsafe_Table
  imports Failsafe_Framework
begin

text \<open>
  The table of active actions: what one call of \<^verbatim>\<open>checkFailsafe\<close> does to it, the invariant every
  operation keeps (eight slots, no caller twice, no invalid action), and which other members the
  operations leave alone.
\<close>

section \<open>Slot search\<close>

lemma find_slot_Some:
  "find_slot c i f as = (f', Some j) \<Longrightarrow>
     \<exists>k < length as. j = i + k \<and> ao_valid (as ! k) \<and> ao_id (as ! k) = c"
  by (induction c i f as rule: find_slot.induct)
     (simp_all add: Ex_less_Suc2 split: if_splits)

lemma find_slot_None:
  "find_slot c i f as = (f', None) \<Longrightarrow> \<forall>a \<in> set as. ao_valid a \<longrightarrow> ao_id a \<noteq> c"
  by (induction c i f as rule: find_slot.induct) (simp_all split: if_splits)

lemma find_slot_full:
  "find_slot c i f as = (None, None) \<Longrightarrow> f = None \<and> (\<forall>a \<in> set as. ao_valid a)"
  by (induction c i f as rule: find_slot.induct) (simp_all split: if_splits)

lemma find_slot_free:
  "find_slot c i f as = (Some j, None) \<Longrightarrow>
     f = Some j \<or> (\<exists>k < length as. j = i + k \<and> \<not> ao_valid (as ! k))"
proof (induction c i f as rule: find_slot.induct)
  case (2 c i f a as)
  then show ?case by (simp add: Ex_less_Suc2 split: if_splits) auto
qed simp

lemma find_replaceable_None:
  "find_replaceable action i f as = None \<longleftrightarrow>
     f = None \<and> (\<forall>a \<in> set as. action \<le> ao_action a)"
  by (induction action i f as rule: find_replaceable.induct) auto

lemma find_replaceable_Some:
  "find_replaceable action i f as = Some j \<Longrightarrow>
     f = Some j \<or> (\<exists>k < length as. j = i + k \<and> ao_action (as ! k) < action)"
proof (induction action i f as rule: find_replaceable.induct)
  case (2 action i f a as)
  then show ?case by (simp add: Ex_less_Suc2 split: if_splits) auto
qed simp

section \<open>One failing check\<close>

text \<open>A failing check finds its entry, takes a free slot, replaces a less severe entry of a full
  table, or is dropped because every entry of the full table is at least as severe.\<close>

lemma checkFailsafe_cases:
  obtains (found) j where "j < length (fb_actions s)" "ao_valid (fb_actions s ! j)"
      "ao_id (fb_actions s ! j) = c" "checkFailsafe c l True opt s = update_entry j opt s"
  | (add) j where "j < length (fb_actions s)"
      "\<forall>a \<in> set (fb_actions s). ao_valid a \<longrightarrow> ao_id a \<noteq> c"
      "\<not> ao_valid (fb_actions s ! j) \<or>
       (\<forall>a \<in> set (fb_actions s). ao_valid a) \<and> ao_action (fb_actions s ! j) < ao_action opt"
      "checkFailsafe c l True opt s = add_entry c j opt s"
  | (dropped) "\<forall>a \<in> set (fb_actions s). ao_valid a \<and> ao_id a \<noteq> c \<and> ao_action opt \<le> ao_action a"
      "checkFailsafe c l True opt s = s"
proof (cases "find_slot c 0 None (fb_actions s)")
  case (Pair f r)
  show thesis
  proof (cases r)
    case (Some j)
    with Pair find_slot_Some [of c 0 None "fb_actions s" f j] show thesis
      by (intro found [of j]) (auto simp: checkFailsafe_def)
  next
    case None
    note * = Pair [unfolded None]
    note no_id = find_slot_None [OF *]
    show thesis
    proof (cases f)
      case (Some j)
      with * no_id find_slot_free [of c 0 None "fb_actions s" j] show thesis
        by (intro add [of j]) (auto simp: checkFailsafe_def)
    next
      case f: None
      note full = find_slot_full [OF * [unfolded f], THEN conjunct2]
      show thesis
      proof (cases "find_replaceable (ao_action opt) 0 None (fb_actions s)")
        case None
        with * f no_id full show thesis
          using find_replaceable_None [THEN iffD1, OF None]
          by (intro dropped) (auto simp: checkFailsafe_def)
      next
        case (Some j)
        with find_replaceable_Some [OF this] * f no_id full show thesis
          by (intro add [of j]) (auto simp: checkFailsafe_def)
      qed
    qed
  qed
qed

section \<open>The table invariant\<close>

definition table_ok :: "ActionOptions list \<Rightarrow> bool" where
  "table_ok as \<longleftrightarrow> length as = max_num_actions \<and> unique_on ao_valid ao_id as \<and>
     list_all (\<lambda>a. ao_action a \<noteq> A_Count) as"

lemma table_okI_map:
  assumes "table_ok as"
    and "\<And>a. ao_valid (g a) \<Longrightarrow> ao_valid a \<and> ao_id (g a) = ao_id a"
    and "\<And>a. ao_action (g a) = ao_action a"
  shows "table_ok (map g as)"
  using assms by (auto simp: table_ok_def unique_on_map list_all_iff)

lemma removed_entry [simp]:
  "ao_action (setInvalid a) = ao_action a" "\<not> ao_valid (setInvalid a)"
  "ao_action (removeAction s a) = ao_action a"
  by (auto simp: setInvalid_def removeAction_def ao_valid_def Let_def)

lemma removeAction_valid:
  "ao_valid (removeAction s a) \<Longrightarrow> ao_valid a \<and> ao_id (removeAction s a) = ao_id a"
  by (auto simp: setInvalid_def removeAction_def ao_valid_def Let_def split: if_splits)

lemma table_ok_removeActions [fs_inv_intros]:
  "table_ok (fb_actions s) \<Longrightarrow> table_ok (fb_actions (removeActions c s))"
  by (simp add: removeActions_def) (rule table_okI_map, auto split: if_splits)

lemma ao_valid_activated [simp]:
  "ao_valid (a\<lparr>ao_activated := b\<rparr>) = ao_valid a" "ao_valid (a\<lparr>ao_state_failure := b\<rparr>) = ao_valid a"
  "ao_valid (a\<lparr>ao_action := x\<rparr>) = ao_valid a"
  "ao_valid (a\<lparr>ao_allow_user_takeover := t\<rparr>) = ao_valid a"
  by (simp_all add: ao_valid_def)

lemma table_ok_removeNonActivatedActions [fs_inv_intros]:
  "table_ok (fb_actions s) \<Longrightarrow> table_ok (fb_actions (removeNonActivatedActions s))"
  by (simp add: removeNonActivatedActions_def)
     (rule table_okI_map, auto dest: removeAction_valid split: if_splits)

definition entry_of :: "int \<Rightarrow> ActionOptions \<Rightarrow> bool \<Rightarrow> ActionOptions" where
  "entry_of c opt gt =
    (let e = opt\<lparr>ao_id := c, ao_state_failure := True, ao_activated := True\<rparr>
     in if ao_allow_user_takeover opt = UT_Auto
        then e\<lparr>ao_allow_user_takeover := if gt then UT_Always else UT_AlwaysModeSwitchOnly\<rparr>
        else e)"

lemma add_entry_actions:
  "fb_actions (add_entry c j opt s) =
     (fb_actions s)[j := entry_of c opt (fb_com_fail_act_t_gt_0_1 s)]"
  by (simp add: add_entry_def entry_of_def Let_def)

lemma update_entry_actions:
  "fb_actions (update_entry j opt s) =
     (fb_actions s)[j := (fb_actions s ! j)\<lparr>ao_state_failure := True, ao_activated := True,
                                          ao_action := ao_action opt\<rparr>]"
  by (simp add: update_entry_def Let_def)

lemma entry_of_simps [simp]:
  "ao_id (entry_of c opt gt) = c" "ao_action (entry_of c opt gt) = ao_action opt"
  "ao_activated (entry_of c opt gt)" "ao_state_failure (entry_of c opt gt)"
  "ao_can_be_deferred (entry_of c opt gt) = ao_can_be_deferred opt"
  "ao_clear_condition (entry_of c opt gt) = ao_clear_condition opt"
  by (simp_all add: entry_of_def Let_def)

lemma table_ok_update_entry:
  assumes ok: "table_ok (fb_actions s)" and "ao_action opt \<noteq> A_Count"
    and j: "j < length (fb_actions s)" "ao_valid (fb_actions s ! j)"
  shows "table_ok (fb_actions (update_entry j opt s))"
proof -
  have "\<And>k. k < length (fb_actions s) \<Longrightarrow> k \<noteq> j \<Longrightarrow> ao_valid (fb_actions s ! k) \<Longrightarrow>
      ao_id (fb_actions s ! k) \<noteq> ao_id (fb_actions s ! j)"
    using ok j unfolding table_ok_def unique_on_nth by blast
  with assms show ?thesis unfolding table_ok_def update_entry_actions
    by (auto intro!: list_all_update unique_on_update)
qed

lemma table_ok_add_entry:
  assumes "table_ok (fb_actions s)" and "ao_action opt \<noteq> A_Count"
    and "\<forall>a \<in> set (fb_actions s). ao_valid a \<longrightarrow> ao_id a \<noteq> c"
  shows "table_ok (fb_actions (add_entry c j opt s))"
  using assms unfolding table_ok_def add_entry_actions
  by (auto intro!: list_all_update unique_on_update)

lemma table_ok_checkFailsafe [fs_inv_intros]:
  assumes "table_ok (fb_actions s)" and "ao_action opt \<noteq> A_Count"
  shows "table_ok (fb_actions (checkFailsafe c l cur opt s))"
proof (cases cur)
  case True
  have "table_ok (fb_actions (checkFailsafe c l True opt s))"
    by (rule checkFailsafe_cases [of s c l opt])
       (simp_all add: assms table_ok_update_entry table_ok_add_entry)
  with True show ?thesis by simp
next
  case False
  with assms show ?thesis
    by (auto simp: checkFailsafe_def intro!: table_okI_map dest: removeAction_valid split: if_splits)
qed

section \<open>Frames\<close>

lemma add_entry_frame [simp]:
  "fb_last_update (add_entry c j opt s) = fb_last_update s"
  "fb_last_armed (add_entry c j opt s) = fb_last_armed s"
  "fb_last_user_intended_mode (add_entry c j opt s) = fb_last_user_intended_mode s"
  "fb_last_status_flags (add_entry c j opt s) = fb_last_status_flags s"
  "fb_selected_action (add_entry c j opt s) = fb_selected_action s"
  "fb_defer_failsafes (add_entry c j opt s) = fb_defer_failsafes s"
  "fb_defer_timeout (add_entry c j opt s) = fb_defer_timeout s"
  "fb_failsafe_defer_started (add_entry c j opt s) = fb_failsafe_defer_started s"
  "fb_current_start_delay (add_entry c j opt s) = fb_current_start_delay s"
  "fb_com_fail_act_t_us (add_entry c j opt s) = fb_com_fail_act_t_us s"
  "fb_com_fail_act_t_gt_0_1 (add_entry c j opt s) = fb_com_fail_act_t_gt_0_1 s"
  by (simp_all add: add_entry_def Let_def)

lemma update_entry_frame [simp]:
  "fb_last_update (update_entry j opt s) = fb_last_update s"
  "fb_last_armed (update_entry j opt s) = fb_last_armed s"
  "fb_last_user_intended_mode (update_entry j opt s) = fb_last_user_intended_mode s"
  "fb_last_status_flags (update_entry j opt s) = fb_last_status_flags s"
  "fb_selected_action (update_entry j opt s) = fb_selected_action s"
  "fb_defer_failsafes (update_entry j opt s) = fb_defer_failsafes s"
  "fb_defer_timeout (update_entry j opt s) = fb_defer_timeout s"
  "fb_failsafe_defer_started (update_entry j opt s) = fb_failsafe_defer_started s"
  "fb_current_start_delay (update_entry j opt s) = fb_current_start_delay s"
  "fb_com_fail_act_t_us (update_entry j opt s) = fb_com_fail_act_t_us s"
  "fb_com_fail_act_t_gt_0_1 (update_entry j opt s) = fb_com_fail_act_t_gt_0_1 s"
  by (simp_all add: update_entry_def Let_def)

lemma checkFailsafe_frame [simp]:
  "fb_last_update (checkFailsafe c l cur opt s) = fb_last_update s"
  "fb_last_armed (checkFailsafe c l cur opt s) = fb_last_armed s"
  "fb_last_user_intended_mode (checkFailsafe c l cur opt s) = fb_last_user_intended_mode s"
  "fb_last_status_flags (checkFailsafe c l cur opt s) = fb_last_status_flags s"
  "fb_selected_action (checkFailsafe c l cur opt s) = fb_selected_action s"
  "fb_defer_failsafes (checkFailsafe c l cur opt s) = fb_defer_failsafes s"
  "fb_defer_timeout (checkFailsafe c l cur opt s) = fb_defer_timeout s"
  "fb_failsafe_defer_started (checkFailsafe c l cur opt s) = fb_failsafe_defer_started s"
  "fb_current_start_delay (checkFailsafe c l cur opt s) = fb_current_start_delay s"
  "fb_com_fail_act_t_us (checkFailsafe c l cur opt s) = fb_com_fail_act_t_us s"
  "fb_com_fail_act_t_gt_0_1 (checkFailsafe c l cur opt s) = fb_com_fail_act_t_gt_0_1 s"
  by (simp_all add: checkFailsafe_def split: option.split prod.split)

lemma removeNonActivatedActions_frame [simp]:
  "fb_last_update (removeNonActivatedActions s) = fb_last_update s"
  "fb_last_armed (removeNonActivatedActions s) = fb_last_armed s"
  "fb_selected_action (removeNonActivatedActions s) = fb_selected_action s"
  "fb_defer_failsafes (removeNonActivatedActions s) = fb_defer_failsafes s"
  "fb_defer_timeout (removeNonActivatedActions s) = fb_defer_timeout s"
  "fb_failsafe_defer_started (removeNonActivatedActions s) = fb_failsafe_defer_started s"
  "fb_current_start_delay (removeNonActivatedActions s) = fb_current_start_delay s"
  "fb_current_delay (removeNonActivatedActions s) = fb_current_delay s"
  "fb_user_takeover_active (removeNonActivatedActions s) = fb_user_takeover_active s"
  "fb_com_fail_act_t_us (removeNonActivatedActions s) = fb_com_fail_act_t_us s"
  "fb_com_fail_act_t_gt_0_1 (removeNonActivatedActions s) = fb_com_fail_act_t_gt_0_1 s"
  by (simp_all add: removeNonActivatedActions_def)

lemma clearDelayIfNeeded_frame [simp]:
  "fb_actions (clearDelayIfNeeded f s) = fb_actions s"
  "fb_last_update (clearDelayIfNeeded f s) = fb_last_update s"
  "fb_selected_action (clearDelayIfNeeded f s) = fb_selected_action s"
  "fb_defer_failsafes (clearDelayIfNeeded f s) = fb_defer_failsafes s"
  "fb_defer_timeout (clearDelayIfNeeded f s) = fb_defer_timeout s"
  "fb_failsafe_defer_started (clearDelayIfNeeded f s) = fb_failsafe_defer_started s"
  "fb_current_start_delay (clearDelayIfNeeded f s) = fb_current_start_delay s"
  "fb_user_takeover_active (clearDelayIfNeeded f s) = fb_user_takeover_active s"
  "fb_com_fail_act_t_us (clearDelayIfNeeded f s) = fb_com_fail_act_t_us s"
  by (simp_all add: clearDelayIfNeeded_def)

end
