(* ===== verification/Failsafe_Select.thy ===== *)
theory Failsafe_Select
  imports Failsafe_Table
begin

text \<open>
  The selection of an action: the loop over the table computes the most severe action, the
  fall-through switch computes the first feasible action of a fixed chain, and the result of
  \<^verbatim>\<open>getSelectedAction\<close> is always an action the vehicle can carry out.
\<close>

section \<open>The worst action of the table\<close>

abbreviation active_entry :: "ActionOptions \<Rightarrow> bool" where
  "active_entry a \<equiv> ao_valid a \<and> ao_action a \<noteq> A_None"

definition worst :: "ActionOptions list \<Rightarrow> Action" where
  "worst as = fst (select_worst as)"

definition worst_takeover :: "ActionOptions list \<Rightarrow> UserTakeoverAllowed" where
  "worst_takeover as = fst (snd (snd (select_worst as)))"

definition all_deferrable :: "ActionOptions list \<Rightarrow> bool" where
  "all_deferrable as = snd (snd (snd (select_worst as)))"

lemma select_step_max:
  "fst (select_step a w) = (if active_entry a then max (fst w) (ao_action a) else fst w)"
  "fst (snd (snd (select_step a w))) =
     (if active_entry a then max (fst (snd (snd w))) (ao_allow_user_takeover a)
      else fst (snd (snd w)))"
  "snd (snd (snd (select_step a w))) \<longleftrightarrow>
     snd (snd (snd w)) \<and> (active_entry a \<longrightarrow> ao_can_be_deferred a)"
  by (cases w; auto simp: max_def not_less)+

lemma fold_select_step:
  "fst (fold select_step as w) = foldr max (map ao_action (filter active_entry as)) (fst w)"
  "fst (snd (snd (fold select_step as w))) =
     foldr max (map ao_allow_user_takeover (filter active_entry as)) (fst (snd (snd w)))"
  "snd (snd (snd (fold select_step as w))) \<longleftrightarrow>
     snd (snd (snd w)) \<and> (\<forall>a \<in> set as. active_entry a \<longrightarrow> ao_can_be_deferred a)"
proof (induction as arbitrary: w)
  case (Cons a as)
  have max_in: "foldr max ys (max (x :: 'b :: linorder) y) = max y (foldr max ys x)" for ys x y
    by (induction ys) (simp_all add: max.left_commute max.commute)
  case 1
  show ?case by (simp add: Cons.IH(1) select_step_max max_in)
  case 2
  show ?case by (simp add: Cons.IH(2) select_step_max max_in)
  case 3
  show ?case by (auto simp: Cons.IH(3) select_step_max)
qed simp_all

lemma foldr_max_ge: "x \<in> set xs \<Longrightarrow> (x :: 'a :: linorder) \<le> foldr max xs b"
  by (induction xs) (auto simp: le_max_iff_disj)

lemma foldr_max_mem: "foldr max xs b = b \<or> foldr max xs (b :: 'a :: linorder) \<in> set xs"
  by (induction xs) (auto simp: max_def)

lemma worst_ge: "a \<in> set as \<Longrightarrow> ao_valid a \<Longrightarrow> ao_action a \<le> worst as"
  by (cases "ao_action a = A_None")
     (auto simp: worst_def select_worst_def fold_select_step intro!: foldr_max_ge)

lemma worst_mem: "worst as = A_None \<or> (\<exists>a \<in> set as. ao_valid a \<and> ao_action a = worst as)"
  using foldr_max_mem [of "map ao_action (filter active_entry as)" A_None]
  by (auto simp: worst_def select_worst_def fold_select_step)

lemma worst_takeover_ge:
  "a \<in> set as \<Longrightarrow> active_entry a \<Longrightarrow> ao_allow_user_takeover a \<le> worst_takeover as"
  by (auto simp: worst_takeover_def select_worst_def fold_select_step intro!: foldr_max_ge)

lemma all_deferrable_iff:
  "all_deferrable as \<longleftrightarrow> (\<forall>a \<in> set as. active_entry a \<longrightarrow> ao_can_be_deferred a)"
  by (auto simp: all_deferrable_def select_worst_def fold_select_step)

lemma worst_not_Count: "table_ok as \<Longrightarrow> worst as \<noteq> A_Count"
  using worst_mem [of as] by (auto simp: table_ok_def list_all_iff)

section \<open>The fall-through switch\<close>

definition fallback_chain :: "Action list" where
  "fallback_chain = [A_FallbackPosCtrl, A_FallbackAltCtrl, A_FallbackStab, A_Hold, A_RTL, A_Land,
     A_Descend, A_Terminate]"

text \<open>An action that changes no mode is always feasible, any other needs its mode to run.\<close>

definition feasible :: "failsafe_flags_s \<Rightarrow> Action \<Rightarrow> bool" where
  "feasible f a \<longleftrightarrow> a \<in> {A_None, A_Warn, A_Disarm, A_Terminate} \<or>
     a \<noteq> A_Count \<and> modeCanRun f (modeFromAction a 0)"

lemmas try_defs =
  try_descend_def try_land_def try_rtl_def try_hold_def try_stab_def try_altctl_def try_posctl_def

lemma fallback_switch_chain:
  "a \<in> set fallback_chain \<Longrightarrow>
     fst (fallback_switch f a c) = hd (filter (\<lambda>b. a \<le> b \<and> feasible f b) fallback_chain)"
  by (cases a) (simp_all add: fallback_chain_def feasible_def try_defs action_order)

lemma fallback_switch_other [simp]:
  "a \<notin> set fallback_chain \<Longrightarrow> fallback_switch f a c = (a, c)"
  by (cases a) (simp_all add: fallback_chain_def)

lemma not_in_chain:
  "a \<notin> set fallback_chain \<longleftrightarrow> a \<in> {A_None, A_Warn, A_Disarm, A_Count}"
  by (cases a) (simp_all add: fallback_chain_def)

lemma fallback_switch_mem:
  assumes "a \<in> set fallback_chain"
  shows "fst (fallback_switch f a c) \<in> set (filter (\<lambda>b. a \<le> b \<and> feasible f b) fallback_chain)"
proof -
  have "A_Terminate \<in> set (filter (\<lambda>b. a \<le> b \<and> feasible f b) fallback_chain)"
    using assms by (auto simp: fallback_chain_def feasible_def action_order)
  then have "filter (\<lambda>b. a \<le> b \<and> feasible f b) fallback_chain \<noteq> []"
    by (metis empty_iff empty_set)
  then show ?thesis unfolding fallback_switch_chain [OF assms] by (rule hd_in_set)
qed

lemma fallback_switch_feasible:
  "a \<noteq> A_Count \<Longrightarrow> feasible f (fst (fallback_switch f a c))"
  using fallback_switch_mem [of a f c]
  by (cases "a \<in> set fallback_chain") (auto simp: not_in_chain feasible_def [of f a])

lemma fallback_switch_ge: "a \<le> fst (fallback_switch f a c)"
  using fallback_switch_mem [of a f c]
  by (cases "a \<in> set fallback_chain") auto

lemma fallback_switch_id:
  "feasible f a \<Longrightarrow> fallback_switch f a c = (a, c)"
  by (cases a) (simp_all add: feasible_def try_defs)

section \<open>The whole selection\<close>

lemma soften_cases: "soften f m (a, d) = (a, d) \<or> soften f m (a, d) = (A_Warn, A_None)"
  by (auto simp: soften_def soften_step_def)

lemma soften_id:
  "a \<notin> {A_RTL, A_Land} \<Longrightarrow> d \<notin> {A_RTL, A_Land} \<Longrightarrow> soften f m (a, d) = (a, d)"
  by (auto simp: soften_def soften_step_def)

lemmas worst_defs = worst_def worst_takeover_def all_deferrable_def

text \<open>The case in which the table decides: not terminated, armed, nothing deferred.\<close>

definition main_branch :: "fs_vehicle_state \<Rightarrow> 'a FailsafeBase_scheme \<Rightarrow> bool" where
  "main_branch state s \<longleftrightarrow>
     st_user_intended_mode state \<noteq> NAVIGATION_STATE_TERMINATION \<and>
     fb_selected_action s \<noteq> A_Terminate \<and> st_armed state \<and>
     \<not> (fb_defer_failsafes s \<and> all_deferrable (fb_actions s) \<and> worst (fb_actions s) \<noteq> A_None)"

definition after_delay ::
  "fs_vehicle_state \<Rightarrow> 'a FailsafeBase_scheme \<Rightarrow> SelectedActionState \<times> UserTakeoverAllowed" where
  "after_delay state s =
     delayed_selection s (worst_takeover (fb_actions s))
       (SelectedActionState_init
         \<lparr>sas_updated_user_intended_mode := st_user_intended_mode state,
          sas_cause := fst (snd (select_worst (fb_actions s))),
          sas_action := worst (fb_actions s)\<rparr>)"

definition takes_over ::
  "fs_vehicle_state \<Rightarrow> bool \<Rightarrow> bool \<Rightarrow> 'a FailsafeBase_scheme \<Rightarrow> bool" where
  "takes_over state u r s \<longleftrightarrow>
     actionAllowsUserTakeover (sas_action (fst (after_delay state s))) \<and>
     takeover_allowed s (snd (after_delay state s)) u r"

text \<open>The selection before the fall-through switch.\<close>

definition before_switch ::
  "('a FailsafeBase_scheme \<Rightarrow> failsafe_flags_s \<Rightarrow> u8 \<Rightarrow> Action) \<Rightarrow> fs_vehicle_state \<Rightarrow>
   failsafe_flags_s \<Rightarrow> bool \<Rightarrow> bool \<Rightarrow> 'a FailsafeBase_scheme \<Rightarrow> SelectedActionState" where
  "before_switch cmf state f u r s =
    (if takes_over state u r s
     then take_over cmf s (fb_user_takeover_active s) f r (fst (after_delay state s))
     else fst (after_delay state s))"

lemma getSelectedAction_terminated:
  "st_user_intended_mode state = NAVIGATION_STATE_TERMINATION \<or> fb_selected_action s = A_Terminate
   \<Longrightarrow> fst (getSelectedAction cmf state f u r s) =
     SelectedActionState_init\<lparr>sas_updated_user_intended_mode := st_user_intended_mode state,
       sas_action := A_Terminate\<rparr>"
  by (auto simp: getSelectedAction_def Let_def SelectedActionState_init_def)

lemma getSelectedAction_disarmed:
  "st_user_intended_mode state \<noteq> NAVIGATION_STATE_TERMINATION \<Longrightarrow>
   fb_selected_action s \<noteq> A_Terminate \<Longrightarrow> \<not> st_armed state \<Longrightarrow>
   fst (getSelectedAction cmf state f u r s) =
     SelectedActionState_init\<lparr>sas_updated_user_intended_mode := st_user_intended_mode state\<rparr>"
  by (auto simp: getSelectedAction_def Let_def SelectedActionState_init_def)

lemma getSelectedAction_deferred:
  assumes "st_user_intended_mode state \<noteq> NAVIGATION_STATE_TERMINATION"
    and "fb_selected_action s \<noteq> A_Terminate" and "st_armed state" and "\<not> main_branch state s"
  shows "sas_action (fst (getSelectedAction cmf state f u r s)) = A_None"
    and "sas_delayed_action (fst (getSelectedAction cmf state f u r s)) = A_None"
    and "sas_failsafe_deferred (fst (getSelectedAction cmf state f u r s)) \<longleftrightarrow>
      A_Warn < worst (fb_actions s)"
    and "\<not> sas_user_takeover (fst (getSelectedAction cmf state f u r s))"
    and "sas_updated_user_intended_mode (fst (getSelectedAction cmf state f u r s)) =
      st_user_intended_mode state"
  using assms unfolding getSelectedAction_def main_branch_def
  by (cases "select_worst (fb_actions s)",
      simp_all add: Let_def SelectedActionState_init_def worst_defs)+

lemma getSelectedAction_main_eq:
  assumes "main_branch state s" and p: "p = before_switch cmf state f u r s"
    and a: "fallback_switch f (sas_action p) (sas_cause p) = (a, c)"
    and d: "soften f (sas_updated_user_intended_mode p) (a, sas_delayed_action p) = (a', d)"
  shows "fst (getSelectedAction cmf state f u r s) =
    p\<lparr>sas_action := a', sas_cause := c, sas_delayed_action := d\<rparr>"
proof -
  obtain wa wc wt wd where w: "select_worst (fb_actions s) = (wa, wc, wt, wd)"
    by (metis surj_pair)
  obtain q t where q: "delayed_selection s wt
      \<lparr>sas_action = wa, sas_delayed_action = A_None, sas_cause = wc,
       sas_updated_user_intended_mode = st_user_intended_mode state, sas_user_takeover = False,
       sas_failsafe_deferred = False\<rparr> = (q, t)"
    by (metis surj_pair)
  have ad: "after_delay state s = (q, t)"
    by (simp add: after_delay_def SelectedActionState_init_def w worst_defs q)
  note unfold = getSelectedAction_def main_branch_def worst_defs w SelectedActionState_init_def q
    Let_def
  show ?thesis
  proof (cases "takes_over state u r s")
    case True
    then have "take_over cmf s (fb_user_takeover_active s) f r q = p"
      by (simp add: p before_switch_def ad)
    with True assms(1) show ?thesis
      by (cases "fb_user_takeover_active s") (auto simp: unfold takes_over_def ad a d)
  next
    case False
    then have "q = p" by (simp add: p before_switch_def ad)
    with False assms(1) show ?thesis
      by (cases "fb_user_takeover_active s") (auto simp: unfold takes_over_def ad a d)
  qed
qed

lemma getSelectedAction_main:
  assumes "main_branch state s" and p: "p = before_switch cmf state f u r s"
  shows "(sas_action (fst (getSelectedAction cmf state f u r s)),
          sas_delayed_action (fst (getSelectedAction cmf state f u r s))) =
      soften f (sas_updated_user_intended_mode p)
        (fst (fallback_switch f (sas_action p) (sas_cause p)), sas_delayed_action p)"
    and "sas_failsafe_deferred (fst (getSelectedAction cmf state f u r s)) =
      sas_failsafe_deferred p"
    and "sas_user_takeover (fst (getSelectedAction cmf state f u r s)) = sas_user_takeover p"
    and "sas_updated_user_intended_mode (fst (getSelectedAction cmf state f u r s)) =
      sas_updated_user_intended_mode p"
proof -
  obtain a c where a: "fallback_switch f (sas_action p) (sas_cause p) = (a, c)"
    by (metis surj_pair)
  obtain a' d where d: "soften f (sas_updated_user_intended_mode p) (a, sas_delayed_action p) = (a', d)"
    by (metis surj_pair)
  note * = getSelectedAction_main_eq [OF assms(1) p a d]
  show "(sas_action (fst (getSelectedAction cmf state f u r s)),
      sas_delayed_action (fst (getSelectedAction cmf state f u r s))) =
      soften f (sas_updated_user_intended_mode p)
        (fst (fallback_switch f (sas_action p) (sas_cause p)), sas_delayed_action p)"
    by (simp add: * a d)
qed (simp_all add: getSelectedAction_main_eq [OF assms(1) p surjective_pairing surjective_pairing])

lemma getSelectedAction_cases:
  obtains (main) "main_branch state s"
  | (early) "sas_action (fst (getSelectedAction cmf state f u r s)) \<in> {A_None, A_Terminate}"
      "sas_delayed_action (fst (getSelectedAction cmf state f u r s)) = A_None"
      "\<not> sas_user_takeover (fst (getSelectedAction cmf state f u r s))"
      "sas_updated_user_intended_mode (fst (getSelectedAction cmf state f u r s)) =
         st_user_intended_mode state"
proof (cases "main_branch state s")
  case not_main: False
  consider (t) "st_user_intended_mode state = NAVIGATION_STATE_TERMINATION \<or>
      fb_selected_action s = A_Terminate"
    | (d) "\<not> st_armed state" "st_user_intended_mode state \<noteq> NAVIGATION_STATE_TERMINATION"
        "fb_selected_action s \<noteq> A_Terminate"
    | (f) "st_armed state" "st_user_intended_mode state \<noteq> NAVIGATION_STATE_TERMINATION"
        "fb_selected_action s \<noteq> A_Terminate" by auto
  then show thesis
  proof cases
    case t
    show thesis
      by (rule early) (simp_all add: getSelectedAction_terminated [OF t]
          SelectedActionState_init_def)
  next
    case d
    show thesis
      by (rule early) (simp_all add: getSelectedAction_disarmed [OF d(2,3,1)]
          SelectedActionState_init_def)
  next
    case f
    show thesis
      by (rule early)
         (simp_all add: getSelectedAction_deferred [OF f(2,3,1) not_main])
  qed
qed (rule main)

section \<open>Facts about the selection before the switch\<close>

lemma after_delay_simps [simp]:
  "sas_user_takeover (fst (after_delay state s)) \<longleftrightarrow> False"
  "sas_failsafe_deferred (fst (after_delay state s)) \<longleftrightarrow> False"
  "sas_updated_user_intended_mode (fst (after_delay state s)) = st_user_intended_mode state"
  by (simp_all add: after_delay_def delayed_selection_def SelectedActionState_init_def)

lemma after_delay_cases:
  obtains (delayed) "fb_current_delay s > 0" "action_can_be_delayed (worst (fb_actions s))"
      "worst_takeover (fb_actions s) \<le> UT_AlwaysModeSwitchOnly"
      "sas_action (fst (after_delay state s)) = A_Hold"
      "sas_delayed_action (fst (after_delay state s)) = worst (fb_actions s)"
      "snd (after_delay state s) = UT_AlwaysModeSwitchOnly"
  | (direct) "sas_action (fst (after_delay state s)) = worst (fb_actions s)"
      "sas_delayed_action (fst (after_delay state s)) = A_None"
      "snd (after_delay state s) = worst_takeover (fb_actions s)"
proof (cases "fb_current_delay s > 0 \<and> \<not> fb_user_takeover_active s \<and>
    worst_takeover (fb_actions s) \<le> UT_AlwaysModeSwitchOnly \<and>
    action_can_be_delayed (worst (fb_actions s))")
  case True
  then show thesis
    by (intro delayed) (simp_all add: after_delay_def delayed_selection_def SelectedActionState_init_def)
next
  case False
  then show thesis
    by (intro direct) (auto simp: after_delay_def delayed_selection_def SelectedActionState_init_def)
qed

lemma take_over_simps [simp]:
  "sas_user_takeover (take_over cmf s b f r p)"
  "sas_delayed_action (take_over cmf s b f r p) = A_None"
  "sas_failsafe_deferred (take_over cmf s b f r p) = sas_failsafe_deferred p"
  "sas_updated_user_intended_mode (take_over cmf s b f r p) =
     (if \<not> b \<and> r then NAVIGATION_STATE_POSCTL else sas_updated_user_intended_mode p)"
  "sas_action (take_over cmf s b f r p) =
     max A_Warn (cmf s f (if \<not> b \<and> r then NAVIGATION_STATE_POSCTL
                          else sas_updated_user_intended_mode p))"
  by (auto simp: take_over_def Let_def max_def)

lemma before_switch_simps [simp]:
  "sas_user_takeover (before_switch cmf state f u r s) = takes_over state u r s"
  "sas_failsafe_deferred (before_switch cmf state f u r s) \<longleftrightarrow> False"
  "sas_updated_user_intended_mode (before_switch cmf state f u r s) =
     (if takes_over state u r s \<and> \<not> fb_user_takeover_active s \<and> r
      then NAVIGATION_STATE_POSCTL else st_user_intended_mode state)"
  by (auto simp: before_switch_def)

lemma before_switch_not_Count:
  assumes "table_ok (fb_actions s)" and "\<And>m. cmf s f m \<noteq> A_Count"
  shows "sas_action (before_switch cmf state f u r s) \<noteq> A_Count"
proof (cases "takes_over state u r s")
  case True
  with assms(2) show ?thesis by (simp add: before_switch_def max_def)
next
  case False
  with worst_not_Count [OF assms(1)] show ?thesis
    by (cases rule: after_delay_cases [of s state]) (simp_all add: before_switch_def)
qed

lemma before_switch_delayed:
  assumes "sas_delayed_action (before_switch cmf state f u r s) \<noteq> A_None"
  shows "sas_action (before_switch cmf state f u r s) = A_Hold \<and> fb_current_delay s > 0"
proof (cases "takes_over state u r s")
  case True
  with assms show ?thesis by (simp add: before_switch_def)
next
  case False
  with assms show ?thesis
    by (cases rule: after_delay_cases [of s state]) (simp_all add: before_switch_def)
qed

text \<open>Actions that bypass delay and takeover.\<close>

lemma before_switch_immediate:
  assumes "worst (fb_actions s) \<in> {A_None, A_Warn, A_Disarm, A_Terminate}"
  shows "\<not> takes_over state u r s"
    and "sas_action (before_switch cmf state f u r s) = worst (fb_actions s)"
    and "sas_delayed_action (before_switch cmf state f u r s) = A_None"
proof -
  have *: "sas_action (fst (after_delay state s)) = worst (fb_actions s) \<and>
      sas_delayed_action (fst (after_delay state s)) = A_None"
    using assms by (cases rule: after_delay_cases [of s state])
      (auto simp: action_can_be_delayed_def)
  then show no: "\<not> takes_over state u r s"
    using assms by (auto simp: takes_over_def actionAllowsUserTakeover_def)
  from no * show "sas_action (before_switch cmf state f u r s) = worst (fb_actions s)"
    and "sas_delayed_action (before_switch cmf state f u r s) = A_None"
    by (simp_all add: before_switch_def)
qed

section \<open>What the selection guarantees\<close>

lemma getSelectedAction_feasible:
  assumes "table_ok (fb_actions s)" and "\<And>m. cmf s f m \<noteq> A_Count"
  shows "feasible f (sas_action (fst (getSelectedAction cmf state f u r s)))"
proof (cases rule: getSelectedAction_cases [of state s _ cmf f u r])
  case main
  note m = getSelectedAction_main(1) [OF main refl, of cmf f u r]
  let ?p = "before_switch cmf state f u r s"
  have "feasible f (fst (fallback_switch f (sas_action ?p) (sas_cause ?p)))"
    by (intro fallback_switch_feasible before_switch_not_Count assms)
  then show ?thesis
    using m soften_cases [of f "sas_updated_user_intended_mode ?p"
        "fst (fallback_switch f (sas_action ?p) (sas_cause ?p))" "sas_delayed_action ?p"]
    by (auto simp: feasible_def)
qed (auto simp: feasible_def)

text \<open>While a delay runs the vehicle holds, and Hold is not replaced by another mode.\<close>

lemma getSelectedAction_delayed:
  assumes "fb_current_delay s > 0 \<Longrightarrow> modeCanRun f NAVIGATION_STATE_AUTO_LOITER"
    and d: "sas_delayed_action (fst (getSelectedAction cmf state f u r s)) \<noteq> A_None"
  shows "sas_action (fst (getSelectedAction cmf state f u r s)) = A_Hold"
proof (cases rule: getSelectedAction_cases [of state s _ cmf f u r])
  case main
  let ?p = "before_switch cmf state f u r s"
  note m = getSelectedAction_main(1) [OF main refl, of cmf f u r]
  note c = soften_cases [of f "sas_updated_user_intended_mode ?p"
      "fst (fallback_switch f (sas_action ?p) (sas_cause ?p))" "sas_delayed_action ?p"]
  from m c d have "sas_delayed_action ?p \<noteq> A_None" by auto
  from before_switch_delayed [OF this] assms(1)
  have "feasible f (sas_action ?p)" and "sas_action ?p = A_Hold" by (auto simp: feasible_def)
  then have "fst (fallback_switch f (sas_action ?p) (sas_cause ?p)) = A_Hold"
    by (metis fallback_switch_id fst_conv)
  with m c d show ?thesis by auto
qed (use d in simp)

text \<open>A worst action that needs no mode is selected as it is.\<close>

lemma getSelectedAction_immediate:
  assumes "main_branch state s"
    and "worst (fb_actions s) \<in> {A_None, A_Warn, A_Disarm, A_Terminate}"
  shows "sas_action (fst (getSelectedAction cmf state f u r s)) = worst (fb_actions s)"
proof -
  note b = before_switch_immediate [OF assms(2)]
  have "feasible f (worst (fb_actions s))" using assms(2) by (auto simp: feasible_def)
  then have "fst (fallback_switch f (worst (fb_actions s)) c) = worst (fb_actions s)" for c
    by (metis fallback_switch_id fst_conv)
  moreover have "soften f m (worst (fb_actions s), A_None) = (worst (fb_actions s), A_None)" for m
    using assms(2) by (intro soften_id) auto
  ultimately show ?thesis
    using getSelectedAction_main(1) [OF assms(1) refl, of cmf f u r] b(2,3) by simp
qed

text \<open>A takeover needs every active action to permit it.\<close>

lemma getSelectedAction_takeover:
  assumes "sas_user_takeover (fst (getSelectedAction cmf state f u r s))"
    and "a \<in> set (fb_actions s)" and "active_entry a"
  shows "ao_allow_user_takeover a \<le> UT_AlwaysModeSwitchOnly"
proof (cases rule: getSelectedAction_cases [of state s _ cmf f u r])
  case main
  from assms(1) have "takes_over state u r s"
    by (simp add: getSelectedAction_main(3) [OF main refl])
  then have "worst_takeover (fb_actions s) \<le> UT_AlwaysModeSwitchOnly"
    by (cases rule: after_delay_cases [of s state])
       (auto simp: takes_over_def takeover_allowed_def Let_def takeover_order)
  with worst_takeover_ge [OF assms(2,3)] show ?thesis by (rule order_trans)
qed (use assms(1) in simp)

lemma getSelectedAction_not_deferred:
  assumes "\<not> all_deferrable (fb_actions s)"
  shows "\<not> sas_failsafe_deferred (fst (getSelectedAction cmf state f u r s))"
proof (cases "main_branch state s")
  case True
  then show ?thesis by (simp add: getSelectedAction_main(2) [OF True refl])
next
  case False
  consider "st_user_intended_mode state = NAVIGATION_STATE_TERMINATION \<or>
      fb_selected_action s = A_Terminate"
    | "\<not> st_armed state" "st_user_intended_mode state \<noteq> NAVIGATION_STATE_TERMINATION"
        "fb_selected_action s \<noteq> A_Terminate"
    using False assms by (auto simp: main_branch_def)
  then show ?thesis
    by cases (simp_all add: getSelectedAction_terminated getSelectedAction_disarmed
        SelectedActionState_init_def)
qed

lemma getSelectedAction_mode:
  "sas_updated_user_intended_mode (fst (getSelectedAction cmf state f u r s)) =
     st_user_intended_mode state \<or>
   sas_updated_user_intended_mode (fst (getSelectedAction cmf state f u r s)) =
     NAVIGATION_STATE_POSCTL \<and> r"
proof (cases rule: getSelectedAction_cases [of state s _ cmf f u r])
  case main
  show ?thesis by (simp add: getSelectedAction_main(4) [OF main refl])
qed simp

end
