(* ===== verification/Failsafe_Machine.thy ===== *)
theory Failsafe_Machine
  imports Failsafe_Select
begin

text \<open>
  The update step of the state machine for any subclass. The locale \<open>failsafe_hooks\<close> is the
  contract between \<^verbatim>\<open>FailsafeBase\<close> and the virtual methods a subclass overrides: the checks only
  touch the table, the running delay, the pending notification and the takeover flag, and keep the
  table well formed.
\<close>

section \<open>The parts of an update\<close>

definition prepared ::
  "'a FailsafeBase_scheme failsafe_vtable \<Rightarrow> hrt_abstime \<Rightarrow> fs_vehicle_state \<Rightarrow> bool \<Rightarrow>
   failsafe_flags_s \<Rightarrow> 'a FailsafeBase_scheme \<Rightarrow> 'a FailsafeBase_scheme" where
  "prepared vt t st u f s =
     clearDelayIfNeeded f (removeNonActivatedActions
       (vt_checkStateAndMode vt t st f
         (begin_update t st
           (u \<or> fb_last_user_intended_mode s \<noteq> st_user_intended_mode st) s)))"

definition selection ::
  "'a FailsafeBase_scheme failsafe_vtable \<Rightarrow> hrt_abstime \<Rightarrow> fs_vehicle_state \<Rightarrow> bool \<Rightarrow> bool \<Rightarrow>
   failsafe_flags_s \<Rightarrow> 'a FailsafeBase_scheme \<Rightarrow> SelectedActionState" where
  "selection vt t st u r f s =
     fst (getSelectedAction (vt_checkModeFallback vt) st f
       (u \<or> fb_last_user_intended_mode s \<noteq> st_user_intended_mode st) r (prepared vt t st u f s))"

abbreviation updated ::
  "'a FailsafeBase_scheme failsafe_vtable \<Rightarrow> hrt_abstime \<Rightarrow> fs_vehicle_state \<Rightarrow> bool \<Rightarrow> bool \<Rightarrow>
   failsafe_flags_s \<Rightarrow> 'a FailsafeBase_scheme \<Rightarrow> 'a FailsafeBase_scheme" where
  "updated vt t st u r f s \<equiv> snd (snd (update vt t st u r f s))"

lemma updated_eq:
  "updated vt t st u r f s =
     snd (finish_update (vt_modifyUserIntendedMode vt) t st f (selection vt t st u r f s)
       (prepared vt t st u f s))"
  by (simp add: update_def prepared_def selection_def Let_def split: prod.split)

lemma update_mode:
  "fst (update vt t st u r f s) =
     vt_modifyUserIntendedMode vt (fb_selected_action (prepared vt t st u f s))
       (sas_action (selection vt t st u r f s))
       (sas_updated_user_intended_mode (selection vt t st u r f s))"
  by (simp add: update_def prepared_def selection_def finish_update_def Let_def
      updateStartDelay_def updateFailsafeDeferState_def split: prod.split)

lemma finish_update_simps [simp]:
  "fb_actions (snd (finish_update mm t st f a s)) = fb_actions s"
  "fb_selected_action (snd (finish_update mm t st f a s)) = sas_action a"
  "fb_user_takeover_active (snd (finish_update mm t st f a s)) = sas_user_takeover a"
  "fb_last_armed (snd (finish_update mm t st f a s)) = st_armed st"
  "fb_last_status_flags (snd (finish_update mm t st f a s)) = f"
  "fb_last_update (snd (finish_update mm t st f a s)) = t"
  "fb_current_delay (snd (finish_update mm t st f a s)) = fb_current_delay s"
  "fb_defer_failsafes (snd (finish_update mm t st f a s)) = fb_defer_failsafes s"
  "fb_defer_timeout (snd (finish_update mm t st f a s)) = fb_defer_timeout s"
  "fb_com_fail_act_t_us (snd (finish_update mm t st f a s)) = fb_com_fail_act_t_us s"
  "fb_pending_notification_cause (snd (finish_update mm t st f a s)) = C_Count"
  "fb_duplicate_reported_once (snd (finish_update mm t st f a s)) = fb_duplicate_reported_once s"
  "fb_last_user_intended_mode (snd (finish_update mm t st f a s)) =
     mm (fb_selected_action s) (sas_action a) (sas_updated_user_intended_mode a)"
  "fb_current_start_delay (snd (finish_update mm t st f a s)) =
     fb_current_start_delay (updateStartDelay (t - fb_last_update s)
       (sas_delayed_action a \<noteq> A_None) s)"
  "fb_failsafe_defer_started (snd (finish_update mm t st f a s)) =
     (if sas_failsafe_deferred a
      then if fb_failsafe_defer_started s = 0 then t else fb_failsafe_defer_started s else 0)"
  by (simp_all add: finish_update_def Let_def updateStartDelay_def updateFailsafeDeferState_def)

lemma begin_update_frame [simp]:
  "fb_selected_action (begin_update t st u s) = fb_selected_action s"
  "fb_current_start_delay (begin_update t st u s) = fb_current_start_delay s"
  "fb_com_fail_act_t_us (begin_update t st u s) = fb_com_fail_act_t_us s"
  "fb_com_fail_act_t_gt_0_1 (begin_update t st u s) = fb_com_fail_act_t_gt_0_1 s"
  "fb_failsafe_defer_started (begin_update t st u s) = fb_failsafe_defer_started s"
  "fb_defer_timeout (begin_update t st u s) = fb_defer_timeout s"
  "fb_last_status_flags (begin_update t st u s) = fb_last_status_flags s"
  "fb_duplicate_reported_once (begin_update t st u s) = fb_duplicate_reported_once s"
  "FailsafeBase.more (begin_update t st u s) = FailsafeBase.more s"
  by (simp_all add: begin_update_def removeActions_def updateDelay_def Let_def)

lemma begin_update_delay: "fb_current_delay (begin_update t st u s) \<le> fb_current_delay s"
  by (auto simp: begin_update_def removeActions_def updateDelay_def Let_def word_sub_le)

lemma begin_update_table [fs_inv_intros]:
  "table_ok (fb_actions s) \<Longrightarrow> table_ok (fb_actions (begin_update t st u s))"
  by (simp add: begin_update_def updateDelay_def Let_def table_ok_removeActions)

lemma begin_update_defer:
  "fb_defer_failsafes (begin_update t st u s) \<longleftrightarrow>
     fb_defer_failsafes s \<and>
     \<not> (fb_failsafe_defer_started s \<noteq> 0 \<and> fb_defer_timeout s > 0 \<and>
        t > fb_failsafe_defer_started s + fb_defer_timeout s)"
  by (auto simp: begin_update_def removeActions_def updateDelay_def Let_def)

lemma clearDelay_loiter:
  "fb_current_delay (clearDelayIfNeeded f s) > 0 \<Longrightarrow>
     modeCanRun f NAVIGATION_STATE_AUTO_LOITER"
  by (auto simp: clearDelayIfNeeded_def split: if_splits)

lemma clearDelay_le: "fb_current_delay (clearDelayIfNeeded f s) \<le> fb_current_delay s"
  by (simp add: clearDelayIfNeeded_def)

lemma removeNonActivated_not_activated:
  "a \<in> set (fb_actions (removeNonActivatedActions s)) \<Longrightarrow> \<not> ao_activated a"
  by (auto simp: removeNonActivatedActions_def)

lemma updateStartDelay_le:
  assumes "fb_current_start_delay s \<le> fb_com_fail_act_t_us s"
  shows "fb_current_start_delay (updateStartDelay dt b s) \<le> fb_com_fail_act_t_us s"
proof -
  have "dt < d \<Longrightarrow> d \<le> c \<Longrightarrow> d - dt \<le> c" for d c :: hrt_abstime
    by (meson order_less_imp_le order_trans word_sub_le)
  with assms show ?thesis by (auto simp: updateStartDelay_def Let_def not_less)
qed

section \<open>The contract of the virtual methods\<close>

locale failsafe_hooks =
  fixes vt :: "'a FailsafeBase_scheme failsafe_vtable"
  assumes check_selected:
      "fb_selected_action (vt_checkStateAndMode vt t st f s) = fb_selected_action s"
    and check_last_update:
      "fb_last_update (vt_checkStateAndMode vt t st f s) = fb_last_update s"
    and check_defer:
      "fb_defer_failsafes (vt_checkStateAndMode vt t st f s) = fb_defer_failsafes s"
    and check_defer_started:
      "fb_failsafe_defer_started (vt_checkStateAndMode vt t st f s) = fb_failsafe_defer_started s"
    and check_start_delay:
      "fb_current_start_delay (vt_checkStateAndMode vt t st f s) = fb_current_start_delay s"
    and check_fail_act_t:
      "fb_com_fail_act_t_us (vt_checkStateAndMode vt t st f s) = fb_com_fail_act_t_us s"
    and check_delay:
      "fb_current_delay (vt_checkStateAndMode vt t st f s) \<in>
         {fb_current_delay s, fb_current_start_delay s}"
    and check_table:
      "table_ok (fb_actions s) \<Longrightarrow> table_ok (fb_actions (vt_checkStateAndMode vt t st f s))"
    and fallback_action: "vt_checkModeFallback vt s f m \<noteq> A_Count"
begin

lemma prepared_frame:
  "fb_selected_action (prepared vt t st u f s) = fb_selected_action s"
  "fb_current_start_delay (prepared vt t st u f s) = fb_current_start_delay s"
  "fb_com_fail_act_t_us (prepared vt t st u f s) = fb_com_fail_act_t_us s"
  "fb_failsafe_defer_started (prepared vt t st u f s) = fb_failsafe_defer_started s"
  "fb_defer_failsafes (prepared vt t st u f s) = fb_defer_failsafes (begin_update t st u s)"
  by (simp_all add: prepared_def check_selected check_start_delay check_fail_act_t
      check_defer_started check_defer begin_update_defer)

lemma prepared_table:
  "table_ok (fb_actions s) \<Longrightarrow> table_ok (fb_actions (prepared vt t st u f s))"
  by (simp add: prepared_def table_ok_removeNonActivatedActions check_table begin_update_table)

lemma prepared_delay:
  assumes "fb_current_delay s \<le> T" and "fb_current_start_delay s \<le> T"
  shows "fb_current_delay (prepared vt t st u f s) \<le> T"
proof -
  let ?u = "u \<or> fb_last_user_intended_mode s \<noteq> st_user_intended_mode st"
  have "fb_current_delay (vt_checkStateAndMode vt t st f (begin_update t st ?u s)) \<le> T"
    using check_delay [of t st f "begin_update t st ?u s"] assms
      order_trans [OF begin_update_delay [of t st ?u s] assms(1)] by auto
  then show ?thesis
    unfolding prepared_def
    using clearDelay_le order_trans by (metis removeNonActivatedActions_frame(8))
qed

lemma update_table:
  "table_ok (fb_actions s) \<Longrightarrow> table_ok (fb_actions (updated vt t st u r f s))"
  by (simp add: updated_eq prepared_table)

lemma update_not_activated:
  "a \<in> set (fb_actions (updated vt t st u r f s)) \<Longrightarrow> \<not> ao_activated a"
  by (simp add: updated_eq prepared_def removeNonActivated_not_activated)

lemma update_terminate_latch:
  "fb_selected_action s = A_Terminate \<Longrightarrow> fb_selected_action (updated vt t st u r f s) = A_Terminate"
  by (simp add: updated_eq selection_def getSelectedAction_terminated prepared_frame)

lemma update_disarmed:
  "\<not> st_armed st \<Longrightarrow> st_user_intended_mode st \<noteq> NAVIGATION_STATE_TERMINATION \<Longrightarrow>
   fb_selected_action s \<noteq> A_Terminate \<Longrightarrow> fb_selected_action (updated vt t st u r f s) = A_None"
  by (simp add: updated_eq selection_def getSelectedAction_disarmed prepared_frame
      SelectedActionState_init_def)

lemma update_feasible:
  "table_ok (fb_actions s) \<Longrightarrow> feasible f (fb_selected_action (updated vt t st u r f s))"
  by (simp add: updated_eq selection_def getSelectedAction_feasible prepared_table fallback_action)

lemma update_start_delay:
  "fb_current_start_delay s \<le> fb_com_fail_act_t_us s \<Longrightarrow>
   fb_current_start_delay (updated vt t st u r f s) \<le>
     fb_com_fail_act_t_us (updated vt t st u r f s)"
  using updateStartDelay_le [of "prepared vt t st u f s"]
  by (simp add: updated_eq prepared_frame)

lemma update_fail_act_t:
  "fb_com_fail_act_t_us (updated vt t st u r f s) = fb_com_fail_act_t_us s"
  by (simp add: updated_eq prepared_frame)

lemma update_delay:
  "fb_current_delay s \<le> T \<Longrightarrow> fb_current_start_delay s \<le> T \<Longrightarrow>
   fb_current_delay (updated vt t st u r f s) \<le> T"
  by (simp add: updated_eq prepared_delay)

text \<open>While an action is delayed the vehicle holds.\<close>

lemma update_delayed_hold:
  "sas_delayed_action (selection vt t st u r f s) \<noteq> A_None \<Longrightarrow>
   fb_selected_action (updated vt t st u r f s) = A_Hold"
  unfolding updated_eq selection_def finish_update_simps
  by (rule getSelectedAction_delayed) (auto simp: prepared_def intro: clearDelay_loiter)

text \<open>Once the deferral timeout has passed nothing is deferred any more.\<close>

lemma update_defer_timeout:
  assumes "fb_failsafe_defer_started s \<noteq> 0" and "fb_defer_timeout s > 0"
    and "t > fb_failsafe_defer_started s + fb_defer_timeout s"
  shows "\<not> fb_defer_failsafes (updated vt t st u r f s)"
    and "fb_failsafe_defer_started (updated vt t st u r f s) = 0"
proof -
  have no: "\<not> fb_defer_failsafes (prepared vt t st u f s)"
    using assms by (simp add: prepared_frame begin_update_defer)
  then show "\<not> fb_defer_failsafes (updated vt t st u r f s)" by (simp add: updated_eq)
  let ?p = "prepared vt t st u f s"
  have "\<not> sas_failsafe_deferred (selection vt t st u r f s)"
  proof (cases "main_branch st ?p")
    case True
    then show ?thesis by (simp add: selection_def getSelectedAction_main(2) [OF True refl])
  next
    case False
    with no show ?thesis
      using getSelectedAction_terminated [of st ?p] getSelectedAction_disarmed [of st ?p]
      unfolding selection_def main_branch_def
      by (cases "st_user_intended_mode st = NAVIGATION_STATE_TERMINATION \<or>
          fb_selected_action ?p = A_Terminate") (auto simp: SelectedActionState_init_def)
  qed
  then show "fb_failsafe_defer_started (updated vt t st u r f s) = 0" by (simp add: updated_eq)
qed

end

end
