(* ===== verification/Failsafe_Policy.thy ===== *)
theory Failsafe_Policy
  imports Failsafe_Framework
begin

text \<open>
  Class \<^verbatim>\<open>Failsafe\<close> of \<^verbatim>\<open>src/src/modules/commander/failsafe/failsafe.cpp\<close>: which conditions are
  checked in which mode and with which action. Its object state extends that of
  \<^verbatim>\<open>FailsafeBase\<close>; \<^verbatim>\<open>checkStateAndMode\<close> is one definition per block of the method, composed in
  the order of the code.
\<close>

section \<open>Object state\<close>

text \<open>
  The integer parameters. \<^verbatim>\<open>COM_SPOOLUP_TIME\<close> is a float that enters only as
  \<^verbatim>\<open>static_cast<hrt_abstime>(_param_com_spoolup_time.get() * 1_s)\<close>; the record holds that value.
\<close>

record failsafe_params =
  p_nav_dll_act :: int
  p_nav_rcl_act :: int
  p_com_rcl_except :: int
  p_com_dll_except :: int
  p_com_rc_in_mode :: int
  p_gf_action :: int
  p_com_spoolup_time_us :: hrt_abstime
  p_cbrk_flightterm :: int
  p_com_actuator_failure_act :: int
  p_com_low_bat_act :: int
  p_com_obl_rc_act :: int
  p_com_qc_act :: int
  p_com_wind_max_act :: int
  p_com_fltt_low_act :: int
  p_com_pos_low_act :: int
  p_com_arm_odid :: int
  p_com_parachute :: int
  p_com_traff_avoid :: int
  p_com_gnssloss_act :: int

text \<open>The identifiers generated by \<^verbatim>\<open>genCallerId()\<close> for the conditions that are not a flag.\<close>

datatype GenId =
    gid_mode_fallback
  | gid_mission_control_lost
  | gid_battery_warning_low
  | gid_battery_warning_critical
  | gid_battery_warning_emergency
  | gid_fd_esc_arming
  | gid_battery_unhealthy_spoolup

record Failsafe = FailsafeBase +
  fs_caller_id :: "GenId \<Rightarrow> int"
  fs_last_state :: "GenId \<Rightarrow> bool"
  fs_armed_time :: hrt_abstime
  fs_was_armed :: bool
  fs_manual_control_lost_at_arming :: bool
  fs_battery_warning_at_arming :: u8
  fs_params :: failsafe_params

abbreviation CBRK_FLIGHTTERM_KEY :: int where
  "CBRK_FLIGHTTERM_KEY \<equiv> 121212"

definition circuit_breaker_enabled_by_val :: "int \<Rightarrow> int \<Rightarrow> bool" where
  "circuit_breaker_enabled_by_val breaker_val magic \<longleftrightarrow> breaker_val = magic"

text \<open>\<^verbatim>\<open>gcs_connection_loss_failsafe_mode::Disabled\<close>, \<^verbatim>\<open>RcInMode::DisableManualControl\<close>,
  \<^verbatim>\<open>open_drone_id_failsafe_mode::Return_mode\<close>.\<close>

abbreviation dll_Disabled :: int where "dll_Disabled \<equiv> 0"
abbreviation rc_DisableManualControl :: int where "rc_DisableManualControl \<equiv> 4"
abbreviation odid_Return_mode :: int where "odid_Return_mode \<equiv> 3"

text \<open>A check whose identifier was generated keeps its last state in a member.\<close>

definition check_generated :: "GenId \<Rightarrow> bool \<Rightarrow> ActionOptions \<Rightarrow> Failsafe \<Rightarrow> Failsafe" where
  "check_generated g cur_state_failure options s =
    (let s' = checkFailsafe (fs_caller_id s g) (fs_last_state s g) cur_state_failure options s
     in s'\<lparr>fs_last_state := (fs_last_state s')(g := cur_state_failure)\<rparr>)"

section \<open>Arming state\<close>

definition updateArmingState ::
  "hrt_abstime \<Rightarrow> bool \<Rightarrow> failsafe_flags_s \<Rightarrow> Failsafe \<Rightarrow> Failsafe" where
  "updateArmingState time_us armed status_flags s =
    (let s = (if \<not> fs_was_armed s \<and> armed
              then s\<lparr>fs_armed_time := time_us,
                     fs_manual_control_lost_at_arming :=
                       ff_flag status_flags manual_control_signal_lost,
                     fs_battery_warning_at_arming := ff_battery_warning status_flags\<rparr>
              else if \<not> armed
              then s\<lparr>fs_manual_control_lost_at_arming :=
                       ff_flag status_flags manual_control_signal_lost,
                     fs_armed_time := 0\<rparr>
              else s)
     in s\<lparr>fs_was_armed := armed\<rparr>)"

section \<open>Mode fallback\<close>

definition manualControlLossFallbackAction :: "Failsafe \<Rightarrow> Action" where
  "manualControlLossFallbackAction s =
     ao_action (fromNavDllOrRclActParam (p_nav_rcl_act (fs_params s)))"

text \<open>The steps of the fallback chain on the pair of action and intended mode.\<close>

definition posctl_fallback :: "failsafe_flags_s \<Rightarrow> Action \<times> u8 \<Rightarrow> Action \<times> u8" where
  "posctl_fallback status_flags am =
    (if (snd am = NAVIGATION_STATE_POSCTL \<or> snd am = NAVIGATION_STATE_POSITION_SLOW) \<and>
        \<not> modeCanRun status_flags (snd am)
     then (A_FallbackAltCtrl, NAVIGATION_STATE_ALTCTL) else am)"

definition altctl_fallback :: "failsafe_flags_s \<Rightarrow> Action \<times> u8 \<Rightarrow> Action \<times> u8" where
  "altctl_fallback status_flags am =
    (if snd am = NAVIGATION_STATE_ALTCTL \<and> \<not> modeCanRun status_flags (snd am)
     then (A_FallbackStab, NAVIGATION_STATE_STAB) else am)"

definition checkModeFallback :: "Failsafe \<Rightarrow> failsafe_flags_s \<Rightarrow> u8 \<Rightarrow> Action" where
  "checkModeFallback s status_flags user_intended_mode =
    (let am = (if ff_flag status_flags offboard_control_signal_lost \<and>
                  ff_mode_req status_flags mode_req_offboard_signal
                    AND bit_mask user_intended_mode \<noteq> 0
               then fromOffboardLossActParam (p_com_obl_rc_act (fs_params s)) user_intended_mode
               else (A_None, user_intended_mode))
     in
     if fst am = A_Disarm then A_Disarm
     else
       (let (action, user_intended_mode) =
              altctl_fallback status_flags (posctl_fallback status_flags am);
            action = (if ff_flag status_flags manual_control_signal_lost \<and>
                         manualControlFallbackAction action
                      then manualControlLossFallbackAction s else action)
        in if \<not> modeCanRun status_flags user_intended_mode then A_RTL else action))"

definition modifyUserIntendedMode :: "Action \<Rightarrow> Action \<Rightarrow> u8 \<Rightarrow> u8" where
  "modifyUserIntendedMode previous_action current_action user_intended_mode =
    (if previous_action \<le> A_Warn \<and> current_action > A_Warn \<and>
        user_intended_mode = NAVIGATION_STATE_ORBIT
     then NAVIGATION_STATE_AUTO_LOITER else user_intended_mode)"

section \<open>The checks\<close>

definition ignore_link_loss_vtol_takeoff :: "fs_vehicle_state \<Rightarrow> bool" where
  "ignore_link_loss_vtol_takeoff state \<longleftrightarrow>
    (let in_forward_flight =
           st_vehicle_type state = VEHICLE_TYPE_FIXED_WING \<or> st_vtol_in_transition_mode state
     in st_user_intended_mode state = NAVIGATION_STATE_AUTO_VTOL_TAKEOFF \<and>
        in_forward_flight \<and> \<not> st_mission_finished state)"

definition check_manual_control_loss ::
  "flags_layout \<Rightarrow> fs_vehicle_state \<Rightarrow> failsafe_flags_s \<Rightarrow> Failsafe \<Rightarrow> Failsafe" where
  "check_manual_control_loss L state status_flags s =
    (let s = (if \<not> ff_flag status_flags manual_control_signal_lost
              then s\<lparr>fs_manual_control_lost_at_arming := False\<rparr> else s);
         rc_loss_ignored =
           isFailsafeIgnored (st_user_intended_mode state) (p_com_rcl_except (fs_params s)) \<or>
           ignore_link_loss_vtol_takeoff state \<or> fs_manual_control_lost_at_arming s
     in if p_com_rc_in_mode (fs_params s) \<noteq> rc_DisableManualControl \<and> \<not> rc_loss_ignored
        then CHECK_FAILSAFE L status_flags manual_control_signal_lost
               (causedBy C_ManualControlLoss
                 (fromNavDllOrRclActParam (p_nav_rcl_act (fs_params s)))) s
        else s)"

definition check_gcs_connection_loss ::
  "flags_layout \<Rightarrow> fs_vehicle_state \<Rightarrow> failsafe_flags_s \<Rightarrow> Failsafe \<Rightarrow> Failsafe" where
  "check_gcs_connection_loss L state status_flags s =
    (let mode = st_user_intended_mode state;
         dll_loss_ignored_land =
           mode = NAVIGATION_STATE_AUTO_LAND \<or> mode = NAVIGATION_STATE_AUTO_PRECLAND;
         dll_loss_ignored =
           isFailsafeIgnored mode (p_com_dll_except (fs_params s)) \<or>
           ignore_link_loss_vtol_takeoff state \<or> dll_loss_ignored_land \<or> \<not> st_armed state
     in if p_nav_dll_act (fs_params s) \<noteq> dll_Disabled \<and> \<not> dll_loss_ignored
        then CHECK_FAILSAFE L status_flags gcs_connection_lost
               (causedBy C_GCSConnectionLoss
                 (fromNavDllOrRclActParam (p_nav_dll_act (fs_params s)))) s
        else s)"

definition check_quadchute ::
  "flags_layout \<Rightarrow> fs_vehicle_state \<Rightarrow> failsafe_flags_s \<Rightarrow> Failsafe \<Rightarrow> Failsafe" where
  "check_quadchute L state status_flags s =
    (if st_user_intended_mode state \<in> {NAVIGATION_STATE_AUTO_MISSION,
          NAVIGATION_STATE_AUTO_LOITER, NAVIGATION_STATE_AUTO_TAKEOFF,
          NAVIGATION_STATE_AUTO_VTOL_TAKEOFF}
     then CHECK_FAILSAFE L status_flags vtol_fixed_wing_system_failure
            (fromQuadchuteActParam (p_com_qc_act (fs_params s))) s
     else s)"

definition check_mission ::
  "flags_layout \<Rightarrow> fs_vehicle_state \<Rightarrow> failsafe_flags_s \<Rightarrow> Failsafe \<Rightarrow> Failsafe" where
  "check_mission L state status_flags s =
    (if st_user_intended_mode state = NAVIGATION_STATE_AUTO_MISSION then
       (let s = CHECK_FAILSAFE L status_flags mission_failure (actionOptions A_RTL) s
        in if (p_com_rc_in_mode (fs_params s) = rc_DisableManualControl \<or>
               isFailsafeIgnored (st_user_intended_mode state) (p_com_rcl_except (fs_params s))) \<and>
              p_nav_dll_act (fs_params s) = dll_Disabled \<and> st_mission_finished state
           then check_generated gid_mission_control_lost
                  (ff_flag status_flags gcs_connection_lost) (actionOptions A_RTL) s
           else s)
     else s)"

definition check_limits ::
  "flags_layout \<Rightarrow> fs_vehicle_state \<Rightarrow> failsafe_flags_s \<Rightarrow> Failsafe \<Rightarrow> Failsafe" where
  "check_limits L state status_flags s =
    (let mode = st_user_intended_mode state;
         s = CHECK_FAILSAFE L status_flags wind_limit_exceeded
               (cannotBeDeferred (fromHighWindLimitActParam (p_com_wind_max_act (fs_params s)))) s;
         s = CHECK_FAILSAFE L status_flags flight_time_limit_exceeded
               (cannotBeDeferred (actionOptions A_RTL)) s;
         s = (if mode = NAVIGATION_STATE_AUTO_MISSION \<or> mode = NAVIGATION_STATE_AUTO_LOITER
              then CHECK_FAILSAFE L status_flags position_accuracy_low
                     (fromPosLowActParam (p_com_pos_low_act (fs_params s))) s
              else s);
         s = CHECK_FAILSAFE L status_flags navigator_failure
               (if mode = NAVIGATION_STATE_AUTO_TAKEOFF \<or> mode = NAVIGATION_STATE_AUTO_RTL
                then clearOn OnModeChangeOrDisarm (actionOptions A_Land)
                else clearOn OnModeChangeOrDisarm (actionOptions A_Hold)) s
     in CHECK_FAILSAFE L status_flags geofence_breached
          (cannotBeDeferred (fromGfActParam (p_gf_action (fs_params s)))) s)"

text \<open>The first seconds after arming, while the motors spool up.\<close>

definition in_spoolup :: "hrt_abstime \<Rightarrow> Failsafe \<Rightarrow> bool" where
  "in_spoolup time_us s \<longleftrightarrow>
     fs_armed_time s \<noteq> 0 \<and> time_us < fs_armed_time s + p_com_spoolup_time_us (fs_params s)"

definition in_early_takeoff :: "hrt_abstime \<Rightarrow> Failsafe \<Rightarrow> bool" where
  "in_early_takeoff time_us s \<longleftrightarrow>
     fs_armed_time s \<noteq> 0 \<and>
     time_us < fs_armed_time s + p_com_spoolup_time_us (fs_params s) + time_s 3"

definition check_health ::
  "flags_layout \<Rightarrow> hrt_abstime \<Rightarrow> fs_vehicle_state \<Rightarrow> failsafe_flags_s \<Rightarrow> Failsafe \<Rightarrow> Failsafe"
where
  "check_health L time_us state status_flags s =
    (let s = CHECK_FAILSAFE L status_flags battery_low_remaining_time
               (fromRemainingFlightTimeLowActParam (p_com_fltt_low_act (fs_params s))) s;
         s = CHECK_FAILSAFE L status_flags battery_unhealthy
               (if in_spoolup time_us s then cannotBeDeferred (actionOptions A_Disarm)
                else actionOptions A_Warn) s;
         s = CHECK_FAILSAFE L status_flags parachute_unhealthy
               (fromParachuteActParam (p_com_parachute (fs_params s))) s;
         s = CHECK_FAILSAFE L status_flags traffic_avoidance_unhealthy
               (fromTrafficAvoidanceActParam (p_com_traff_avoid (fs_params s))) s
     in if st_armed state \<and> p_com_arm_odid (fs_params s) \<ge> odid_Return_mode
        then CHECK_FAILSAFE L status_flags remote_id_unhealthy
               (fromOdidFailActParam (p_com_arm_odid (fs_params s))) s
        else s)"

text \<open>\<^verbatim>\<open>LowBatteryAction::Warning = 0\<close>.\<close>

definition check_battery_warning :: "failsafe_flags_s \<Rightarrow> Failsafe \<Rightarrow> Failsafe" where
  "check_battery_warning status_flags s =
    (let w = ff_battery_warning status_flags;
         warning_worse_than_at_arming = w > fs_battery_warning_at_arming s;
         low_battery_action =
           (if warning_worse_than_at_arming then p_com_low_bat_act (fs_params s) else 0)
     in if w = WARNING_LOW
        then check_generated gid_battery_warning_low True
               (fromBatteryWarningActParam low_battery_action WARNING_LOW) s
        else if w = WARNING_CRITICAL
        then check_generated gid_battery_warning_critical True
               (fromBatteryWarningActParam low_battery_action WARNING_CRITICAL) s
        else if w = WARNING_EMERGENCY
        then check_generated gid_battery_warning_emergency True
               (fromBatteryWarningActParam low_battery_action WARNING_EMERGENCY) s
        else s)"

definition check_spoolup :: "hrt_abstime \<Rightarrow> failsafe_flags_s \<Rightarrow> Failsafe \<Rightarrow> Failsafe" where
  "check_spoolup time_us status_flags s =
    (if in_spoolup time_us s then
       (let s = check_generated gid_fd_esc_arming (ff_flag status_flags fd_esc_arming_failure)
                  (cannotBeDeferred (actionOptions A_Disarm)) s
        in check_generated gid_battery_unhealthy_spoolup (ff_flag status_flags battery_unhealthy)
             (cannotBeDeferred (actionOptions A_Disarm)) s)
     else s)"

text \<open>The action on a critical failure: disarm in the early takeoff phase, otherwise terminate
  unless the circuit breaker for flight termination is set.\<close>

definition fd_critical_options :: "hrt_abstime \<Rightarrow> Failsafe \<Rightarrow> ActionOptions" where
  "fd_critical_options time_us s =
    (if in_early_takeoff time_us s then cannotBeDeferred (actionOptions A_Disarm)
     else if \<not> circuit_breaker_enabled_by_val (p_cbrk_flightterm (fs_params s)) CBRK_FLIGHTTERM_KEY
     then cannotBeDeferred (actionOptions A_Terminate)
     else actionOptions A_Warn)"

definition check_failure_detector ::
  "flags_layout \<Rightarrow> hrt_abstime \<Rightarrow> failsafe_flags_s \<Rightarrow> Failsafe \<Rightarrow> Failsafe" where
  "check_failure_detector L time_us status_flags s =
    (let s = CHECK_FAILSAFE L status_flags fd_critical_failure (fd_critical_options time_us s) s;
         s = CHECK_FAILSAFE L status_flags fd_alt_loss (fd_critical_options time_us s) s;
         s = CHECK_FAILSAFE L status_flags fd_imbalanced_prop (actionOptions A_Warn) s;
         s = CHECK_FAILSAFE L status_flags fd_motor_failure
               (fromActuatorFailureActParam (p_com_actuator_failure_act (fs_params s))) s
     in CHECK_FAILSAFE L status_flags gnss_lost
          (fromGnssLossActParam (p_com_gnssloss_act (fs_params s))) s)"

definition check_mode_fallback ::
  "fs_vehicle_state \<Rightarrow> failsafe_flags_s \<Rightarrow> Failsafe \<Rightarrow> Failsafe" where
  "check_mode_fallback state status_flags s =
    (let mode_fallback_action = checkModeFallback s status_flags (st_user_intended_mode state)
     in check_generated gid_mode_fallback (mode_fallback_action \<noteq> A_None)
          (cannotBeDeferred (allowUserTakeover UT_Always (actionOptions mode_fallback_action))) s)"

definition checkStateAndMode ::
  "flags_layout \<Rightarrow> hrt_abstime \<Rightarrow> fs_vehicle_state \<Rightarrow> failsafe_flags_s \<Rightarrow> Failsafe \<Rightarrow> Failsafe"
where
  "checkStateAndMode L time_us state status_flags s =
    (let s = updateArmingState time_us (st_armed state) status_flags s;
         s = check_manual_control_loss L state status_flags s;
         s = check_gcs_connection_loss L state status_flags s;
         s = check_quadchute L state status_flags s;
         s = check_mission L state status_flags s;
         s = check_limits L state status_flags s;
         s = check_health L time_us state status_flags s;
         s = check_battery_warning status_flags s;
         s = check_spoolup time_us status_flags s;
         s = check_failure_detector L time_us status_flags s
     in check_mode_fallback state status_flags s)"

section \<open>The object\<close>

definition failsafe_vt :: "flags_layout \<Rightarrow> Failsafe failsafe_vtable" where
  "failsafe_vt L =
     \<lparr>vt_checkStateAndMode = checkStateAndMode L,
      vt_checkModeFallback = checkModeFallback,
      vt_modifyUserIntendedMode = modifyUserIntendedMode\<rparr>"

definition Failsafe_update ::
  "flags_layout \<Rightarrow> hrt_abstime \<Rightarrow> fs_vehicle_state \<Rightarrow> bool \<Rightarrow> bool \<Rightarrow> failsafe_flags_s \<Rightarrow>
   Failsafe \<Rightarrow> u8 \<times> notification list \<times> Failsafe" where
  "Failsafe_update L = update (failsafe_vt L)"

text \<open>
  The constructor: the member initialisers in declaration order, with the identifiers the seven
  calls of \<^verbatim>\<open>genCallerId\<close> return, and the start delay of the \<^verbatim>\<open>FailsafeBase\<close> constructor.
\<close>

definition generated_ids :: "int \<Rightarrow> GenId \<Rightarrow> int" where
  "generated_ids sizeof_flags g = sizeof_flags + 1 + (case g of
      gid_mode_fallback \<Rightarrow> 1
    | gid_mission_control_lost \<Rightarrow> 2
    | gid_battery_warning_low \<Rightarrow> 3
    | gid_battery_warning_critical \<Rightarrow> 4
    | gid_battery_warning_emergency \<Rightarrow> 5
    | gid_fd_esc_arming \<Rightarrow> 6
    | gid_battery_unhealthy_spoolup \<Rightarrow> 7)"

definition Failsafe_init ::
  "flags_layout \<Rightarrow> failsafe_params \<Rightarrow> hrt_abstime \<Rightarrow> bool \<Rightarrow> Failsafe" where
  "Failsafe_init L params fail_act_t_us fail_act_t_gt =
     \<lparr>fb_actions = replicate max_num_actions (actionOptions A_None),
      fb_last_update = 0, fb_last_armed = False, fb_last_user_intended_mode = 0,
      fb_last_status_flags = failsafe_flags_zero, fb_selected_action = A_None,
      fb_user_takeover_active = False, fb_pending_notification_cause = C_Count,
      fb_defer_failsafes = False, fb_defer_timeout = 0, fb_failsafe_defer_started = 0,
      fb_current_start_delay = fail_act_t_us, fb_current_delay = 0,
      fb_next_caller_id = fl_sizeof L + 1 + 7, fb_duplicate_reported_once = False,
      fb_on_notify_user_cb = False,
      fb_com_fail_act_t_us = fail_act_t_us, fb_com_fail_act_t_gt_0_1 = fail_act_t_gt,
      fs_caller_id = generated_ids (fl_sizeof L), fs_last_state = (\<lambda>_. False),
      fs_armed_time = 0, fs_was_armed = False, fs_manual_control_lost_at_arming = False,
      fs_battery_warning_at_arming = 0, fs_params = params\<rparr>"

end
