(* ===== verification/Failsafe_Checks.thy ===== *)
theory Failsafe_Checks
  imports Failsafe_Machine Failsafe_Policy
begin

text \<open>
  The checks of class \<^verbatim>\<open>Failsafe\<close> against the state machine. A property of the object that every
  single check keeps is kept by the whole method (locale \<open>check_invariant\<close>); with it the class
  meets the contract \<open>failsafe_hooks\<close>, so the guarantees of the state machine hold for it.
\<close>

section \<open>Frames of a single check\<close>

lemma entry_policy_frame [simp]:
  "fs_params (add_entry c j opt s) = fs_params s"
  "fs_caller_id (add_entry c j opt s) = fs_caller_id s"
  "fs_last_state (add_entry c j opt s) = fs_last_state s"
  "fs_armed_time (add_entry c j opt s) = fs_armed_time s"
  "fs_was_armed (add_entry c j opt s) = fs_was_armed s"
  "fs_manual_control_lost_at_arming (add_entry c j opt s) = fs_manual_control_lost_at_arming s"
  "fs_battery_warning_at_arming (add_entry c j opt s) = fs_battery_warning_at_arming s"
  by (simp_all add: add_entry_def Let_def)

lemma update_entry_policy_frame [simp]:
  "fs_params (update_entry j opt s) = fs_params s"
  "fs_caller_id (update_entry j opt s) = fs_caller_id s"
  "fs_last_state (update_entry j opt s) = fs_last_state s"
  "fs_armed_time (update_entry j opt s) = fs_armed_time s"
  "fs_was_armed (update_entry j opt s) = fs_was_armed s"
  "fs_manual_control_lost_at_arming (update_entry j opt s) = fs_manual_control_lost_at_arming s"
  "fs_battery_warning_at_arming (update_entry j opt s) = fs_battery_warning_at_arming s"
  by (simp_all add: update_entry_def Let_def)

lemma checkFailsafe_policy_frame [simp]:
  "fs_params (checkFailsafe c l cur opt s) = fs_params s"
  "fs_caller_id (checkFailsafe c l cur opt s) = fs_caller_id s"
  "fs_last_state (checkFailsafe c l cur opt s) = fs_last_state s"
  "fs_armed_time (checkFailsafe c l cur opt s) = fs_armed_time s"
  "fs_was_armed (checkFailsafe c l cur opt s) = fs_was_armed s"
  "fs_manual_control_lost_at_arming (checkFailsafe c l cur opt s) =
     fs_manual_control_lost_at_arming s"
  "fs_battery_warning_at_arming (checkFailsafe c l cur opt s) = fs_battery_warning_at_arming s"
  by (simp_all add: checkFailsafe_def split: option.split prod.split)

lemmas check_defs =
  check_manual_control_loss_def check_gcs_connection_loss_def check_quadchute_def
  check_mission_def check_limits_def check_health_def check_battery_warning_def
  check_spoolup_def check_failure_detector_def check_mode_fallback_def

section \<open>Mode fallback\<close>

lemma manualControlLossFallbackAction_cases:
  "manualControlLossFallbackAction s \<in>
     {A_None, A_Hold, A_RTL, A_Land, A_Terminate, A_Disarm}"
  by (simp add: manualControlLossFallbackAction_def fromNavDllOrRclActParam_def option_defs)

lemma checkModeFallback_not_Count: "checkModeFallback s f m \<noteq> A_Count"
proof -
  define am where "am = (if ff_flag f offboard_control_signal_lost \<and>
      ff_mode_req f mode_req_offboard_signal AND bit_mask m \<noteq> 0
    then fromOffboardLossActParam (p_com_obl_rc_act (fs_params s)) m else (A_None, m))"
  obtain a m' where c: "altctl_fallback f (posctl_fallback f am) = (a, m')"
    by (metis surj_pair)
  have "fst am \<noteq> A_Count"
    using fromOffboardLossActParam_action [of "p_com_obl_rc_act (fs_params s)" m]
    by (auto simp: am_def)
  with c have "a \<noteq> A_Count"
    by (auto simp: altctl_fallback_def posctl_fallback_def split: if_splits)
  then show ?thesis
    using manualControlLossFallbackAction_cases [of s]
    by (auto simp: checkModeFallback_def Let_def am_def [symmetric] c)
qed

section \<open>Invariants of the checks\<close>

locale check_invariant =
  fixes P :: "Failsafe \<Rightarrow> bool"
  assumes single: "ao_action opt \<noteq> A_Count \<Longrightarrow> P s \<Longrightarrow> P (checkFailsafe c l cur opt s)"
    and members: "P s \<Longrightarrow> P (s\<lparr>fs_last_state := ls\<rparr>)" "P s \<Longrightarrow> P (s\<lparr>fs_armed_time := at\<rparr>)"
      "P s \<Longrightarrow> P (s\<lparr>fs_was_armed := wa\<rparr>)"
      "P s \<Longrightarrow> P (s\<lparr>fs_manual_control_lost_at_arming := ml\<rparr>)"
      "P s \<Longrightarrow> P (s\<lparr>fs_battery_warning_at_arming := bw\<rparr>)"
begin

lemma flag_check: "fresh_options opt \<Longrightarrow> P s \<Longrightarrow> P (CHECK_FAILSAFE L f g opt s)"
  by (simp add: CHECK_FAILSAFE_def single fresh_options_def)

lemma generated_check: "fresh_options opt \<Longrightarrow> P s \<Longrightarrow> P (check_generated g b opt s)"
  by (simp add: check_generated_def Let_def members single fresh_options_def)

lemma arming: "P s \<Longrightarrow> P (updateArmingState t a f s)"
  unfolding updateArmingState_def Let_def
  by (auto intro!: members)

lemma pieces:
  "P s \<Longrightarrow> P (check_manual_control_loss L st f s)"
  "P s \<Longrightarrow> P (check_gcs_connection_loss L st f s)"
  "P s \<Longrightarrow> P (check_quadchute L st f s)"
  "P s \<Longrightarrow> P (check_mission L st f s)"
  "P s \<Longrightarrow> P (check_limits L st f s)"
  "P s \<Longrightarrow> P (check_health L t st f s)"
  "P s \<Longrightarrow> P (check_battery_warning f s)"
  "P s \<Longrightarrow> P (check_spoolup t f s)"
  "P s \<Longrightarrow> P (check_failure_detector L t f s)"
  "P s \<Longrightarrow> P (check_mode_fallback st f s)"
  by (simp_all add: check_defs Let_def flag_check generated_check members
      fd_critical_options_def checkModeFallback_not_Count)

lemma all_checks: "P s \<Longrightarrow> P (checkStateAndMode L t st f s)"
  by (simp add: checkStateAndMode_def Let_def arming pieces)

end

lemma checkFailsafe_delay:
  "fb_current_delay (checkFailsafe c l cur opt s) = fb_current_delay s \<or>
   fb_current_delay (checkFailsafe c l cur opt s) = fb_current_start_delay s"
  by (auto simp: checkFailsafe_def update_entry_def add_entry_def Let_def
      split: option.split prod.split)

interpretation base_frame: check_invariant
  "\<lambda>s. (fb_selected_action s, fb_last_update s, fb_defer_failsafes s, fb_failsafe_defer_started s,
        fb_current_start_delay s, fb_com_fail_act_t_us s, fs_params s, fs_caller_id s) = x" for x
  by unfold_locales auto

interpretation running_delay: check_invariant
  "\<lambda>s. fb_current_start_delay s = d \<and> fb_current_delay s \<in> {c, d}" for c d
proof
  fix opt s ca l cur
  assume "fb_current_start_delay s = d \<and> fb_current_delay s \<in> {c, d}"
  then show "fb_current_start_delay (checkFailsafe ca l cur opt s) = d \<and>
      fb_current_delay (checkFailsafe ca l cur opt s) \<in> {c, d}"
    using checkFailsafe_delay [of ca l cur opt s] by auto
qed simp_all

interpretation well_formed_table: check_invariant "\<lambda>s. table_ok (fb_actions s)"
  by unfold_locales (auto intro: table_ok_checkFailsafe)

lemma checkStateAndMode_frame [simp]:
  "fb_selected_action (checkStateAndMode L t st f s) = fb_selected_action s"
  "fb_last_update (checkStateAndMode L t st f s) = fb_last_update s"
  "fb_defer_failsafes (checkStateAndMode L t st f s) = fb_defer_failsafes s"
  "fb_failsafe_defer_started (checkStateAndMode L t st f s) = fb_failsafe_defer_started s"
  "fb_current_start_delay (checkStateAndMode L t st f s) = fb_current_start_delay s"
  "fb_com_fail_act_t_us (checkStateAndMode L t st f s) = fb_com_fail_act_t_us s"
  "fs_params (checkStateAndMode L t st f s) = fs_params s"
  "fs_caller_id (checkStateAndMode L t st f s) = fs_caller_id s"
  using base_frame.all_checks [OF refl, of L t st f s] by simp_all

section \<open>The class meets the contract\<close>

interpretation fs: failsafe_hooks "failsafe_vt L" for L
proof
  fix t st f s m
  show "fb_current_delay (vt_checkStateAndMode (failsafe_vt L) t st f s) \<in>
      {fb_current_delay s, fb_current_start_delay s}"
    using running_delay.all_checks [of s "fb_current_start_delay s" "fb_current_delay s" L t st f]
    by (simp add: failsafe_vt_def)
  show "table_ok (fb_actions s) \<Longrightarrow>
      table_ok (fb_actions (vt_checkStateAndMode (failsafe_vt L) t st f s))"
    by (simp add: failsafe_vt_def well_formed_table.all_checks)
qed (simp_all add: failsafe_vt_def checkModeFallback_not_Count)

section \<open>Reachable states\<close>

text \<open>
  What the commander does with the object: updates with any inputs, requests to defer failsafes,
  parameter updates and the registration of the notification callback, in any order. Reachable
  states are those a sequence of such steps leads to from the constructor.
\<close>

inductive fs_step :: "flags_layout \<Rightarrow> Failsafe \<Rightarrow> Failsafe \<Rightarrow> bool" for L where
  step_update: "fs_step L s (snd (snd (Failsafe_update L t st u r f s)))"
| step_defer: "fs_step L s (snd (deferFailsafes enabled timeout_s s))"
| step_params: "fs_step L s (updateParams fail_act_t_us fail_act_t_gt (s\<lparr>fs_params := params\<rparr>))"
| step_callback: "fs_step L s (s\<lparr>fb_on_notify_user_cb := True\<rparr>)"

inductive_cases fs_stepE: "fs_step L s s'"

definition fs_reachable :: "flags_layout \<Rightarrow> Failsafe \<Rightarrow> bool" where
  "fs_reachable L s \<longleftrightarrow> (\<exists>params t g. (fs_step L)\<^sup>*\<^sup>* (Failsafe_init L params t g) s)"

lemma fs_reachable_induct [consumes 1, case_names init step]:
  assumes "fs_reachable L s" and init: "\<And>params t g. P (Failsafe_init L params t g)"
    and step: "\<And>s s'. fs_reachable L s \<Longrightarrow> P s \<Longrightarrow> fs_step L s s' \<Longrightarrow> P s'"
  shows "P s"
proof -
  from assms(1) obtain params t g where "(fs_step L)\<^sup>*\<^sup>* (Failsafe_init L params t g) s"
    by (auto simp: fs_reachable_def)
  then have "fs_reachable L s \<and> P s"
  proof (induction rule: rtranclp_induct)
    case (step y z)
    then show ?case
      using assms(3) by (metis fs_reachable_def rtranclp.rtrancl_into_rtrancl)
  qed (auto simp: fs_reachable_def init)
  then show ?thesis ..
qed

lemma fs_reachable_init: "fs_reachable L (Failsafe_init L params t g)"
  by (auto simp: fs_reachable_def)

lemma fs_reachable_step: "fs_reachable L s \<Longrightarrow> fs_step L s s' \<Longrightarrow> fs_reachable L s'"
  unfolding fs_reachable_def by (meson rtranclp.rtrancl_into_rtrancl)

lemma deferFailsafes_frame [simp]:
  "fb_actions (snd (deferFailsafes e n s)) = fb_actions s"
  "fb_selected_action (snd (deferFailsafes e n s)) = fb_selected_action s"
  "fb_current_start_delay (snd (deferFailsafes e n s)) = fb_current_start_delay s"
  "fb_com_fail_act_t_us (snd (deferFailsafes e n s)) = fb_com_fail_act_t_us s"
  "fb_duplicate_reported_once (snd (deferFailsafes e n s)) = fb_duplicate_reported_once s"
  "fs_caller_id (snd (deferFailsafes e n s')) = fs_caller_id s'"
  by (simp_all add: deferFailsafes_def Let_def)

lemma updateParams_frame [simp]:
  "fb_actions (updateParams t g s) = fb_actions s"
  "fb_selected_action (updateParams t g s) = fb_selected_action s"
  "fb_current_start_delay (updateParams t g s) = t"
  "fb_com_fail_act_t_us (updateParams t g s) = t"
  "fb_duplicate_reported_once (updateParams t g s) = fb_duplicate_reported_once s"
  "fs_caller_id (updateParams t g s') = fs_caller_id s'"
  by (simp_all add: updateParams_def Let_def)

lemma Failsafe_init_table: "table_ok (fb_actions (Failsafe_init L p t g))"
  by (simp add: Failsafe_init_def table_ok_def unique_on_def ao_valid_def actionOptions_def
      list_all_iff)

definition fs_inv :: "Failsafe \<Rightarrow> bool" where
  "fs_inv s \<longleftrightarrow> table_ok (fb_actions s) \<and> list_all (\<lambda>a. \<not> ao_activated a) (fb_actions s) \<and>
     fb_current_start_delay s \<le> fb_com_fail_act_t_us s"

lemma fs_inv_update:
  "fs_inv s \<Longrightarrow> fs_inv (snd (snd (Failsafe_update L t st u r f s)))"
  unfolding fs_inv_def Failsafe_update_def
  using fs.update_table [of s L t st u r f] fs.update_not_activated [of _ L t st u r f s]
    fs.update_start_delay [of s L t st u r f]
  by (auto simp: list_all_iff)

lemma fs_init_inv: "fs_inv (Failsafe_init L p t g)"
  using Failsafe_init_table [of L p t g]
  by (simp add: fs_inv_def Failsafe_init_def actionOptions_def list_all_iff)

lemma fs_step_inv: "fs_step L s s' \<Longrightarrow> fs_inv s \<Longrightarrow> fs_inv s'"
  by (erule fs_stepE) (auto simp: fs_inv_update, auto simp: fs_inv_def)

lemma fs_reachable_inv: "fs_reachable L s \<Longrightarrow> fs_inv s"
  by (induction rule: fs_reachable_induct) (auto intro: fs_init_inv fs_step_inv)

lemma caller_id_frames [simp]:
  "fs_caller_id (snd (finish_update mm t st f a s)) = fs_caller_id s"
  "fs_caller_id (clearDelayIfNeeded f s) = fs_caller_id s"
  "fs_caller_id (removeNonActivatedActions s) = fs_caller_id s"
  "fs_caller_id (begin_update t st u s) = fs_caller_id s"
  by (simp_all add: finish_update_def updateStartDelay_def updateFailsafeDeferState_def
      clearDelayIfNeeded_def removeNonActivatedActions_def begin_update_def removeActions_def
      updateDelay_def Let_def)

lemma Failsafe_update_caller_id [simp]:
  "fs_caller_id (snd (snd (Failsafe_update L t st u r f s))) = fs_caller_id s"
  by (simp add: Failsafe_update_def updated_eq prepared_def failsafe_vt_def)

lemma fs_step_caller_id: "fs_step L s s' \<Longrightarrow> fs_caller_id s' = fs_caller_id s"
  by (erule fs_stepE) auto

lemma fs_reachable_caller_id:
  "fs_reachable L s \<Longrightarrow> fs_caller_id s = generated_ids (fl_sizeof L)"
proof (induction rule: fs_reachable_induct)
  case (init params t g)
  show ?case by (simp add: Failsafe_init_def)
qed (simp add: fs_step_caller_id)

lemma fs_step_terminate:
  "fs_step L s s' \<Longrightarrow> fb_selected_action s = A_Terminate \<Longrightarrow> fb_selected_action s' = A_Terminate"
  by (erule fs_stepE) (auto simp: Failsafe_update_def fs.update_terminate_latch)

end
