(* ===== verification/Failsafe_Identity.thy ===== *)
theory Failsafe_Identity
  imports Failsafe_Checks
begin

text \<open>
  Caller identifiers. Every check of one update uses its own identifier: the byte offsets of the
  flags lie inside the message struct, the generated identifiers behind it. So the branch of
  \<^verbatim>\<open>checkFailsafe\<close> that reports a duplicate check is never taken.
\<close>

section \<open>Identifiers\<close>

text \<open>Seven calls of \<^verbatim>\<open>genCallerId\<close> from the initial value give the identifiers of the members.\<close>

lemma generated_ids_genCallerId:
  "fst (genCallerId (((\<lambda>s. snd (genCallerId s)) ^^ n) s)) = fb_next_caller_id s + int n + 1"
  by (induction n arbitrary: s) (simp_all add: genCallerId_def Let_def funpow_swap1)

definition caller_ids :: "flags_layout \<Rightarrow> FsFlag set \<Rightarrow> GenId set \<Rightarrow> int set" where
  "caller_ids L F G = fl_offsetof L ` F \<union> generated_ids (fl_sizeof L) ` G"

lemma generated_ids_inject: "generated_ids n g = generated_ids n h \<longleftrightarrow> g = h"
  by (cases g; cases h) (simp_all add: generated_ids_def)

lemma generated_ids_gt: "generated_ids n g > n"
  by (cases g) (simp_all add: generated_ids_def)

lemma caller_ids_iff:
  assumes "layout_ok L"
  shows "fl_offsetof L g \<in> caller_ids L F G \<longleftrightarrow> g \<in> F"
    and "generated_ids (fl_sizeof L) h \<in> caller_ids L F G \<longleftrightarrow> h \<in> G"
proof -
  have "fl_offsetof L g \<noteq> generated_ids (fl_sizeof L) h" for g h
    using layout_okD(3) [OF assms, of g] generated_ids_gt [of "fl_sizeof L" h] by simp
  then show "fl_offsetof L g \<in> caller_ids L F G \<longleftrightarrow> g \<in> F"
    and "generated_ids (fl_sizeof L) h \<in> caller_ids L F G \<longleftrightarrow> h \<in> G"
    by (auto simp: caller_ids_def layout_okD(1) [OF assms] generated_ids_inject image_iff)
       (metis generated_ids_inject)+
qed

section \<open>Checks made so far\<close>

text \<open>Only callers in \<open>I\<close> have been checked in this update, and no duplicate was seen.\<close>

definition checked_in :: "int set \<Rightarrow> 'a FailsafeBase_scheme \<Rightarrow> bool" where
  "checked_in I s \<longleftrightarrow> \<not> fb_duplicate_reported_once s \<and>
     (\<forall>e \<in> set (fb_actions s). ao_valid e \<and> ao_activated e \<longrightarrow> ao_id e \<in> I)"

lemma checked_in_mono: "checked_in I s \<Longrightarrow> I \<subseteq> J \<Longrightarrow> checked_in J s"
  by (auto simp: checked_in_def)

lemma duplicate_flag [simp]:
  "fb_duplicate_reported_once (add_entry c j opt s) = fb_duplicate_reported_once s"
  "fb_duplicate_reported_once (update_entry j opt s) \<longleftrightarrow>
     fb_duplicate_reported_once s \<or> ao_activated (fb_actions s ! j)"
  by (auto simp: add_entry_def update_entry_def Let_def)

lemma checked_in_checkFailsafe:
  assumes "checked_in I s" and "c \<notin> I"
  shows "checked_in (insert c I) (checkFailsafe c l cur opt s)"
proof (cases cur)
  case True
  have "checked_in (insert c I) (checkFailsafe c l True opt s)"
  proof (cases rule: checkFailsafe_cases [of s c l opt])
    case (found j)
    from found assms have "\<not> ao_activated (fb_actions s ! j)"
      by (auto simp: checked_in_def)
    with found assms show ?thesis
      by (auto simp: checked_in_def update_entry_actions
          dest!: set_update_subset_insert [THEN subsetD])
  next
    case (add j)
    with assms show ?thesis
      by (auto simp: checked_in_def add_entry_actions
          dest!: set_update_subset_insert [THEN subsetD])
  next
    case dropped
    with assms show ?thesis by (auto simp: checked_in_def)
  qed
  with True show ?thesis by simp
next
  case False
  with assms show ?thesis
    by (auto simp: checkFailsafe_def checked_in_def removeAction_def ao_valid_def setInvalid_def
        Let_def split: if_splits)
qed

text \<open>The callers checked so far, by flag and generated identifier.\<close>

definition checked :: "flags_layout \<Rightarrow> FsFlag set \<Rightarrow> GenId set \<Rightarrow> Failsafe \<Rightarrow> bool" where
  "checked L F G s \<longleftrightarrow>
     checked_in (caller_ids L F G) s \<and> fs_caller_id s = generated_ids (fl_sizeof L)"

lemma checked_mono: "checked L F G s \<Longrightarrow> F \<subseteq> F' \<Longrightarrow> G \<subseteq> G' \<Longrightarrow> checked L F' G' s"
  unfolding checked_def caller_ids_def by (fast elim: checked_in_mono)

lemma checked_flag:
  assumes "layout_ok L" and "checked L (F - {g}) G s" and "g \<in> F"
  shows "checked L F G (CHECK_FAILSAFE L f g opt s)"
proof -
  have "insert (fl_offsetof L g) (caller_ids L (F - {g}) G) = caller_ids L F G"
    using assms(3) by (auto simp: caller_ids_def)
  with assms checked_in_checkFailsafe [of "caller_ids L (F - {g}) G" s "fl_offsetof L g"]
  show ?thesis by (auto simp: checked_def CHECK_FAILSAFE_def caller_ids_iff)
qed

lemma checked_members [simp]:
  "checked L F G (s\<lparr>fs_last_state := x\<rparr>) = checked L F G s"
  "checked L F G (s\<lparr>fs_armed_time := t\<rparr>) = checked L F G s"
  "checked L F G (s\<lparr>fs_was_armed := b\<rparr>) = checked L F G s"
  "checked L F G (s\<lparr>fs_manual_control_lost_at_arming := b\<rparr>) = checked L F G s"
  "checked L F G (s\<lparr>fs_battery_warning_at_arming := w\<rparr>) = checked L F G s"
  by (simp_all add: checked_def checked_in_def)

lemma checked_generated:
  assumes "layout_ok L" and "checked L F (G - {g}) s" and "g \<in> G"
  shows "checked L F G (check_generated g b opt s)"
proof -
  have "insert (generated_ids (fl_sizeof L) g) (caller_ids L F (G - {g})) = caller_ids L F G"
    using assms(3) by (auto simp: caller_ids_def)
  with assms checked_in_checkFailsafe
      [of "caller_ids L F (G - {g})" s "generated_ids (fl_sizeof L) g"]
  have "checked L F G (checkFailsafe (fs_caller_id s g) (fs_last_state s g) b opt s)"
    by (auto simp: checked_def caller_ids_iff)
  then show ?thesis by (simp add: check_generated_def Let_def)
qed

section \<open>The checks of one update\<close>

lemmas checked_intros = checked_flag checked_generated

lemma checked_pieces:
  assumes "layout_ok L"
  shows "checked L (F - {manual_control_signal_lost}) G s \<Longrightarrow> manual_control_signal_lost \<in> F \<Longrightarrow>
      checked L F G (check_manual_control_loss L st f s)"
    and "checked L (F - {gcs_connection_lost}) G s \<Longrightarrow> gcs_connection_lost \<in> F \<Longrightarrow>
      checked L F G (check_gcs_connection_loss L st f s)"
    and "checked L (F - {vtol_fixed_wing_system_failure}) G s \<Longrightarrow>
      vtol_fixed_wing_system_failure \<in> F \<Longrightarrow> checked L F G (check_quadchute L st f s)"
    and "checked L F (G - {gid_battery_warning_low, gid_battery_warning_critical,
        gid_battery_warning_emergency}) s \<Longrightarrow>
      {gid_battery_warning_low, gid_battery_warning_critical, gid_battery_warning_emergency} \<subseteq> G
      \<Longrightarrow> checked L F G (check_battery_warning f s)"
  by (auto simp: check_defs Let_def intro!: checked_intros [OF assms] elim!: checked_mono)

lemma checked_sequences:
  assumes "layout_ok L"
  shows "checked L (F - {mission_failure}) (G - {gid_mission_control_lost}) s \<Longrightarrow>
      mission_failure \<in> F \<Longrightarrow> gid_mission_control_lost \<in> G \<Longrightarrow>
      checked L F G (check_mission L st f s)"
    and "checked L (F - {wind_limit_exceeded, flight_time_limit_exceeded, position_accuracy_low,
        navigator_failure, geofence_breached}) G s \<Longrightarrow>
      {wind_limit_exceeded, flight_time_limit_exceeded, position_accuracy_low, navigator_failure,
        geofence_breached} \<subseteq> F \<Longrightarrow>
      checked L F G (check_limits L st f s)"
    and "checked L (F - {battery_low_remaining_time, battery_unhealthy, parachute_unhealthy,
        traffic_avoidance_unhealthy, remote_id_unhealthy}) G s \<Longrightarrow>
      {battery_low_remaining_time, battery_unhealthy, parachute_unhealthy,
        traffic_avoidance_unhealthy, remote_id_unhealthy} \<subseteq> F \<Longrightarrow>
      checked L F G (check_health L t st f s)"
    and "checked L F (G - {gid_fd_esc_arming, gid_battery_unhealthy_spoolup}) s \<Longrightarrow>
      {gid_fd_esc_arming, gid_battery_unhealthy_spoolup} \<subseteq> G \<Longrightarrow>
      checked L F G (check_spoolup t f s)"
    and "checked L (F - {fd_critical_failure, fd_alt_loss, fd_imbalanced_prop, fd_motor_failure,
        gnss_lost}) G s \<Longrightarrow>
      {fd_critical_failure, fd_alt_loss, fd_imbalanced_prop, fd_motor_failure, gnss_lost} \<subseteq> F \<Longrightarrow>
      checked L F G (check_failure_detector L t f s)"
    and "checked L F (G - {gid_mode_fallback}) s \<Longrightarrow> gid_mode_fallback \<in> G \<Longrightarrow>
      checked L F G (check_mode_fallback st f s)"
  by (auto simp: check_defs Let_def intro!: checked_intros [OF assms] elim!: checked_mono)

lemma checked_arming: "checked L F G (updateArmingState t a f s) = checked L F G s"
  by (simp add: updateArmingState_def Let_def checked_def checked_in_def)

lemma checkStateAndMode_checked:
  assumes "layout_ok L" and "checked L {} {} s"
  shows "checked L UNIV UNIV (checkStateAndMode L t st f s)"
proof -
  have start: "checked L F G (updateArmingState t (st_armed st) f s)" for F G
    unfolding checked_arming using assms(2) by (rule checked_mono) simp_all
  show ?thesis
    unfolding checkStateAndMode_def Let_def
    by (intro checked_pieces [OF assms(1)] checked_sequences [OF assms(1)] start) simp_all
qed

lemma begin_update_not_activated:
  assumes "list_all (\<lambda>a. \<not> ao_activated a) (fb_actions s)"
  shows "list_all (\<lambda>a. \<not> ao_activated a) (fb_actions (begin_update t st u s))"
proof -
  have *: "list_all (\<lambda>a. \<not> ao_activated a) (fb_actions (removeActions c s))"
    if "list_all (\<lambda>a. \<not> ao_activated a) (fb_actions s)" for c and s :: "'a FailsafeBase_scheme"
    using that by (auto simp: removeActions_def list_all_iff setInvalid_def)
  from assms show ?thesis
    by (simp add: begin_update_def updateDelay_def Let_def *)
qed

lemma Failsafe_update_no_duplicate:
  assumes "layout_ok L" and "fs_inv s" and "\<not> fb_duplicate_reported_once s"
    and "fs_caller_id s = generated_ids (fl_sizeof L)"
  shows "\<not> fb_duplicate_reported_once (snd (snd (Failsafe_update L t st u r f s)))"
proof -
  let ?b = "begin_update t st (u \<or> fb_last_user_intended_mode s \<noteq> st_user_intended_mode st) s"
  from assms(2) have "list_all (\<lambda>a. \<not> ao_activated a) (fb_actions ?b)"
    unfolding fs_inv_def by (intro begin_update_not_activated) simp
  with assms(3,4) have "checked L {} {} ?b"
    by (auto simp: checked_def checked_in_def list_all_iff)
  from checkStateAndMode_checked [OF assms(1) this, of t st f] show ?thesis
    by (simp add: Failsafe_update_def updated_eq prepared_def failsafe_vt_def checked_def
        checked_in_def clearDelayIfNeeded_def removeNonActivatedActions_def)
qed

lemma fs_step_no_duplicate:
  "fs_step L s s' \<Longrightarrow> layout_ok L \<Longrightarrow> fs_inv s \<Longrightarrow> fs_caller_id s = generated_ids (fl_sizeof L) \<Longrightarrow>
   \<not> fb_duplicate_reported_once s \<Longrightarrow> \<not> fb_duplicate_reported_once s'"
  by (erule fs_stepE) (auto simp: Failsafe_update_no_duplicate)

end
