(* ===== verification/Failsafe_Critical.thy ===== *)
theory Failsafe_Critical
  imports Failsafe_Identity
begin

text \<open>
  A critical failure terminates the flight: the entry of the failure detector always finds a slot
  in the table, no later check of the same update removes or replaces it, and the selection picks
  it up immediately, without delay, deferral or takeover.
\<close>

section \<open>Termination entries in the table\<close>

definition terminating :: "ActionOptions \<Rightarrow> bool" where
  "terminating e \<longleftrightarrow> ao_valid e \<and> ao_action e = A_Terminate"

definition num_terminating :: "'a FailsafeBase_scheme \<Rightarrow> nat" where
  "num_terminating s = length (filter terminating (fb_actions s))"

lemma length_filter_update:
  "length (filter P (xs[i := x])) \<le> length (filter P xs) + (if P x then 1 else 0)"
proof (induction xs arbitrary: i)
  case (Cons a xs)
  show ?case using Cons.IH [of "i - 1"] by (cases i) (auto split: if_splits)
qed simp

lemma length_filter_mono:
  "(\<And>x. P x \<Longrightarrow> Q x) \<Longrightarrow> length (filter P xs) \<le> length (filter Q xs)"
  by (induction xs) auto

lemma terminating_removeAction: "terminating (removeAction s e) \<Longrightarrow> terminating e"
  by (auto simp: terminating_def dest: removeAction_valid)

lemma num_terminating_checkFailsafe:
  "num_terminating (checkFailsafe c l cur opt s) \<le>
     num_terminating s + (if cur \<and> ao_action opt = A_Terminate then 1 else 0)"
proof (cases cur)
  case True
  have "num_terminating (checkFailsafe c l True opt s) \<le>
      num_terminating s + (if ao_action opt = A_Terminate then 1 else 0)"
  proof (cases rule: checkFailsafe_cases [of s c l opt])
    case (found j)
    show ?thesis
      unfolding found(4) num_terminating_def update_entry_actions
      by (rule order_trans [OF length_filter_update]) (simp add: terminating_def)
  next
    case (add j)
    show ?thesis
      unfolding add(4) num_terminating_def add_entry_actions
      by (rule order_trans [OF length_filter_update]) (simp add: terminating_def)
  next
    case dropped
    then show ?thesis by simp
  qed
  with True show ?thesis by simp
next
  case False
  then show ?thesis
    by (auto simp: checkFailsafe_def num_terminating_def
        intro!: length_filter_mono dest: terminating_removeAction split: if_splits)
qed

section \<open>How many checks can ask for termination\<close>

lemma num_terminating_flag:
  "num_terminating s \<le> n \<Longrightarrow> num_terminating (CHECK_FAILSAFE L f g opt s) \<le> Suc n"
  "num_terminating s \<le> n \<Longrightarrow> ao_action opt \<noteq> A_Terminate \<Longrightarrow>
     num_terminating (CHECK_FAILSAFE L f g opt s) \<le> n"
  using num_terminating_checkFailsafe [of "fl_offsetof L g" "ff_flag (fb_last_status_flags s) g"
      "ff_flag f g" opt s]
  by (auto simp: CHECK_FAILSAFE_def split: if_splits)

lemma num_terminating_if:
  "num_terminating s \<le> n \<Longrightarrow>
     num_terminating (if b then CHECK_FAILSAFE L f g opt s else s) \<le> Suc n"
  by (simp add: num_terminating_flag(1))

lemma num_terminating_generated:
  "num_terminating s \<le> n \<Longrightarrow> ao_action opt \<noteq> A_Terminate \<Longrightarrow>
     num_terminating (check_generated g b opt s) \<le> n"
  using num_terminating_checkFailsafe [of "fs_caller_id s g" "fs_last_state s g" b opt s]
  by (auto simp: check_generated_def num_terminating_def Let_def split: if_splits)

lemma never_terminates [simp]:
  "ao_action (fromQuadchuteActParam p) \<noteq> A_Terminate"
  "ao_action (fromParachuteActParam p) \<noteq> A_Terminate"
  "ao_action (fromTrafficAvoidanceActParam p) \<noteq> A_Terminate"
  "ao_action (fromRemainingFlightTimeLowActParam p) \<noteq> A_Terminate"
  "ao_action (fromBatteryWarningActParam p w) \<noteq> A_Terminate"
  by (simp_all add: act_param_defs option_defs Let_def)

lemma builders_action [simp]:
  "ao_action (cannotBeDeferred opt) = ao_action opt" "ao_action (clearOn c opt) = ao_action opt"
  "ao_action (actionOptions a) = a"
  by (simp_all add: option_defs)

lemma num_terminating_pieces:
  "num_terminating s \<le> n \<Longrightarrow> num_terminating (updateArmingState t a f s) \<le> n"
  "num_terminating s \<le> n \<Longrightarrow> num_terminating (check_manual_control_loss L st f s) \<le> Suc n"
  "num_terminating s \<le> n \<Longrightarrow> num_terminating (check_gcs_connection_loss L st f s) \<le> Suc n"
  "num_terminating s \<le> n \<Longrightarrow> num_terminating (check_quadchute L st f s) \<le> n"
  "num_terminating s \<le> n \<Longrightarrow> num_terminating (check_mission L st f s) \<le> n"
  "num_terminating s \<le> n \<Longrightarrow> num_terminating (check_limits L st f s) \<le> Suc (Suc (Suc n))"
  "num_terminating s \<le> n \<Longrightarrow> num_terminating (check_health L t st f s) \<le> Suc n"
  "num_terminating s \<le> n \<Longrightarrow> num_terminating (check_battery_warning f s) \<le> n"
  "num_terminating s \<le> n \<Longrightarrow> num_terminating (check_spoolup t f s) \<le> n"
  subgoal by (simp add: updateArmingState_def num_terminating_def Let_def)
  subgoal by (auto simp: check_defs Let_def num_terminating_def
      intro!: num_terminating_flag(1) [unfolded num_terminating_def])
  subgoal by (auto simp: check_defs Let_def intro!: num_terminating_flag(1))
  subgoal by (auto simp: check_defs Let_def intro!: num_terminating_flag(2))
  subgoal by (auto simp: check_defs Let_def intro!: num_terminating_flag(2) num_terminating_generated)
  subgoal unfolding check_limits_def Let_def
    by (rule num_terminating_flag(1), rule num_terminating_flag(2), rule num_terminating_if,
        rule num_terminating_flag(2), rule num_terminating_flag(1)) simp_all
  subgoal unfolding check_health_def Let_def
    by (rule num_terminating_if, (rule num_terminating_flag(2))+) simp_all
  subgoal by (auto simp: check_defs Let_def intro!: num_terminating_generated)
  subgoal by (auto simp: check_defs Let_def intro!: num_terminating_generated)
  done

section \<open>The entry of one caller\<close>

definition no_caller :: "int \<Rightarrow> 'a FailsafeBase_scheme \<Rightarrow> bool" where
  "no_caller c s \<longleftrightarrow> (\<forall>e \<in> set (fb_actions s). ao_valid e \<longrightarrow> ao_id e \<noteq> c)"

text \<open>The caller has an entry that terminates the flight and cannot be deferred.\<close>

definition terminates_now :: "int \<Rightarrow> 'a FailsafeBase_scheme \<Rightarrow> bool" where
  "terminates_now c s \<longleftrightarrow> (\<exists>e \<in> set (fb_actions s). terminating e \<and> ao_id e = c \<and>
     ao_activated e \<and> \<not> ao_can_be_deferred e)"

lemma no_caller_other:
  assumes "no_caller c s" and "c' \<noteq> c"
  shows "no_caller c (checkFailsafe c' l cur opt s)"
proof (cases cur)
  case True
  have "no_caller c (checkFailsafe c' l True opt s)"
    using assms
    by (cases rule: checkFailsafe_cases [of s c' l opt])
       (auto simp: no_caller_def update_entry_actions add_entry_actions
         dest!: set_update_subset_insert [THEN subsetD])
  with True show ?thesis by simp
next
  case False
  with assms show ?thesis
    by (auto simp: checkFailsafe_def no_caller_def split: if_splits dest!: removeAction_valid)
qed

lemma terminates_now_other:
  assumes e: "terminates_now c s" and c: "c' \<noteq> c" and opt: "ao_action opt \<noteq> A_Count"
  shows "terminates_now c (checkFailsafe c' l cur opt s)"
proof -
  from e obtain e where in_s: "e \<in> set (fb_actions s)"
    and e: "terminating e" "ao_id e = c" "ao_activated e" "\<not> ao_can_be_deferred e"
    by (auto simp: terminates_now_def)
  have "e \<in> set (fb_actions (checkFailsafe c' l cur opt s))"
  proof (cases cur)
    case True
    have "e \<in> set (fb_actions (checkFailsafe c' l True opt s))"
    proof (cases rule: checkFailsafe_cases [of s c' l opt])
      case (found j)
      with in_s e(2) c show ?thesis by (auto simp: update_entry_actions intro!: mem_update_other)
    next
      case (add j)
      from add(3) e(1) A_Terminate_greatest [OF opt] have "fb_actions s ! j \<noteq> e"
        by (auto simp: terminating_def)
      with add(4) in_s show ?thesis by (simp add: add_entry_actions mem_update_other)
    next
      case dropped
      with in_s show ?thesis by simp
    qed
    with True show ?thesis by simp
  next
    case False
    with in_s e(2) c show ?thesis by (force simp: checkFailsafe_def)
  qed
  with e show ?thesis by (auto simp: terminates_now_def)
qed

lemma terminates_now_new:
  assumes "table_ok (fb_actions s)" and no: "no_caller c s" and "num_terminating s < max_num_actions"
    and opt: "ao_action opt = A_Terminate" "\<not> ao_can_be_deferred opt" and "c \<noteq> -1"
  shows "terminates_now c (checkFailsafe c l True opt s)"
proof (cases rule: checkFailsafe_cases [of s c l opt])
  case (found j)
  with no show ?thesis by (auto simp: no_caller_def)
next
  case (add j)
  let ?e = "entry_of c opt (fb_com_fail_act_t_gt_0_1 s)"
  from add(1,4) have "?e \<in> set (fb_actions (checkFailsafe c l True opt s))"
    by (simp add: add_entry_actions nth_mem_update)
  with opt assms(6) show ?thesis
    by (auto simp: terminates_now_def terminating_def ao_valid_def intro!: bexI [of _ ?e])
next
  case dropped
  have "terminating e" if "e \<in> set (fb_actions s)" for e
    using that dropped(1) opt assms(1) A_Terminate_greatest [of "ao_action e"]
    by (auto simp: terminating_def table_ok_def list_all_iff intro: order_antisym)
  then have "filter terminating (fb_actions s) = fb_actions s" by (simp add: filter_id_conv)
  with assms(1,3) show ?thesis by (simp add: num_terminating_def table_ok_def)
qed

section \<open>The checks around the failure detector\<close>

lemma pieces_keep:
  assumes flag: "\<And>g f opt s. g \<noteq> fd_critical_failure \<Longrightarrow> fresh_options opt \<Longrightarrow> P s \<Longrightarrow>
      P (CHECK_FAILSAFE L f g opt s)"
    and gen: "\<And>g b opt s. fresh_options opt \<Longrightarrow> P s \<Longrightarrow> P (check_generated g b opt s)"
    and lost: "\<And>b s. P s \<Longrightarrow> P (s\<lparr>fs_manual_control_lost_at_arming := b\<rparr>)"
    and "P s"
  shows "P (check_manual_control_loss L st f s)" and "P (check_gcs_connection_loss L st f s)"
    and "P (check_quadchute L st f s)" and "P (check_mission L st f s)"
    and "P (check_limits L st f s)" and "P (check_health L t st f s)"
    and "P (check_battery_warning f s)" and "P (check_spoolup t f s)"
    and "P (check_mode_fallback st f s)"
  by (simp_all add: check_defs Let_def assms checkModeFallback_not_Count)

text \<open>What the checks before the failure detector keep: its identifier is unused, the table is
  well formed.\<close>

definition before_fd :: "flags_layout \<Rightarrow> Failsafe \<Rightarrow> bool" where
  "before_fd L s \<longleftrightarrow> no_caller (fl_offsetof L fd_critical_failure) s \<and> table_ok (fb_actions s) \<and>
     fs_caller_id s = generated_ids (fl_sizeof L)"

lemma before_fd_flag:
  assumes "layout_ok L" and "g \<noteq> fd_critical_failure" and "fresh_options opt" and "before_fd L s"
  shows "before_fd L (CHECK_FAILSAFE L f g opt s)"
  using assms layout_okD(1) [OF assms(1), of g fd_critical_failure]
  by (auto simp: before_fd_def CHECK_FAILSAFE_def fresh_options_def
      intro: no_caller_other table_ok_checkFailsafe)

lemma generated_not_flag:
  "layout_ok L \<Longrightarrow> generated_ids (fl_sizeof L) g \<noteq> fl_offsetof L h"
  using layout_okD(3) [of L h] generated_ids_gt [of "fl_sizeof L" g] by auto

lemma before_fd_generated:
  assumes "layout_ok L" and "fresh_options opt" and "before_fd L s"
  shows "before_fd L (check_generated g b opt s)"
  using assms generated_not_flag [OF assms(1)]
    no_caller_other [of "fl_offsetof L fd_critical_failure" s "fs_caller_id s g"]
    table_ok_checkFailsafe [of s opt]
  by (auto simp: before_fd_def check_generated_def fresh_options_def Let_def no_caller_def)

text \<open>What holds from the failing check to the end of the method.\<close>

definition after_fd :: "flags_layout \<Rightarrow> Failsafe \<Rightarrow> bool" where
  "after_fd L s \<longleftrightarrow> terminates_now (fl_offsetof L fd_critical_failure) s \<and>
     fs_caller_id s = generated_ids (fl_sizeof L)"

lemma after_fd_flag:
  assumes "layout_ok L" and "g \<noteq> fd_critical_failure" and "fresh_options opt" and "after_fd L s"
  shows "after_fd L (CHECK_FAILSAFE L f g opt s)"
  using assms layout_okD(1) [OF assms(1), of g fd_critical_failure]
  by (auto simp: after_fd_def CHECK_FAILSAFE_def fresh_options_def intro: terminates_now_other)

lemma after_fd_generated:
  assumes "layout_ok L" and "fresh_options opt" and "after_fd L s"
  shows "after_fd L (check_generated g b opt s)"
  using assms generated_not_flag [OF assms(1)]
    terminates_now_other [of "fl_offsetof L fd_critical_failure" s "fs_caller_id s g" opt]
  by (auto simp: after_fd_def check_generated_def fresh_options_def Let_def terminates_now_def)

lemma fd_critical_options_fresh [simp]: "fresh_options (fd_critical_options t s)"
  by (simp add: fd_critical_options_def)

lemma after_fd_detector:
  assumes L: "layout_ok L" and b: "before_fd L s" and n: "num_terminating s < max_num_actions"
    and fail: "ff_flag f fd_critical_failure"
    and opt: "fd_critical_options t s = cannotBeDeferred (actionOptions A_Terminate)"
  shows "after_fd L (check_failure_detector L t f s)"
proof -
  have "fl_offsetof L fd_critical_failure \<noteq> -1"
    using layout_okD(2) [OF L, of fd_critical_failure] by linarith
  with b n have "after_fd L (CHECK_FAILSAFE L f fd_critical_failure (fd_critical_options t s) s)"
    by (auto simp: after_fd_def before_fd_def CHECK_FAILSAFE_def fail opt option_defs
        intro!: terminates_now_new)
  then show ?thesis
    by (simp add: check_failure_detector_def Let_def after_fd_flag [OF L])
qed

text \<open>The object just before the failure detector is consulted.\<close>

definition before_detector ::
  "flags_layout \<Rightarrow> hrt_abstime \<Rightarrow> fs_vehicle_state \<Rightarrow> failsafe_flags_s \<Rightarrow> Failsafe \<Rightarrow> Failsafe"
where
  "before_detector L t st f s =
     check_spoolup t f (check_battery_warning f (check_health L t st f (check_limits L st f
       (check_mission L st f (check_quadchute L st f (check_gcs_connection_loss L st f
         (check_manual_control_loss L st f (updateArmingState t (st_armed st) f s))))))))"

lemma checkStateAndMode_split:
  "checkStateAndMode L t st f s =
     check_mode_fallback st f (check_failure_detector L t f (before_detector L t st f s))"
  by (simp add: checkStateAndMode_def before_detector_def Let_def)

lemma before_detector_fd:
  assumes "layout_ok L" and "before_fd L s"
  shows "before_fd L (before_detector L t st f s)"
proof -
  have "before_fd L (updateArmingState t (st_armed st) f s)"
    using assms(2) by (simp add: before_fd_def no_caller_def updateArmingState_def Let_def)
  moreover have "\<And>b s. before_fd L s \<Longrightarrow> before_fd L (s\<lparr>fs_manual_control_lost_at_arming := b\<rparr>)"
    by (simp add: before_fd_def no_caller_def)
  ultimately show ?thesis
    unfolding before_detector_def
    by (intro pieces_keep [where P = "before_fd L"])
       (auto intro: before_fd_flag [OF assms(1)] before_fd_generated [OF assms(1)])
qed

lemma before_detector_num:
  "num_terminating s \<le> n \<Longrightarrow> num_terminating (before_detector L t st f s) \<le> n + 6"
  unfolding before_detector_def
  by (rule order_trans, (rule num_terminating_pieces)+, assumption) simp

lemma before_detector_frame:
  "fs_armed_time (before_detector L t st f s) =
     fs_armed_time (updateArmingState t (st_armed st) f s)"
  "fs_params (before_detector L t st f s) = fs_params s"
proof -
  let ?P = "\<lambda>s'. fs_armed_time s' = fs_armed_time (updateArmingState t (st_armed st) f s) \<and>
      fs_params s' = fs_params s"
  have "?P (before_detector L t st f s)"
    unfolding before_detector_def
    by (intro pieces_keep [where P = ?P])
       (auto simp: CHECK_FAILSAFE_def check_generated_def Let_def updateArmingState_def)
  then show "fs_armed_time (before_detector L t st f s) =
      fs_armed_time (updateArmingState t (st_armed st) f s)"
    and "fs_params (before_detector L t st f s) = fs_params s" by simp_all
qed

lemma checkStateAndMode_terminates:
  assumes L: "layout_ok L" and b: "before_fd L s" and n: "num_terminating s \<le> 1"
    and fail: "ff_flag f fd_critical_failure"
    and late: "\<not> in_early_takeoff t (updateArmingState t (st_armed st) f s)"
    and cbrk: "p_cbrk_flightterm (fs_params s) \<noteq> CBRK_FLIGHTTERM_KEY"
  shows "after_fd L (checkStateAndMode L t st f s)"
proof -
  let ?d = "before_detector L t st f s"
  have "fs_params (updateArmingState t (st_armed st) f s) = fs_params s"
    by (simp add: updateArmingState_def Let_def)
  with late have "\<not> in_early_takeoff t ?d"
    by (simp add: in_early_takeoff_def before_detector_frame)
  then have "fd_critical_options t ?d = cannotBeDeferred (actionOptions A_Terminate)"
    using cbrk
    by (simp add: fd_critical_options_def before_detector_frame circuit_breaker_enabled_by_val_def)
  moreover have "num_terminating ?d < max_num_actions"
    using before_detector_num [OF n, of L t st f] by simp
  ultimately have "after_fd L (check_failure_detector L t f ?d)"
    by (intro after_fd_detector L before_detector_fd b fail)
  then show ?thesis
    unfolding checkStateAndMode_split check_mode_fallback_def Let_def
    by (intro after_fd_generated L) (simp_all add: checkModeFallback_not_Count)
qed

section \<open>From the entry to the selected action\<close>

text \<open>Entries are only invalidated before the checks run.\<close>

definition invalidated :: "ActionOptions list \<Rightarrow> ActionOptions list \<Rightarrow> bool" where
  "invalidated as bs \<longleftrightarrow> list_all2 (\<lambda>a b. b = a \<or> b = setInvalid a) as bs"

lemma invalidated_refl: "invalidated as as"
  by (simp add: invalidated_def list_all2_same)

lemma invalidated_removeActions:
  "invalidated as (fb_actions s) \<Longrightarrow> invalidated as (fb_actions (removeActions c s))"
  unfolding invalidated_def removeActions_def
  by (auto simp: list_all2_conv_all_nth setInvalid_def)

lemma invalidated_begin_update: "invalidated (fb_actions s) (fb_actions (begin_update t st u s))"
  by (simp add: begin_update_def updateDelay_def Let_def invalidated_refl
      invalidated_removeActions)

lemma invalidated_length: "invalidated as bs \<Longrightarrow>
    length (filter terminating bs) \<le> length (filter terminating as)"
  unfolding invalidated_def
  by (induction rule: list_all2_induct) (auto simp: terminating_def)

lemma invalidated_mem: "invalidated as bs \<Longrightarrow> b \<in> set bs \<Longrightarrow> ao_valid b \<Longrightarrow> b \<in> set as"
  unfolding invalidated_def
  by (induction rule: list_all2_induct) auto

lemma begin_update_before_fd: "before_fd L s \<Longrightarrow> before_fd L (begin_update t st u s)"
  using invalidated_mem [OF invalidated_begin_update [of s t st u]]
  by (auto simp: before_fd_def no_caller_def begin_update_table)

lemma begin_update_num: "num_terminating (begin_update t st u s) \<le> num_terminating s"
  using invalidated_length [OF invalidated_begin_update [of s t st u]]
  by (simp add: num_terminating_def)

lemma removeNonActivated_keeps:
  "terminates_now c s \<Longrightarrow> \<exists>e \<in> set (fb_actions (removeNonActivatedActions s)).
     terminating e \<and> \<not> ao_can_be_deferred e"
  by (force simp: terminates_now_def removeNonActivatedActions_def terminating_def)

lemma worst_terminate:
  assumes "table_ok as" and "e \<in> set as" and "terminating e"
  shows "worst as = A_Terminate"
proof (rule order_antisym)
  show "worst as \<le> A_Terminate" using worst_not_Count [OF assms(1)] by (rule A_Terminate_greatest)
  show "A_Terminate \<le> worst as" using worst_ge [of e as] assms by (simp add: terminating_def)
qed

lemma getSelectedAction_terminate_entry:
  assumes "table_ok (fb_actions s)" and "st_armed st"
    and e: "e \<in> set (fb_actions s)" "terminating e" "\<not> ao_can_be_deferred e"
  shows "sas_action (fst (getSelectedAction cmf st f u r s)) = A_Terminate"
proof (cases "main_branch st s")
  case True
  with worst_terminate [OF assms(1) e(1,2)] show ?thesis
    by (simp add: getSelectedAction_immediate)
next
  case False
  moreover have "\<not> all_deferrable (fb_actions s)"
    using e by (auto simp: all_deferrable_iff terminating_def)
  ultimately show ?thesis
    using assms(2) getSelectedAction_terminated [of st s cmf f u r]
    by (auto simp: main_branch_def)
qed

lemma Failsafe_update_terminates:
  assumes "layout_ok L" and "before_fd L s" and "num_terminating s \<le> 1" and "st_armed st"
    and "ff_flag f fd_critical_failure"
    and late: "\<And>s'. fs_armed_time s' = fs_armed_time s \<Longrightarrow> fs_was_armed s' = fs_was_armed s \<Longrightarrow>
      fs_params s' = fs_params s \<Longrightarrow> \<not> in_early_takeoff t (updateArmingState t (st_armed st) f s')"
    and "p_cbrk_flightterm (fs_params s) \<noteq> CBRK_FLIGHTTERM_KEY"
  shows "fb_selected_action (snd (snd (Failsafe_update L t st u r f s))) = A_Terminate"
proof -
  let ?b = "begin_update t st (u \<or> fb_last_user_intended_mode s \<noteq> st_user_intended_mode st) s"
  let ?p = "prepared (failsafe_vt L) t st u f s"
  have frame: "fs_armed_time ?b = fs_armed_time s" "fs_was_armed ?b = fs_was_armed s"
      "fs_params ?b = fs_params s"
    by (simp_all add: begin_update_def removeActions_def updateDelay_def Let_def)
  have "after_fd L (checkStateAndMode L t st f ?b)"
    using assms order_trans [OF begin_update_num assms(3)] late [OF frame] frame
    by (intro checkStateAndMode_terminates begin_update_before_fd) simp_all
  then obtain e where "e \<in> set (fb_actions ?p)" "terminating e" "\<not> ao_can_be_deferred e"
    using removeNonActivated_keeps [of _ "checkStateAndMode L t st f ?b"]
    by (auto simp: prepared_def failsafe_vt_def after_fd_def)
  moreover have "table_ok (fb_actions ?p)"
    using assms(2) by (intro fs.prepared_table) (simp add: before_fd_def)
  ultimately show ?thesis
    using assms(4)
    by (simp add: Failsafe_update_def updated_eq selection_def getSelectedAction_terminate_entry)
qed

end
