(* ===== verification/Failsafe_Demo.thy ===== *)
theory Failsafe_Demo
  imports Failsafe_Critical
begin

text \<open>
  A concrete vehicle for the witnesses: default-like parameters, the layout \<^const>\<open>msg_layout\<close>,
  armed in position mode with nothing wrong. The first update is evaluated step by step, which
  also shows that a quiet update adds no action.
\<close>

section \<open>A concrete vehicle\<close>

definition demo_params :: failsafe_params where
  "demo_params =
     \<lparr>p_nav_dll_act = 2, p_nav_rcl_act = 2, p_com_rcl_except = 0, p_com_dll_except = 0,
      p_com_rc_in_mode = 3, p_gf_action = 2, p_com_spoolup_time_us = 1000000,
      p_cbrk_flightterm = 0, p_com_actuator_failure_act = 0, p_com_low_bat_act = 3,
      p_com_obl_rc_act = 0, p_com_qc_act = 0, p_com_wind_max_act = 0, p_com_fltt_low_act = 3,
      p_com_pos_low_act = 3, p_com_arm_odid = 0, p_com_parachute = 0, p_com_traff_avoid = 0,
      p_com_gnssloss_act = 0\<rparr>"

definition demo_init :: Failsafe where
  "demo_init = Failsafe_init msg_layout demo_params 5000000 True"

definition flying :: fs_vehicle_state where
  "flying = \<lparr>st_armed = True, st_user_intended_mode = NAVIGATION_STATE_POSCTL,
     st_vehicle_type = VEHICLE_TYPE_ROTARY_WING, st_vtol_in_transition_mode = False,
     st_mission_finished = False\<rparr>"

definition with_flag :: "FsFlag \<Rightarrow> failsafe_flags_s" where
  "with_flag g = failsafe_flags_zero\<lparr>ff_flag := (\<lambda>_. False)(g := True)\<rparr>"

text \<open>The object after the first update in flight with nothing wrong.\<close>

definition demo_flying :: Failsafe where
  "demo_flying = snd (snd (Failsafe_update msg_layout 1000 flying False False
     failsafe_flags_zero demo_init))"

lemma check_pass:
  "\<not> ff_flag f g \<Longrightarrow> \<not> ff_flag (fb_last_status_flags s) g \<Longrightarrow> CHECK_FAILSAFE L f g opt s = s"
  by (simp add: CHECK_FAILSAFE_def checkFailsafe_def)

lemma generated_pass:
  "\<not> fs_last_state s g \<Longrightarrow> check_generated g False opt s = s"
  by (simp add: check_generated_def checkFailsafe_def Let_def fun_upd_idem)

lemma checkModeFallback_pass:
  "checkModeFallback s failsafe_flags_zero m = A_None"
  by (simp add: checkModeFallback_def failsafe_flags_zero_def posctl_fallback_def
      altctl_fallback_def modeCanRun_def manualControlFallbackAction_def)

lemma no_flags [simp]: "ff_flag failsafe_flags_zero g = False"
  "ff_battery_warning failsafe_flags_zero = 0"
  by (simp_all add: failsafe_flags_zero_def)

definition calm :: "Failsafe \<Rightarrow> bool" where
  "calm s \<longleftrightarrow> fb_last_status_flags s = failsafe_flags_zero \<and> fs_last_state s = (\<lambda>_. False) \<and>
     \<not> fs_manual_control_lost_at_arming s"

lemma calm_pass:
  "calm s \<Longrightarrow> CHECK_FAILSAFE L failsafe_flags_zero g opt s = s"
  "calm s \<Longrightarrow> check_generated h False opt s = s"
  by (simp_all add: calm_def check_pass generated_pass)

lemma calm_lost: "calm s \<Longrightarrow> s\<lparr>fs_manual_control_lost_at_arming := False\<rparr> = s"
  by (cases s) (simp add: calm_def)

lemma calm_pieces:
  assumes "calm s"
  shows "check_manual_control_loss L st failsafe_flags_zero s = s"
    and "check_gcs_connection_loss L st failsafe_flags_zero s = s"
    and "check_quadchute L st failsafe_flags_zero s = s"
    and "check_mission L st failsafe_flags_zero s = s"
    and "check_limits L st failsafe_flags_zero s = s"
    and "check_health L t st failsafe_flags_zero s = s"
    and "check_battery_warning failsafe_flags_zero s = s"
    and "check_spoolup t failsafe_flags_zero s = s"
    and "check_failure_detector L t failsafe_flags_zero s = s"
    and "check_mode_fallback st failsafe_flags_zero s = s"
  using assms
  by (simp_all add: check_defs Let_def calm_pass calm_lost checkModeFallback_pass)

lemma calm_checks:
  assumes "calm s"
  shows "checkStateAndMode L t st failsafe_flags_zero s =
    updateArmingState t (st_armed st) failsafe_flags_zero s"
proof -
  have "calm (updateArmingState t (st_armed st) failsafe_flags_zero s)"
    using assms by (simp add: calm_def updateArmingState_def Let_def)
  then show ?thesis by (simp add: checkStateAndMode_def Let_def calm_pieces)
qed

lemma demo_calm: "calm demo_init"
  by (simp add: calm_def demo_init_def Failsafe_init_def)

abbreviation empty_table :: "ActionOptions list" where
  "empty_table \<equiv> replicate max_num_actions (actionOptions A_None)"

lemma empty_invalid [simp]: "\<not> ao_valid (actionOptions a)"
  by (simp add: ao_valid_def actionOptions_def)

lemma removeActions_empty: "fb_actions s = empty_table \<Longrightarrow> removeActions c s = s"
  by (cases s) (simp add: removeActions_def)

lemma removeNonActivated_empty:
  "fb_actions s = empty_table \<Longrightarrow> removeNonActivatedActions s = s"
  by (cases s) (simp add: removeNonActivatedActions_def, simp add: actionOptions_def)

lemma worst_empty [simp]: "select_worst empty_table = (A_None, C_Generic, UT_Always, True)"
  by (simp add: select_worst_def eval_nat_numeral)

definition demo_armed :: Failsafe where
  "demo_armed = demo_init\<lparr>fb_last_update := 1000, fs_armed_time := 1000, fs_was_armed := True\<rparr>"

lemma demo_prepared:
  "prepared (failsafe_vt msg_layout) 1000 flying False failsafe_flags_zero demo_init = demo_armed"
proof -
  have "begin_update 1000 flying True demo_init = demo_init\<lparr>fb_last_update := 1000\<rparr>"
    by (simp add: begin_update_def Let_def flying_def removeActions_empty demo_init_def
        Failsafe_init_def updateDelay_def)
  moreover have "calm (demo_init\<lparr>fb_last_update := 1000\<rparr>)"
    using demo_calm by (simp add: calm_def)
  moreover have "fb_last_user_intended_mode demo_init \<noteq> st_user_intended_mode flying"
    by (simp add: demo_init_def Failsafe_init_def flying_def)
  ultimately show ?thesis
    by (simp add: prepared_def failsafe_vt_def calm_checks removeNonActivated_empty
        clearDelayIfNeeded_def updateArmingState_def Let_def demo_armed_def)
       (simp add: demo_init_def Failsafe_init_def flying_def removeNonActivated_empty)
qed

lemma demo_selection:
  "selection (failsafe_vt msg_layout) 1000 flying False False failsafe_flags_zero demo_init =
     SelectedActionState_init\<lparr>sas_updated_user_intended_mode := NAVIGATION_STATE_POSCTL\<rparr>"
proof -
  have "fb_actions demo_armed = empty_table" "fb_selected_action demo_armed = A_None"
      "fb_current_delay demo_armed = 0"
    by (simp_all add: demo_armed_def demo_init_def Failsafe_init_def)
  then show ?thesis
    unfolding selection_def demo_prepared
    by (simp add: getSelectedAction_def flying_def Let_def
        delayed_selection_def actionAllowsUserTakeover_def soften_def soften_step_def
        SelectedActionState_init_def)
qed

lemma demo_flying_eq:
  "demo_flying = demo_armed\<lparr>fb_last_user_intended_mode := NAVIGATION_STATE_POSCTL,
     fb_last_armed := True\<rparr>"
  unfolding demo_flying_def Failsafe_update_def updated_eq demo_selection demo_prepared
  by (simp add: finish_update_def Let_def updateStartDelay_def updateFailsafeDeferState_def
      SelectedActionState_init_def failsafe_vt_def modifyUserIntendedMode_def flying_def)
     (simp add: demo_armed_def demo_init_def Failsafe_init_def failsafe_flags_zero_def)

lemma demo_flying_reachable: "fs_reachable msg_layout demo_flying"
  unfolding demo_flying_def demo_init_def
  by (rule fs_reachable_step [OF fs_reachable_init step_update])

lemma demo_flying_fields [simp]:
  "fs_was_armed demo_flying" "fs_armed_time demo_flying = 1000"
  "fb_actions demo_flying = empty_table" "fs_params demo_flying = demo_params"
  "fb_selected_action demo_flying = A_None" "fb_current_delay demo_flying = 0"
  "fb_last_user_intended_mode demo_flying = NAVIGATION_STATE_POSCTL"
  by (simp_all add: demo_flying_eq demo_armed_def demo_init_def Failsafe_init_def)

section \<open>Losing manual control\<close>

definition quiet :: "Failsafe \<Rightarrow> bool" where
  "quiet s \<longleftrightarrow> fb_last_status_flags s = failsafe_flags_zero \<and> fs_last_state s = (\<lambda>_. False)"

abbreviation lost :: failsafe_flags_s where
  "lost \<equiv> with_flag manual_control_signal_lost"

lemma lost_flags [simp]:
  "ff_flag (with_flag g) h = (h = g)" "ff_battery_warning (with_flag g) = 0"
  "ff_mode_req (with_flag g) q = 0"
  by (simp_all add: with_flag_def failsafe_flags_zero_def)

lemma quiet_pass:
  "quiet s \<Longrightarrow> h \<noteq> g \<Longrightarrow> CHECK_FAILSAFE L (with_flag g) h opt s = s"
  "quiet s \<Longrightarrow> check_generated k False opt s = s"
  by (simp_all add: quiet_def check_pass generated_pass)

lemma lost_modes [simp]: "modeCanRun (with_flag g) m"
  by (simp add: modeCanRun_def)

lemma lost_fallback: "checkModeFallback s lost m = A_None"
  by (simp add: checkModeFallback_def posctl_fallback_def altctl_fallback_def
      manualControlFallbackAction_def)

lemma lost_pieces:
  assumes "quiet s"
  shows "check_gcs_connection_loss L st lost s = s" and "check_quadchute L st lost s = s"
    and "check_mission L st lost s = s" and "check_limits L st lost s = s"
    and "check_health L t st lost s = s" and "check_battery_warning lost s = s"
    and "check_spoolup t lost s = s" and "check_failure_detector L t lost s = s"
    and "check_mode_fallback st lost s = s"
  using assms by (simp_all add: check_defs Let_def quiet_pass lost_fallback)

text \<open>The first update after the loss adds one entry, which starts the delay. The action selected
  before is a parameter, so that the evaluation also serves a vehicle that already holds.\<close>

definition demo_at :: "Action \<Rightarrow> Failsafe" where
  "demo_at a = demo_flying\<lparr>fb_selected_action := a\<rparr>"

lemma demo_at_None: "demo_at A_None = demo_flying"
  by (simp add: demo_at_def demo_flying_eq demo_armed_def demo_init_def Failsafe_init_def)

lemmas demo_defs = demo_at_def demo_flying_eq demo_armed_def demo_init_def Failsafe_init_def

lemma demo_lost_begin: "begin_update 2000 flying u (demo_at a) = demo_at a"
proof -
  have "removeActions c (demo_at a) = demo_at a" for c
    by (rule removeActions_empty) (simp add: demo_at_def)
  moreover have "fb_last_update (demo_at a) = 1000" "fb_last_armed (demo_at a)"
      "\<not> fb_defer_failsafes (demo_at a)" "fb_current_delay (demo_at a) = 0"
      "demo_at a\<lparr>fb_current_delay := 0\<rparr> = demo_at a"
    by (simp_all add: demo_defs)
  ultimately show ?thesis
    by (simp add: begin_update_def Let_def flying_def updateDelay_def)
qed

definition lost_entry :: ActionOptions where
  "lost_entry = (causedBy C_ManualControlLoss (clearOn OnModeChangeOrDisarm (actionOptions A_RTL)))
     \<lparr>ao_allow_user_takeover := UT_Always, ao_state_failure := True, ao_activated := True,
      ao_id := 75\<rparr>"

definition demo_lost :: "Action \<Rightarrow> Failsafe" where
  "demo_lost a = (demo_at a)\<lparr>fb_actions := empty_table[7 := lost_entry\<lparr>ao_activated := False\<rparr>],
     fb_current_delay := 5000000, fb_pending_notification_cause := C_ManualControlLoss\<rparr>"

lemma demo_lost_check:
  "checkStateAndMode msg_layout 2000 flying lost (demo_at a) =
     (demo_lost a)\<lparr>fb_actions := empty_table[7 := lost_entry]\<rparr>"
proof -
  let ?s = "(demo_lost a)\<lparr>fb_actions := empty_table[7 := lost_entry]\<rparr>"
  have arm: "updateArmingState 2000 (st_armed flying) lost (demo_at a) = demo_at a"
    by (simp add: updateArmingState_def flying_def demo_defs)
  have fields: "\<not> fs_manual_control_lost_at_arming (demo_at a)"
      "fb_last_status_flags (demo_at a) = failsafe_flags_zero"
      "fs_last_state (demo_at a) = (\<lambda>_. False)" "fb_com_fail_act_t_gt_0_1 (demo_at a)"
      "fb_current_start_delay (demo_at a) = 5000000" "\<not> fb_user_takeover_active (demo_at a)"
      "fb_current_delay (demo_at a) = 0" "fb_actions (demo_at a) = empty_table"
      "fs_params (demo_at a) = demo_params"
      "(demo_at a)\<lparr>fb_user_takeover_active := False\<rparr> = demo_at a"
    by (simp_all add: demo_defs)
  have "find_slot 75 0 None empty_table = (Some 7, None)"
    by (simp add: eval_nat_numeral)
  then have "check_manual_control_loss msg_layout flying lost (demo_at a) = ?s"
    using fields
    by (simp add: check_manual_control_loss_def Let_def flying_def ignore_link_loss_vtol_takeoff_def
        isFailsafeIgnored_def demo_params_def CHECK_FAILSAFE_def checkFailsafe_def add_entry_def
        msg_layout_def fromNavDllOrRclActParam_def lost_entry_def option_defs action_order
        demo_lost_def)
  moreover have "quiet ?s" using fields by (simp add: quiet_def demo_lost_def)
  ultimately show ?thesis
    by (simp add: checkStateAndMode_def Let_def arm lost_pieces)
qed

lemma demo_lost_prepared:
  assumes "a \<le> A_Hold"
  shows "prepared (failsafe_vt msg_layout) 2000 flying u lost (demo_at a) = demo_lost a"
proof -
  have "removeNonActivatedActions (checkStateAndMode msg_layout 2000 flying lost (demo_at a)) =
      demo_lost a"
    unfolding demo_lost_check
    by (simp add: removeNonActivatedActions_def demo_lost_def map_update lost_entry_def ao_valid_def
        option_defs)
  moreover have "clearDelayIfNeeded lost (demo_lost a) = demo_lost a"
    using assms by (simp add: clearDelayIfNeeded_def demo_lost_def demo_defs not_less)
  ultimately show ?thesis
    unfolding prepared_def demo_lost_begin by (simp add: failsafe_vt_def)
qed

lemma demo_lost_fields:
  "select_worst (fb_actions (demo_lost a)) = (A_RTL, C_ManualControlLoss, UT_Always, True)"
  "fb_current_delay (demo_lost a) = 5000000" "\<not> fb_user_takeover_active (demo_lost a)"
  "\<not> fb_defer_failsafes (demo_lost a)" "fb_selected_action (demo_lost a) = a"
  by (simp add: select_worst_def demo_lost_def eval_nat_numeral lost_entry_def option_defs
      ao_valid_def action_order takeover_order)
     (simp_all add: demo_lost_def demo_defs)

lemmas select_eval =
  getSelectedAction_def flying_def Let_def delayed_selection_def action_can_be_delayed_def
  takeover_allowed_def takeover_order action_order SelectedActionState_init_def try_hold_def
  soften_def soften_step_def actionAllowsUserTakeover_def take_over_def

lemma demo_lost_selection:
  "sas_delayed_action (selection (failsafe_vt msg_layout) 2000 flying False False lost demo_flying) =
     A_RTL"
proof -
  have "selection (failsafe_vt msg_layout) 2000 flying False False lost (demo_at A_None) =
      fst (getSelectedAction (vt_checkModeFallback (failsafe_vt msg_layout)) flying lost False False
        (demo_lost A_None))"
    by (simp add: selection_def demo_lost_prepared) (simp add: demo_at_def flying_def)
  then show ?thesis
    unfolding demo_at_None by (simp add: select_eval demo_lost_fields)
qed

text \<open>A mode switch while the vehicle holds takes over.\<close>

lemma demo_takeover:
  "fb_user_takeover_active (snd (snd (Failsafe_update msg_layout 2000 flying True False lost
     (demo_at A_Hold))))"
  "fb_actions (snd (snd (Failsafe_update msg_layout 2000 flying True False lost
     (demo_at A_Hold)))) = empty_table[7 := lost_entry\<lparr>ao_activated := False\<rparr>]"
proof -
  have "selection (failsafe_vt msg_layout) 2000 flying True False lost (demo_at A_Hold) =
      fst (getSelectedAction (vt_checkModeFallback (failsafe_vt msg_layout)) flying lost True False
        (demo_lost A_Hold))"
    by (simp add: selection_def demo_lost_prepared)
  then have "sas_user_takeover (selection (failsafe_vt msg_layout) 2000 flying True False lost
      (demo_at A_Hold))"
    by (simp add: select_eval demo_lost_fields failsafe_vt_def lost_fallback)
  then show "fb_user_takeover_active (snd (snd (Failsafe_update msg_layout 2000 flying True False
      lost (demo_at A_Hold))))"
    by (simp add: Failsafe_update_def updated_eq)
  show "fb_actions (snd (snd (Failsafe_update msg_layout 2000 flying True False lost
      (demo_at A_Hold)))) = empty_table[7 := lost_entry\<lparr>ao_activated := False\<rparr>]"
    by (simp add: Failsafe_update_def updated_eq demo_lost_prepared) (simp add: demo_lost_def)
qed

section \<open>An entry that must not be deferred\<close>

definition urgent :: ActionOptions where
  "urgent = (cannotBeDeferred (clearOn ClearNever (actionOptions A_Land)))\<lparr>ao_id := 100\<rparr>"

definition demo_urgent :: Failsafe where
  "demo_urgent = demo_flying\<lparr>fb_actions := empty_table[0 := urgent], fb_defer_failsafes := True\<rparr>"

lemma demo_urgent_actions:
  "fb_actions (snd (snd (Failsafe_update msg_layout 2000 flying False False failsafe_flags_zero
     demo_urgent))) = empty_table[0 := urgent]"
proof -
  have f: "fb_last_update demo_urgent = 1000" "fb_last_armed demo_urgent"
      "fb_failsafe_defer_started demo_urgent = 0" "fb_current_delay demo_urgent = 0"
      "fb_last_user_intended_mode demo_urgent = st_user_intended_mode flying"
      "\<not> fb_user_takeover_active demo_urgent"
      "demo_urgent\<lparr>fb_current_delay := 0\<rparr> = demo_urgent"
      "updateArmingState 2000 (st_armed flying) failsafe_flags_zero demo_urgent = demo_urgent"
    by (simp_all add: demo_urgent_def demo_defs flying_def updateArmingState_def)
  have b: "begin_update 2000 flying False demo_urgent = demo_urgent"
    using f by (simp add: begin_update_def Let_def updateDelay_def flying_def)
  have "calm demo_urgent"
    by (simp add: calm_def demo_urgent_def demo_defs)
  then have "fb_actions (prepared (failsafe_vt msg_layout) 2000 flying False failsafe_flags_zero
      demo_urgent) = fb_actions (removeNonActivatedActions demo_urgent)"
    using b f(5,8) by (simp add: prepared_def failsafe_vt_def calm_checks)
  also have "\<dots> = empty_table[0 := urgent]"
    by (simp add: removeNonActivatedActions_def demo_urgent_def map_update removeAction_def
        urgent_def ao_valid_def option_defs)
  finally show ?thesis by (simp add: Failsafe_update_def updated_eq)
qed

end
