(* ===== verification/Failsafe_Properties.thy ===== *)
theory Failsafe_Properties
  imports Failsafe_Demo
begin

text \<open>
  What the failsafe state machine guarantees, stated for class \<^verbatim>\<open>Failsafe\<close> with any parameter
  values, any layout of the generated message struct that satisfies \<^const>\<open>layout_ok\<close>, and any
  sequence of inputs.
\<close>

section \<open>Mode requirements and feasibility\<close>

lemma descend_can_run:
  "modeCanRun (getModeRequirements vt f) NAVIGATION_STATE_DESCEND \<longleftrightarrow>
     \<not> ff_flag f angular_velocity_invalid \<and> \<not> ff_flag f attitude_invalid"
  by (auto simp: modeCanRun_requires requires_fallback_modes)

section \<open>Termination\<close>



text \<open>
  C2. Termination is final: once selected, no sequence of updates, deferral requests, parameter
  changes and callback registrations leaves it.
\<close>

theorem terminate_is_final:
  assumes "(fs_step L)\<^sup>*\<^sup>* s s'" and "fb_selected_action s = A_Terminate"
  shows "fb_selected_action s' = A_Terminate"
  using assms by (induction rule: rtranclp_induct) (auto intro: fs_step_terminate)

theorem terminate_is_final_witness:
  "fb_selected_action (snd (snd (Failsafe_update msg_layout 7 (flying\<lparr>st_armed := False\<rparr>) True True
     failsafe_flags_zero (demo_flying\<lparr>fb_selected_action := A_Terminate\<rparr>)))) = A_Terminate"
  by (rule terminate_is_final [where L = msg_layout],
      rule r_into_rtranclp [where r = "fs_step msg_layout"], rule step_update) simp

section \<open>Invariants over reachable states\<close>

text \<open>
  C3. In every reachable state the action table has its eight slots, no caller holds two of them,
  no slot holds the invalid action \<^verbatim>\<open>Count\<close>, no entry is left marked as activated, and the start
  delay does not exceed the configured one.
\<close>

theorem reachable_table_invariant:
  assumes "fs_reachable L s"
  shows "length (fb_actions s) = max_num_actions \<and> unique_on ao_valid ao_id (fb_actions s) \<and>
    list_all (\<lambda>a. ao_action a \<noteq> A_Count \<and> \<not> ao_activated a) (fb_actions s) \<and>
    fb_current_start_delay s \<le> fb_com_fail_act_t_us s"
  using fs_reachable_inv [OF assms] by (auto simp: fs_inv_def table_ok_def list_all_iff)

theorem reachable_table_invariant_witness:
  "length (fb_actions demo_flying) = max_num_actions \<and>
   unique_on ao_valid ao_id (fb_actions demo_flying) \<and>
   list_all (\<lambda>a. ao_action a \<noteq> A_Count \<and> \<not> ao_activated a) (fb_actions demo_flying) \<and>
   fb_current_start_delay demo_flying \<le> fb_com_fail_act_t_us demo_flying"
  by (rule reachable_table_invariant [OF demo_flying_reachable])

text \<open>
  C4. No check is made twice in one update: with distinct flag offsets the error branch that
  reports a duplicate caller is never taken, in any reachable state.
\<close>

theorem no_duplicate_check:
  assumes "fs_reachable L s" and "layout_ok L"
  shows "\<not> fb_duplicate_reported_once s"
  using assms(1)
proof (induction rule: fs_reachable_induct)
  case (init params t g)
  show ?case by (simp add: Failsafe_init_def)
next
  case (step s s')
  then show ?case
    using fs_step_no_duplicate assms(2) fs_reachable_inv fs_reachable_caller_id by blast
qed

theorem no_duplicate_check_witness: "\<not> fb_duplicate_reported_once demo_flying"
  by (rule no_duplicate_check [OF demo_flying_reachable msg_layout_ok])

section \<open>What is selected can be done\<close>

text \<open>
  C5. In a reachable state every update selects an action the vehicle can carry out under the
  flags it was given: no action, a warning, disarming, termination, or an action whose mode can
  run.
\<close>

theorem selected_action_feasible:
  assumes "fs_reachable L s"
  shows "feasible f (fb_selected_action (snd (snd (Failsafe_update L t st u r f s))))"
  unfolding Failsafe_update_def
  by (rule fs.update_feasible) (use fs_reachable_inv [OF assms] in \<open>simp add: fs_inv_def\<close>)

theorem selected_action_feasible_witness:
  "feasible (with_flag attitude_invalid) (fb_selected_action (snd (snd
     (Failsafe_update msg_layout 2000 flying False False (with_flag attitude_invalid) demo_flying))))"
  by (rule selected_action_feasible [OF demo_flying_reachable])

text \<open>
  C6. The fall-through switch of \<^verbatim>\<open>getSelectedAction\<close> computes the first feasible action of the
  chain from position control to termination that is at least as severe as the requested one.
\<close>

theorem fallback_is_first_feasible:
  "a \<in> set fallback_chain \<Longrightarrow>
     fst (fallback_switch f a c) = hd (filter (\<lambda>b. a \<le> b \<and> feasible f b) fallback_chain)"
  by (rule fallback_switch_chain)

theorem fallback_is_first_feasible_witness:
  "fst (fallback_switch failsafe_flags_zero A_FallbackAltCtrl C_Generic) =
     hd (filter (\<lambda>b. A_FallbackAltCtrl \<le> b \<and> feasible failsafe_flags_zero b) fallback_chain)"
  by (rule fallback_is_first_feasible) (simp add: fallback_chain_def)

text \<open>
  C7. With the requirements the commander configures, falling back never ends in termination as
  long as attitude and angular velocity are valid: Descend needs nothing else.
\<close>

theorem no_termination_by_fallback:
  assumes "\<not> ff_flag f angular_velocity_invalid" and "\<not> ff_flag f attitude_invalid"
    and "a \<noteq> A_Terminate"
  shows "fst (fallback_switch (getModeRequirements vt f) a c) \<noteq> A_Terminate"
proof -
  have "modeCanRun (getModeRequirements vt f) NAVIGATION_STATE_DESCEND"
    using assms(1,2) by (simp add: descend_can_run)
  with assms(3) show ?thesis by (cases a) (simp_all add: try_defs)
qed

theorem no_termination_by_fallback_witness:
  "fst (fallback_switch (getModeRequirements VEHICLE_TYPE_ROTARY_WING
     (with_flag local_position_invalid)) A_RTL C_Generic) \<noteq> A_Terminate"
  by (rule no_termination_by_fallback) (simp_all add: with_flag_def)

text \<open>
  C8. A disarmed vehicle has no failsafe action, unless the flight was terminated or termination
  is the intended mode.
\<close>

theorem disarmed_selects_none:
  assumes "\<not> st_armed st" and "st_user_intended_mode st \<noteq> NAVIGATION_STATE_TERMINATION"
    and "fb_selected_action s \<noteq> A_Terminate"
  shows "fb_selected_action (snd (snd (Failsafe_update L t st u r f s))) = A_None"
  unfolding Failsafe_update_def using assms by (rule fs.update_disarmed)

theorem disarmed_selects_none_witness:
  "fb_selected_action (snd (snd (Failsafe_update msg_layout 2000 (flying\<lparr>st_armed := False\<rparr>)
     False True (with_flag fd_critical_failure) demo_flying))) = A_None"
  by (rule disarmed_selects_none) (simp_all add: flying_def)

section \<open>Delays\<close>

text \<open>
  The reaction is never postponed for longer than configured: while the configured delay is at
  most \<open>T\<close>, a running delay that is at most \<open>T\<close> stays at most \<open>T\<close>, for any clock values (the
  statement needs no assumption on wrap-around).
\<close>

lemma delay_bounded:
  assumes "fs_reachable L s" and "fb_com_fail_act_t_us s \<le> T" and "fb_current_delay s \<le> T"
  shows "fb_current_delay (snd (snd (Failsafe_update L t st u r f s))) \<le> T"
  unfolding Failsafe_update_def
  using assms fs_reachable_inv [OF assms(1)]
  by (intro fs.update_delay) (auto simp: fs_inv_def)

lemma delay_bounded_demo:
  "fb_current_delay (snd (snd (Failsafe_update msg_layout 2000 flying False False
     (with_flag manual_control_signal_lost) demo_flying))) \<le> 5000000"
  by (rule delay_bounded [OF demo_flying_reachable])
     (simp_all add: demo_flying_eq demo_armed_def demo_init_def Failsafe_init_def)

text \<open>
  C10. While an action is delayed the vehicle is in Hold, and Hold is really available: the
  selected action is Hold, and the mode Hold stands for can run.
\<close>

theorem delayed_action_holds:
  assumes "fs_reachable L s"
    and "sas_delayed_action (selection (failsafe_vt L) t st u r f s) \<noteq> A_None"
  shows "fb_selected_action (snd (snd (Failsafe_update L t st u r f s))) = A_Hold \<and>
    modeCanRun f NAVIGATION_STATE_AUTO_LOITER"
proof -
  have hold: "fb_selected_action (snd (snd (Failsafe_update L t st u r f s))) = A_Hold"
    unfolding Failsafe_update_def using assms(2) by (rule fs.update_delayed_hold)
  have "feasible f (fb_selected_action (snd (snd (Failsafe_update L t st u r f s))))"
    unfolding Failsafe_update_def
    by (rule fs.update_feasible) (use fs_reachable_inv [OF assms(1)] in \<open>simp add: fs_inv_def\<close>)
  with hold show ?thesis by (simp add: feasible_def)
qed

theorem delayed_action_holds_witness:
  "fb_selected_action (snd (snd (Failsafe_update msg_layout 2000 flying False False lost
     demo_flying))) = A_Hold \<and> modeCanRun lost NAVIGATION_STATE_AUTO_LOITER"
  by (rule delayed_action_holds [OF demo_flying_reachable]) (simp add: demo_lost_selection)

section \<open>Takeover and deferral\<close>

text \<open>
  C11. A user takeover needs the consent of every active action: if a takeover is active after an
  update, no active entry of the table forbids it.
\<close>

theorem takeover_permitted:
  assumes "fb_user_takeover_active (snd (snd (Failsafe_update L t st u r f s)))"
    and "a \<in> set (fb_actions (snd (snd (Failsafe_update L t st u r f s))))"
    and "ao_valid a" and "ao_action a \<noteq> A_None"
  shows "ao_allow_user_takeover a \<le> UT_AlwaysModeSwitchOnly"
proof (rule getSelectedAction_takeover)
  show "sas_user_takeover (fst (getSelectedAction (vt_checkModeFallback (failsafe_vt L)) st f
      (u \<or> fb_last_user_intended_mode s \<noteq> st_user_intended_mode st) r
      (prepared (failsafe_vt L) t st u f s)))"
    using assms(1) by (simp add: Failsafe_update_def updated_eq selection_def)
  show "a \<in> set (fb_actions (prepared (failsafe_vt L) t st u f s))"
    using assms(2) by (simp add: Failsafe_update_def updated_eq)
qed (use assms in simp)

theorem takeover_permitted_witness:
  "ao_allow_user_takeover (lost_entry\<lparr>ao_activated := False\<rparr>) \<le> UT_AlwaysModeSwitchOnly"
  by (rule takeover_permitted [OF demo_takeover(1)], unfold demo_takeover(2))
     (simp_all add: nth_mem_update lost_entry_def ao_valid_def option_defs)

text \<open>
  C12. Deferral ends: once the deferral timeout has passed since a failsafe was first deferred, the
  next update switches deferral off and defers nothing.
\<close>

theorem deferral_times_out:
  assumes "failsafeDeferred s" and "fb_defer_timeout s > 0"
    and "t > fb_failsafe_defer_started s + fb_defer_timeout s"
  shows "\<not> fb_defer_failsafes (snd (snd (Failsafe_update L t st u r f s))) \<and>
    \<not> failsafeDeferred (snd (snd (Failsafe_update L t st u r f s)))"
  using assms fs.update_defer_timeout [of s t L st u r f]
  by (simp add: Failsafe_update_def failsafeDeferred_def)

theorem deferral_times_out_witness:
  "\<not> fb_defer_failsafes (snd (snd (Failsafe_update msg_layout 40000000 flying False False lost
       (demo_flying\<lparr>fb_defer_failsafes := True, fb_failsafe_defer_started := 2000,
          fb_defer_timeout := DEFAULT_DEFER_TIMEOUT\<rparr>)))) \<and>
   \<not> failsafeDeferred (snd (snd (Failsafe_update msg_layout 40000000 flying False False lost
       (demo_flying\<lparr>fb_defer_failsafes := True, fb_failsafe_defer_started := 2000,
          fb_defer_timeout := DEFAULT_DEFER_TIMEOUT\<rparr>))))"
  by (rule deferral_times_out)
     (simp_all add: failsafeDeferred_def DEFAULT_DEFER_TIMEOUT_def time_s_def)



section \<open>The returned mode\<close>



section \<open>Severity\<close>

text \<open>
  C15. A failing check is never outvoted: after it the worst action of the table is at least as
  severe as the action it asks for, even when all eight slots are taken.
\<close>

theorem failing_check_counts:
  assumes "length (fb_actions s) = max_num_actions" and "c \<noteq> -1"
  shows "ao_action opt \<le> worst (fb_actions (checkFailsafe c l True opt s))"
proof (cases rule: checkFailsafe_cases [of s c l opt])
  case (found j)
  let ?e = "(fb_actions s ! j)\<lparr>ao_state_failure := True, ao_activated := True,
      ao_action := ao_action opt\<rparr>"
  from found have "?e \<in> set (fb_actions (update_entry j opt s))"
    by (simp add: update_entry_actions nth_mem_update)
  from worst_ge [OF this] found show ?thesis by simp
next
  case (add j)
  let ?e = "entry_of c opt (fb_com_fail_act_t_gt_0_1 s)"
  from add have "?e \<in> set (fb_actions (add_entry c j opt s))"
    by (simp add: add_entry_actions nth_mem_update)
  from worst_ge [OF this] add assms(2) show ?thesis by (simp add: ao_valid_def)
next
  case dropped
  from assms(1) have "fb_actions s ! 0 \<in> set (fb_actions s)" by (intro nth_mem) simp
  with dropped worst_ge [of "fb_actions s ! 0" "fb_actions s"] show ?thesis
    by (metis order_trans)
qed

theorem failing_check_counts_witness:
  "A_Land \<le> worst (fb_actions (checkFailsafe 99 False True (actionOptions A_Land)
     (demo_flying\<lparr>fb_actions := map (\<lambda>i. (actionOptions A_RTL)\<lparr>ao_id := i\<rparr>) [1..8]\<rparr>)))"
  using failing_check_counts [of "demo_flying\<lparr>fb_actions :=
      map (\<lambda>i. (actionOptions A_RTL)\<lparr>ao_id := i\<rparr>) [1..8]\<rparr>" 99 "actionOptions A_Land" False]
  by simp



end
