(* ===== verification/Vehicle_Status.thy ===== *)
theory Vehicle_Status
  imports Vehicle_Messages
begin

text \<open>
  The messages \<^verbatim>\<open>VehicleStatus\<close> and \<^verbatim>\<open>ActuatorArmed\<close>, with the fields the arming checks, the mode
  management and the arming of the commander read or write, and the event identifiers and
  arguments of \<^verbatim>\<open>px4_platform_common/events.h\<close>.
\<close>

section \<open>Status of the vehicle\<close>

abbreviation ARMING_STATE_DISARMED :: u8 where
  "ARMING_STATE_DISARMED \<equiv> 1"

abbreviation ARMING_STATE_ARMED :: u8 where
  "ARMING_STATE_ARMED \<equiv> 2"

record vehicle_status_s =
  vs_armed_time :: hrt_abstime
  vs_takeoff_time :: hrt_abstime
  vs_arming_state :: u8
  vs_latest_arming_reason :: u8
  vs_latest_disarming_reason :: u8
  vs_nav_state_user_intention :: u8
  vs_nav_state :: u8
  vs_vehicle_type :: u8
  vs_gcs_connection_lost :: bool
  vs_is_vtol :: bool
  vs_in_transition_mode :: bool
  vs_system_type :: u8
  vs_safety_button_available :: bool
  vs_safety_off :: bool
  vs_usb_connected :: bool
  vs_open_drone_id_system_present :: bool
  vs_open_drone_id_system_healthy :: bool
  vs_parachute_system_present :: bool
  vs_parachute_system_healthy :: bool
  vs_traffic_avoidance_system_present :: bool
  vs_rc_calibration_in_progress :: bool
  vs_calibration_enabled :: bool

definition vehicle_status_zero :: vehicle_status_s where
  "vehicle_status_zero =
     \<lparr>vs_armed_time = 0, vs_takeoff_time = 0, vs_arming_state = 0, vs_latest_arming_reason = 0,
      vs_latest_disarming_reason = 0, vs_nav_state_user_intention = 0, vs_nav_state = 0,
      vs_vehicle_type = 0, vs_gcs_connection_lost = False, vs_is_vtol = False,
      vs_in_transition_mode = False, vs_system_type = 0, vs_safety_button_available = False, vs_safety_off = False,
      vs_usb_connected = False, vs_open_drone_id_system_present = False,
      vs_open_drone_id_system_healthy = False, vs_parachute_system_present = False,
      vs_parachute_system_healthy = False, vs_traffic_avoidance_system_present = False,
      vs_rc_calibration_in_progress = False, vs_calibration_enabled = False\<rparr>"

record actuator_armed_s =
  aa_armed :: bool
  aa_prearmed :: bool
  aa_ready_to_arm :: bool
  aa_lockdown :: bool
  aa_kill :: bool
  aa_termination :: bool
  aa_in_esc_calibration_mode :: bool

section \<open>Events\<close>

text \<open>
  The 32-bit FNV-1a hash of a name. Names are char lists, without the terminating zero; a char
  outside ASCII is read as unsigned.
\<close>

fun hash_32_fnv1a_const :: "string \<Rightarrow> u32 \<Rightarrow> u32" where
  "hash_32_fnv1a_const [] value = value"
| "hash_32_fnv1a_const (c # str) value =
     hash_32_fnv1a_const str ((value XOR of_char c) * 0x1000193)"

abbreviation val_32_const :: u32 where
  "val_32_const \<equiv> 0x811c9dc5"

definition event_ID :: "string \<Rightarrow> u32" where
  "event_ID name = (0xffffff AND hash_32_fnv1a_const name val_32_const) OR push_bit 24 1"

text \<open>The memory of a word of \<open>n\<close> bytes on a little-endian machine.\<close>

definition le_bytes :: "nat \<Rightarrow> 'a::len word \<Rightarrow> u8 list" where
  "le_bytes n w = map (\<lambda>i. ucast (drop_bit (8 * i) w)) [0..<n]"

definition from_le_bytes :: "u8 list \<Rightarrow> u32" where
  "from_le_bytes bs = foldr (\<lambda>b acc. ucast b OR push_bit 8 acc) bs 0"

lemma length_le_bytes [simp]: "length (le_bytes n w) = n"
  by (simp add: le_bytes_def)

lemma le_bytes_4:
  "le_bytes 4 (w :: 'a::len word) =
     [ucast w, ucast (drop_bit 8 w), ucast (drop_bit 16 w), ucast (drop_bit 24 w)]"
  by (simp add: le_bytes_def upt_rec)

lemma from_le_bytes_4 [simp]: "from_le_bytes (le_bytes 4 (w :: u32)) = w"
  unfolding le_bytes_4 from_le_bytes_def
  by (rule bit_word_eqI)
     (auto simp: bit_simps not_le not_less less_diff_conv2, metis le_add_diff_inverse not_less)

text \<open>Log levels, external first; smaller is more severe.\<close>

abbreviation Log_Critical :: u8 where "Log_Critical \<equiv> 2"
abbreviation Log_Error :: u8 where "Log_Error \<equiv> 3"
abbreviation Log_Warning :: u8 where "Log_Warning \<equiv> 4"
abbreviation Log_Info :: u8 where "Log_Info \<equiv> 6"

record LogLevels =
  ll_external :: u8
  ll_internal :: u8

definition log_both :: "u8 \<Rightarrow> LogLevels" where
  "log_both external_level = \<lparr>ll_external = external_level, ll_internal = external_level\<rparr>"

definition externalLogLevel :: "u8 \<Rightarrow> u8" where
  "externalLogLevel log_levels = log_levels AND 0xf"

definition internalLogLevel :: "u8 \<Rightarrow> u8" where
  "internalLogLevel log_levels = drop_bit 4 log_levels"

definition pack_log_levels :: "LogLevels \<Rightarrow> u8" where
  "pack_log_levels l = push_bit 4 (ll_internal l) OR ll_external l"

lemma bit_15: "bit (15 :: int) n \<longleftrightarrow> n < 4"
proof -
  have "bit (mask 4 :: int) n \<longleftrightarrow> n < 4" by (simp only: bit_mask_iff) simp
  moreover have "(mask 4 :: int) = 15" by (simp add: mask_eq_exp_minus_1)
  ultimately show ?thesis by simp
qed

lemma pack_unpack_log_levels:
  "pack_log_levels \<lparr>ll_external = externalLogLevel b, ll_internal = internalLogLevel b\<rparr> = b"
  unfolding pack_log_levels_def externalLogLevel_def internalLogLevel_def
  by (intro bit_word_eqI)
     (auto simp: bit_simps bit_15 not_le)

text \<open>The message \<^verbatim>\<open>Event\<close>; its arguments are 25 bytes.\<close>

record event_s =
  ev_id :: u32
  ev_log_levels :: u8
  ev_arguments :: "u8 list"

abbreviation event_arguments_size :: nat where
  "event_arguments_size \<equiv> 25"

abbreviation event_ORB_QUEUE_LENGTH :: nat where
  "event_ORB_QUEUE_LENGTH \<equiv> 16"

end
