(* ===== verification/Health_Report.thy ===== *)
theory Health_Report
  imports Vehicle_Status Mode_Util
begin

text \<open>
  The class \<^verbatim>\<open>Report\<close> of \<^verbatim>\<open>HealthAndArmingChecks/Common.{hpp,cpp}\<close>: the bit sets of modes in which
  arming and mode switching are possible, the health of the components, and the byte buffer that
  collects the events of one run of the checks until they are sent.

  The two-element array of results is a function of the index. The reference to the failsafe flags
  is a field of the record. Times and sent events are explicit inputs and outputs. The text
  messages that are sent in addition for old ground stations are not modelled.
\<close>

section \<open>Components and mode groups\<close>

abbreviation hc_remote_control :: u32 where "hc_remote_control \<equiv> 128"
abbreviation hc_logging :: u32 where "hc_logging \<equiv> 1024"
abbreviation hc_communication_links :: u32 where "hc_communication_links \<equiv> 4096"
abbreviation hc_attitude_estimate :: u32 where "hc_attitude_estimate \<equiv> 65536"
abbreviation hc_local_position_estimate :: u32 where "hc_local_position_estimate \<equiv> 131072"
abbreviation hc_system :: u32 where "hc_system \<equiv> 1048576"
abbreviation hc_global_position_estimate :: u32 where "hc_global_position_estimate \<equiv> 16777216"
abbreviation hc_parachute :: u32 where "hc_parachute \<equiv> 67108864"
abbreviation hc_open_drone_id :: u32 where "hc_open_drone_id \<equiv> 1073741824"
abbreviation hc_traffic_avoidance :: u32 where "hc_traffic_avoidance \<equiv> 2147483648"

abbreviation NavModes_None :: u32 where "NavModes_None \<equiv> 0"
abbreviation NavModes_All :: u32 where "NavModes_All \<equiv> 0xffffffff"

text \<open>The loop of \<^verbatim>\<open>HealthComponentIndex::log2\<close>, from its counter \<open>i\<close>.\<close>

function log2_from :: "u64 \<Rightarrow> u8 \<Rightarrow> u8" where
  "log2_from x i = (if x > 1 then log2_from (drop_bit 1 x) (i + 1) else i)"
  by pat_completeness auto

termination
  by (relation "measure (\<lambda>(x, i). unat x)")
     (auto simp: drop_bit_Suc drop_bit_0 word_less_nat_alt unat_div)

declare log2_from.simps [simp del]

definition HealthComponentIndex :: "u32 \<Rightarrow> u8" where
  "HealthComponentIndex component = log2_from (ucast component) 0"

definition getModeGroup :: "u8 \<Rightarrow> u32" where
  "getModeGroup nav_state = bit_mask nav_state"

text \<open>What a check is given: the vehicle status, and whether arming is being requested.\<close>

record Context =
  cx_status :: vehicle_status_s
  cx_is_arming_request :: bool

definition isArmed :: "Context \<Rightarrow> bool" where
  "isArmed c \<longleftrightarrow> vs_arming_state (cx_status c) = ARMING_STATE_ARMED"

section \<open>Results\<close>

record HealthResults =
  hr_is_present :: u32
  hr_error :: u32
  hr_warning :: u32

definition HealthResults_reset :: HealthResults where
  "HealthResults_reset = \<lparr>hr_is_present = 0, hr_error = 0, hr_warning = 0\<rparr>"

record ArmingCheckResults =
  ac_error :: u32
  ac_warning :: u32
  ac_can_arm :: u32
  ac_can_run :: u32
  ac_valid :: bool

definition ArmingCheckResults_reset :: ArmingCheckResults where
  "ArmingCheckResults_reset =
     \<lparr>ac_error = 0, ac_warning = 0, ac_can_arm = -1, ac_can_run = -1, ac_valid = False\<rparr>"

record Results =
  rs_health :: HealthResults
  rs_arming_checks :: ArmingCheckResults
  rs_num_events :: int
  rs_event_id_hash :: u32

definition Results_reset :: Results where
  "Results_reset =
     \<lparr>rs_health = HealthResults_reset, rs_arming_checks = ArmingCheckResults_reset,
      rs_num_events = 0, rs_event_id_hash = 0\<rparr>"

text \<open>
  The header of a buffered event is packed: one byte for the size of the arguments, four for the
  identifier, one for the log levels.
\<close>

abbreviation sizeof_EventBufferHeader :: nat where
  "sizeof_EventBufferHeader \<equiv> 6"

definition EventBufferHeader :: "nat \<Rightarrow> u32 \<Rightarrow> u8 \<Rightarrow> u8 list" where
  "EventBufferHeader args_size event_id log_levels =
     [of_nat args_size] @ le_bytes 4 event_id @ [log_levels]"

abbreviation sizeof_event_buffer :: nat where
  "sizeof_event_buffer \<equiv> (event_ORB_QUEUE_LENGTH - 2) * (sizeof_EventBufferHeader + 1 + 1 + 4)"

record Report =
  rp_min_reporting_interval :: hrt_abstime
  rp_event_buffer :: "u8 list"
  rp_next_buffer_idx :: nat
  rp_buffer_overflowed :: bool
  rp_already_reported :: bool
  rp_had_unreported_difference :: bool
  rp_results_changed :: bool
  rp_last_report :: hrt_abstime
  rp_results :: "nat \<Rightarrow> Results"
  rp_current_result :: nat
  rp_failsafe_flags :: failsafe_flags_s

definition Report_init :: "failsafe_flags_s \<Rightarrow> hrt_abstime \<Rightarrow> Report" where
  "Report_init failsafe_flags min_reporting_interval =
     \<lparr>rp_min_reporting_interval = min_reporting_interval,
      rp_event_buffer = replicate sizeof_event_buffer 0, rp_next_buffer_idx = 0,
      rp_buffer_overflowed = False, rp_already_reported = False,
      rp_had_unreported_difference = False, rp_results_changed = False, rp_last_report = 0,
      rp_results = (\<lambda>_. Results_reset), rp_current_result = 0,
      rp_failsafe_flags = failsafe_flags\<rparr>"

definition current :: "Report \<Rightarrow> Results" where
  "current r = rp_results r (rp_current_result r)"

definition map_current :: "(Results \<Rightarrow> Results) \<Rightarrow> Report \<Rightarrow> Report" where
  "map_current f r = r\<lparr>rp_results := (rp_results r)(rp_current_result r := f (current r))\<rparr>"

definition map_health :: "(HealthResults \<Rightarrow> HealthResults) \<Rightarrow> Report \<Rightarrow> Report" where
  "map_health f = map_current (rs_health_update f)"

definition map_arming_checks :: "(ArmingCheckResults \<Rightarrow> ArmingCheckResults) \<Rightarrow> Report \<Rightarrow> Report" where
  "map_arming_checks f = map_current (rs_arming_checks_update f)"

abbreviation can_arm :: "Report \<Rightarrow> u32" where
  "can_arm r \<equiv> ac_can_arm (rs_arming_checks (current r))"

abbreviation can_run :: "Report \<Rightarrow> u32" where
  "can_run r \<equiv> ac_can_run (rs_arming_checks (current r))"

section \<open>Queries\<close>

definition canArm :: "Report \<Rightarrow> u8 \<Rightarrow> bool" where
  "canArm r nav_state \<longleftrightarrow>
     ac_valid (rs_arming_checks (current r)) \<and> can_arm r AND getModeGroup nav_state \<noteq> 0"

definition canRun :: "Report \<Rightarrow> u8 \<Rightarrow> bool" where
  "canRun r nav_state \<longleftrightarrow>
     ac_valid (rs_arming_checks (current r)) \<and> can_run r AND getModeGroup nav_state \<noteq> 0"

definition modePreventsArming :: "Report \<Rightarrow> u8 \<Rightarrow> bool" where
  "modePreventsArming r nav_state \<longleftrightarrow>
     ff_mode_req (rp_failsafe_flags r) mode_req_prevent_arming AND bit_mask nav_state \<noteq> 0"

record health_report_s =
  hrs_can_arm_mode_flags :: u64
  hrs_can_run_mode_flags :: u64
  hrs_arming_check_error_flags :: u64
  hrs_arming_check_warning_flags :: u64
  hrs_health_is_present_flags :: u64
  hrs_health_error_flags :: u64
  hrs_health_warning_flags :: u64

text \<open>The modes whose group has a bit in common with \<open>flags\<close>, as a 64-bit mask.\<close>

definition mode_flags :: "u32 \<Rightarrow> u64" where
  "mode_flags flags =
     fold (\<lambda>i acc. if flags AND getModeGroup (of_nat i) \<noteq> 0 then acc OR push_bit i 1 else acc)
       [0..<unat NAVIGATION_STATE_MAX] 0"

definition getHealthReport :: "Report \<Rightarrow> health_report_s" where
  "getHealthReport r =
    (let ac = rs_arming_checks (current r); h = rs_health (current r) in
     \<lparr>hrs_can_arm_mode_flags = mode_flags (ac_can_arm ac),
      hrs_can_run_mode_flags = mode_flags (ac_can_run ac),
      hrs_arming_check_error_flags = ucast (ac_error ac),
      hrs_arming_check_warning_flags = ucast (ac_warning ac),
      hrs_health_is_present_flags = ucast (hr_is_present h),
      hrs_health_error_flags = ucast (hr_error h),
      hrs_health_warning_flags = ucast (hr_warning h)\<rparr>)"

section \<open>Failures and bits\<close>

definition clearArmingBits :: "u32 \<Rightarrow> Report \<Rightarrow> Report" where
  "clearArmingBits modes = map_arming_checks (ac_can_arm_update (\<lambda>can_arm. can_arm AND NOT modes))"

definition clearCanRunBits :: "u32 \<Rightarrow> Report \<Rightarrow> Report" where
  "clearCanRunBits modes = map_arming_checks (ac_can_run_update (\<lambda>can_run. can_run AND NOT modes))"

definition setIsPresent :: "u32 \<Rightarrow> Report \<Rightarrow> Report" where
  "setIsPresent component = map_health (hr_is_present_update (\<lambda>is_present. is_present OR component))"

definition setHealth :: "u32 \<Rightarrow> bool \<Rightarrow> bool \<Rightarrow> bool \<Rightarrow> Report \<Rightarrow> Report" where
  "setHealth component is_present warning err r =
    (let r = (if is_present then map_health (hr_is_present_update (\<lambda>x. x OR component)) r else r);
         r = (if warning then map_health (hr_warning_update (\<lambda>x. x OR component)) r else r)
     in if err then map_health (hr_error_update (\<lambda>x. x OR component)) r else r)"

definition reportedModes :: "u32 \<Rightarrow> u32" where
  "reportedModes required_modes =
     (if required_modes = NavModes_None then NavModes_All else required_modes)"

text \<open>The overloads that set the bits of the results.\<close>

definition healthFailure_bits :: "u32 \<Rightarrow> u8 \<Rightarrow> u8 \<Rightarrow> Report \<Rightarrow> Report" where
  "healthFailure_bits required_modes component_index log_level r =
    (let bits = push_bit (unat component_index) 1;
         r = (if log_level \<le> Log_Error then map_health (hr_error_update (\<lambda>x. x OR bits)) r
              else if log_level \<le> Log_Warning then map_health (hr_warning_update (\<lambda>x. x OR bits)) r
              else r)
     in clearArmingBits required_modes r)"

definition armingCheckFailure_bits :: "u32 \<Rightarrow> u8 \<Rightarrow> u8 \<Rightarrow> Report \<Rightarrow> Report" where
  "armingCheckFailure_bits required_modes component_index log_level r =
    (let bits = push_bit (unat component_index) 1;
         r = (if log_level \<le> Log_Error then map_arming_checks (ac_error_update (\<lambda>x. x OR bits)) r
              else if log_level \<le> Log_Warning
                then map_arming_checks (ac_warning_update (\<lambda>x. x OR bits)) r
              else r)
     in clearArmingBits required_modes r)"

section \<open>The event buffer\<close>

text \<open>
  \<open>addEventToBuffer\<close> writes the header in front of the arguments, which its callers have copied to
  the buffer already.
\<close>

definition addEventToBuffer :: "u32 \<Rightarrow> LogLevels \<Rightarrow> u32 \<Rightarrow> nat \<Rightarrow> Report \<Rightarrow> Report" where
  "addEventToBuffer event_id log_levels modes args_size r =
    (let r = r\<lparr>rp_event_buffer :=
                 write_bytes (rp_next_buffer_idx r)
                   (EventBufferHeader args_size event_id (pack_log_levels log_levels))
                   (rp_event_buffer r),
               rp_next_buffer_idx :=
                 rp_next_buffer_idx r + (sizeof_EventBufferHeader + args_size)\<rparr>
     in map_current (\<lambda>rs. rs\<lparr>rs_num_events := rs_num_events rs + 1,
          rs_event_id_hash := rs_event_id_hash rs XOR (event_id XOR modes)\<rparr>) r)"

text \<open>The arguments, without the modes, are given as the bytes \<^verbatim>\<open>fillEventArguments\<close> writes.\<close>

definition addEvent :: "u32 \<Rightarrow> LogLevels \<Rightarrow> u32 \<Rightarrow> u8 list \<Rightarrow> Report \<Rightarrow> bool \<times> Report" where
  "addEvent event_id log_levels modes args r =
    (let arguments = le_bytes 4 modes @ args;
         args_size = length arguments;
         total_size = sizeof_EventBufferHeader + args_size
     in if total_size > sizeof_event_buffer - rp_next_buffer_idx r
        then (False, r\<lparr>rp_buffer_overflowed := True\<rparr>)
        else (True, addEventToBuffer event_id log_levels modes args_size
               (r\<lparr>rp_event_buffer :=
                    write_bytes (rp_next_buffer_idx r + sizeof_EventBufferHeader) arguments
                      (rp_event_buffer r)\<rparr>)))"

text \<open>The loop that trims trailing zeros, as a recursion over the number of bytes left.\<close>

fun trimmed_size :: "u8 list \<Rightarrow> nat \<Rightarrow> nat" where
  "trimmed_size args 0 = 0"
| "trimmed_size args (Suc n) = (if args ! n = 0 then trimmed_size args n else Suc n)"

definition addExternalEvent :: "event_s \<Rightarrow> u32 \<Rightarrow> Report \<Rightarrow> bool \<times> Report" where
  "addExternalEvent event modes r =
    (let args_size = trimmed_size (ev_arguments event) event_arguments_size;
         total_size = sizeof_EventBufferHeader + args_size
     in if total_size > sizeof_event_buffer - rp_next_buffer_idx r
        then (False, r\<lparr>rp_buffer_overflowed := True\<rparr>)
        else
          (let log_levels = \<lparr>ll_external = externalLogLevel (ev_log_levels event),
                             ll_internal = internalLogLevel (ev_log_levels event)\<rparr>
           in (True, addEventToBuffer (ev_id event) log_levels modes args_size
                (r\<lparr>rp_event_buffer :=
                     write_bytes (rp_next_buffer_idx r + sizeof_EventBufferHeader)
                       (take args_size (ev_arguments event)) (rp_event_buffer r)\<rparr>))))"

definition healthFailure ::
  "u32 \<Rightarrow> u32 \<Rightarrow> u32 \<Rightarrow> LogLevels \<Rightarrow> u8 list \<Rightarrow> Report \<Rightarrow> Report" where
  "healthFailure required_modes component event_id log_levels args r =
    (let index = HealthComponentIndex component;
         r = healthFailure_bits required_modes index (ll_external log_levels) r
     in snd (addEvent event_id log_levels (reportedModes required_modes) (index # args) r))"

definition armingCheckFailure ::
  "u32 \<Rightarrow> u32 \<Rightarrow> u32 \<Rightarrow> LogLevels \<Rightarrow> u8 list \<Rightarrow> Report \<Rightarrow> Report" where
  "armingCheckFailure required_modes component event_id log_levels args r =
    (let index = HealthComponentIndex component;
         r = armingCheckFailure_bits required_modes index (ll_external log_levels) r
     in snd (addEvent event_id log_levels (reportedModes required_modes) (index # args) r))"

text \<open>The overload with separate modes for the message and for the failure.\<close>

definition armingCheckFailure_split ::
  "u32 \<Rightarrow> u32 \<Rightarrow> u32 \<Rightarrow> u32 \<Rightarrow> LogLevels \<Rightarrow> Report \<Rightarrow> Report" where
  "armingCheckFailure_split message_modes fail_modes component event_id log_levels r =
    (let index = HealthComponentIndex component;
         r = armingCheckFailure_bits fail_modes index (ll_external log_levels) r
     in snd (addEvent event_id log_levels (reportedModes (message_modes OR fail_modes)) [index] r))"

section \<open>Runs of the checks\<close>

definition Report_reset :: "Report \<Rightarrow> Report" where
  "Report_reset r =
    (let i = (rp_current_result r + 1) mod 2 in
     r\<lparr>rp_current_result := i, rp_results := (rp_results r)(i := Results_reset),
       rp_next_buffer_idx := 0, rp_buffer_overflowed := False, rp_results_changed := False\<rparr>)"

definition prepare :: "u8 \<Rightarrow> Report \<Rightarrow> Report" where
  "prepare vehicle_type r =
     r\<lparr>rp_failsafe_flags := getModeRequirements vehicle_type (rp_failsafe_flags r)\<rparr>"

definition finalize :: "Report \<Rightarrow> bool \<times> Report" where
  "finalize r =
    (let r = map_arming_checks (\<lambda>ac. ac\<lparr>ac_valid := True\<rparr>) r;
         changed = (rp_results r 0 \<noteq> rp_results r 1)
     in (changed, r\<lparr>rp_already_reported := False, rp_results_changed := changed\<rparr>))"

datatype sent_event =
    ArmingCheckSummary u32 u32 u32 u32
  | CheckEvent event_s
  | HealthSummary u32 u32 u32

text \<open>The loop that sends the buffered events; \<open>n\<close> counts the iterations left.\<close>

fun buffered_events :: "nat \<Rightarrow> u8 list \<Rightarrow> nat \<Rightarrow> nat \<Rightarrow> event_s list" where
  "buffered_events 0 buffer next_buffer_idx offset = []"
| "buffered_events (Suc n) buffer next_buffer_idx offset =
    (if offset < next_buffer_idx
     then let args_size = unat (buffer ! offset);
              event_id = from_le_bytes (take 4 (drop (offset + 1) buffer));
              log_levels = buffer ! (offset + 5);
              args = take args_size (drop (offset + sizeof_EventBufferHeader) buffer)
          in \<lparr>ev_id = event_id, ev_log_levels = log_levels,
              ev_arguments = args @ replicate (event_arguments_size - args_size) 0\<rparr>
             # buffered_events n buffer next_buffer_idx
                 (offset + (sizeof_EventBufferHeader + args_size))
     else [])"

definition report :: "hrt_abstime \<Rightarrow> bool \<Rightarrow> Report \<Rightarrow> bool \<times> sent_event list \<times> Report" where
  "report now force r =
    (let has_difference = (rp_had_unreported_difference r \<or> rp_results_changed r) in
     if now < rp_last_report r + rp_min_reporting_interval r \<and> \<not> force
     then (False, [], if has_difference then r\<lparr>rp_had_unreported_difference := True\<rparr> else r)
     else if \<not> (has_difference \<and> \<not> rp_already_reported r \<or> force)
     then (False, [], r)
     else
       (let ac = rs_arming_checks (current r);
            h = rs_health (current r);
            max_num_events = event_ORB_QUEUE_LENGTH - 2
        in (True,
            [ArmingCheckSummary (ac_error ac) (ac_warning ac) (ac_can_arm ac) (ac_can_run ac)]
              @ map CheckEvent
                  (buffered_events max_num_events (rp_event_buffer r) (rp_next_buffer_idx r) 0)
              @ [HealthSummary (hr_is_present h) (hr_error h) (hr_warning h)],
            r\<lparr>rp_last_report := now, rp_already_reported := True,
              rp_had_unreported_difference := False\<rparr>)))"

definition reportIfUnreportedDifferences ::
  "hrt_abstime \<Rightarrow> Report \<Rightarrow> bool \<times> sent_event list \<times> Report" where
  "reportIfUnreportedDifferences now r =
     (if rp_had_unreported_difference r then report now True r else (False, [], r))"

end
