(* ===== verification/Report_Lemmas.thy ===== *)
theory Report_Lemmas
  imports Health_Report
begin

text \<open>
  Facts about the class \<^verbatim>\<open>Report\<close> that the checks rely on: which fields an operation leaves alone,
  that the operations a check may call only take permissions away, and that the event buffer is a
  faithful list of events.
\<close>

named_theorems report_frame \<open>fields of the report an operation leaves alone\<close>
named_theorems narrows_intros \<open>operations that only take permissions away\<close>

section \<open>Frames\<close>

lemma current_map_current [simp]: "current (map_current f r) = f (current r)"
  by (simp add: current_def map_current_def)

lemma current_update_frame [simp]:
  "current (r\<lparr>rp_event_buffer := b\<rparr>) = current r"
  "current (r\<lparr>rp_next_buffer_idx := n\<rparr>) = current r"
  "current (r\<lparr>rp_buffer_overflowed := o'\<rparr>) = current r"
  "current (r\<lparr>rp_already_reported := o'\<rparr>) = current r"
  "current (r\<lparr>rp_results_changed := o'\<rparr>) = current r"
  "current (r\<lparr>rp_had_unreported_difference := o'\<rparr>) = current r"
  "current (r\<lparr>rp_last_report := t\<rparr>) = current r"
  "current (r\<lparr>rp_failsafe_flags := f\<rparr>) = current r"
  by (simp_all add: current_def)

lemma map_current_frame [simp]:
  "rp_failsafe_flags (map_current f r) = rp_failsafe_flags r"
  "rp_current_result (map_current f r) = rp_current_result r"
  "rp_event_buffer (map_current f r) = rp_event_buffer r"
  "rp_next_buffer_idx (map_current f r) = rp_next_buffer_idx r"
  "rp_buffer_overflowed (map_current f r) = rp_buffer_overflowed r"
  "i \<noteq> rp_current_result r \<Longrightarrow> rp_results (map_current f r) i = rp_results r i"
  by (simp_all add: map_current_def)

lemmas map_defs = map_health_def map_arming_checks_def

lemma bits_frame [report_frame, simp]:
  "rp_failsafe_flags (clearArmingBits m r) = rp_failsafe_flags r"
  "rp_failsafe_flags (clearCanRunBits m r) = rp_failsafe_flags r"
  "rp_failsafe_flags (setIsPresent c r) = rp_failsafe_flags r"
  "rp_failsafe_flags (setHealth c p w e r) = rp_failsafe_flags r"
  "rp_failsafe_flags (healthFailure_bits m i l r) = rp_failsafe_flags r"
  "rp_failsafe_flags (armingCheckFailure_bits m i l r) = rp_failsafe_flags r"
  by (simp_all add: clearArmingBits_def clearCanRunBits_def setIsPresent_def setHealth_def
      healthFailure_bits_def armingCheckFailure_bits_def map_defs Let_def)

lemma addEventToBuffer_frame [report_frame, simp]:
  "rp_failsafe_flags (addEventToBuffer e l m n r) = rp_failsafe_flags r"
  "rp_buffer_overflowed (addEventToBuffer e l m n r) = rp_buffer_overflowed r"
  "rp_current_result (addEventToBuffer e l m n r) = rp_current_result r"
  "rs_arming_checks (current (addEventToBuffer e l m n r)) = rs_arming_checks (current r)"
  "rs_health (current (addEventToBuffer e l m n r)) = rs_health (current r)"
  "i \<noteq> rp_current_result r \<Longrightarrow> rp_results (addEventToBuffer e l m n r) i = rp_results r i"
  by (simp_all add: addEventToBuffer_def Let_def)

lemma addEvent_frame [report_frame, simp]:
  "rp_failsafe_flags (snd (addEvent e l m a r)) = rp_failsafe_flags r"
  "rp_current_result (snd (addEvent e l m a r)) = rp_current_result r"
  "rs_arming_checks (current (snd (addEvent e l m a r))) = rs_arming_checks (current r)"
  "rs_health (current (snd (addEvent e l m a r))) = rs_health (current r)"
  "i \<noteq> rp_current_result r \<Longrightarrow> rp_results (snd (addEvent e l m a r)) i = rp_results r i"
  by (simp_all add: addEvent_def Let_def)

lemma addExternalEvent_frame [report_frame, simp]:
  "rp_failsafe_flags (snd (addExternalEvent e m r)) = rp_failsafe_flags r"
  "rp_current_result (snd (addExternalEvent e m r)) = rp_current_result r"
  "rs_arming_checks (current (snd (addExternalEvent e m r))) = rs_arming_checks (current r)"
  "i \<noteq> rp_current_result r \<Longrightarrow> rp_results (snd (addExternalEvent e m r)) i = rp_results r i"
  by (simp_all add: addExternalEvent_def Let_def)

lemma failure_frame [report_frame, simp]:
  "rp_failsafe_flags (healthFailure m c e l a r) = rp_failsafe_flags r"
  "rp_failsafe_flags (armingCheckFailure m c e l a r) = rp_failsafe_flags r"
  "rp_failsafe_flags (armingCheckFailure_split m m' c e l r) = rp_failsafe_flags r"
  by (simp_all add: healthFailure_def armingCheckFailure_def armingCheckFailure_split_def Let_def)

section \<open>Permissions\<close>

lemma clear_bits [simp]:
  "can_arm (clearArmingBits m r) = can_arm r AND NOT m"
  "can_run (clearArmingBits m r) = can_run r"
  "can_arm (clearCanRunBits m r) = can_arm r"
  "can_run (clearCanRunBits m r) = can_run r AND NOT m"
  by (simp_all add: clearArmingBits_def clearCanRunBits_def map_defs)

lemma present_bits [simp]:
  "rs_arming_checks (current (setIsPresent c r)) = rs_arming_checks (current r)"
  "rs_arming_checks (current (setHealth c p w e r)) = rs_arming_checks (current r)"
  by (simp_all add: setIsPresent_def setHealth_def map_defs Let_def)

lemma failure_bits [simp]:
  "can_arm (healthFailure m c e l a r) = can_arm r AND NOT m"
  "can_run (healthFailure m c e l a r) = can_run r"
  "can_arm (armingCheckFailure m c e l a r) = can_arm r AND NOT m"
  "can_run (armingCheckFailure m c e l a r) = can_run r"
  "can_arm (armingCheckFailure_split m' m c e l r) = can_arm r AND NOT m"
  "can_run (armingCheckFailure_split m' m c e l r) = can_run r"
  by (simp_all add: healthFailure_def armingCheckFailure_def armingCheckFailure_split_def
      healthFailure_bits_def armingCheckFailure_bits_def map_defs Let_def)

text \<open>
  \<open>narrows r r'\<close>: the report \<open>r'\<close> belongs to the same run of the checks as \<open>r\<close> and permits arming and
  running in at most the modes \<open>r\<close> permits.
\<close>

definition narrows :: "Report \<Rightarrow> Report \<Rightarrow> bool" where
  "narrows r r' \<longleftrightarrow>
     rp_current_result r' = rp_current_result r \<and>
     (\<forall>n. bit (can_arm r') n \<longrightarrow> bit (can_arm r) n) \<and>
     (\<forall>n. bit (can_run r') n \<longrightarrow> bit (can_run r) n) \<and>
     ac_valid (rs_arming_checks (current r')) = ac_valid (rs_arming_checks (current r)) \<and>
     (\<forall>i. i \<noteq> rp_current_result r \<longrightarrow> rp_results r' i = rp_results r i)"

lemma narrows_refl [simp, intro]: "narrows r r"
  by (simp add: narrows_def)

lemma narrows_trans [trans]: "narrows r r' \<Longrightarrow> narrows r' r'' \<Longrightarrow> narrows r r''"
  by (simp add: narrows_def)

lemma narrows_if:
  "narrows r r1 \<Longrightarrow> narrows r r2 \<Longrightarrow> narrows r (if b then r1 else r2)"
  by simp

lemma narrows_flags [narrows_intros]:
  "narrows r r' \<Longrightarrow> narrows r (r'\<lparr>rp_failsafe_flags := f\<rparr>)"
  by (simp add: narrows_def)

lemma narrows_map_health [narrows_intros]: "narrows r r' \<Longrightarrow> narrows r (map_health f r')"
  by (simp add: narrows_def map_defs)

lemma narrows_clear [narrows_intros]:
  "narrows r r' \<Longrightarrow> narrows r (clearArmingBits m r')"
  "narrows r r' \<Longrightarrow> narrows r (clearCanRunBits m r')"
  by (simp_all add: narrows_def clearArmingBits_def clearCanRunBits_def map_defs bit_simps)

lemma narrows_present [narrows_intros]:
  "narrows r r' \<Longrightarrow> narrows r (setIsPresent c r')"
  "narrows r r' \<Longrightarrow> narrows r (setHealth c p w e r')"
  by (simp_all add: setIsPresent_def setHealth_def Let_def narrows_map_health)

lemma narrows_failure_bits [narrows_intros]:
  "narrows r r' \<Longrightarrow> narrows r (healthFailure_bits m i l r')"
  "narrows r r' \<Longrightarrow> narrows r (armingCheckFailure_bits m i l r')"
  by (simp_all add: healthFailure_bits_def armingCheckFailure_bits_def Let_def narrows_map_health
      narrows_clear) (simp_all add: narrows_def map_defs clearArmingBits_def bit_simps)

lemma narrows_events [narrows_intros]:
  "narrows r r' \<Longrightarrow> narrows r (snd (addEvent e l m a r'))"
  "narrows r r' \<Longrightarrow> narrows r (snd (addExternalEvent ev m r'))"
  by (simp_all add: narrows_def)

lemma narrows_failure [narrows_intros]:
  "narrows r r' \<Longrightarrow> narrows r (healthFailure m c e l a r')"
  "narrows r r' \<Longrightarrow> narrows r (armingCheckFailure m c e l a r')"
  "narrows r r' \<Longrightarrow> narrows r (armingCheckFailure_split m' m c e l r')"
  by (simp_all add: healthFailure_def armingCheckFailure_def armingCheckFailure_split_def Let_def
      narrows_intros)

lemma narrows_can_run: "narrows r r' \<Longrightarrow> bit (can_run r') n \<Longrightarrow> bit (can_run r) n"
  and narrows_can_arm: "narrows r r' \<Longrightarrow> bit (can_arm r') n \<Longrightarrow> bit (can_arm r) n"
  by (simp_all add: narrows_def)

lemma canRun_bit:
  "canRun r nav_state \<longleftrightarrow>
     ac_valid (rs_arming_checks (current r)) \<and> bit (can_run r) (unat nav_state)"
  and canArm_bit:
  "canArm r nav_state \<longleftrightarrow>
     ac_valid (rs_arming_checks (current r)) \<and> bit (can_arm r) (unat nav_state)"
  by (simp_all add: canRun_def canArm_def getModeGroup_def and_bit_mask_eq_0)

section \<open>The event buffer as a list of events\<close>

text \<open>An event in the buffer: identifier, packed log levels and arguments.\<close>

type_synonym buffered_event = "u32 \<times> u8 \<times> u8 list"

fun encode_event :: "buffered_event \<Rightarrow> u8 list" where
  "encode_event (event_id, log_levels, args) =
     EventBufferHeader (length args) event_id log_levels @ args"

fun padded_event :: "buffered_event \<Rightarrow> event_s" where
  "padded_event (event_id, log_levels, args) =
     \<lparr>ev_id = event_id, ev_log_levels = log_levels,
      ev_arguments = args @ replicate (event_arguments_size - length args) 0\<rparr>"

definition holds_events :: "Report \<Rightarrow> buffered_event list \<Rightarrow> bool" where
  "holds_events r es \<longleftrightarrow>
     length (rp_event_buffer r) = sizeof_event_buffer \<and>
     rp_next_buffer_idx r \<le> sizeof_event_buffer \<and>
     take (rp_next_buffer_idx r) (rp_event_buffer r) = concat (map encode_event es) \<and>
     (\<forall>(event_id, log_levels, args) \<in> set es. length args \<le> event_arguments_size)"

lemma length_EventBufferHeader [simp]: "length (EventBufferHeader n e l) = 6"
  by (simp add: EventBufferHeader_def)

lemma buffered_events_step:
  assumes "buffer = pre @ encode_event (event_id, log_levels, args) @ rest"
    and "offset = length pre" and "offset < next" and "length args < 256"
  shows "buffered_events (Suc n) buffer next offset =
    padded_event (event_id, log_levels, args)
      # buffered_events n buffer next (offset + length (encode_event (event_id, log_levels, args)))"
proof -
  have size: "unat (buffer ! offset) = length args"
    using assms(1,2,4) by (simp add: EventBufferHeader_def nth_append unsigned_of_nat take_bit_nat_eq_self)
  have "take 4 (drop (offset + 1) buffer) = le_bytes 4 event_id"
    using assms(1,2) by (simp add: EventBufferHeader_def)
  moreover have "buffer ! (offset + 5) = log_levels"
    using assms(1,2) by (simp add: EventBufferHeader_def nth_append nth_Cons')
  moreover have "take (length args) (drop (offset + 6) buffer) = args"
    using assms(1,2) by (simp add: EventBufferHeader_def)
  ultimately show ?thesis
    using assms(3) size by (simp add: Let_def)
qed

lemma buffered_events_concat:
  assumes "buffer = pre @ concat (map encode_event es) @ rest"
    and "next = length pre + length (concat (map encode_event es))"
    and "\<forall>(event_id, log_levels, args) \<in> set es. length args \<le> event_arguments_size"
  shows "buffered_events n buffer next (length pre) = map padded_event (take n es)"
  using assms
proof (induction n arbitrary: es pre)
  case 0
  then show ?case by simp
next
  case (Suc n)
  show ?case
  proof (cases es)
    case Nil
    with Suc.prems show ?thesis by simp
  next
    case (Cons e es')
    obtain event_id log_levels args where e: "e = (event_id, log_levels, args)" by (cases e)
    have buf: "buffer = pre @ encode_event e @ concat (map encode_event es') @ rest"
      using Suc.prems(1) Cons by simp
    have "buffered_events (Suc n) buffer next (length pre) =
        padded_event e # buffered_events n buffer next (length pre + length (encode_event e))"
      unfolding e using buf Suc.prems(2,3) Cons
      by (intro buffered_events_step) (auto simp: e)
    moreover have "buffered_events n buffer next (length (pre @ encode_event e)) =
        map padded_event (take n es')"
      using buf Suc.prems Cons by (intro Suc.IH) simp_all
    ultimately show ?thesis using Cons by simp
  qed
qed

lemma holds_events_sent:
  assumes "holds_events r es"
  shows "buffered_events n (rp_event_buffer r) (rp_next_buffer_idx r) 0 =
    map padded_event (take n es)"
proof -
  have "rp_event_buffer r =
      [] @ concat (map encode_event es) @ drop (rp_next_buffer_idx r) (rp_event_buffer r)"
    using assms by (simp add: holds_events_def) (metis append_take_drop_id)
  moreover have "rp_next_buffer_idx r = length (concat (map encode_event es))"
    using assms by (simp add: holds_events_def) (metis length_take min.absorb2)
  ultimately have "buffered_events n (rp_event_buffer r) (rp_next_buffer_idx r) (length ([] :: u8 list))
      = map padded_event (take n es)"
    using assms by (intro buffered_events_concat) (auto simp: holds_events_def)
  then show ?thesis by simp
qed

lemma write_header_and_arguments:
  assumes "offset + 6 + length args \<le> length buffer"
  shows "take (offset + (6 + length args))
      (write_bytes offset (EventBufferHeader (length args) e l)
        (write_bytes (offset + 6) args buffer)) =
    take offset buffer @ encode_event (e, l, args)"
    and "length (write_bytes offset (EventBufferHeader (length args) e l)
        (write_bytes (offset + 6) args buffer)) = length buffer"
  using assms by (simp_all add: write_bytes_def min_def)

lemma addEventToBuffer_holds:
  assumes "holds_events r es" and "length args \<le> event_arguments_size"
    and "rp_next_buffer_idx r + (6 + length args) \<le> sizeof_event_buffer"
  shows "holds_events (addEventToBuffer e l m (length args)
      (r\<lparr>rp_event_buffer := write_bytes (rp_next_buffer_idx r + 6) args (rp_event_buffer r)\<rparr>))
    (es @ [(e, pack_log_levels l, args)])"
  using assms
  by (auto simp: holds_events_def addEventToBuffer_def Let_def map_current_def
      write_header_and_arguments)

text \<open>A call that adds an event stores it behind the others; one that does not reports an overflow.\<close>

lemma addEvent_holds:
  assumes "holds_events r es" and "length args + 4 \<le> event_arguments_size"
    and "addEvent e l m args r = (True, r')"
  shows "holds_events r' (es @ [(e, pack_log_levels l, le_bytes 4 m @ args)])"
  using addEventToBuffer_holds [of r es "le_bytes 4 m @ args" e l m] assms
  by (auto simp: addEvent_def Let_def split: if_splits)

lemma trimmed_size_le: "trimmed_size args n \<le> n"
  by (induction n) (auto intro: le_SucI)

lemma trimmed_padded:
  "n \<le> length args \<Longrightarrow>
     take (trimmed_size args n) args @ replicate (n - trimmed_size args n) 0 = take n args"
proof (induction n)
  case 0
  then show ?case by simp
next
  case (Suc n)
  then show ?case
    using trimmed_size_le [of args n]
    by (auto simp: take_Suc_conv_app_nth Suc_diff_le replicate_append_same
        simp flip: append_assoc replicate_append_same)
qed

lemma addExternalEvent_holds:
  assumes "holds_events r es" and "length (ev_arguments ev) = event_arguments_size"
    and "addExternalEvent ev m r = (True, r')"
  shows "\<exists>e. holds_events r' (es @ [e]) \<and> padded_event e = ev"
proof -
  let ?n = "trimmed_size (ev_arguments ev) event_arguments_size"
  have len: "length (take ?n (ev_arguments ev)) = ?n"
    using assms(2) trimmed_size_le [of "ev_arguments ev" event_arguments_size] by simp
  have "holds_events r'
      (es @ [(ev_id ev, ev_log_levels ev, take ?n (ev_arguments ev))])"
    using addEventToBuffer_holds [OF assms(1), of "take ?n (ev_arguments ev)" "ev_id ev"
        "\<lparr>ll_external = externalLogLevel (ev_log_levels ev),
          ll_internal = internalLogLevel (ev_log_levels ev)\<rparr>" m]
      assms(3) len trimmed_size_le [of "ev_arguments ev" event_arguments_size]
    by (auto simp: addExternalEvent_def Let_def pack_unpack_log_levels split: if_splits)
  moreover have "padded_event (ev_id ev, ev_log_levels ev, take ?n (ev_arguments ev)) = ev"
    using trimmed_padded [of event_arguments_size "ev_arguments ev"] assms(2) len by simp
  ultimately show ?thesis by blast
qed

lemma holds_events_reset: "length (rp_event_buffer r) = sizeof_event_buffer \<Longrightarrow>
    holds_events (Report_reset r) []"
  by (simp add: holds_events_def Report_reset_def Let_def)

end
