(* ===== verification/External_Checks.thy ===== *)
theory External_Checks
  imports Report_Lemmas
begin

text \<open>
  The class \<^verbatim>\<open>ExternalChecks\<close> of \<^verbatim>\<open>checks/externalChecks.{hpp,cpp}\<close>: components outside the
  autopilot register an arming check, optionally for a navigation mode, and are then polled. What
  they reply decides in which modes the vehicle can arm and run, and a component that does not
  reply becomes unresponsive.

  Signed 8-bit values are integers. A shift by a mode identifier is meant for identifiers below 32;
  for others the shift of the code is undefined. The replies waiting in the subscription's queue
  are a list.
\<close>

section \<open>State\<close>

record arming_check_reply_s =
  acr_timestamp :: hrt_abstime
  acr_request_id :: u8
  acr_registration_id :: u8
  acr_health_component_index :: u8
  acr_health_component_is_present :: bool
  acr_health_component_warning :: bool
  acr_health_component_error :: bool
  acr_can_arm_and_run :: bool
  acr_num_events :: u8
  acr_events :: "event_s list"
  acr_mode_req :: "ModeReq \<Rightarrow> bool"

definition event_zero :: event_s where
  "event_zero =
     \<lparr>ev_id = 0, ev_log_levels = 0, ev_arguments = replicate event_arguments_size 0\<rparr>"

definition arming_check_reply_zero :: arming_check_reply_s where
  "arming_check_reply_zero =
     \<lparr>acr_timestamp = 0, acr_request_id = 0, acr_registration_id = 0,
      acr_health_component_index = 0, acr_health_component_is_present = False,
      acr_health_component_warning = False, acr_health_component_error = False,
      acr_can_arm_and_run = False, acr_num_events = 0, acr_events = replicate 5 event_zero,
      acr_mode_req = (\<lambda>_. False)\<rparr>"

record arming_check_request_s =
  acq_timestamp :: hrt_abstime
  acq_request_id :: u8
  acq_valid_registrations_mask :: u32

record Registration =
  rg_nav_mode_id :: int
  rg_replaces_nav_state :: int
  rg_waiting_for_first_response :: bool
  rg_num_no_response :: u8
  rg_unresponsive :: bool
  rg_total_num_unresponsive :: u8
  rg_reply :: "arming_check_reply_s option"

definition Registration_init :: Registration where
  "Registration_init =
     \<lparr>rg_nav_mode_id = -1, rg_replaces_nav_state = -1, rg_waiting_for_first_response = True,
      rg_num_no_response = 0, rg_unresponsive = False, rg_total_num_unresponsive = 0,
      rg_reply = None\<rparr>"

abbreviation MAX_NUM_REGISTRATIONS :: nat where
  "MAX_NUM_REGISTRATIONS \<equiv> 8"

definition REQUEST_TIMEOUT :: hrt_abstime where
  "REQUEST_TIMEOUT = time_ms 50"

definition UPDATE_INTERVAL :: hrt_abstime where
  "UPDATE_INTERVAL = time_ms 300"

abbreviation NUM_NO_REPLY_UNTIL_UNRESPONSIVE :: u8 where
  "NUM_NO_REPLY_UNTIL_UNRESPONSIVE \<equiv> 3"

abbreviation NUM_NO_REPLY_UNTIL_UNRESPONSIVE_INIT :: u8 where
  "NUM_NO_REPLY_UNTIL_UNRESPONSIVE_INIT \<equiv> 10"

abbreviation arming_check_reply_ORB_QUEUE_LENGTH :: nat where
  "arming_check_reply_ORB_QUEUE_LENGTH \<equiv> 8"

record ExternalChecks =
  ec_active_registrations_mask :: u32
  ec_registrations :: "Registration list"
  ec_first_external_nav_state :: u8
  ec_last_external_nav_state :: u8
  ec_last_update :: hrt_abstime
  ec_reply_received_mask :: u32
  ec_had_timeout :: bool
  ec_current_request_id :: u8
  ec_com_mode_arm_chk :: bool

definition ExternalChecks_init :: "bool \<Rightarrow> ExternalChecks" where
  "ExternalChecks_init com_mode_arm_chk =
     \<lparr>ec_active_registrations_mask = 0,
      ec_registrations = replicate MAX_NUM_REGISTRATIONS Registration_init,
      ec_first_external_nav_state = NAVIGATION_STATE_MAX,
      ec_last_external_nav_state = NAVIGATION_STATE_MAX, ec_last_update = 0,
      ec_reply_received_mask = 0, ec_had_timeout = False, ec_current_request_id = 0,
      ec_com_mode_arm_chk = com_mode_arm_chk\<rparr>"

definition setExternalNavStates :: "u8 \<Rightarrow> u8 \<Rightarrow> ExternalChecks \<Rightarrow> ExternalChecks" where
  "setExternalNavStates first last' s =
     s\<lparr>ec_first_external_nav_state := first, ec_last_external_nav_state := last'\<rparr>"

definition registrationValid :: "nat \<Rightarrow> ExternalChecks \<Rightarrow> bool" where
  "registrationValid reg_idx s \<longleftrightarrow> push_bit reg_idx 1 AND ec_active_registrations_mask s \<noteq> 0"

definition hasFreeRegistrations :: "ExternalChecks \<Rightarrow> bool" where
  "hasFreeRegistrations s \<longleftrightarrow>
     ec_active_registrations_mask s \<noteq> push_bit MAX_NUM_REGISTRATIONS 1 - 1"

abbreviation allowUpdateWhileArmed :: "ExternalChecks \<Rightarrow> bool" where
  "allowUpdateWhileArmed \<equiv> ec_com_mode_arm_chk"

definition map_registration ::
  "nat \<Rightarrow> (Registration \<Rightarrow> Registration) \<Rightarrow> ExternalChecks \<Rightarrow> ExternalChecks" where
  "map_registration i f s =
     s\<lparr>ec_registrations := (ec_registrations s)[i := f (ec_registrations s ! i)]\<rparr>"

section \<open>Registrations\<close>

fun free_registration :: "nat \<Rightarrow> nat \<Rightarrow> ExternalChecks \<Rightarrow> nat option" where
  "free_registration i 0 s = None"
| "free_registration i (Suc n) s =
     (if \<not> registrationValid i s then Some i else free_registration (Suc i) n s)"

definition addRegistration :: "int \<Rightarrow> int \<Rightarrow> ExternalChecks \<Rightarrow> int \<times> ExternalChecks" where
  "addRegistration nav_mode_id replaces_nav_state s =
    (case free_registration 0 MAX_NUM_REGISTRATIONS s of
       None \<Rightarrow> (-1, s)
     | Some i \<Rightarrow>
        (int i, map_registration i
          (\<lambda>g. g\<lparr>rg_nav_mode_id := nav_mode_id, rg_replaces_nav_state := replaces_nav_state,
                rg_waiting_for_first_response := True, rg_num_no_response := 0,
                rg_unresponsive := False, rg_total_num_unresponsive := 0,
                rg_reply := (case rg_reply g of None \<Rightarrow> Some arming_check_reply_zero
                                              | Some r \<Rightarrow> Some r)\<rparr>)
          (s\<lparr>ec_active_registrations_mask := ec_active_registrations_mask s OR push_bit i 1\<rparr>)))"

definition removeRegistration :: "int \<Rightarrow> int \<Rightarrow> ExternalChecks \<Rightarrow> bool \<times> ExternalChecks" where
  "removeRegistration registration_id nav_mode_id s =
    (if registration_id < 0 \<or> registration_id \<ge> int MAX_NUM_REGISTRATIONS then (False, s)
     else
       (let i = nat registration_id in
        if registrationValid i s \<and> rg_nav_mode_id (ec_registrations s ! i) = nav_mode_id
        then (True, s\<lparr>ec_active_registrations_mask :=
                        ec_active_registrations_mask s AND NOT (push_bit i 1)\<rparr>)
        else (False, s)))"

definition isUnresponsive :: "int \<Rightarrow> ExternalChecks \<Rightarrow> bool" where
  "isUnresponsive registration_id s \<longleftrightarrow>
     \<not> (registration_id < 0 \<or> registration_id \<ge> int MAX_NUM_REGISTRATIONS) \<and>
     registrationValid (nat registration_id) s \<and>
     rg_unresponsive (ec_registrations s ! nat registration_id)"

section \<open>Polling\<close>

definition accepts_reply :: "hrt_abstime \<Rightarrow> arming_check_reply_s \<Rightarrow> ExternalChecks \<Rightarrow> bool" where
  "accepts_reply now reply s \<longleftrightarrow>
    (let i = unat (acr_registration_id reply);
         valid = (i < MAX_NUM_REGISTRATIONS \<and> registrationValid i s);
         timed_out = (now > acr_timestamp reply + time_ms 300)
     in \<not> timed_out \<and> valid \<and> ec_current_request_id s = acr_request_id reply)"

definition handle_reply ::
  "hrt_abstime \<Rightarrow> arming_check_reply_s \<Rightarrow> ExternalChecks \<Rightarrow> ExternalChecks" where
  "handle_reply now reply s =
    (let i = unat (acr_registration_id reply) in
     if accepts_reply now reply s
     then map_registration i
            (\<lambda>g. g\<lparr>rg_num_no_response := 0, rg_waiting_for_first_response := False,
                  rg_unresponsive :=
                    (if rg_total_num_unresponsive g \<le> 3 then False else rg_unresponsive g),
                  rg_reply := (case rg_reply g of None \<Rightarrow> None | Some _ \<Rightarrow> Some reply)\<rparr>)
            (s\<lparr>ec_reply_received_mask := ec_reply_received_mask s OR push_bit i 1\<rparr>)
     else s)"

text \<open>
  The receive loop: the subscription is read before the counter is tested, so that the reply read
  when the counter has run out is taken from the queue and dropped. The result holds the replies
  left in the queue.
\<close>

fun receive_replies ::
  "nat \<Rightarrow> hrt_abstime \<Rightarrow> arming_check_reply_s list \<Rightarrow> ExternalChecks
     \<Rightarrow> ExternalChecks \<times> arming_check_reply_s list" where
  "receive_replies max_num_updates now [] s = (s, [])"
| "receive_replies 0 now (reply # replies) s = (s, replies)"
| "receive_replies (Suc n) now (reply # replies) s =
     receive_replies n now replies (handle_reply now reply s)"

text \<open>The body of the loop over the registrations that have not replied in time.\<close>

definition count_missing_reply :: "u32 \<Rightarrow> nat \<Rightarrow> ExternalChecks \<Rightarrow> ExternalChecks" where
  "count_missing_reply no_reply i s =
    (let g = ec_registrations s ! i;
         max_num_no_reply = (if rg_waiting_for_first_response g
           then NUM_NO_REPLY_UNTIL_UNRESPONSIVE_INIT else NUM_NO_REPLY_UNTIL_UNRESPONSIVE)
     in if push_bit i 1 AND no_reply = 0 \<or> rg_unresponsive g then s
        else
          (let n = rg_num_no_response g + 1;
               s = map_registration i (\<lambda>g. g\<lparr>rg_num_no_response := n\<rparr>) s
           in if \<not> n > max_num_no_reply then s
              else if rg_nav_mode_id g = -1 then snd (removeRegistration (int i) (-1) s)
              else map_registration i
                     (\<lambda>g. g\<lparr>rg_unresponsive := True,
                           rg_total_num_unresponsive :=
                             (if rg_total_num_unresponsive g < 100
                              then rg_total_num_unresponsive g + 1
                              else rg_total_num_unresponsive g)\<rparr>) s))"

definition check_timeout :: "hrt_abstime \<Rightarrow> ExternalChecks \<Rightarrow> ExternalChecks" where
  "check_timeout now s =
    (if ec_last_update s > 0 \<and> ec_reply_received_mask s \<noteq> ec_active_registrations_mask s \<and>
        now > ec_last_update s + REQUEST_TIMEOUT \<and> \<not> ec_had_timeout s
     then
       (let no_reply = ec_active_registrations_mask s AND NOT (ec_reply_received_mask s)
        in fold (count_missing_reply no_reply) [0..<MAX_NUM_REGISTRATIONS]
             (s\<lparr>ec_had_timeout := True\<rparr>))
     else s)"

definition start_request ::
  "hrt_abstime \<Rightarrow> hrt_abstime \<Rightarrow> ExternalChecks \<Rightarrow> arming_check_request_s option \<times> ExternalChecks"
where
  "start_request now request_time s =
    (if now > ec_last_update s + UPDATE_INTERVAL
     then
       (let s = s\<lparr>ec_reply_received_mask := 0, ec_last_update := now, ec_had_timeout := False,
                  ec_current_request_id := ec_current_request_id s + 1\<rparr>;
            mask = fold (\<lambda>i m. if rg_unresponsive (ec_registrations s ! i)
                              then m AND NOT (push_bit i 1) else m)
                     [0..<MAX_NUM_REGISTRATIONS] (ec_active_registrations_mask s)
        in (Some \<lparr>acq_timestamp = request_time, acq_request_id = ec_current_request_id s,
                  acq_valid_registrations_mask = mask\<rparr>, s))
     else (None, s))"

definition ExternalChecks_update ::
  "hrt_abstime \<Rightarrow> hrt_abstime \<Rightarrow> arming_check_reply_s list \<Rightarrow> ExternalChecks
     \<Rightarrow> arming_check_request_s option \<times> ExternalChecks \<times> arming_check_reply_s list" where
  "ExternalChecks_update now request_time replies s =
    (if ec_active_registrations_mask s = 0 then (None, s, replies)
     else
       (let (s, replies) =
              receive_replies arming_check_reply_ORB_QUEUE_LENGTH now replies s;
            s = check_timeout now s;
            (request, s) = start_request now request_time s
        in (request, s, replies)))"

section \<open>Reporting\<close>

definition setOrClearRequirementBits :: "bool \<Rightarrow> int \<Rightarrow> int \<Rightarrow> u32 \<Rightarrow> u32" where
  "setOrClearRequirementBits requirement_set nav_state replaces_nav_state bits =
    (let bits = (if requirement_set then bits OR bit_mask (word_of_int nav_state) else bits)
     in if replaces_nav_state \<noteq> -1
        then if requirement_set then bits OR bit_mask (word_of_int replaces_nav_state)
             else bits AND NOT (bit_mask (word_of_int replaces_nav_state))
        else bits)"

definition map_mode_req :: "ModeReq \<Rightarrow> (u32 \<Rightarrow> u32) \<Rightarrow> Report \<Rightarrow> Report" where
  "map_mode_req req f r =
    (let flags = rp_failsafe_flags r in
     r\<lparr>rp_failsafe_flags :=
         flags\<lparr>ff_mode_req := (ff_mode_req flags)(req := f (ff_mode_req flags req))\<rparr>\<rparr>)"

definition mode_group_of :: "int \<Rightarrow> u32" where
  "mode_group_of nav_state = getModeGroup (word_of_int nav_state)"

definition mode_registered :: "u8 \<Rightarrow> ExternalChecks \<Rightarrow> bool" where
  "mode_registered nav_state s \<longleftrightarrow>
     list_ex (\<lambda>i. registrationValid i s \<and>
                  rg_nav_mode_id (ec_registrations s ! i) = uint nav_state)
       [0..<MAX_NUM_REGISTRATIONS]"

text \<open>The range of external modes is fixed by \<^verbatim>\<open>setExternalNavStates\<close>; its end is below 255.\<close>

definition external_nav_states :: "ExternalChecks \<Rightarrow> u8 list" where
  "external_nav_states s =
     map of_nat [unat (ec_first_external_nav_state s)..<Suc (unat (ec_last_external_nav_state s))]"

definition checkNonRegisteredModes :: "Context \<Rightarrow> ExternalChecks \<Rightarrow> Report \<Rightarrow> Report" where
  "checkNonRegisteredModes c s r =
    (let missing = filter (\<lambda>m. \<not> mode_registered m s) (external_nav_states s);
         r = fold (\<lambda>m r. map_mode_req mode_req_other (setOrClearRequirementBits True (uint m) (-1))
                           (clearArmingBits (getModeGroup m) r)) missing r;
         intended = vs_nav_state_user_intention (cx_status c)
     in if intended \<in> set missing
        then armingCheckFailure (getModeGroup intended) hc_system
               (event_ID ''check_external_modes_unavailable'') (log_both Log_Error) [] r
        else r)"

text \<open>The mode requirements a reply carries, in the order of the code.\<close>

definition reply_mode_reqs :: "ModeReq list" where
  "reply_mode_reqs =
     [mode_req_angular_velocity, mode_req_attitude, mode_req_local_alt, mode_req_local_position,
      mode_req_local_position_relaxed, mode_req_global_position,
      mode_req_global_position_relaxed, mode_req_mission, mode_req_home_position,
      mode_req_prevent_arming, mode_req_manual_control]"

definition reply_modes :: "Registration \<Rightarrow> u32" where
  "reply_modes owner =
    (if rg_nav_mode_id owner = -1 then NavModes_All
     else if rg_replaces_nav_state owner \<noteq> -1
     then mode_group_of (rg_nav_mode_id owner) OR mode_group_of (rg_replaces_nav_state owner)
     else mode_group_of (rg_nav_mode_id owner))"

definition report_mode_requirements ::
  "Registration \<Rightarrow> arming_check_reply_s \<Rightarrow> Report \<Rightarrow> Report" where
  "report_mode_requirements owner reply r =
    (if rg_nav_mode_id owner = -1 then r
     else
       (let nav = rg_nav_mode_id owner;
            replaces = rg_replaces_nav_state owner;
            r = (if \<not> acr_can_arm_and_run reply
                 then map_mode_req mode_req_other (setOrClearRequirementBits True nav replaces) r
                 else r)
        in fold (\<lambda>req. map_mode_req req
                   (setOrClearRequirementBits (acr_mode_req reply req) nav replaces))
             reply_mode_reqs r))"

text \<open>
  The events of a reply. The modes overwrite their first argument, in the stored reply. The code
  does not compare \<^verbatim>\<open>num_events\<close> with the five events a reply holds; events beyond them do not
  exist in the model.
\<close>

definition with_modes :: "u32 \<Rightarrow> event_s \<Rightarrow> event_s" where
  "with_modes modes ev = ev\<lparr>ev_arguments := le_bytes 4 modes @ drop 4 (ev_arguments ev)\<rparr>"

definition report_events ::
  "u32 \<Rightarrow> arming_check_reply_s \<Rightarrow> Report \<Rightarrow> arming_check_reply_s \<times> Report" where
  "report_events modes reply r =
    (let n = unat (acr_num_events reply);
         events = map (with_modes modes) (take n (acr_events reply))
     in (reply\<lparr>acr_events := events @ drop n (acr_events reply)\<rparr>,
         fold (\<lambda>ev r. snd (addExternalEvent ev modes r)) events r))"

definition report_reply ::
  "Registration \<Rightarrow> arming_check_reply_s \<Rightarrow> Report \<Rightarrow> arming_check_reply_s \<times> Report" where
  "report_reply owner reply r =
    (let modes = reply_modes owner;
         r = report_mode_requirements owner reply r;
         r = (if \<not> acr_can_arm_and_run reply then clearArmingBits modes r else r);
         r = (if acr_health_component_index reply > 0
              then setHealth (ucast (push_bit (unat (acr_health_component_index reply)) 1 :: u64))
                     (acr_health_component_is_present reply) (acr_health_component_warning reply)
                     (acr_health_component_error reply) r
              else r)
     in report_events modes reply r)"

text \<open>
  The body of the loop over the registrations. The registration whose mode is reported is the one
  the stored reply names, not the one it is stored in.
\<close>

definition check_registration ::
  "nat \<Rightarrow> u32 \<times> ExternalChecks \<times> Report \<Rightarrow> u32 \<times> ExternalChecks \<times> Report" where
  "check_registration reg_idx = (\<lambda>(unresponsive_modes, s, r).
    (case (if registrationValid reg_idx s then rg_reply (ec_registrations s ! reg_idx) else None) of
       None \<Rightarrow> (unresponsive_modes, s, r)
     | Some reply \<Rightarrow>
        (let owner = ec_registrations s ! unat (acr_registration_id reply) in
         if rg_unresponsive owner
         then if rg_nav_mode_id owner \<noteq> -1
              then (unresponsive_modes OR mode_group_of (rg_nav_mode_id owner), s,
                    map_mode_req mode_req_other
                      (setOrClearRequirementBits True (rg_nav_mode_id owner) (-1)) r)
              else (unresponsive_modes, s, r)
         else
           (let (reply, r) = report_reply owner reply r
            in (unresponsive_modes,
                map_registration reg_idx (\<lambda>g. g\<lparr>rg_reply := Some reply\<rparr>) s, r)))))"

definition ExternalChecks_checkAndReport ::
  "Context \<Rightarrow> ExternalChecks \<Rightarrow> Report \<Rightarrow> ExternalChecks \<times> Report" where
  "ExternalChecks_checkAndReport c s r =
    (let r = checkNonRegisteredModes c s r in
     if ec_active_registrations_mask s = 0 then (s, r)
     else
       (let (unresponsive_modes, s, r) =
              fold check_registration [0..<MAX_NUM_REGISTRATIONS] (NavModes_None, s, r)
        in if unresponsive_modes \<noteq> NavModes_None
           then (s, armingCheckFailure unresponsive_modes hc_system
                      (event_ID ''check_external_modes_unresponsive'') (log_both Log_Critical) [] r)
           else (s, r)))"

end
