(* ===== verification/External_Registry.thy ===== *)
theory External_Registry
  imports External_Checks
begin

text \<open>
  The registrations of external components behave like a partial map from registration identifiers
  to mode identifiers. The locale \<open>check_registry\<close> states the laws the mode management relies on;
  the class \<^verbatim>\<open>ExternalChecks\<close> is its instance.
\<close>

section \<open>The contract\<close>

locale check_registry =
  fixes ok :: "'s \<Rightarrow> bool"
    and registered :: "'s \<Rightarrow> int \<Rightarrow> int option"
    and has_free :: "'s \<Rightarrow> bool"
    and add :: "int \<Rightarrow> int \<Rightarrow> 's \<Rightarrow> int \<times> 's"
    and remove :: "int \<Rightarrow> int \<Rightarrow> 's \<Rightarrow> bool \<times> 's"
    and unresponsive :: "int \<Rightarrow> 's \<Rightarrow> bool"
  assumes add_ok: "ok s \<Longrightarrow> ok (snd (add n r s))"
    and remove_ok: "ok s \<Longrightarrow> ok (snd (remove k n s))"
    and add_fresh: "ok s \<Longrightarrow> has_free s \<Longrightarrow>
      0 \<le> fst (add n r s) \<and> registered s (fst (add n r s)) = None"
    and add_registers: "ok s \<Longrightarrow> has_free s \<Longrightarrow>
      registered (snd (add n r s)) = (registered s)(fst (add n r s) \<mapsto> n)"
    and add_full: "ok s \<Longrightarrow> \<not> has_free s \<Longrightarrow> add n r s = (-1, s)"
    and add_responsive: "ok s \<Longrightarrow> has_free s \<Longrightarrow> \<not> unresponsive (fst (add n r s)) (snd (add n r s))"
    and add_keeps: "ok s \<Longrightarrow> has_free s \<Longrightarrow> k \<noteq> fst (add n r s) \<Longrightarrow>
      unresponsive k (snd (add n r s)) = unresponsive k s"
    and remove_registered: "ok s \<Longrightarrow> registered s k = Some n \<Longrightarrow>
      fst (remove k n s) \<and> registered (snd (remove k n s)) = (registered s)(k := None)"
    and remove_other: "ok s \<Longrightarrow> registered s k \<noteq> Some n \<Longrightarrow> remove k n s = (False, s)"
    and unresponsive_registered: "ok s \<Longrightarrow> unresponsive k s \<Longrightarrow> registered s k \<noteq> None"
begin

lemma add_then_remove:
  assumes "ok s" and "has_free s"
  shows "fst (remove (fst (add n r s)) n (snd (add n r s)))"
    and "registered (snd (remove (fst (add n r s)) n (snd (add n r s)))) = registered s"
proof -
  have "registered (snd (add n r s)) (fst (add n r s)) = Some n"
    using assms by (simp add: add_registers)
  note removed = remove_registered [OF add_ok [OF assms(1)] this]
  then show "fst (remove (fst (add n r s)) n (snd (add n r s)))" by simp
  have "(registered s)(fst (add n r s) := None) = registered s"
    using add_fresh [OF assms] by (auto simp: fun_upd_idem_iff)
  then show "registered (snd (remove (fst (add n r s)) n (snd (add n r s)))) = registered s"
    using removed assms by (simp add: add_registers)
qed

lemma remove_twice:
  assumes "ok s"
  shows "remove k n (snd (remove k n s)) = (False, snd (remove k n s))"
proof (cases "registered s k = Some n")
  case True
  with assms remove_registered [of s k n] have "registered (snd (remove k n s)) k \<noteq> Some n" by simp
  with assms show ?thesis by (simp add: remove_other remove_ok)
next
  case False
  with assms show ?thesis by (simp add: remove_other)
qed

lemma remove_only:
  assumes "ok s"
  shows "registered (snd (remove k n s)) = registered s \<or>
    registered s k = Some n \<and> registered (snd (remove k n s)) = (registered s)(k := None)"
  using assms remove_registered [of s k n] remove_other [of s k n] by (cases "registered s k = Some n") auto

end

section \<open>The registrations as a partial map\<close>

lemma registrationValid_bit:
  "registrationValid i s \<longleftrightarrow> bit (ec_active_registrations_mask s) i"
proof -
  have "(push_bit i 1 AND w \<noteq> 0) = bit w i" for w :: u32
    by (metis and.commute and_exp_eq_0_iff_not_bit push_bit_of_1)
  then show ?thesis by (simp add: registrationValid_def)
qed

text \<open>
  A stored reply names the registration it is stored in, or is the initial reply, which names
  registration 0.
\<close>

definition reply_stored :: "nat \<Rightarrow> Registration \<Rightarrow> bool" where
  "reply_stored i g \<longleftrightarrow>
     (case rg_reply g of None \<Rightarrow> True
      | Some r \<Rightarrow> unat (acr_registration_id r) = i \<or> acr_registration_id r = 0)"

definition ec_ok :: "ExternalChecks \<Rightarrow> bool" where
  "ec_ok s \<longleftrightarrow>
     length (ec_registrations s) = MAX_NUM_REGISTRATIONS \<and>
     (\<forall>n. bit (ec_active_registrations_mask s) n \<longrightarrow> n < MAX_NUM_REGISTRATIONS) \<and>
     (\<forall>i < MAX_NUM_REGISTRATIONS. reply_stored i (ec_registrations s ! i) \<and>
        (registrationValid i s \<longrightarrow> rg_reply (ec_registrations s ! i) \<noteq> None))"

definition registered_modes :: "ExternalChecks \<Rightarrow> int \<Rightarrow> int option" where
  "registered_modes s k =
     (if 0 \<le> k \<and> k < int MAX_NUM_REGISTRATIONS \<and> registrationValid (nat k) s
      then Some (rg_nav_mode_id (ec_registrations s ! nat k)) else None)"

lemma map_registration_simps [simp]:
  "ec_active_registrations_mask (map_registration i f s) = ec_active_registrations_mask s"
  "ec_reply_received_mask (map_registration i f s) = ec_reply_received_mask s"
  "ec_last_update (map_registration i f s) = ec_last_update s"
  "ec_had_timeout (map_registration i f s) = ec_had_timeout s"
  "ec_current_request_id (map_registration i f s) = ec_current_request_id s"
  "length (ec_registrations (map_registration i f s)) = length (ec_registrations s)"
  "registrationValid j (map_registration i f s) = registrationValid j s"
  "j < length (ec_registrations s) \<Longrightarrow> ec_registrations (map_registration i f s) ! j =
     (if j = i then f (ec_registrations s ! i) else ec_registrations s ! j)"
  by (simp_all add: map_registration_def registrationValid_def)

lemma ExternalChecks_init_ok: "ec_ok (ExternalChecks_init b)"
  by (simp add: ec_ok_def ExternalChecks_init_def Registration_init_def reply_stored_def
      registrationValid_bit)

lemma free_registration_Some:
  "free_registration i n s = Some j \<Longrightarrow> i \<le> j \<and> j < i + n \<and> \<not> registrationValid j s"
  by (induction i n s rule: free_registration.induct) (auto split: if_splits)

lemma free_registration_None:
  "free_registration i n s = None \<Longrightarrow> i \<le> j \<Longrightarrow> j < i + n \<Longrightarrow> registrationValid j s"
proof (induction i n s rule: free_registration.induct)
  case (2 i n s)
  then show ?case by (cases "j = i") (auto split: if_splits)
qed simp

lemma hasFree_iff:
  assumes "ec_ok s"
  shows "hasFreeRegistrations s \<longleftrightarrow> free_registration 0 MAX_NUM_REGISTRATIONS s \<noteq> None"
proof -
  let ?m = "ec_active_registrations_mask s"
  have "?m = mask 8 \<longleftrightarrow> (\<forall>i < 8. bit ?m i)"
    using assms by (auto simp: ec_ok_def bit_mask_iff intro!: bit_word_eqI)
  also have "\<dots> \<longleftrightarrow> free_registration 0 MAX_NUM_REGISTRATIONS s = None"
    using free_registration_None [of 0 8 s] free_registration_Some [of 0 8 s]
    by (auto simp: registrationValid_bit) (metis option.exhaust)
  finally show ?thesis by (auto simp: hasFreeRegistrations_def mask_eq_exp_minus_1)
qed

lemma registrationValid_add:
  "j < 32 \<Longrightarrow> registrationValid j (s\<lparr>ec_active_registrations_mask :=
     ec_active_registrations_mask s OR 2 ^ i\<rparr>) \<longleftrightarrow> registrationValid j s \<or> i = j"
  by (auto simp: registrationValid_bit bit_simps)

lemma registrationValid_remove:
  "registrationValid j (s\<lparr>ec_active_registrations_mask :=
     ec_active_registrations_mask s AND NOT (2 ^ i)\<rparr>) \<longleftrightarrow> registrationValid j s \<and> i \<noteq> j"
  by (auto simp: registrationValid_bit bit_simps dest: bit_imp_le_length)

lemma addRegistration_free:
  assumes "ec_ok s" and "hasFreeRegistrations s"
  obtains i where "i < MAX_NUM_REGISTRATIONS" and "\<not> registrationValid i s"
    and "addRegistration n r s = (int i, map_registration i
      (\<lambda>g. g\<lparr>rg_nav_mode_id := n, rg_replaces_nav_state := r,
            rg_waiting_for_first_response := True, rg_num_no_response := 0,
            rg_unresponsive := False, rg_total_num_unresponsive := 0,
            rg_reply := (case rg_reply g of None \<Rightarrow> Some arming_check_reply_zero
                                          | Some r \<Rightarrow> Some r)\<rparr>)
      (s\<lparr>ec_active_registrations_mask := ec_active_registrations_mask s OR push_bit i 1\<rparr>))"
proof -
  from assms obtain i where "free_registration 0 MAX_NUM_REGISTRATIONS s = Some i"
    by (auto simp: hasFree_iff)
  with free_registration_Some [OF this] that show ?thesis by (simp add: addRegistration_def)
qed

lemma ec_ok_add: "ec_ok s \<Longrightarrow> ec_ok (snd (addRegistration n r s))"
proof (cases "hasFreeRegistrations s")
  case True
  assume ok: "ec_ok s"
  from ok True obtain i where i: "i < MAX_NUM_REGISTRATIONS" "\<not> registrationValid i s"
    "addRegistration n r s = (int i, map_registration i
      (\<lambda>g. g\<lparr>rg_nav_mode_id := n, rg_replaces_nav_state := r,
            rg_waiting_for_first_response := True, rg_num_no_response := 0,
            rg_unresponsive := False, rg_total_num_unresponsive := 0,
            rg_reply := (case rg_reply g of None \<Rightarrow> Some arming_check_reply_zero
                                          | Some r \<Rightarrow> Some r)\<rparr>)
      (s\<lparr>ec_active_registrations_mask := ec_active_registrations_mask s OR push_bit i 1\<rparr>))"
    by (rule addRegistration_free)
  with ok show ?thesis
    by (auto simp: ec_ok_def bit_simps reply_stored_def registrationValid_add
        arming_check_reply_zero_def split: option.splits)
next
  case False
  assume "ec_ok s"
  with False show ?thesis by (simp add: hasFree_iff addRegistration_def)
qed

lemma ec_ok_remove: "ec_ok s \<Longrightarrow> ec_ok (snd (removeRegistration k n s))"
  by (auto simp: removeRegistration_def ec_ok_def Let_def bit_simps registrationValid_remove)

interpretation registry: check_registry ec_ok registered_modes hasFreeRegistrations
  addRegistration removeRegistration isUnresponsive
proof unfold_locales
  fix s :: ExternalChecks and n r k :: int
  assume ok: "ec_ok s"
  show "ec_ok (snd (addRegistration n r s))" using ok by (rule ec_ok_add)
  show "ec_ok (snd (removeRegistration k n s))" using ok by (rule ec_ok_remove)
  have len: "length (ec_registrations s) = 8" using ok by (simp add: ec_ok_def)
  {
    assume free: "hasFreeRegistrations s"
    show "0 \<le> fst (addRegistration n r s) \<and> registered_modes s (fst (addRegistration n r s)) = None"
      using ok free by (rule addRegistration_free [where n = n and r = r])
        (simp add: registered_modes_def)
    show "registered_modes (snd (addRegistration n r s)) =
        (registered_modes s)(fst (addRegistration n r s) \<mapsto> n)"
      using ok free by (rule addRegistration_free [where n = n and r = r])
        (auto simp: registered_modes_def registrationValid_add len nat_eq_iff2 intro!: ext)
    show "\<not> isUnresponsive (fst (addRegistration n r s)) (snd (addRegistration n r s))"
      using ok free by (rule addRegistration_free [where n = n and r = r])
        (simp add: isUnresponsive_def len)
    show "isUnresponsive k (snd (addRegistration n r s)) = isUnresponsive k s"
      if "k \<noteq> fst (addRegistration n r s)"
      using ok free by (rule addRegistration_free [where n = n and r = r])
        (use that in \<open>auto simp: isUnresponsive_def registrationValid_add len split: if_splits\<close>)
  }
  show "addRegistration n r s = (-1, s)" if "\<not> hasFreeRegistrations s"
    using ok that by (simp add: hasFree_iff addRegistration_def)
  show "fst (removeRegistration k n s) \<and>
      registered_modes (snd (removeRegistration k n s)) = (registered_modes s)(k := None)"
    if "registered_modes s k = Some n"
    using that
    by (auto simp: registered_modes_def removeRegistration_def Let_def registrationValid_remove
        split: if_splits intro!: ext)
  show "removeRegistration k n s = (False, s)" if "registered_modes s k \<noteq> Some n"
    using that by (auto simp: registered_modes_def removeRegistration_def Let_def split: if_splits)
  show "registered_modes s k \<noteq> None" if "isUnresponsive k s"
    using that by (auto simp: registered_modes_def isUnresponsive_def)
qed

end
