(* ===== verification/External_Polling.thy ===== *)
theory External_Polling
  imports External_Registry
begin

text \<open>
  What one update of the external checks does to one registration, and the invariant of the
  registrations under all operations.
\<close>

section \<open>The invariant\<close>

lemma ec_ok_map_registration:
  assumes "ec_ok s" and "i < MAX_NUM_REGISTRATIONS"
    and "\<And>g. reply_stored i g \<Longrightarrow> reply_stored i (f g)"
    and "\<And>g. rg_reply g \<noteq> None \<Longrightarrow> rg_reply (f g) \<noteq> None"
  shows "ec_ok (map_registration i f s)"
  using assms unfolding ec_ok_def by (auto simp del: not_None_eq)

lemma ec_ok_masks [simp]:
  "ec_ok (s\<lparr>ec_reply_received_mask := m\<rparr>) = ec_ok s"
  "ec_ok (s\<lparr>ec_had_timeout := b\<rparr>) = ec_ok s"
  "ec_ok (s\<lparr>ec_last_update := t\<rparr>) = ec_ok s"
  "ec_ok (s\<lparr>ec_current_request_id := k\<rparr>) = ec_ok s"
  by (simp_all add: ec_ok_def registrationValid_def)

lemma ec_ok_handle_reply: "ec_ok s \<Longrightarrow> ec_ok (handle_reply now reply s)"
  by (auto simp: handle_reply_def accepts_reply_def Let_def reply_stored_def
      intro!: ec_ok_map_registration split: option.splits)

lemma ec_ok_receive_replies: "ec_ok s \<Longrightarrow> ec_ok (fst (receive_replies n now replies s))"
  by (induction n now replies s rule: receive_replies.induct) (simp_all add: ec_ok_handle_reply)

lemma ec_ok_count_missing_reply:
  "ec_ok s \<Longrightarrow> i < MAX_NUM_REGISTRATIONS \<Longrightarrow> ec_ok (count_missing_reply m i s)"
  by (auto simp: count_missing_reply_def Let_def reply_stored_def
      intro!: ec_ok_map_registration ec_ok_remove)

lemma ec_ok_fold_missing:
  "ec_ok s \<Longrightarrow> set xs \<subseteq> {..<MAX_NUM_REGISTRATIONS} \<Longrightarrow> ec_ok (fold (count_missing_reply m) xs s)"
  by (induction xs arbitrary: s) (simp_all add: ec_ok_count_missing_reply)

lemma ec_ok_check_timeout: "ec_ok s \<Longrightarrow> ec_ok (check_timeout now s)"
  unfolding check_timeout_def Let_def by (auto intro!: ec_ok_fold_missing)

lemma ec_ok_start_request: "ec_ok s \<Longrightarrow> ec_ok (snd (start_request now t s))"
  by (simp add: start_request_def Let_def)

lemma ec_ok_update: "ec_ok s \<Longrightarrow> ec_ok (fst (snd (ExternalChecks_update now t replies s)))"
  using ec_ok_start_request ec_ok_check_timeout
    ec_ok_receive_replies [of s arming_check_reply_ORB_QUEUE_LENGTH now replies]
  by (auto simp: ExternalChecks_update_def Let_def split: prod.splits) (metis snd_conv fst_conv)

section \<open>One registration\<close>

definition max_num_no_reply :: "Registration \<Rightarrow> u8" where
  "max_num_no_reply g =
     (if rg_waiting_for_first_response g then NUM_NO_REPLY_UNTIL_UNRESPONSIVE_INIT
      else NUM_NO_REPLY_UNTIL_UNRESPONSIVE)"

text \<open>What a missing reply does to a registration that belongs to a mode.\<close>

definition miss :: "Registration \<Rightarrow> Registration" where
  "miss g =
    (if rg_unresponsive g then g
     else if rg_num_no_response g + 1 > max_num_no_reply g
     then g\<lparr>rg_num_no_response := rg_num_no_response g + 1, rg_unresponsive := True,
            rg_total_num_unresponsive :=
              (if rg_total_num_unresponsive g < 100 then rg_total_num_unresponsive g + 1
               else rg_total_num_unresponsive g)\<rparr>
     else g\<lparr>rg_num_no_response := rg_num_no_response g + 1\<rparr>)"

lemma removeRegistration_frame [simp]:
  "ec_registrations (snd (removeRegistration k n s)) = ec_registrations s"
  "ec_reply_received_mask (snd (removeRegistration k n s)) = ec_reply_received_mask s"
  "ec_last_update (snd (removeRegistration k n s)) = ec_last_update s"
  "ec_had_timeout (snd (removeRegistration k n s)) = ec_had_timeout s"
  "j \<noteq> nat k \<Longrightarrow> registrationValid j (snd (removeRegistration k n s)) = registrationValid j s"
  by (simp_all add: removeRegistration_def Let_def registrationValid_remove)

lemma count_missing_reply_frame [simp]:
  "ec_reply_received_mask (count_missing_reply m j s) = ec_reply_received_mask s"
  "ec_last_update (count_missing_reply m j s) = ec_last_update s"
  "ec_had_timeout (count_missing_reply m j s) = ec_had_timeout s"
  "length (ec_registrations (count_missing_reply m j s)) = length (ec_registrations s)"
  "i \<noteq> j \<Longrightarrow> registrationValid i (count_missing_reply m j s) = registrationValid i s"
  "i \<noteq> j \<Longrightarrow> i < length (ec_registrations s) \<Longrightarrow>
     ec_registrations (count_missing_reply m j s) ! i = ec_registrations s ! i"
  by (auto simp: count_missing_reply_def Let_def)

lemma count_missing_reply_same:
  assumes "rg_nav_mode_id (ec_registrations s ! i) \<noteq> -1" and "i < length (ec_registrations s)"
  shows "registrationValid i (count_missing_reply m i s) = registrationValid i s"
    and "ec_registrations (count_missing_reply m i s) ! i =
      (if bit m i then miss (ec_registrations s ! i) else ec_registrations s ! i)"
proof -
  have "(push_bit i 1 AND m = 0) = (\<not> bit m i)"
    by (metis and.commute and_exp_eq_0_iff_not_bit push_bit_of_1)
  with assms show "registrationValid i (count_missing_reply m i s) = registrationValid i s"
    and "ec_registrations (count_missing_reply m i s) ! i =
      (if bit m i then miss (ec_registrations s ! i) else ec_registrations s ! i)"
    by (auto simp: count_missing_reply_def Let_def miss_def max_num_no_reply_def)
qed

lemma fold_count_missing:
  assumes "i < length (ec_registrations s)" and "rg_nav_mode_id (ec_registrations s ! i) \<noteq> -1"
    and "distinct xs"
  shows "ec_registrations (fold (count_missing_reply m) xs s) ! i =
      (if i \<in> set xs \<and> bit m i then miss (ec_registrations s ! i) else ec_registrations s ! i)"
    and "registrationValid i (fold (count_missing_reply m) xs s) = registrationValid i s"
    and "ec_reply_received_mask (fold (count_missing_reply m) xs s) = ec_reply_received_mask s"
    and "ec_last_update (fold (count_missing_reply m) xs s) = ec_last_update s"
  using assms
proof (induction xs arbitrary: s)
  case (Cons j xs)
  { case 1 with Cons show ?case by (cases "i = j") (auto simp: count_missing_reply_same miss_def) }
  { case 2 with Cons show ?case by (cases "i = j") (auto simp: count_missing_reply_same miss_def) }
  { case 3 with Cons show ?case by (cases "i = j") (auto simp: count_missing_reply_same miss_def) }
  { case 4 with Cons show ?case by (cases "i = j") (auto simp: count_missing_reply_same miss_def) }
qed simp_all

section \<open>A silent registration\<close>

definition silent :: "nat \<Rightarrow> arming_check_reply_s list \<Rightarrow> bool" where
  "silent i replies \<longleftrightarrow> (\<forall>r \<in> set replies. unat (acr_registration_id r) \<noteq> i)"

lemma handle_reply_frame [simp]:
  "ec_active_registrations_mask (handle_reply now r s) = ec_active_registrations_mask s"
  "ec_last_update (handle_reply now r s) = ec_last_update s"
  "ec_had_timeout (handle_reply now r s) = ec_had_timeout s"
  "length (ec_registrations (handle_reply now r s)) = length (ec_registrations s)"
  "registrationValid j (handle_reply now r s) = registrationValid j s"
  by (simp_all add: handle_reply_def Let_def registrationValid_def)

lemma handle_reply_other:
  assumes "unat (acr_registration_id r) \<noteq> i" and "i < length (ec_registrations s)"
  shows "ec_registrations (handle_reply now r s) ! i = ec_registrations s ! i"
    and "i < 32 \<Longrightarrow> bit (ec_reply_received_mask (handle_reply now r s)) i =
      bit (ec_reply_received_mask s) i"
  using assms by (auto simp: handle_reply_def Let_def bit_simps)

lemma receive_replies_frame [simp]:
  "ec_active_registrations_mask (fst (receive_replies n now rs s)) = ec_active_registrations_mask s"
  "ec_last_update (fst (receive_replies n now rs s)) = ec_last_update s"
  "ec_had_timeout (fst (receive_replies n now rs s)) = ec_had_timeout s"
  "length (ec_registrations (fst (receive_replies n now rs s))) = length (ec_registrations s)"
  "registrationValid j (fst (receive_replies n now rs s)) = registrationValid j s"
  by (induction n now rs s rule: receive_replies.induct) simp_all

lemma receive_replies_silent:
  assumes "silent i rs" and "i < length (ec_registrations s)" and "i < 32"
  shows "ec_registrations (fst (receive_replies n now rs s)) ! i = ec_registrations s ! i"
    and "bit (ec_reply_received_mask (fst (receive_replies n now rs s))) i =
      bit (ec_reply_received_mask s) i"
  using assms
  by (induction n now rs s rule: receive_replies.induct)
     (simp_all add: silent_def handle_reply_other)

lemma start_request_frame [simp]:
  "ec_registrations (snd (start_request now t s)) = ec_registrations s"
  "ec_active_registrations_mask (snd (start_request now t s)) = ec_active_registrations_mask s"
  "registrationValid j (snd (start_request now t s)) = registrationValid j s"
  by (simp_all add: start_request_def Let_def registrationValid_def)

lemma update_state:
  "ec_active_registrations_mask s \<noteq> 0 \<Longrightarrow>
     fst (snd (ExternalChecks_update now t rs s)) =
     snd (start_request now t (check_timeout now
       (fst (receive_replies arming_check_reply_ORB_QUEUE_LENGTH now rs s))))"
  by (simp add: ExternalChecks_update_def Let_def split: prod.splits)

text \<open>
  \<open>pending i s\<close>: registration \<open>i\<close> belongs to a mode, and the current request has neither been answered
  by it nor timed out.
\<close>

definition pending :: "nat \<Rightarrow> ExternalChecks \<Rightarrow> bool" where
  "pending i s \<longleftrightarrow>
     ec_ok s \<and> i < MAX_NUM_REGISTRATIONS \<and> registrationValid i s \<and>
     rg_nav_mode_id (ec_registrations s ! i) \<noteq> -1 \<and> \<not> bit (ec_reply_received_mask s) i \<and>
     \<not> ec_had_timeout s \<and> ec_last_update s > 0"

text \<open>The next request is due at \<open>now\<close>, and the deadline does not wrap around.\<close>

definition due :: "hrt_abstime \<Rightarrow> ExternalChecks \<Rightarrow> bool" where
  "due now s \<longleftrightarrow>
     ec_last_update s \<le> ec_last_update s + UPDATE_INTERVAL \<and>
     ec_last_update s + UPDATE_INTERVAL < now"

lemma due_timeout:
  assumes "due now s"
  shows "ec_last_update s + REQUEST_TIMEOUT < now"
proof -
  have "ec_last_update s + REQUEST_TIMEOUT \<le> ec_last_update s + UPDATE_INTERVAL"
    using assms
    by (intro word_plus_mono_right) (simp_all add: due_def REQUEST_TIMEOUT_def UPDATE_INTERVAL_def
        time_ms_def)
  also have "\<dots> < now" using assms by (simp add: due_def)
  finally show ?thesis .
qed

lemma pending_update:
  fixes t :: hrt_abstime
  assumes "pending i s" and "due now s" and "silent i rs"
  defines "s' \<equiv> fst (snd (ExternalChecks_update now t rs s))"
  shows "pending i s'" and "ec_last_update s' = now"
    and "ec_registrations s' ! i = miss (ec_registrations s ! i)"
proof -
  let ?r = "fst (receive_replies arming_check_reply_ORB_QUEUE_LENGTH now rs s)"
  let ?no_reply = "ec_active_registrations_mask ?r AND NOT (ec_reply_received_mask ?r)"
  let ?c = "fold (count_missing_reply ?no_reply) [0..<MAX_NUM_REGISTRATIONS]
    (?r\<lparr>ec_had_timeout := True\<rparr>)"
  from assms(1) have i: "i < 8" "i < length (ec_registrations s)" "registrationValid i s"
    "rg_nav_mode_id (ec_registrations s ! i) \<noteq> -1" "\<not> bit (ec_reply_received_mask s) i"
    and ok: "ec_ok s" and idle: "\<not> ec_had_timeout s" "ec_last_update s > 0"
    by (auto simp: pending_def ec_ok_def)
  have r: "ec_registrations ?r ! i = ec_registrations s ! i" "\<not> bit (ec_reply_received_mask ?r) i"
    using receive_replies_silent [OF assms(3)] i by simp_all
  then have no_reply: "bit ?no_reply i"
    using i by (simp add: bit_simps registrationValid_bit)
  then have "ec_reply_received_mask ?r \<noteq> ec_active_registrations_mask ?r"
    using i(3) r(2) by (auto simp: registrationValid_bit)
  then have "check_timeout now ?r = ?c"
    using idle due_timeout [OF assms(2)] by (simp add: check_timeout_def Let_def)
  moreover have "ec_active_registrations_mask s \<noteq> 0"
    using i(3) by (auto simp: registrationValid_bit)
  ultimately have s': "s' = snd (start_request now t ?c)"
    unfolding s'_def by (simp add: update_state)
  note c = fold_count_missing [of i "?r\<lparr>ec_had_timeout := True\<rparr>" "[0..<MAX_NUM_REGISTRATIONS]" ?no_reply]
  have regs: "ec_registrations ?c ! i = miss (ec_registrations s ! i)"
    using c(1) i r no_reply by simp
  then show "ec_registrations s' ! i = miss (ec_registrations s ! i)" by (simp add: s')
  have valid: "registrationValid i ?c" using c(2) i r by (simp add: registrationValid_def)
  have last: "ec_last_update ?c = ec_last_update s" using c(4) i r by simp
  then show now: "ec_last_update s' = now"
    using assms(2) by (simp add: s' start_request_def due_def Let_def)
  have "ec_ok s'" unfolding s'_def using ok by (rule ec_ok_update)
  moreover have "\<not> bit (ec_reply_received_mask s') i" "\<not> ec_had_timeout s'"
    using last assms(2) by (simp_all add: s' start_request_def due_def Let_def)
  moreover have "rg_nav_mode_id (miss g) = rg_nav_mode_id g" for g by (simp add: miss_def)
  ultimately show "pending i s'"
    using valid regs i idle now assms(2) by (auto simp: pending_def s' due_def)
qed

section \<open>Sequences of updates\<close>

type_synonym poll_input = "hrt_abstime \<times> hrt_abstime \<times> arming_check_reply_s list"

definition run_updates :: "poll_input list \<Rightarrow> ExternalChecks \<Rightarrow> ExternalChecks" where
  "run_updates inputs s =
     fold (\<lambda>(now, t, rs) s. fst (snd (ExternalChecks_update now t rs s))) inputs s"

text \<open>Each update of the sequence finds the next request due.\<close>

fun spaced :: "hrt_abstime \<Rightarrow> poll_input list \<Rightarrow> bool" where
  "spaced last_update [] = True"
| "spaced last_update ((now, t, rs) # inputs) =
     (last_update \<le> last_update + UPDATE_INTERVAL \<and> last_update + UPDATE_INTERVAL < now \<and>
      spaced now inputs)"

lemma run_updates_pending:
  assumes "pending i s" and "spaced (ec_last_update s) inputs"
    and "list_all (\<lambda>(now, t, rs). silent i rs) inputs"
  shows "pending i (run_updates inputs s) \<and>
    ec_registrations (run_updates inputs s) ! i =
      (miss ^^ length inputs) (ec_registrations s ! i)"
  using assms
proof (induction inputs arbitrary: s)
  case Nil
  then show ?case by (simp add: run_updates_def)
next
  case (Cons x inputs)
  obtain now t rs where x: "x = (now, t, rs)" by (cases x)
  let ?s = "fst (snd (ExternalChecks_update now t rs s))"
  have "due now s" and "silent i rs" using Cons.prems x by (simp_all add: due_def)
  note step = pending_update [OF Cons.prems(1) this, of t]
  have "pending i (run_updates inputs ?s) \<and> ec_registrations (run_updates inputs ?s) ! i =
      (miss ^^ length inputs) (ec_registrations ?s ! i)"
    using Cons.prems step x by (intro Cons.IH) simp_all
  with step x show ?case by (simp add: run_updates_def funpow_swap1)
qed

lemma miss_count:
  assumes "\<not> rg_unresponsive ((miss ^^ n) g)" and "rg_num_no_response g \<le> max_num_no_reply g"
  shows "unat (rg_num_no_response g) + n \<le> unat (max_num_no_reply g)"
  using assms
proof (induction n arbitrary: g)
  case 0
  then show ?case by (simp add: word_le_nat_alt)
next
  case (Suc n)
  have "(miss ^^ n) g = g" if "rg_unresponsive g" for g
    using that by (induction n) (simp_all add: miss_def)
  with Suc.prems(1) have "\<not> rg_unresponsive (miss g)" by (auto simp: funpow_swap1)
  then have g: "\<not> rg_unresponsive g" "rg_num_no_response g + 1 \<le> max_num_no_reply g"
    and m: "miss g = g\<lparr>rg_num_no_response := rg_num_no_response g + 1\<rparr>"
    by (auto simp: miss_def split: if_splits)
  have "max_num_no_reply g \<le> 10" by (simp add: max_num_no_reply_def)
  with Suc.prems(2) have "rg_num_no_response g \<le> 10" by (rule order_trans)
  moreover have "\<not> - 1 \<le> (10 :: u8)" by code_simp
  ultimately have "1 + rg_num_no_response g \<noteq> 0"
    by (auto simp: add_eq_0_iff)
  then have "unat (rg_num_no_response g + 1) = unat (rg_num_no_response g) + 1"
    by (metis Suc_eq_plus1 add.commute unatSuc)
  moreover have "unat (rg_num_no_response (miss g)) + n \<le> unat (max_num_no_reply (miss g))"
    using Suc.prems g m by (intro Suc.IH) (simp_all add: funpow_swap1 max_num_no_reply_def)
  ultimately show ?case by (simp add: m max_num_no_reply_def)
qed

section \<open>Repeatedly unresponsive registrations\<close>

text \<open>Registration \<open>i\<close> has become unresponsive too often to be trusted again.\<close>

definition given_up :: "nat \<Rightarrow> ExternalChecks \<Rightarrow> bool" where
  "given_up i s \<longleftrightarrow>
     i < length (ec_registrations s) \<and> registrationValid i s \<and>
     rg_unresponsive (ec_registrations s ! i) \<and> rg_total_num_unresponsive (ec_registrations s ! i) > 3"

lemma given_up_handle_reply: "given_up i s \<Longrightarrow> given_up i (handle_reply now r s)"
  by (auto simp: given_up_def handle_reply_def Let_def registrationValid_def)

lemma given_up_receive_replies: "given_up i s \<Longrightarrow> given_up i (fst (receive_replies n now rs s))"
  by (induction n now rs s rule: receive_replies.induct) (simp_all add: given_up_handle_reply)

lemma given_up_count_missing: "given_up i s \<Longrightarrow> given_up i (count_missing_reply m j s)"
proof (cases "i = j")
  case True
  then show "given_up i s \<Longrightarrow> ?thesis" by (simp add: given_up_def count_missing_reply_def Let_def)
next
  case False
  then show "given_up i s \<Longrightarrow> ?thesis" by (simp add: given_up_def)
qed

lemma given_up_fold_missing: "given_up i s \<Longrightarrow> given_up i (fold (count_missing_reply m) xs s)"
  by (induction xs arbitrary: s) (simp_all add: given_up_count_missing)

lemma given_up_update:
  assumes "given_up i s"
  shows "given_up i (fst (snd (ExternalChecks_update now t rs s)))"
proof (cases "ec_active_registrations_mask s = 0")
  case True
  then show ?thesis using assms by (simp add: ExternalChecks_update_def)
next
  case False
  let ?r = "fst (receive_replies arming_check_reply_ORB_QUEUE_LENGTH now rs s)"
  have "given_up i ?r" using assms by (rule given_up_receive_replies)
  then have "given_up i (?r\<lparr>ec_had_timeout := True\<rparr>)"
    by (simp add: given_up_def registrationValid_def)
  with \<open>given_up i ?r\<close> have "given_up i (check_timeout now ?r)"
    by (simp add: check_timeout_def Let_def given_up_fold_missing)
  with False show ?thesis by (simp add: update_state given_up_def)
qed

end
