(* ===== verification/External_Report.thy ===== *)
theory External_Report
  imports External_Polling
begin

text \<open>
  What the external checks report: they only take permissions away, a requirement \<^verbatim>\<open>mode_req_other\<close>
  is only added, and a mode whose component says no, does not answer or is not registered is
  blocked.
\<close>

section \<open>Permissions are only taken away\<close>

lemma narrows_map_mode_req [narrows_intros]: "narrows r r' \<Longrightarrow> narrows r (map_mode_req q f r')"
  by (simp add: map_mode_req_def Let_def narrows_intros)

lemma narrows_fold:
  assumes "\<And>x r'. narrows r r' \<Longrightarrow> narrows r (f x r')" and "narrows r r'"
  shows "narrows r (fold f xs r')"
  using assms(2) by (induction xs arbitrary: r') (simp_all add: assms(1))

lemma narrows_checkNonRegisteredModes [narrows_intros]:
  "narrows r r' \<Longrightarrow> narrows r (checkNonRegisteredModes c s r')"
  by (auto simp: checkNonRegisteredModes_def Let_def intro!: narrows_intros narrows_fold)

lemma narrows_report_mode_requirements [narrows_intros]:
  "narrows r r' \<Longrightarrow> narrows r (report_mode_requirements owner reply r')"
  by (auto simp: report_mode_requirements_def Let_def intro!: narrows_intros narrows_fold)

lemma narrows_report_events [narrows_intros]:
  "narrows r r' \<Longrightarrow> narrows r (snd (report_events m reply r'))"
  by (auto simp: report_events_def Let_def intro!: narrows_intros narrows_fold)

lemma narrows_report_reply [narrows_intros]:
  "narrows r r' \<Longrightarrow> narrows r (snd (report_reply owner reply r'))"
  by (auto simp: report_reply_def Let_def intro!: narrows_intros)

lemma check_registration_cases:
  obtains (skip) "check_registration i (um, s, r) = (um, s, r)"
  | (unresponsive) nav where "check_registration i (um, s, r) =
      (um OR mode_group_of nav, s,
       map_mode_req mode_req_other (setOrClearRequirementBits True nav (-1)) r)"
  | (reply) owner reply s' where "check_registration i (um, s, r) =
      (um, s', snd (report_reply owner reply r))"
proof (cases "if registrationValid i s then rg_reply (ec_registrations s ! i) else None")
  case None
  then show ?thesis using skip by (simp add: check_registration_def)
next
  case (Some reply)
  then have stored: "registrationValid i s" "rg_reply (ec_registrations s ! i) = Some reply"
    by (simp_all split: if_splits)
  let ?owner = "ec_registrations s ! unat (acr_registration_id reply)"
  show ?thesis
  proof (cases "rg_unresponsive ?owner")
    case True
    with stored skip unresponsive show ?thesis
      by (cases "rg_nav_mode_id ?owner = -1") (simp_all add: check_registration_def Let_def)
  next
    case False
    with stored have "check_registration i (um, s, r) =
        (um, map_registration i
           (\<lambda>g. g\<lparr>rg_reply := Some (fst (report_reply ?owner reply r))\<rparr>) s,
         snd (report_reply ?owner reply r))"
      by (simp add: check_registration_def Let_def split_beta)
    then show ?thesis by (rule that(3))
  qed
qed

lemma narrows_check_registration [narrows_intros]:
  assumes "narrows r0 (snd (snd x))"
  shows "narrows r0 (snd (snd (check_registration i x)))"
proof (cases x)
  case (fields um s r)
  show ?thesis
    by (rule check_registration_cases [of i um s r])
       (use assms fields in \<open>simp_all add: narrows_intros\<close>)
qed

lemma narrows_fold_registrations:
  "narrows r (snd (snd x)) \<Longrightarrow> narrows r (snd (snd (fold check_registration is x)))"
  by (induction "is" arbitrary: x) (simp_all add: narrows_check_registration)

lemma narrows_ExternalChecks:
  "narrows r (snd (ExternalChecks_checkAndReport c s r))"
  using narrows_fold_registrations [of r "(NavModes_None, s, checkNonRegisteredModes c s r)"
      "[0..<MAX_NUM_REGISTRATIONS]"]
  by (auto simp: ExternalChecks_checkAndReport_def Let_def narrows_checkNonRegisteredModes
      split: prod.splits intro!: narrows_intros)

section \<open>Requirements that are only added\<close>

definition requires_other :: "Report \<Rightarrow> nat \<Rightarrow> bool" where
  "requires_other r n \<longleftrightarrow> bit (ff_mode_req (rp_failsafe_flags r) mode_req_other) n"

lemma requires_other_map_mode_req:
  "q \<noteq> mode_req_other \<Longrightarrow> requires_other (map_mode_req q f r) = requires_other r"
  "requires_other r n \<Longrightarrow>
     requires_other (map_mode_req q (setOrClearRequirementBits True nav rep) r) n"
  by (auto simp: requires_other_def map_mode_req_def Let_def setOrClearRequirementBits_def
      bit_simps fun_eq_iff)

lemma requires_other_fold_reqs:
  "mode_req_other \<notin> set qs \<Longrightarrow>
     requires_other (fold (\<lambda>q. map_mode_req q (f q)) qs r) = requires_other r"
  by (induction qs arbitrary: r) (auto simp: requires_other_map_mode_req)

lemma other_not_in_reply [simp]: "mode_req_other \<notin> set reply_mode_reqs"
  by (simp add: reply_mode_reqs_def)

lemma requires_other_report_mode_requirements:
  "requires_other r n \<Longrightarrow> requires_other (report_mode_requirements owner reply r) n"
  by (simp add: report_mode_requirements_def Let_def requires_other_fold_reqs
      requires_other_map_mode_req)

lemma report_events_flags [simp]:
  "rp_failsafe_flags (snd (report_events m reply r)) = rp_failsafe_flags r"
proof -
  have "rp_failsafe_flags (fold (\<lambda>ev r. snd (addExternalEvent ev m r)) evs r) = rp_failsafe_flags r"
    for evs by (induction evs arbitrary: r) simp_all
  then show ?thesis by (simp add: report_events_def Let_def)
qed

lemma report_reply_flags:
  "rp_failsafe_flags (snd (report_reply owner reply r)) =
     rp_failsafe_flags (report_mode_requirements owner reply r)"
  by (simp add: report_reply_def Let_def)

lemma requires_other_reply:
  "requires_other (snd (report_reply owner reply r)) =
     requires_other (report_mode_requirements owner reply r)"
  by (simp add: requires_other_def report_reply_flags fun_eq_iff)

lemma requires_other_report_reply:
  "requires_other r n \<Longrightarrow> requires_other (snd (report_reply owner reply r)) n"
  by (simp add: requires_other_reply requires_other_report_mode_requirements)

section \<open>Blocked modes\<close>

text \<open>During the loop, mode \<open>n\<close> is refused already or is among the unresponsive modes.\<close>

definition blocked :: "nat \<Rightarrow> u32 \<times> ExternalChecks \<times> Report \<Rightarrow> bool" where
  "blocked n x \<longleftrightarrow>
     (\<not> bit (can_arm (snd (snd x))) n \<or> bit (fst x) n) \<and> requires_other (snd (snd x)) n"

lemma unresponsive_modes_grow:
  assumes "bit (fst x) n"
  shows "bit (fst (check_registration i x)) n"
proof (cases x)
  case (fields um s r)
  show ?thesis
    by (rule check_registration_cases [of i um s r]) (use assms fields in \<open>simp_all add: bit_simps\<close>)
qed

lemma requires_other_check_registration:
  assumes "requires_other (snd (snd x)) n"
  shows "requires_other (snd (snd (check_registration i x))) n"
proof (cases x)
  case (fields um s r)
  show ?thesis
    by (rule check_registration_cases [of i um s r])
       (use assms fields in \<open>simp_all add: requires_other_map_mode_req requires_other_report_reply\<close>)
qed

lemma blocked_check_registration:
  assumes "blocked n x"
  shows "blocked n (check_registration i x)"
proof -
  have "narrows (snd (snd x)) (snd (snd (check_registration i x)))"
    by (rule narrows_check_registration) simp
  then show ?thesis
    using assms narrows_can_arm unresponsive_modes_grow requires_other_check_registration
    by (auto simp: blocked_def)
qed

lemma blocked_fold: "blocked n x \<Longrightarrow> blocked n (fold check_registration is x)"
  by (induction "is" arbitrary: x) (simp_all add: blocked_check_registration)

text \<open>
  A registration blocks the mode of the registration its stored reply names, if that registration
  is unresponsive or the reply refuses.
\<close>

definition refuses :: "ExternalChecks \<Rightarrow> nat \<Rightarrow> int \<Rightarrow> bool" where
  "refuses s i nav \<longleftrightarrow>
     registrationValid i s \<and>
     (\<exists>reply. rg_reply (ec_registrations s ! i) = Some reply \<and>
        (let owner = ec_registrations s ! unat (acr_registration_id reply)
         in rg_nav_mode_id owner = nav \<and>
            (rg_unresponsive owner \<or> \<not> acr_can_arm_and_run reply)))"

lemma bit_mode_group: "0 \<le> nav \<Longrightarrow> nav < 32 \<Longrightarrow> bit (bit_mask (word_of_int nav)) (nat nav)"
  by (simp add: bit_bit_mask unsigned_of_int take_bit_int_eq_self)

lemma can_arm_report_events [simp]: "can_arm (snd (report_events m reply r)) = can_arm r"
proof -
  have "can_arm (fold (\<lambda>ev r. snd (addExternalEvent ev m r)) evs r) = can_arm r" for evs
    by (induction evs arbitrary: r) simp_all
  then show ?thesis by (simp add: report_events_def Let_def)
qed

lemma refuses_blocks:
  assumes "refuses s i nav" and "0 \<le> nav" and "nav < 32"
  shows "blocked (nat nav) (check_registration i (um, s, r))"
proof -
  from assms(1) obtain reply where reply: "rg_reply (ec_registrations s ! i) = Some reply"
    and valid: "registrationValid i s"
    and nav: "rg_nav_mode_id (ec_registrations s ! unat (acr_registration_id reply)) = nav"
    and no: "rg_unresponsive (ec_registrations s ! unat (acr_registration_id reply)) \<or>
      \<not> acr_can_arm_and_run reply"
    by (auto simp: refuses_def Let_def)
  let ?owner = "ec_registrations s ! unat (acr_registration_id reply)"
  note bits = bit_mode_group [OF assms(2,3)]
  have other: "requires_other (map_mode_req mode_req_other
      (setOrClearRequirementBits True nav rep) r') (nat nav)" for rep r'
    using bits by (simp add: requires_other_def map_mode_req_def Let_def
        setOrClearRequirementBits_def bit_simps)
  show ?thesis
  proof (cases "rg_unresponsive ?owner")
    case True
    with reply valid nav assms(2) other [of "-1"] bits show ?thesis
      by (simp add: blocked_def check_registration_def Let_def mode_group_of_def getModeGroup_def
          bit_simps)
  next
    case False
    with no have "\<not> acr_can_arm_and_run reply" by simp
    moreover have "bit (reply_modes ?owner) (nat nav)"
      using nav assms(2) bits by (simp add: reply_modes_def mode_group_of_def getModeGroup_def bit_simps)
    ultimately have "\<not> bit (can_arm (snd (report_reply ?owner reply r))) (nat nav)"
      by (simp add: report_reply_def Let_def bit_simps)
    moreover have "requires_other (snd (report_reply ?owner reply r)) (nat nav)"
      using \<open>\<not> acr_can_arm_and_run reply\<close> nav assms(2) other
      by (simp add: requires_other_reply report_mode_requirements_def Let_def
          requires_other_fold_reqs)
    ultimately show ?thesis
      using False reply valid
      by (simp add: blocked_def check_registration_def Let_def split_beta)
  qed
qed

text \<open>Reporting a registration rewrites the arguments of stored events and nothing else.\<close>

definition same_answers :: "ExternalChecks \<Rightarrow> ExternalChecks \<Rightarrow> bool" where
  "same_answers s s' \<longleftrightarrow>
     ec_active_registrations_mask s' = ec_active_registrations_mask s \<and>
     length (ec_registrations s') = length (ec_registrations s) \<and>
     (\<forall>i < length (ec_registrations s).
        let g = ec_registrations s ! i; g' = ec_registrations s' ! i in
        rg_nav_mode_id g' = rg_nav_mode_id g \<and> rg_unresponsive g' = rg_unresponsive g \<and>
        map_option (\<lambda>r. (acr_registration_id r, acr_can_arm_and_run r)) (rg_reply g') =
        map_option (\<lambda>r. (acr_registration_id r, acr_can_arm_and_run r)) (rg_reply g))"

lemma same_answers_trans: "same_answers s s' \<Longrightarrow> same_answers s' s'' \<Longrightarrow> same_answers s s''"
  by (simp add: same_answers_def Let_def)

lemma report_reply_answer:
  "acr_registration_id (fst (report_reply owner reply r)) = acr_registration_id reply"
  "acr_can_arm_and_run (fst (report_reply owner reply r)) = acr_can_arm_and_run reply"
  by (simp_all add: report_reply_def report_events_def Let_def)

lemma same_answers_check_registration:
  "same_answers s (fst (snd (check_registration i (um, s, r))))"
proof -
  have "same_answers s (map_registration i (\<lambda>g. g\<lparr>rg_reply := Some (fst (report_reply o' reply r))\<rparr>) s)"
    if "rg_reply (ec_registrations s ! i) = Some reply" for o' reply
    using that by (auto simp: same_answers_def Let_def report_reply_answer)
  then show ?thesis
    by (auto simp: check_registration_def Let_def split_beta same_answers_def [of s s]
        split: option.splits)
qed

lemma same_answers_fold:
  "same_answers s (fst (snd x)) \<Longrightarrow> same_answers s (fst (snd (fold check_registration is x)))"
proof (induction "is" arbitrary: x)
  case (Cons i "is")
  obtain um s' r where x: "x = (um, s', r)" by (cases x)
  with Cons.prems same_answers_check_registration [of s' i um r]
  have "same_answers s (fst (snd (check_registration i x)))"
    by (auto intro: same_answers_trans)
  then show ?case by (simp add: Cons.IH)
qed simp

lemma refuses_same_answers:
  assumes "same_answers s s'" and "refuses s i nav" and "i < length (ec_registrations s)"
    and "\<And>reply. rg_reply (ec_registrations s ! i) = Some reply \<Longrightarrow>
      unat (acr_registration_id reply) < length (ec_registrations s)"
  shows "refuses s' i nav"
proof -
  from assms(2) obtain reply where reply: "rg_reply (ec_registrations s ! i) = Some reply"
    "registrationValid i s"
    "rg_nav_mode_id (ec_registrations s ! unat (acr_registration_id reply)) = nav"
    "rg_unresponsive (ec_registrations s ! unat (acr_registration_id reply)) \<or>
      \<not> acr_can_arm_and_run reply"
    by (auto simp: refuses_def Let_def)
  from assms(1,3) reply(1) obtain reply' where "rg_reply (ec_registrations s' ! i) = Some reply'"
    "acr_registration_id reply' = acr_registration_id reply"
    "acr_can_arm_and_run reply' = acr_can_arm_and_run reply"
    by (fastforce simp: same_answers_def Let_def)
  with assms(1) assms(4) [OF reply(1)] reply show ?thesis
    by (simp add: refuses_def Let_def same_answers_def registrationValid_def)
qed

lemma stored_reply_bound:
  assumes "ec_ok s" and "i < MAX_NUM_REGISTRATIONS"
    and "rg_reply (ec_registrations s ! i) = Some reply"
  shows "unat (acr_registration_id reply) < length (ec_registrations s)"
proof -
  from assms have "reply_stored i (ec_registrations s ! i)" by (simp add: ec_ok_def)
  with assms show ?thesis by (auto simp: reply_stored_def ec_ok_def)
qed

lemma ExternalChecks_blocks:
  fixes c :: Context and r :: Report
  assumes "ec_ok s" and "refuses s i nav" and "i < MAX_NUM_REGISTRATIONS"
    and "0 \<le> nav" and "nav < 32"
  defines "r' \<equiv> snd (ExternalChecks_checkAndReport c s r)"
  shows "\<not> bit (can_arm r') (nat nav)" and "requires_other r' (nat nav)"
proof -
  let ?r = "checkNonRegisteredModes c s r"
  let ?x = "fold check_registration [0..<i] (NavModes_None, s, ?r)"
  let ?y = "fold check_registration [0..<MAX_NUM_REGISTRATIONS] (NavModes_None, s, ?r)"
  have "refuses (fst (snd ?x)) i nav"
  proof (rule refuses_same_answers [OF _ assms(2)])
    show "same_answers s (fst (snd ?x))"
      by (rule same_answers_fold) (simp add: same_answers_def)
  qed (use assms(1,3) stored_reply_bound [OF assms(1,3)] in \<open>simp_all add: ec_ok_def\<close>)
  then have "blocked (nat nav) (check_registration i ?x)"
    using refuses_blocks [of "fst (snd ?x)" i nav "fst ?x" "snd (snd ?x)"] assms(4,5) by simp
  then have "blocked (nat nav) (fold check_registration [Suc i..<MAX_NUM_REGISTRATIONS]
      (check_registration i ?x))"
    by (rule blocked_fold)
  also have "fold check_registration [Suc i..<MAX_NUM_REGISTRATIONS] (check_registration i ?x) = ?y"
    using assms(3) upt_add_eq_append [of 0 i "8 - i"] by (simp add: upt_conv_Cons)
  finally have y: "blocked (nat nav) ?y" .
  have "ec_active_registrations_mask s \<noteq> 0"
    using assms(2) by (auto simp: refuses_def registrationValid_bit)
  then have "r' = (if fst ?y \<noteq> NavModes_None
      then armingCheckFailure (fst ?y) hc_system
        (event_ID ''check_external_modes_unresponsive'') (log_both Log_Critical) [] (snd (snd ?y))
      else snd (snd ?y))"
    unfolding r'_def by (simp add: ExternalChecks_checkAndReport_def Let_def split_beta)
  with y show "\<not> bit (can_arm r') (nat nav)" and "requires_other r' (nat nav)"
    by (auto simp: blocked_def bit_simps requires_other_def)
qed

section \<open>Modes that are not registered\<close>

definition refuse_mode :: "u8 \<Rightarrow> Report \<Rightarrow> Report" where
  "refuse_mode m r = map_mode_req mode_req_other (setOrClearRequirementBits True (uint m) (-1))
     (clearArmingBits (getModeGroup m) r)"

lemma refused: "unat m < 32 \<Longrightarrow>
    \<not> bit (can_arm (refuse_mode m r)) (unat m) \<and> requires_other (refuse_mode m r) (unat m)"
  by (simp add: refuse_mode_def map_mode_req_def Let_def requires_other_def getModeGroup_def
      setOrClearRequirementBits_def bit_simps bit_bit_mask)

lemma refused_stays:
  assumes "\<not> bit (can_arm r) n \<and> requires_other r n"
  shows "\<not> bit (can_arm (refuse_mode m r)) n \<and> requires_other (refuse_mode m r) n"
  using assms requires_other_map_mode_req(2) [of "clearArmingBits (getModeGroup m) r" n]
  by (simp add: refuse_mode_def requires_other_def map_mode_req_def Let_def bit_simps
      setOrClearRequirementBits_def)

lemma refused_fold:
  "m \<in> set ms \<Longrightarrow> unat m < 32 \<Longrightarrow>
     \<not> bit (can_arm (fold refuse_mode ms r)) (unat m) \<and> requires_other (fold refuse_mode ms r) (unat m)"
proof -
  have stays: "\<not> bit (can_arm (fold refuse_mode ms r)) n \<and> requires_other (fold refuse_mode ms r) n"
    if "\<not> bit (can_arm r) n \<and> requires_other r n" for ms r n
    using that by (induction ms arbitrary: r) (simp_all add: refused_stays)
  show "m \<in> set ms \<Longrightarrow> unat m < 32 \<Longrightarrow> ?thesis"
    by (induction ms arbitrary: r) (auto simp: stays refused)
qed

lemma blocked_check:
  fixes c :: Context and r :: Report
  assumes "blocked n (NavModes_None, s, checkNonRegisteredModes c s r)"
  defines "r' \<equiv> snd (ExternalChecks_checkAndReport c s r)"
  shows "\<not> bit (can_arm r') n \<and> requires_other r' n"
proof -
  let ?y = "fold check_registration [0..<MAX_NUM_REGISTRATIONS]
    (NavModes_None, s, checkNonRegisteredModes c s r)"
  have "blocked n ?y" using assms(1) by (rule blocked_fold)
  with assms(1) show ?thesis
    by (auto simp: r'_def ExternalChecks_checkAndReport_def Let_def split_beta blocked_def bit_simps
        requires_other_def)
qed

lemma unregistered_mode_blocked:
  fixes c :: Context and r :: Report
  assumes "m \<in> set (external_nav_states s)" and "\<not> mode_registered m s" and "unat m < 32"
  defines "r' \<equiv> snd (ExternalChecks_checkAndReport c s r)"
  shows "\<not> bit (can_arm r') (unat m) \<and> requires_other r' (unat m)"
proof -
  have "blocked (unat m) (NavModes_None, s, checkNonRegisteredModes c s r)"
    using refused_fold [of m "filter (\<lambda>m. \<not> mode_registered m s) (external_nav_states s)" r] assms
    by (auto simp: blocked_def checkNonRegisteredModes_def Let_def refuse_mode_def [abs_def]
        requires_other_def bit_simps)
  then show ?thesis unfolding r'_def by (rule blocked_check)
qed

end
