(* ===== verification/Arming_Checks.thy ===== *)
theory Arming_Checks
  imports Failsafe_Policy Control_Mode External_Report
begin

text \<open>
  The arming checks that run on the report: for every check class of \<^verbatim>\<open>HealthAndArmingChecks/checks\<close>
  that is modelled, its method \<^verbatim>\<open>checkAndReport\<close>.

  The parameters a check reads, the messages its subscriptions hold and the state it keeps are
  fields of \<open>check_world\<close>. A subscription is \<open>None\<close> while \<^verbatim>\<open>copy\<close> fails. Where a check compares a
  time with a float parameter, the parameter is represented by the microseconds it stands for, or
  the outcome of the comparison is an input. The legacy text messages and the events that are sent
  directly are not modelled.
\<close>

section \<open>Parameters, messages and state\<close>

record check_params =
  cp_com_armable :: int
  cp_com_arm_mis_req :: bool
  cp_com_rc_in_mode :: int
  cp_com_of_loss_t_us :: hrt_abstime
  cp_nav_dll_act :: int
  cp_com_parachute :: int
  cp_com_arm_odid :: int
  cp_com_traff_avoid :: int
  cp_cbrk_usb_chk :: int
  cp_cbrk_vtolarming :: int
  cp_com_arm_wo_gps :: bool
  cp_com_arm_auth_req :: int
  cp_rtl_type :: "int option"
  cp_daa_en :: int
  cp_daa_traff_tout :: u64
  cp_sdlog_mode :: int

record mission_result_s =
  mr_mission_id :: u32
  mr_valid :: bool
  mr_failure :: bool

record navigator_status_s =
  ns_nav_state :: u8
  ns_failure :: u8

abbreviation FAILURE_NONE :: u8 where "FAILURE_NONE \<equiv> 0"
abbreviation FAILURE_HAGL :: u8 where "FAILURE_HAGL \<equiv> 1"

record manual_control_switches_s =
  mcs_return_switch :: u8
  mcs_kill_switch :: u8
  mcs_gear_switch :: u8

abbreviation SWITCH_POS_ON :: u8 where "SWITCH_POS_ON \<equiv> 1"

record geofence_result_s =
  gf_max_dist_triggered :: bool
  gf_max_alt_triggered :: bool
  gf_custom_fence_triggered :: bool
  gf_action :: u8

abbreviation GF_ACTION_NONE :: u8 where "GF_ACTION_NONE \<equiv> 0"
abbreviation GF_ACTION_RTL :: u8 where "GF_ACTION_RTL \<equiv> 3"

record failure_detector_status_s =
  fd_roll :: bool
  fd_pitch :: bool
  fd_alt :: bool
  fd_ext :: bool
  fd_imbalanced :: bool

record daa_most_urgent_s =
  daa_timestamp :: hrt_abstime
  daa_has_action :: bool

text \<open>
  \<open>ci_manual_timed_out\<close> is the comparison of the age of the manual control setpoint with
  \<^verbatim>\<open>COM_RC_LOSS_T\<close>; \<open>ci_arm_auth_check\<close> is what \<^verbatim>\<open>arm_auth_check()\<close> returns.
\<close>

record check_inputs =
  ci_now :: hrt_abstime
  ci_home_position :: "(bool \<times> bool) option"
  ci_mission_result :: "mission_result_s option"
  ci_navigator_status :: "navigator_status_s option"
  ci_manual_control_switches :: "manual_control_switches_s option"
  ci_offboard_control_mode :: "(hrt_abstime \<times> offboard_control_mode_s) option"
  ci_manual_advertised :: bool
  ci_manual_control_setpoint :: "(bool \<times> hrt_abstime) option"
  ci_manual_timed_out :: bool
  ci_vtol_fixed_wing_system_failure :: "bool option"
  ci_geofence_result :: "geofence_result_s option"
  ci_failure_detector_status :: "failure_detector_status_s option"
  ci_actuator_armed :: "actuator_armed_s option"
  ci_rtl_status_advertised :: bool
  ci_rtl_safe_point_index :: "u8 option"
  ci_daa_most_urgent :: "daa_most_urgent_s option"
  ci_logger_status_advertised :: bool
  ci_logger_status :: "(hrt_abstime \<times> bool)"
  ci_arm_auth_check :: u8

record check_world =
  cw_params :: check_params
  cw_inputs :: check_inputs
  cw_external :: ExternalChecks
  cw_last_valid_manual_control_setpoint :: hrt_abstime

abbreviation CBRK_USB_CHK_KEY :: int where "CBRK_USB_CHK_KEY \<equiv> 197848"
abbreviation CBRK_VTOLARMING_KEY :: int where "CBRK_VTOLARMING_KEY \<equiv> 159753"
abbreviation VEHICLE_CMD_RESULT_ACCEPTED :: u8 where "VEHICLE_CMD_RESULT_ACCEPTED \<equiv> 0"

definition set_flag :: "FsFlag \<Rightarrow> bool \<Rightarrow> Report \<Rightarrow> Report" where
  "set_flag f b r =
    (let flags = rp_failsafe_flags r
     in r\<lparr>rp_failsafe_flags := flags\<lparr>ff_flag := (ff_flag flags)(f := b)\<rparr>\<rparr>)"

abbreviation flag :: "FsFlag \<Rightarrow> Report \<Rightarrow> bool" where
  "flag f r \<equiv> ff_flag (rp_failsafe_flags r) f"

abbreviation req_mask :: "ModeReq \<Rightarrow> Report \<Rightarrow> u32" where
  "req_mask q r \<equiv> ff_mode_req (rp_failsafe_flags r) q"

abbreviation apply_if :: "bool \<Rightarrow> (Report \<Rightarrow> Report) \<Rightarrow> Report \<Rightarrow> Report" where
  "apply_if b f r \<equiv> if b then f r else r"

abbreviation arming_failure :: "u32 \<Rightarrow> u32 \<Rightarrow> string \<Rightarrow> u8 \<Rightarrow> Report \<Rightarrow> Report" where
  "arming_failure modes component name level \<equiv>
     armingCheckFailure modes component (event_ID name) (log_both level) []"

abbreviation health_failure :: "u32 \<Rightarrow> u32 \<Rightarrow> string \<Rightarrow> u8 \<Rightarrow> Report \<Rightarrow> Report" where
  "health_failure modes component name level \<equiv>
     healthFailure modes component (event_ID name) (log_both level) []"

section \<open>Checks that precede the mode checks\<close>

definition ArmPermissionChecks :: "Context \<Rightarrow> check_world \<Rightarrow> Report \<Rightarrow> Report" where
  "ArmPermissionChecks c w =
     apply_if (cp_com_armable (cw_params w) < 1)
       (arming_failure NavModes_All hc_system ''check_armable_configuration'' Log_Error)"

definition DaaChecks :: "Context \<Rightarrow> check_world \<Rightarrow> Report \<Rightarrow> Report" where
  "DaaChecks c w r =
    (if cp_daa_en (cw_params w) \<le> 0 \<or> isArmed c then r
     else
       (let stale_timeout = cp_daa_traff_tout (cw_params w) * time_s 1
        in case ci_daa_most_urgent (cw_inputs w) of
             None \<Rightarrow> r
           | Some daa \<Rightarrow>
              (if daa_timestamp daa = 0 \<or> hrt_elapsed_time (ci_now (cw_inputs w)) (daa_timestamp daa) > stale_timeout
                  \<or> \<not> daa_has_action daa
               then r
               else arming_failure NavModes_All hc_traffic_avoidance ''check_daa_conflict''
                      Log_Error r)))"

definition FailureDetectorChecks :: "Context \<Rightarrow> check_world \<Rightarrow> Report \<Rightarrow> Report" where
  "FailureDetectorChecks c w r =
    (case ci_failure_detector_status (cw_inputs w) of
       None \<Rightarrow> r
     | Some fd \<Rightarrow>
        (let r = (if fd_roll fd
                  then arming_failure NavModes_All hc_system ''check_failure_detector_roll''
                         Log_Critical r
                  else apply_if (fd_pitch fd)
                         (arming_failure NavModes_All hc_system ''check_failure_detector_pitch''
                            Log_Critical) r);
             r = apply_if (fd_alt fd)
                   (arming_failure NavModes_All hc_system ''check_failure_detector_alt''
                      Log_Critical) r;
             r = apply_if (fd_ext fd)
                   (arming_failure NavModes_All hc_system ''check_failure_detector_ext''
                      Log_Critical) r;
             r = set_flag fd_critical_failure (fd_roll fd \<or> fd_pitch fd \<or> fd_ext fd) r;
             r = set_flag fd_alt_loss (fd_alt fd) r;
             r = set_flag fd_imbalanced_prop (fd_imbalanced fd) r
         in apply_if (flag fd_imbalanced_prop r)
              (health_failure NavModes_All hc_system ''check_failure_detector_imbalanced_prop''
                 Log_Critical) r))"

definition NavigatorChecks :: "Context \<Rightarrow> check_world \<Rightarrow> Report \<Rightarrow> Report" where
  "NavigatorChecks c w r =
    (let status = (case ci_navigator_status (cw_inputs w) of
                     None \<Rightarrow> \<lparr>ns_nav_state = 0, ns_failure = 0\<rparr> | Some st \<Rightarrow> st)
     in if vs_nav_state (cx_status c) = ns_nav_state status
        then let r = set_flag navigator_failure (ns_failure status \<noteq> FAILURE_NONE) r
             in apply_if (ns_failure status = FAILURE_HAGL)
                  (arming_failure NavModes_All hc_system ''check_navigator_failure_hagl''
                     Log_Error) r
        else r)"

definition LoggerChecks :: "Context \<Rightarrow> check_world \<Rightarrow> Report \<Rightarrow> Report" where
  "LoggerChecks c w =
    (let i = cw_inputs w;
         active = (cp_sdlog_mode (cw_params w) \<ge> 0 \<and> ci_logger_status_advertised i \<and>
                   hrt_elapsed_time (ci_now i) (fst (ci_logger_status i)) < time_s 3 \<and> snd (ci_logger_status i))
     in setHealth hc_logging active False False)"

definition ManualControlChecks :: "Context \<Rightarrow> check_world \<Rightarrow> Report \<Rightarrow> Report" where
  "ManualControlChecks c w r =
    (if isArmed c then r
     else
       (case ci_manual_control_switches (cw_inputs w) of
          None \<Rightarrow> r
        | Some switches \<Rightarrow>
           (let r = apply_if (mcs_return_switch switches = SWITCH_POS_ON)
                      (arming_failure NavModes_All hc_remote_control
                         ''check_man_control_rtl_engaged'' Log_Error) r;
                r = apply_if (mcs_kill_switch switches = SWITCH_POS_ON)
                      (arming_failure NavModes_All hc_remote_control
                         ''check_man_control_kill_engaged'' Log_Error) r
            in apply_if (mcs_gear_switch switches = SWITCH_POS_ON)
                 (arming_failure NavModes_All hc_remote_control
                    ''check_man_control_landing_gear_up'' Log_Error) r)))"

text \<open>The home position message is represented by its flags \<^verbatim>\<open>valid_alt\<close> and \<^verbatim>\<open>valid_hpos\<close>.\<close>

definition HomePositionChecks :: "Context \<Rightarrow> check_world \<Rightarrow> Report \<Rightarrow> Report" where
  "HomePositionChecks c w =
    (case ci_home_position (cw_inputs w) of
       None \<Rightarrow> set_flag home_position_invalid True
     | Some (valid_alt, valid_hpos) \<Rightarrow>
         set_flag home_position_invalid (\<not> valid_alt \<or> \<not> valid_hpos))"

definition MissionChecks :: "Context \<Rightarrow> check_world \<Rightarrow> Report \<Rightarrow> Report" where
  "MissionChecks c w r =
    (let r = set_flag auto_mission_missing True (set_flag mission_failure False r)
     in case ci_mission_result (cw_inputs w) of
          None \<Rightarrow> r
        | Some m \<Rightarrow>
           (if mr_valid m
            then let r = set_flag mission_failure (mr_failure m) r;
                     r = apply_if (flag mission_failure r)
                           (arming_failure NavModes_All hc_system ''check_mission_failure''
                              Log_Error) r
                 in set_flag auto_mission_missing (mr_mission_id m \<le> 0) r
            else r))"

definition RallyPointChecks :: "Context \<Rightarrow> check_world \<Rightarrow> Report \<Rightarrow> Report" where
  "RallyPointChecks c w r =
    (if cp_rtl_type (cw_params w) \<noteq> Some 5 \<or> \<not> ci_rtl_status_advertised (cw_inputs w) then r
     else
       (let missing = (case ci_rtl_safe_point_index (cw_inputs w) of
                         None \<Rightarrow> True | Some i \<Rightarrow> i = 255)
        in apply_if missing
             (arming_failure NavModes_None hc_system ''check_rally_point_missing'' Log_Warning) r))"

text \<open>The offboard checks: the three branches with a specific reason, then the general one.\<close>

definition offboard_available ::
  "check_params \<Rightarrow> hrt_abstime \<Rightarrow> hrt_abstime \<Rightarrow> offboard_control_mode_s \<Rightarrow> bool" where
  "offboard_available p now timestamp ocm \<longleftrightarrow>
    (let data_is_recent = (now < timestamp + cp_com_of_loss_t_us p)
     in (ocm_position ocm \<or> ocm_velocity ocm \<or> ocm_acceleration ocm \<or> ocm_attitude ocm \<or>
         ocm_body_rate ocm \<or> ocm_thrust_and_torque ocm \<or> ocm_direct_actuator ocm) \<and>
        data_is_recent)"

definition offboard_reason :: "offboard_control_mode_s \<Rightarrow> Report \<Rightarrow> string option" where
  "offboard_reason ocm r =
    (if ocm_position ocm \<and> flag local_position_invalid r
     then Some ''check_modes_offboard_no_local_position''
     else if ocm_velocity ocm \<and> flag local_velocity_invalid r
     then Some ''check_modes_offboard_no_local_velocity''
     else if (ocm_acceleration ocm \<or> ocm_attitude ocm) \<and> flag attitude_invalid r
     then Some ''check_modes_offboard_no_attitude''
     else None)"

definition offboard_failure :: "u32 \<Rightarrow> string \<Rightarrow> Report \<Rightarrow> Report" where
  "offboard_failure affected_modes name =
     apply_if (affected_modes \<noteq> NavModes_None)
       (\<lambda>r. clearCanRunBits affected_modes (arming_failure affected_modes hc_system name Log_Error r))"

definition OffboardChecks :: "Context \<Rightarrow> check_world \<Rightarrow> Report \<Rightarrow> Report" where
  "OffboardChecks c w r =
    (let r = set_flag offboard_control_signal_lost True r;
         affected_modes = req_mask mode_req_offboard_signal r;
         (has_specific_reason, r) =
           (case ci_offboard_control_mode (cw_inputs w) of
              None \<Rightarrow> (False, r)
            | Some (timestamp, ocm) \<Rightarrow>
               (let available =
                      offboard_available (cw_params w) (ci_now (cw_inputs w)) timestamp ocm
                in case offboard_reason ocm r of
                     Some name \<Rightarrow> (True, set_flag offboard_control_signal_lost True
                                          (offboard_failure affected_modes name r))
                   | None \<Rightarrow> (False, set_flag offboard_control_signal_lost (\<not> available) r)))
     in apply_if (flag offboard_control_signal_lost r \<and> \<not> has_specific_reason)
          (offboard_failure affected_modes ''check_modes_offboard_signal_lost'') r)"

section \<open>Mode checks\<close>

text \<open>A requirement that is not met: the modes that have it can neither arm nor run.\<close>

definition requirement_failure :: "u32 \<Rightarrow> u32 \<Rightarrow> string \<Rightarrow> u8 \<Rightarrow> Report \<Rightarrow> Report" where
  "requirement_failure modes component name level r =
     clearCanRunBits modes (arming_failure modes component name level r)"

definition check_prevent_arming :: "Context \<Rightarrow> Report \<Rightarrow> Report" where
  "check_prevent_arming c r =
     apply_if (\<not> isArmed c \<and>
         req_mask mode_req_prevent_arming r AND bit_mask (vs_nav_state (cx_status c)) \<noteq> 0)
       (arming_failure (req_mask mode_req_prevent_arming r) hc_system ''check_modes_cannot_takeoff''
          Log_Info) r"

definition check_requirement ::
  "FsFlag \<Rightarrow> ModeReq \<Rightarrow> u32 \<Rightarrow> string \<Rightarrow> u8 \<Rightarrow> Report \<Rightarrow> Report" where
  "check_requirement f q component name level r =
     apply_if (flag f r \<and> req_mask q r \<noteq> 0)
       (requirement_failure (req_mask q r) component name level) r"

text \<open>The position checks collect the modes of the strict and of the relaxed requirement.\<close>

definition check_position ::
  "FsFlag \<Rightarrow> ModeReq \<Rightarrow> FsFlag \<Rightarrow> ModeReq \<Rightarrow> u32 \<Rightarrow> string \<Rightarrow> Report \<Rightarrow> Report" where
  "check_position f q f_relaxed q_relaxed component name r =
    (let modes = (if flag f r \<and> req_mask q r \<noteq> 0 then req_mask q r else NavModes_None);
         modes = (if flag f_relaxed r \<and> req_mask q_relaxed r \<noteq> 0
                  then modes OR req_mask q_relaxed r else modes)
     in apply_if (modes \<noteq> NavModes_None) (requirement_failure modes component name Log_Error) r)"

definition check_mission_requirement :: "check_params \<Rightarrow> Report \<Rightarrow> Report" where
  "check_mission_requirement p r =
    (let mission_required_modes =
           (if cp_com_arm_mis_req p then NavModes_All else req_mask mode_req_mission r)
     in apply_if (flag auto_mission_missing r \<and> mission_required_modes \<noteq> NavModes_None)
          (\<lambda>r. clearCanRunBits (req_mask mode_req_mission r)
                 (arming_failure mission_required_modes hc_system ''check_modes_mission''
                    Log_Info r)) r)"

definition check_manual_control_requirement :: "check_params \<Rightarrow> Report \<Rightarrow> Report" where
  "check_manual_control_requirement p r =
     apply_if (flag manual_control_signal_lost r \<and> req_mask mode_req_manual_control r \<noteq> 0)
       (\<lambda>r. let rc_disabled = (cp_com_rc_in_mode p = 4);
                modes = req_mask mode_req_manual_control r
            in clearCanRunBits modes (clearArmingBits modes
                 (arming_failure (if rc_disabled then modes else NavModes_None) hc_remote_control
                    ''check_modes_manual_control''
                    (if rc_disabled then Log_Error else Log_Warning) r))) r"

definition check_other_requirements :: "Report \<Rightarrow> Report" where
  "check_other_requirements r =
    (let r = apply_if (req_mask mode_req_other r \<noteq> 0)
               (clearCanRunBits (req_mask mode_req_other r)) r
     in apply_if ((flag flight_time_limit_exceeded r \<or> flag wind_limit_exceeded r) \<and>
             req_mask mode_req_wind_and_flight_time_compliance r \<noteq> 0)
          (clearCanRunBits (req_mask mode_req_wind_and_flight_time_compliance r)) r)"

definition ModeChecks :: "Context \<Rightarrow> check_world \<Rightarrow> Report \<Rightarrow> Report" where
  "ModeChecks c w r =
    (let r = check_prevent_arming c r;
         r = check_requirement angular_velocity_invalid mode_req_angular_velocity hc_system
               ''check_modes_angular_velocity'' Log_Critical r;
         r = check_requirement attitude_invalid mode_req_attitude hc_attitude_estimate
               ''check_modes_attitude'' Log_Critical r;
         r = check_position local_position_invalid mode_req_local_position
               local_position_invalid_relaxed mode_req_local_position_relaxed
               hc_local_position_estimate ''check_modes_local_pos'' r;
         r = check_position global_position_invalid mode_req_global_position
               global_position_invalid_relaxed mode_req_global_position_relaxed
               hc_global_position_estimate ''check_modes_global_pos'' r;
         r = check_requirement local_altitude_invalid mode_req_local_alt hc_system
               ''check_modes_local_alt'' Log_Critical r;
         r = check_mission_requirement (cw_params w) r;
         r = check_requirement home_position_invalid mode_req_home_position hc_system
               ''check_modes_home_position'' Log_Info r;
         r = check_manual_control_requirement (cw_params w) r
     in check_other_requirements r)"

section \<open>Checks that follow the mode checks\<close>

definition OpenDroneIDChecks :: "Context \<Rightarrow> check_world \<Rightarrow> Report \<Rightarrow> Report" where
  "OpenDroneIDChecks c w r =
    (let present = vs_open_drone_id_system_present (cx_status c);
         healthy = vs_open_drone_id_system_healthy (cx_status c);
         com_arm_odid = cp_com_arm_odid (cw_params w);
         r = set_flag remote_id_unhealthy (\<not> present \<or> \<not> healthy) r
     in if com_arm_odid = 0 then r
        else
          (let is_error = (com_arm_odid \<ge> 2);
               affected_modes = (if is_error then NavModes_All else NavModes_None);
               log_level = (if is_error then Log_Error else Log_Warning)
           in if \<not> present
              then health_failure affected_modes hc_open_drone_id ''check_open_drone_id_missing''
                     log_level r
              else apply_if (\<not> healthy)
                     (health_failure affected_modes hc_open_drone_id
                        ''check_open_drone_id_unhealthy'' log_level) r))"

definition ParachuteChecks :: "Context \<Rightarrow> check_world \<Rightarrow> Report \<Rightarrow> Report" where
  "ParachuteChecks c w r =
    (let com_parachute = cp_com_parachute (cw_params w);
         present = vs_parachute_system_present (cx_status c);
         healthy = vs_parachute_system_healthy (cx_status c)
     in if com_parachute < 1 then r
        else
          (let r = set_flag parachute_unhealthy (\<not> present \<or> \<not> healthy) r;
               is_error = (com_parachute \<ge> 2);
               affected_modes = (if is_error then NavModes_All else NavModes_None);
               log_level = (if is_error then Log_Error else Log_Warning);
               r = (if \<not> present
                    then health_failure affected_modes hc_parachute ''check_parachute_missing''
                           log_level r
                    else apply_if (\<not> healthy)
                           (health_failure affected_modes hc_parachute
                              ''check_parachute_unhealthy'' log_level) r)
           in apply_if present (setIsPresent hc_parachute) r))"

definition check_global_position_required :: "Context \<Rightarrow> check_params \<Rightarrow> Report \<Rightarrow> Report" where
  "check_global_position_required c p r =
    (if \<not> cp_com_arm_wo_gps p \<and> \<not> isArmed c
     then if flag global_position_invalid r
          then arming_failure NavModes_All hc_system ''check_system_no_global_pos'' Log_Error r
          else apply_if (flag home_position_invalid r)
                 (arming_failure NavModes_All hc_system ''check_system_no_home_pos'' Log_Error) r
     else r)"

definition check_vtol_arming :: "Context \<Rightarrow> check_params \<Rightarrow> Report \<Rightarrow> Report" where
  "check_vtol_arming c p r =
    (if vs_is_vtol (cx_status c) \<and> \<not> isArmed c
     then let r = apply_if (vs_in_transition_mode (cx_status c))
                    (arming_failure NavModes_All hc_system ''check_system_vtol_in_transition''
                       Log_Warning) r
          in apply_if (\<not> circuit_breaker_enabled_by_val (cp_cbrk_vtolarming p) CBRK_VTOLARMING_KEY \<and>
                 vs_vehicle_type (cx_status c) \<noteq> VEHICLE_TYPE_ROTARY_WING)
               (arming_failure NavModes_All hc_system ''check_system_vtol_in_fw_mode''
                  Log_Warning) r
     else r)"

definition SystemChecks :: "Context \<Rightarrow> check_world \<Rightarrow> Report \<Rightarrow> Report" where
  "SystemChecks c w r =
    (let p = cw_params w; st = cx_status c;
         r = (case ci_actuator_armed (cw_inputs w) of
                None \<Rightarrow> r
              | Some a \<Rightarrow> apply_if (aa_termination a \<or> aa_kill a)
                            (arming_failure NavModes_All hc_system
                               ''check_system_flight_term_active'' Log_Critical) r);
         r = apply_if (\<not> circuit_breaker_enabled_by_val (cp_cbrk_usb_chk p) CBRK_USB_CHK_KEY \<and>
                 vs_usb_connected st)
               (arming_failure NavModes_All hc_system ''check_system_usb_connected'' Log_Error) r;
         r = check_global_position_required c p r;
         r = apply_if (vs_safety_button_available st \<and> \<not> vs_safety_off st \<and> \<not> isArmed c)
               (arming_failure NavModes_All hc_system ''check_system_safety_button'' Log_Info) r;
         r = check_vtol_arming c p r
     in apply_if (cp_com_arm_auth_req p \<noteq> 0 \<and> \<not> isArmed c \<and> cx_is_arming_request c \<and>
            ci_arm_auth_check (cw_inputs w) \<noteq> VEHICLE_CMD_RESULT_ACCEPTED)
          (arming_failure NavModes_All hc_system ''check_system_arm_auth_failed'' Log_Error) r)"

definition GeofenceChecks :: "Context \<Rightarrow> check_world \<Rightarrow> Report \<Rightarrow> Report" where
  "GeofenceChecks c w r =
    (let g = (case ci_geofence_result (cw_inputs w) of
                None \<Rightarrow> \<lparr>gf_max_dist_triggered = False, gf_max_alt_triggered = False,
                         gf_custom_fence_triggered = False, gf_action = 0\<rparr>
              | Some g \<Rightarrow> g);
         any_geofence_triggered =
           (gf_max_dist_triggered g \<or> gf_max_alt_triggered g \<or> gf_custom_fence_triggered g);
         breached = (gf_action g \<noteq> GF_ACTION_NONE \<and> any_geofence_triggered);
         r = set_flag geofence_breached breached r;
         r = apply_if (breached \<and> gf_max_dist_triggered g)
               (arming_failure NavModes_All hc_system ''check_gf_violation_max_hor_dist''
                  Log_Error) r;
         r = apply_if (breached \<and> gf_max_alt_triggered g)
               (arming_failure NavModes_All hc_system ''check_gf_violation_max_alt'' Log_Error) r;
         r = apply_if (breached \<and> gf_custom_fence_triggered g)
               (arming_failure NavModes_All hc_system ''check_gf_violation_custom_gf'' Log_Error) r
     in apply_if (gf_action g = GF_ACTION_RTL \<and> flag home_position_invalid r)
          (arming_failure NavModes_All hc_system ''check_gf_no_home'' Log_Error) r)"

definition check_manual_control_link ::
  "check_inputs \<Rightarrow> hrt_abstime \<times> Report \<Rightarrow> hrt_abstime \<times> Report" where
  "check_manual_control_link i = (\<lambda>(last_valid, r).
    (if ci_manual_advertised i
     then let (valid, timestamp) =
                (case ci_manual_control_setpoint i of None \<Rightarrow> (False, 0) | Some m \<Rightarrow> m)
          in if \<not> valid \<or> ci_manual_timed_out i
             then (last_valid, set_flag manual_control_signal_lost True r)
             else (timestamp, set_flag manual_control_signal_lost False
                                (setIsPresent hc_remote_control r))
     else (last_valid, r)))"

definition RcAndDataLinkChecks :: "Context \<Rightarrow> check_world \<times> Report \<Rightarrow> check_world \<times> Report" where
  "RcAndDataLinkChecks c = (\<lambda>(w, r).
    (let (last_valid, r) = check_manual_control_link (cw_inputs w)
           (cw_last_valid_manual_control_setpoint w, r);
         w = w\<lparr>cw_last_valid_manual_control_setpoint := last_valid\<rparr>;
         r = set_flag gcs_connection_lost (vs_gcs_connection_lost (cx_status c)) r
     in if flag gcs_connection_lost r
        then let gcs_connection_required = (cp_nav_dll_act (cw_params w) > 0)
             in (w, arming_failure
                      (if gcs_connection_required then NavModes_All else NavModes_None)
                      hc_communication_links ''check_rc_dl_no_dllink''
                      (if gcs_connection_required then Log_Error else Log_Info) r)
        else (w, setIsPresent hc_communication_links r)))"

definition VtolChecks :: "Context \<Rightarrow> check_world \<Rightarrow> Report \<Rightarrow> Report" where
  "VtolChecks c w r =
    (case ci_vtol_fixed_wing_system_failure (cw_inputs w) of
       None \<Rightarrow> r
     | Some fixed_wing_system_failure \<Rightarrow>
        (let r = set_flag vtol_fixed_wing_system_failure fixed_wing_system_failure r
         in apply_if (flag vtol_fixed_wing_system_failure r)
              (arming_failure NavModes_All hc_system ''check_vtol_fixed_wing_system_failure''
                 Log_Error) r))"

definition TrafficAvoidanceChecks :: "Context \<Rightarrow> check_world \<Rightarrow> Report \<Rightarrow> Report" where
  "TrafficAvoidanceChecks c w r =
    (let mode = cp_com_traff_avoid (cw_params w);
         enabled = traffic_avoidance_isEnabled mode;
         present = vs_traffic_avoidance_system_present (cx_status c);
         r = set_flag traffic_avoidance_unhealthy (enabled \<and> \<not> present) r
     in if \<not> enabled then r
        else
          (let block_arming = traffic_avoidance_blocksArming mode;
               r = apply_if (\<not> present)
                     (health_failure (if block_arming then NavModes_All else NavModes_None)
                        hc_traffic_avoidance ''check_traffic_avoidance_missing''
                        (if block_arming then Log_Error else Log_Warning)) r
           in apply_if present (setIsPresent hc_traffic_avoidance) r))"

end
