(* ===== verification/Arming_Update.thy ===== *)
theory Arming_Update
  imports Arming_Checks
begin

text \<open>
  The class \<^verbatim>\<open>HealthAndArmingChecks\<close>: one update runs all checks on the report, publishes the
  results if they changed, and runs the checks a second time when it did. The array of pointers to
  checks is a list of functions with one common state, so that the array can hold checks that are
  not modelled. The locale \<open>arming_checks\<close> states what every check must respect.
\<close>

section \<open>Operations\<close>

type_synonym 's check = "Context \<Rightarrow> 's \<times> Report \<Rightarrow> 's \<times> Report"

definition run_checks :: "'s check list \<Rightarrow> 's check" where
  "run_checks checks c x = fold (\<lambda>check. check c) checks x"

record HealthAndArmingChecks =
  ha_reporter :: Report
  ha_failsafe_flags_timestamp :: hrt_abstime

definition initially_invalid :: "FsFlag set" where
  "initially_invalid =
     {angular_velocity_invalid, attitude_invalid, local_altitude_invalid, local_position_invalid,
      local_position_invalid_relaxed, local_velocity_invalid, global_position_invalid,
      global_position_invalid_relaxed, auto_mission_missing, offboard_control_signal_lost,
      home_position_invalid}"

definition HealthAndArmingChecks_init :: HealthAndArmingChecks where
  "HealthAndArmingChecks_init =
     \<lparr>ha_reporter = Report_init
        (failsafe_flags_zero\<lparr>ff_flag := (\<lambda>f. f \<in> initially_invalid)\<rparr>) (time_s 2),
      ha_failsafe_flags_timestamp = 0\<rparr>"

record published =
  pb_events :: "sent_event list"
  pb_health_report :: "health_report_s option"
  pb_failsafe_flags :: "failsafe_flags_s option"

definition one_run ::
  "'s check list \<Rightarrow> Context \<Rightarrow> u8 \<Rightarrow> 's \<times> Report \<Rightarrow> bool \<times> 's \<times> Report" where
  "one_run checks c vehicle_type = (\<lambda>(s, r).
    (let (s, r) = run_checks checks c (s, prepare vehicle_type (Report_reset r));
         (changed, r) = finalize r
     in (changed, s, r)))"

text \<open>A VTOL in transition is treated as a fixed-wing vehicle.\<close>

definition effective_vehicle_type :: "vehicle_status_s \<Rightarrow> u8" where
  "effective_vehicle_type status =
     (if vs_in_transition_mode status then VEHICLE_TYPE_FIXED_WING else vs_vehicle_type status)"

abbreviation check_context :: "vehicle_status_s \<Rightarrow> bool \<Rightarrow> Context" where
  "check_context status is_arming_request \<equiv>
     \<lparr>cx_status = status, cx_is_arming_request = is_arming_request\<rparr>"

text \<open>The three readings of the clock: at the two reports and before publishing the flags.\<close>

definition HealthAndArmingChecks_update ::
  "'s check list \<Rightarrow> vehicle_status_s \<Rightarrow> hrt_abstime \<times> hrt_abstime \<times> hrt_abstime \<Rightarrow> bool \<Rightarrow> bool
     \<Rightarrow> 's \<times> HealthAndArmingChecks \<Rightarrow> bool \<times> published \<times> 's \<times> HealthAndArmingChecks" where
  "HealthAndArmingChecks_update checks status clock force_reporting is_arming_request = (\<lambda>(s, h).
    (let (t_report, t_legacy, now) = clock;
         vehicle_type = effective_vehicle_type status;
         c = check_context status is_arming_request;
         (results_changed, s, r) = one_run checks c vehicle_type (s, ha_reporter h);
         (reported, events, r) = report t_report force_reporting r;
         (events, health_report, s, r) =
           (if reported
            then let (_, s, r) = one_run checks c vehicle_type (s, r);
                     (_, events2, r) = report t_legacy False r
                 in (events @ events2, Some (getHealthReport r), s, r)
            else (events, None, s, r));
         publish = (now > ha_failsafe_flags_timestamp h + time_ms 500 \<or> results_changed)
     in (reported,
         \<lparr>pb_events = events, pb_health_report = health_report,
          pb_failsafe_flags = (if publish then Some (rp_failsafe_flags r) else None)\<rparr>,
         s,
         h\<lparr>ha_reporter := r,
           ha_failsafe_flags_timestamp :=
             (if publish then now else ha_failsafe_flags_timestamp h)\<rparr>)))"

abbreviation after_update ::
  "'s check list \<Rightarrow> vehicle_status_s \<Rightarrow> hrt_abstime \<times> hrt_abstime \<times> hrt_abstime \<Rightarrow> bool \<Rightarrow> bool
     \<Rightarrow> 's \<times> HealthAndArmingChecks \<Rightarrow> Report" where
  "after_update checks status clock force request x \<equiv>
     ha_reporter (snd (snd (snd (HealthAndArmingChecks_update checks status clock force request x))))"

section \<open>The modelled checks\<close>

definition on_report :: "(Context \<Rightarrow> check_world \<Rightarrow> Report \<Rightarrow> Report) \<Rightarrow> check_world check" where
  "on_report f c = (\<lambda>(w, r). (w, f c w r))"

definition on_external :: "check_world check" where
  "on_external c = (\<lambda>(w, r).
    (let (e, r) = ExternalChecks_checkAndReport c (cw_external w) r
     in (w\<lparr>cw_external := e\<rparr>, r)))"

definition early_checks :: "check_world check list" where
  "early_checks =
     [on_external, on_report ArmPermissionChecks, on_report DaaChecks,
      on_report FailureDetectorChecks, on_report NavigatorChecks, on_report LoggerChecks,
      on_report ManualControlChecks, on_report HomePositionChecks, on_report MissionChecks,
      on_report RallyPointChecks]"

definition late_checks :: "check_world check list" where
  "late_checks =
     [on_report OpenDroneIDChecks, on_report ParachuteChecks, on_report SystemChecks,
      on_report GeofenceChecks, RcAndDataLinkChecks, on_report VtolChecks,
      on_report TrafficAvoidanceChecks]"

definition modelled_checks :: "check_world check list" where
  "modelled_checks =
     early_checks @ [on_report OffboardChecks, on_report ModeChecks] @ late_checks"

section \<open>The report after an update\<close>

text \<open>The report \<open>r\<close> shows the outcome of the run of the checks that ended in \<open>x\<close>.\<close>

definition completed :: "'s \<times> Report \<Rightarrow> Report \<Rightarrow> bool" where
  "completed x r \<longleftrightarrow>
     can_arm r = can_arm (snd x) \<and> can_run r = can_run (snd x) \<and>
     rp_failsafe_flags r = rp_failsafe_flags (snd x) \<and> ac_valid (rs_arming_checks (current r))"

lemma completed_finalize: "completed x (snd (finalize (snd x)))"
  by (simp add: completed_def finalize_def Let_def map_defs)

lemma completed_report: "completed x r \<Longrightarrow> completed x (snd (snd (report t force r)))"
  by (simp add: completed_def report_def Let_def)

lemma one_run_completed:
  "snd (one_run checks c vt (s, r)) =
     (let x = run_checks checks c (s, prepare vt (Report_reset r))
      in (fst x, snd (finalize (snd x))))"
  by (simp add: one_run_def Let_def split_beta)

definition first_run ::
  "'s check list \<Rightarrow> vehicle_status_s \<Rightarrow> bool \<Rightarrow> 's \<times> Report \<Rightarrow> 's \<times> Report" where
  "first_run checks status request x =
     run_checks checks (check_context status request)
       (fst x, prepare (effective_vehicle_type status) (Report_reset (snd x)))"

lemma after_update_completed:
  defines "x \<equiv> \<lambda>checks status request s h. first_run checks status request (s, ha_reporter h)"
  shows "completed (x checks status request s h)
      (after_update checks status clock force request (s, h)) \<or>
    (\<exists>r. completed (first_run checks status request (fst (x checks status request s h), r))
          (after_update checks status clock force request (s, h)))"
proof -
  let ?x = "x checks status request s h"
  let ?c = "check_context status request" and ?vt = "effective_vehicle_type status"
  let ?rep = "report (fst clock) force (snd (finalize (snd ?x)))"
  have x: "snd (one_run checks ?c ?vt (s, ha_reporter h)) = (fst ?x, snd (finalize (snd ?x)))"
    by (simp add: one_run_completed x_def first_run_def Let_def)
  show ?thesis
  proof (cases "fst ?rep")
    case True
    have "after_update checks status clock force request (s, h) =
        snd (snd (report (fst (snd clock)) False (snd (snd
          (one_run checks ?c ?vt (fst ?x, snd (snd ?rep)))))))"
      using True x unfolding HealthAndArmingChecks_update_def by (simp add: Let_def split_beta)
    moreover have "completed (first_run checks status request (fst ?x, snd (snd ?rep))) \<dots>"
      by (rule completed_report) (simp add: one_run_completed first_run_def Let_def
          completed_finalize)
    ultimately show ?thesis by auto
  next
    case False
    have "after_update checks status clock force request (s, h) = snd (snd ?rep)"
      using False x unfolding HealthAndArmingChecks_update_def by (simp add: Let_def split_beta)
    moreover have "completed ?x (snd (snd ?rep))"
      by (rule completed_report) (rule completed_finalize)
    ultimately show ?thesis by simp
  qed
qed

section \<open>The contract of a check\<close>

locale arming_checks =
  fixes checks :: "'s check list"
  assumes check_narrows: "check \<in> set checks \<Longrightarrow> narrows (snd x) (snd (check c x))"
begin

lemma run_narrows: "narrows r0 (snd x) \<Longrightarrow> narrows r0 (snd (run_checks checks c x))"
proof -
  have "narrows r0 (snd (fold (\<lambda>check. check c) cs x))"
    if "narrows r0 (snd x)" and "set cs \<subseteq> set checks" for cs x
    using that
  proof (induction cs arbitrary: x)
    case (Cons check cs)
    then have "narrows r0 (snd (check c x))" by (auto intro: narrows_trans check_narrows)
    with Cons.IH [of "check c x"] Cons.prems(2) show ?case by simp
  qed simp
  then show "narrows r0 (snd x) \<Longrightarrow> narrows r0 (snd (run_checks checks c x))"
    by (simp add: run_checks_def)
qed

text \<open>
  If a check refuses arming in mode \<open>n\<close> whenever the state satisfies \<open>P\<close>, and no check invalidates
  \<open>P\<close>, then a run of all checks ends with mode \<open>n\<close> refused.
\<close>

lemma run_refused:
  assumes "check \<in> set checks" and "P (fst x)"
    and "\<And>check x. check \<in> set checks \<Longrightarrow> P (fst x) \<Longrightarrow> P (fst (check c x))"
    and "\<And>x. P (fst x) \<Longrightarrow> \<not> bit (can_arm (snd (check c x))) n"
  shows "\<not> bit (can_arm (snd (run_checks checks c x))) n" and "P (fst (run_checks checks c x))"
proof -
  have P: "P (fst (fold (\<lambda>check. check c) cs x))"
    if "P (fst x)" and "set cs \<subseteq> set checks" for cs x
    using that by (induction cs arbitrary: x) (simp_all add: assms(3))
  then show "P (fst (run_checks checks c x))" using assms(2) by (simp add: run_checks_def)
  from assms(1) obtain pre post where split: "checks = pre @ check # post"
    by (auto simp: in_set_conv_decomp)
  let ?x = "check c (fold (\<lambda>check. check c) pre x)"
  have "\<not> bit (can_arm (snd ?x)) n" using split P [of x pre] assms(2) by (intro assms(4)) auto
  moreover have "narrows (snd ?x) (snd (fold (\<lambda>check. check c) cs ?x))" if "set cs \<subseteq> set checks"
    for cs using that
  proof (induction cs rule: rev_induct)
    case (snoc check cs)
    then show ?case by (auto intro: narrows_trans check_narrows)
  qed simp
  ultimately show "\<not> bit (can_arm (snd (run_checks checks c x))) n"
    using narrows_can_arm split by (fastforce simp: run_checks_def)
qed

text \<open>The same for an update, which may run the checks twice.\<close>

lemma update_refused:
  assumes "check \<in> set checks" and "P s"
    and "\<And>check x. check \<in> set checks \<Longrightarrow> P (fst x) \<Longrightarrow> P (fst (check (check_context status request) x))"
    and "\<And>x. P (fst x) \<Longrightarrow> \<not> bit (can_arm (snd (check (check_context status request) x))) (unat nav)"
  shows "\<not> canArm (after_update checks status clock force request (s, h)) nav"
proof -
  have run: "\<not> bit (can_arm (snd (first_run checks status request (s, r)))) (unat nav)"
    "P (fst (first_run checks status request (s, r)))" if "P s" for s r
    unfolding first_run_def
    by (rule run_refused [where check = check and P = P and n = "unat nav"];
        use that assms in simp)+
  with assms(2) after_update_completed [of checks status request s h clock force]
  show ?thesis by (auto simp: completed_def canArm_bit)
qed

end

section \<open>The modelled checks respect the contract\<close>

lemma narrows_set_flag [narrows_intros]: "narrows r r' \<Longrightarrow> narrows r (set_flag f b r')"
  by (simp add: set_flag_def Let_def narrows_intros)

lemma narrows_early:
  "narrows r (ArmPermissionChecks c w r)" "narrows r (DaaChecks c w r)"
  "narrows r (FailureDetectorChecks c w r)" "narrows r (NavigatorChecks c w r)"
  "narrows r (LoggerChecks c w r)" "narrows r (ManualControlChecks c w r)"
  "narrows r (HomePositionChecks c w r)" "narrows r (MissionChecks c w r)"
  "narrows r (RallyPointChecks c w r)"
  by (auto simp: ArmPermissionChecks_def DaaChecks_def FailureDetectorChecks_def
      NavigatorChecks_def LoggerChecks_def ManualControlChecks_def HomePositionChecks_def
      MissionChecks_def RallyPointChecks_def Let_def
      intro!: narrows_intros split: option.splits)

lemma narrows_offboard: "narrows r (OffboardChecks c w r)"
  by (auto simp: OffboardChecks_def offboard_failure_def Let_def
      intro!: narrows_intros split: option.splits)

lemma narrows_mode_steps [narrows_intros]:
  "narrows r0 r \<Longrightarrow> narrows r0 (check_prevent_arming c r)"
  "narrows r0 r \<Longrightarrow> narrows r0 (check_requirement f q k name level r)"
  "narrows r0 r \<Longrightarrow> narrows r0 (check_position f q f' q' k name r)"
  "narrows r0 r \<Longrightarrow> narrows r0 (check_mission_requirement p r)"
  "narrows r0 r \<Longrightarrow> narrows r0 (check_manual_control_requirement p r)"
  "narrows r0 r \<Longrightarrow> narrows r0 (check_other_requirements r)"
  by (auto simp: check_prevent_arming_def check_requirement_def check_position_def
      requirement_failure_def check_mission_requirement_def check_manual_control_requirement_def
      check_other_requirements_def Let_def intro!: narrows_intros)

lemma narrows_mode: "narrows r (ModeChecks c w r)"
  unfolding ModeChecks_def Let_def by (intro narrows_intros narrows_refl)

lemma narrows_system_steps [narrows_intros]:
  "narrows r0 r \<Longrightarrow> narrows r0 (check_global_position_required c p r)"
  "narrows r0 r \<Longrightarrow> narrows r0 (check_vtol_arming c p r)"
  by (auto simp: check_global_position_required_def check_vtol_arming_def Let_def
      intro!: narrows_intros)

lemma narrows_system: "narrows r (SystemChecks c w r)"
  by (cases "ci_actuator_armed (cw_inputs w)")
     (simp_all add: SystemChecks_def Let_def narrows_intros)

lemma narrows_late:
  "narrows r (OpenDroneIDChecks c w r)" "narrows r (ParachuteChecks c w r)"
  "narrows r (VtolChecks c w r)" "narrows r (TrafficAvoidanceChecks c w r)"
  by (auto simp: OpenDroneIDChecks_def ParachuteChecks_def VtolChecks_def
      TrafficAvoidanceChecks_def Let_def intro!: narrows_intros split: option.splits)

lemma narrows_geofence: "narrows r (GeofenceChecks c w r)"
  by (simp add: GeofenceChecks_def Let_def narrows_intros)

lemma narrows_rc_and_data_link: "narrows (snd x) (snd (RcAndDataLinkChecks c x))"
  by (cases x) (auto simp: RcAndDataLinkChecks_def check_manual_control_link_def Let_def
      intro!: narrows_intros split: prod.splits option.splits)

lemma narrows_on_report: "(\<And>w r. narrows r (f c w r)) \<Longrightarrow> narrows (snd x) (snd (on_report f c x))"
  by (cases x) (simp add: on_report_def)

lemma narrows_on_external: "narrows (snd x) (snd (on_external c x))"
  using narrows_ExternalChecks
  by (cases x) (auto simp: on_external_def Let_def split_beta)

lemmas narrows_checks =
  narrows_early narrows_offboard narrows_mode narrows_system narrows_late narrows_geofence
  narrows_rc_and_data_link narrows_on_external

interpretation modelled: arming_checks modelled_checks
proof unfold_locales
  fix check and x :: "check_world \<times> Report" and c
  assume "check \<in> set modelled_checks"
  then show "narrows (snd x) (snd (check c x))"
    by (auto simp: modelled_checks_def early_checks_def late_checks_def narrows_checks
        intro!: narrows_on_report)
qed

section \<open>Checks that keep the mode requirements\<close>

text \<open>The part of the failsafe flags that decides which modes can run.\<close>

definition mode_view :: "failsafe_flags_s \<Rightarrow> (ModeReq \<Rightarrow> u32) \<times> bool list" where
  "mode_view flags =
     (ff_mode_req flags,
      map (ff_flag flags)
        [angular_velocity_invalid, attitude_invalid, local_position_invalid,
         local_position_invalid_relaxed, global_position_invalid, global_position_invalid_relaxed,
         local_altitude_invalid, auto_mission_missing, offboard_control_signal_lost,
         home_position_invalid])"

lemma modeCanRun_view: "mode_view flags = mode_view flags' \<Longrightarrow> modeCanRun flags m = modeCanRun flags' m"
  by (simp add: modeCanRun_requires requires_def mode_view_def)

text \<open>Together with the modes that can run.\<close>

definition view :: "Report \<Rightarrow> ((ModeReq \<Rightarrow> u32) \<times> bool list) \<times> u32" where
  "view r = (mode_view (rp_failsafe_flags r), can_run r)"

locale requirement_keeping_checks = arming_checks +
  assumes check_keeps: "check \<in> set checks \<Longrightarrow> view (snd (check c x)) = view (snd x)"
begin

lemma run_keeps: "view (snd (run_checks checks c x)) = view (snd x)"
proof -
  have "view (snd (fold (\<lambda>check. check c) cs x)) = view (snd x)" if "set cs \<subseteq> set checks" for cs x
    using that by (induction cs arbitrary: x) (simp_all add: check_keeps)
  then show ?thesis by (simp add: run_checks_def)
qed

end

lemma view_set_flag:
  "f \<notin> {angular_velocity_invalid, attitude_invalid, local_position_invalid,
         local_position_invalid_relaxed, global_position_invalid, global_position_invalid_relaxed,
         local_altitude_invalid, auto_mission_missing, offboard_control_signal_lost,
         home_position_invalid} \<Longrightarrow> view (set_flag f b r) = view r"
  by (auto simp: view_def mode_view_def set_flag_def Let_def)

lemma view_frame [simp]:
  "view (armingCheckFailure m k e l a r) = view r" "view (healthFailure m k e l a r) = view r"
  "view (setIsPresent k r) = view r" "view (clearArmingBits m r) = view r"
  by (simp_all add: view_def)

lemma view_if: "view r1 = view r \<Longrightarrow> view r2 = view r \<Longrightarrow> view (if b then r1 else r2) = view r"
  by simp

lemma view_late:
  "view (OpenDroneIDChecks c w r) = view r" "view (ParachuteChecks c w r) = view r"
  "view (VtolChecks c w r) = view r" "view (TrafficAvoidanceChecks c w r) = view r"
  by (auto simp: OpenDroneIDChecks_def ParachuteChecks_def VtolChecks_def
      TrafficAvoidanceChecks_def Let_def view_set_flag split: option.split)

lemma view_geofence: "view (GeofenceChecks c w r) = view r"
  unfolding GeofenceChecks_def Let_def
  by (simp only: view_frame view_if view_set_flag) (simp add: view_set_flag)

lemma view_system: "view (SystemChecks c w r) = view r"
  unfolding SystemChecks_def check_global_position_required_def check_vtol_arming_def Let_def
  by (cases "ci_actuator_armed (cw_inputs w)") (simp_all only: option.case view_frame view_if)

lemma view_rc_and_data_link: "view (snd (RcAndDataLinkChecks c x)) = view (snd x)"
  by (cases x) (simp add: RcAndDataLinkChecks_def check_manual_control_link_def Let_def
      view_set_flag split: prod.split option.split)

interpretation late: requirement_keeping_checks late_checks
proof unfold_locales
  fix check and x :: "check_world \<times> Report" and c
  assume "check \<in> set late_checks"
  then show "narrows (snd x) (snd (check c x))" and "view (snd (check c x)) = view (snd x)"
    by (auto simp: late_checks_def narrows_checks view_late view_geofence view_system view_rc_and_data_link
        on_report_def split: prod.split intro!: narrows_on_report)
qed

section \<open>Which modes can run after the mode checks\<close>

lemma or_zero_iff: "a OR b = 0 \<longleftrightarrow> a = 0 \<and> b = 0" for a b :: u32
  by (auto simp: bit_eq_iff bit_simps)

lemma mode_steps_flags [simp]:
  "rp_failsafe_flags (check_prevent_arming c r) = rp_failsafe_flags r"
  "rp_failsafe_flags (check_requirement f q k name level r) = rp_failsafe_flags r"
  "rp_failsafe_flags (check_position f q f' q' k name r) = rp_failsafe_flags r"
  "rp_failsafe_flags (check_mission_requirement p r) = rp_failsafe_flags r"
  "rp_failsafe_flags (check_manual_control_requirement p r) = rp_failsafe_flags r"
  "rp_failsafe_flags (check_other_requirements r) = rp_failsafe_flags r"
  by (simp_all add: check_prevent_arming_def check_requirement_def check_position_def
      requirement_failure_def check_mission_requirement_def check_manual_control_requirement_def
      check_other_requirements_def Let_def)

lemma mode_steps_can_run:
  "can_run (check_prevent_arming c r) = can_run r"
  "bit (can_run (check_requirement f q k name level r)) n \<longleftrightarrow>
     bit (can_run r) n \<and> \<not> (flag f r \<and> bit (req_mask q r) n)"
  "bit (can_run (check_position f q f' q' k name r)) n \<longleftrightarrow>
     bit (can_run r) n \<and> \<not> (flag f r \<and> bit (req_mask q r) n) \<and>
     \<not> (flag f' r \<and> bit (req_mask q' r) n)"
  "bit (can_run (check_mission_requirement p r)) n \<longleftrightarrow>
     bit (can_run r) n \<and> \<not> (flag auto_mission_missing r \<and> bit (req_mask mode_req_mission r) n)"
  "bit (can_run (check_manual_control_requirement p r)) n \<longleftrightarrow>
     bit (can_run r) n \<and>
     \<not> (flag manual_control_signal_lost r \<and> bit (req_mask mode_req_manual_control r) n)"
  "bit (can_run (check_other_requirements r)) n \<longleftrightarrow>
     bit (can_run r) n \<and> \<not> bit (req_mask mode_req_other r) n \<and>
     \<not> ((flag flight_time_limit_exceeded r \<or> flag wind_limit_exceeded r) \<and>
        bit (req_mask mode_req_wind_and_flight_time_compliance r) n)"
  by (auto simp: check_prevent_arming_def check_requirement_def check_position_def
      requirement_failure_def check_mission_requirement_def check_manual_control_requirement_def
      check_other_requirements_def Let_def bit_simps or_zero_iff
      split: if_splits dest: bit_imp_le_length)

text \<open>A mode that can run after the mode checks has all its requirements met.\<close>

lemma ModeChecks_can_run:
  assumes "bit (can_run (ModeChecks c w r)) (unat m)"
    and "\<not> (flag offboard_control_signal_lost r \<and> bit (req_mask mode_req_offboard_signal r) (unat m))"
  shows "modeCanRun (rp_failsafe_flags (ModeChecks c w r)) m"
proof -
  have "rp_failsafe_flags (ModeChecks c w r) = rp_failsafe_flags r"
    by (simp only: ModeChecks_def Let_def mode_steps_flags)
  moreover note assms(1) [unfolded ModeChecks_def Let_def mode_steps_can_run mode_steps_flags]
  ultimately show ?thesis
    using assms(2) by (simp add: modeCanRun_requires requires_def)
qed

lemma OffboardChecks_can_run:
  assumes "bit (can_run (OffboardChecks c w r)) n"
    and "flag offboard_control_signal_lost (OffboardChecks c w r)"
  shows "\<not> bit (req_mask mode_req_offboard_signal (OffboardChecks c w r)) n"
  using assms
  by (auto simp: OffboardChecks_def offboard_failure_def set_flag_def Let_def bit_simps
      split: option.splits if_splits prod.splits)

lemma run_checks_append:
  "run_checks (xs @ ys) c x = run_checks ys c (run_checks xs c x)"
  by (simp add: run_checks_def)

lemma run_can_run:
  defines "checks \<equiv> \<lambda>pre. pre @ [on_report OffboardChecks, on_report ModeChecks] @ late_checks"
  assumes "bit (can_run (snd (run_checks (checks pre) c x))) (unat m)"
  shows "modeCanRun (rp_failsafe_flags (snd (run_checks (checks pre) c x))) m"
proof -
  obtain w r where wr: "run_checks pre c x = (w, r)" by (cases "run_checks pre c x")
  let ?o = "OffboardChecks c w r"
  let ?y = "(w, ModeChecks c w ?o)"
  have run: "run_checks (checks pre) c x = run_checks late_checks c ?y"
    unfolding checks_def run_checks_append wr by (simp add: run_checks_def on_report_def)
  have "narrows (snd ?y) (snd (run_checks late_checks c ?y))" by (rule late.run_narrows) simp
  from narrows_can_run [OF this] assms(2) have bit: "bit (can_run (ModeChecks c w ?o)) (unat m)"
    unfolding run by simp
  then have "bit (can_run ?o) (unat m)" by (rule narrows_can_run [OF narrows_mode])
  then have "\<not> (flag offboard_control_signal_lost ?o \<and>
      bit (req_mask mode_req_offboard_signal ?o) (unat m))"
    by (blast dest: OffboardChecks_can_run)
  with bit have can: "modeCanRun (rp_failsafe_flags (ModeChecks c w ?o)) m"
    by (rule ModeChecks_can_run)
  have "mode_view (rp_failsafe_flags (snd (run_checks (checks pre) c x))) =
      mode_view (rp_failsafe_flags (ModeChecks c w ?o))"
    unfolding run using late.run_keeps [of c ?y] by (simp add: view_def)
  from modeCanRun_view [OF this, of m] can show ?thesis by iprover
qed

lemma update_can_run:
  assumes "canRun (after_update (pre @ [on_report OffboardChecks, on_report ModeChecks] @ late_checks)
      status clock force request (w, h)) m"
  shows "modeCanRun (rp_failsafe_flags (after_update
      (pre @ [on_report OffboardChecks, on_report ModeChecks] @ late_checks)
      status clock force request (w, h))) m"
proof -
  let ?checks = "pre @ [on_report OffboardChecks, on_report ModeChecks] @ late_checks"
  let ?r = "after_update ?checks status clock force request (w, h)"
  from after_update_completed [of ?checks status request w h clock force]
  obtain x where "completed (first_run ?checks status request x) ?r" by blast
  then have "can_run ?r = can_run (snd (first_run ?checks status request x))"
    and flags: "rp_failsafe_flags ?r = rp_failsafe_flags (snd (first_run ?checks status request x))"
    by (simp_all only: completed_def)
  with assms have "bit (can_run (snd (first_run ?checks status request x))) (unat m)"
    by (simp only: canRun_bit)
  then show ?thesis unfolding flags first_run_def by (rule run_can_run)
qed

end
