(* ===== verification/Arming_Properties.thy ===== *)
theory Arming_Properties
  imports Arming_Update
begin

text \<open>
  What the arming checks guarantee: the permissions they end with agree with the failsafe's view of
  which modes can run, and a hazard refuses arming in every mode.
\<close>

section \<open>A concrete vehicle\<close>

definition demo_check_params :: check_params where
  "demo_check_params =
     \<lparr>cp_com_armable = 1, cp_com_arm_mis_req = False, cp_com_rc_in_mode = 0,
      cp_com_of_loss_t_us = 1000000, cp_nav_dll_act = 0, cp_com_parachute = 0,
      cp_com_arm_odid = 0, cp_com_traff_avoid = 0, cp_cbrk_usb_chk = 0, cp_cbrk_vtolarming = 0,
      cp_com_arm_wo_gps = True, cp_com_arm_auth_req = 0, cp_rtl_type = None, cp_daa_en = 0,
      cp_daa_traff_tout = 5, cp_sdlog_mode = 0\<rparr>"

definition demo_check_inputs :: check_inputs where
  "demo_check_inputs =
     \<lparr>ci_now = 1000000, ci_home_position = None, ci_mission_result = None,
      ci_navigator_status = None, ci_manual_control_switches = None,
      ci_offboard_control_mode = None, ci_manual_advertised = False,
      ci_manual_control_setpoint = None, ci_manual_timed_out = False,
      ci_vtol_fixed_wing_system_failure = None, ci_geofence_result = None,
      ci_failure_detector_status = None, ci_actuator_armed = None,
      ci_rtl_status_advertised = False, ci_rtl_safe_point_index = None,
      ci_daa_most_urgent = None, ci_logger_status_advertised = False,
      ci_logger_status = (0, False), ci_arm_auth_check = 0\<rparr>"

definition demo_world :: check_world where
  "demo_world =
     \<lparr>cw_params = demo_check_params, cw_inputs = demo_check_inputs,
      cw_external = ExternalChecks_init False, cw_last_valid_manual_control_setpoint = 0\<rparr>"

section \<open>Permissions\<close>

lemma requires_termination:
  "requires (getModeRequirements vt f) NAVIGATION_STATE_TERMINATION q \<longleftrightarrow>
     q = mode_req_prevent_arming"
  by (auto simp: mode_requirements_defs requires_require_mode)

lemma can_run_prepared: "can_run (prepare vt (Report_reset r)) = - 1"
  by (simp add: prepare_def Report_reset_def current_def Let_def Results_reset_def
      ArmingCheckResults_reset_def)

lemma OffboardChecks_frame:
  "ff_mode_req (rp_failsafe_flags (OffboardChecks c w r)) = ff_mode_req (rp_failsafe_flags r)"
  by (simp add: OffboardChecks_def offboard_failure_def set_flag_def Let_def
      split: option.split prod.split)

lemma OffboardChecks_keeps:
  "bit (can_run r) n \<Longrightarrow> \<not> bit (req_mask mode_req_offboard_signal r) n \<Longrightarrow>
     bit (can_run (OffboardChecks c w r)) n"
  using bit_imp_le_length [of "can_run r" n]
  by (auto simp: OffboardChecks_def offboard_failure_def set_flag_def Let_def bit_simps
      split: option.split prod.split)

lemma termination_can_run:
  "bit (can_run (snd (first_run ([] @ [on_report OffboardChecks, on_report ModeChecks] @ late_checks)
     status request x))) (unat NAVIGATION_STATE_TERMINATION)"
proof -
  let ?c = "check_context status request"
  let ?r = "prepare (effective_vehicle_type status) (Report_reset (snd x))"
  let ?o = "OffboardChecks ?c (fst x) ?r"
  have masks: "\<not> bit (req_mask q ?r) 13" if "q \<noteq> mode_req_prevent_arming" for q
    using that requires_termination [of "effective_vehicle_type status"
        "rp_failsafe_flags (Report_reset (snd x))" q]
    by (simp add: requires_def prepare_def)
  have "bit (can_run ?o) 13"
    by (rule OffboardChecks_keeps) (simp_all add: can_run_prepared masks)
  then have mode: "bit (can_run (ModeChecks ?c (fst x) ?o)) 13"
    unfolding ModeChecks_def Let_def mode_steps_can_run mode_steps_flags OffboardChecks_frame
    by (simp add: masks)
  have "run_checks [on_report OffboardChecks, on_report ModeChecks] ?c (fst x, ?r) =
      (fst x, ModeChecks ?c (fst x) ?o)"
    by (simp only: run_checks_def on_report_def fold.simps id_apply comp_apply prod.case)
  then have "first_run ([] @ [on_report OffboardChecks, on_report ModeChecks] @ late_checks)
      status request x = run_checks late_checks ?c (fst x, ModeChecks ?c (fst x) ?o)"
    unfolding first_run_def run_checks_append
    by (simp only: run_checks_def [of "[]"] fold.simps id_apply)
  moreover have "can_run (snd (run_checks late_checks ?c (fst x, ModeChecks ?c (fst x) ?o))) =
      can_run (ModeChecks ?c (fst x) ?o)"
    using late.run_keeps [of ?c "(fst x, ModeChecks ?c (fst x) ?o)"]
    unfolding view_def by (simp only: prod.inject snd_conv)
  ultimately show ?thesis using mode by (simp only: unat_numeral) simp
qed

lemma demo_termination_can_run:
  "canRun (after_update ([] @ [on_report OffboardChecks, on_report ModeChecks] @ late_checks)
     vehicle_status_zero (0, 0, 0) False False (demo_world, HealthAndArmingChecks_init))
     NAVIGATION_STATE_TERMINATION"
proof -
  let ?checks = "[] @ [on_report OffboardChecks, on_report ModeChecks] @ late_checks"
  from after_update_completed [of ?checks vehicle_status_zero False demo_world HealthAndArmingChecks_init
      "(0, 0, 0)" False]
  obtain x where "completed (first_run ?checks vehicle_status_zero False x) (after_update ?checks
      vehicle_status_zero (0, 0, 0) False False (demo_world, HealthAndArmingChecks_init))" by blast
  then show ?thesis using termination_can_run by (simp only: completed_def canRun_bit)
qed

text \<open>
  C22. The permission to switch into a mode agrees with the failsafe state machine: after an update
  of the arming checks, a mode the checks permit to run satisfies \<^verbatim>\<open>modeCanRun\<close> on the failsafe flags
  of the same update, whatever the checks before the offboard and mode checks did to the report.
\<close>

theorem runnable_modes_meet_requirements:
  assumes "canRun (after_update (pre @ [on_report OffboardChecks, on_report ModeChecks] @ late_checks)
      status clock force request (w, h)) m"
  shows "modeCanRun (rp_failsafe_flags (after_update
      (pre @ [on_report OffboardChecks, on_report ModeChecks] @ late_checks)
      status clock force request (w, h))) m"
  using assms by (rule update_can_run)

theorem runnable_modes_meet_requirements_witness:
  "modeCanRun (rp_failsafe_flags (after_update
     ([] @ [on_report OffboardChecks, on_report ModeChecks] @ late_checks)
     vehicle_status_zero (0, 0, 0) False False (demo_world, HealthAndArmingChecks_init)))
     NAVIGATION_STATE_TERMINATION"
  using demo_termination_can_run by (rule runnable_modes_meet_requirements)

section \<open>Hazards\<close>

text \<open>Conditions under which the vehicle must not be armed in any mode.\<close>

definition hazard :: "vehicle_status_s \<Rightarrow> check_world \<Rightarrow> bool" where
  "hazard status w \<longleftrightarrow>
     cp_com_armable (cw_params w) < 1 \<or>
     (\<exists>a. ci_actuator_armed (cw_inputs w) = Some a \<and> (aa_termination a \<or> aa_kill a)) \<or>
     (\<exists>fd. ci_failure_detector_status (cw_inputs w) = Some fd \<and>
        (fd_roll fd \<or> fd_pitch fd \<or> fd_alt fd \<or> fd_ext fd \<or> fd_imbalanced fd)) \<or>
     (vs_arming_state status \<noteq> ARMING_STATE_ARMED \<and> vs_safety_button_available status \<and>
      \<not> vs_safety_off status)"

lemma not_all_modes: "NOT NavModes_All = 0" "(- 4294967296 :: u32) = 0"
  by code_simp+

lemma refused_all: "can_arm (armingCheckFailure NavModes_All k e l a r) = 0"
  "can_arm (healthFailure NavModes_All k e l a r) = 0"
  unfolding failure_bits not_all_modes by simp_all

lemma stays_refused:
  "can_arm r = 0 \<Longrightarrow> can_arm (if b then armingCheckFailure m k e l a r else r) = 0"
  "can_arm r = 0 \<Longrightarrow> can_arm (check_global_position_required c p r) = 0"
  "can_arm r = 0 \<Longrightarrow> can_arm (check_vtol_arming c p r) = 0"
  by (simp_all add: check_global_position_required_def check_vtol_arming_def Let_def)

lemma refused_if: "b \<Longrightarrow> can_arm (if b then armingCheckFailure NavModes_All k e l a r else r) = 0"
  by (simp only: refused_all if_True)

lemma SystemChecks_refuse:
  assumes "(\<exists>a. ci_actuator_armed (cw_inputs w) = Some a \<and> (aa_termination a \<or> aa_kill a)) \<or>
     vs_safety_button_available (cx_status c) \<and> \<not> vs_safety_off (cx_status c) \<and> \<not> isArmed c"
  shows "can_arm (SystemChecks c w r) = 0"
  using assms
proof
  assume "\<exists>a. ci_actuator_armed (cw_inputs w) = Some a \<and> (aa_termination a \<or> aa_kill a)"
  then show ?thesis
    unfolding SystemChecks_def Let_def
    by (intro stays_refused) (auto simp: not_all_modes)
next
  assume "vs_safety_button_available (cx_status c) \<and> \<not> vs_safety_off (cx_status c) \<and> \<not> isArmed c"
  then show ?thesis
    unfolding SystemChecks_def Let_def
    by (rule stays_refused(1) [OF stays_refused(3) [OF refused_if]])
qed

lemma FailureDetectorChecks_refuse:
  assumes "ci_failure_detector_status (cw_inputs w) = Some fd"
    and "fd_roll fd \<or> fd_pitch fd \<or> fd_alt fd \<or> fd_ext fd \<or> fd_imbalanced fd"
  shows "can_arm (FailureDetectorChecks c w r) = 0"
  using assms by (auto simp: FailureDetectorChecks_def Let_def set_flag_def not_all_modes)

lemma ArmPermissionChecks_refuse:
  "cp_com_armable (cw_params w) < 1 \<Longrightarrow> can_arm (ArmPermissionChecks c w r) = 0"
  by (simp add: ArmPermissionChecks_def not_all_modes)

lemma modelled_checks_keep_inputs:
  assumes "check \<in> set modelled_checks"
  shows "cw_params (fst (check c x)) = cw_params (fst x) \<and>
    cw_inputs (fst (check c x)) = cw_inputs (fst x)"
proof -
  have "cw_params (fst (RcAndDataLinkChecks c x)) = cw_params (fst x) \<and>
      cw_inputs (fst (RcAndDataLinkChecks c x)) = cw_inputs (fst x)"
    by (simp add: RcAndDataLinkChecks_def Let_def split_beta)
  moreover have "fst (on_report f c x) = fst x" for f
    by (simp add: on_report_def split_beta)
  moreover have "cw_params (fst (on_external c x)) = cw_params (fst x) \<and>
      cw_inputs (fst (on_external c x)) = cw_inputs (fst x)"
    by (simp add: on_external_def Let_def split_beta)
  ultimately show ?thesis
    using assms by (auto simp: modelled_checks_def early_checks_def late_checks_def)
qed

text \<open>The check that refuses a hazard.\<close>

lemma hazard_refused:
  assumes "hazard status w"
  obtains check where "check \<in> set modelled_checks"
    and "\<And>x. cw_params (fst x) = cw_params w \<Longrightarrow> cw_inputs (fst x) = cw_inputs w \<Longrightarrow>
      can_arm (snd (check (check_context status request) x)) = 0"
proof -
  have mem: "on_report ArmPermissionChecks \<in> set modelled_checks"
    "on_report FailureDetectorChecks \<in> set modelled_checks"
    "on_report SystemChecks \<in> set modelled_checks"
    by (simp_all add: modelled_checks_def early_checks_def late_checks_def)
  have snd: "snd (on_report f c x) = f c (fst x) (snd x)" for f c x
    by (simp add: on_report_def split_beta)
  from assms consider
      (permission) "cp_com_armable (cw_params w) < 1"
    | (detector) fd where "ci_failure_detector_status (cw_inputs w) = Some fd"
        "fd_roll fd \<or> fd_pitch fd \<or> fd_alt fd \<or> fd_ext fd \<or> fd_imbalanced fd"
    | (system) "(\<exists>a. ci_actuator_armed (cw_inputs w) = Some a \<and> (aa_termination a \<or> aa_kill a)) \<or>
        vs_safety_button_available status \<and> \<not> vs_safety_off status \<and>
        \<not> isArmed (check_context status request)"
    by (auto simp: hazard_def isArmed_def)
  then show thesis
  proof cases
    case permission
    then show thesis by (intro that [OF mem(1)]) (simp add: snd ArmPermissionChecks_refuse)
  next
    case detector
    then show thesis by (intro that [OF mem(2)]) (simp add: snd FailureDetectorChecks_refuse)
  next
    case system
    then show thesis by (intro that [OF mem(3)]) (simp add: snd SystemChecks_refuse)
  qed
qed

lemma hazard_no_arming:
  assumes "hazard status w"
  shows "\<not> canArm (after_update modelled_checks status clock force request (w, h)) nav"
proof -
  let ?P = "\<lambda>w'. cw_params w' = cw_params w \<and> cw_inputs w' = cw_inputs w"
  from assms obtain check where check: "check \<in> set modelled_checks"
    and no: "\<And>x. cw_params (fst x) = cw_params w \<Longrightarrow> cw_inputs (fst x) = cw_inputs w \<Longrightarrow>
      can_arm (snd (check (check_context status request) x)) = 0"
    by (rule hazard_refused [where request = request]) blast
  from check show ?thesis
    by (rule modelled.update_refused [where P = ?P]) (simp_all add: no modelled_checks_keep_inputs)
qed

text \<open>
  C23. While arming is not permitted by the configuration, the flight is terminated or killed, the
  failure detector reports a failure, or the safety button of a disarmed vehicle is not off, an
  update of the arming checks ends with no mode in which the vehicle can be armed.
\<close>

theorem hazard_refuses_arming:
  assumes "hazard status w"
  shows "\<not> canArm (after_update modelled_checks status clock force request (w, h)) nav"
  using assms by (rule hazard_no_arming)

theorem hazard_refuses_arming_witness:
  "\<not> canArm (after_update modelled_checks vehicle_status_zero (0, 0, 0) False True
     (demo_world\<lparr>cw_params := demo_check_params\<lparr>cp_com_armable := 0\<rparr>\<rparr>, HealthAndArmingChecks_init))
     NAVIGATION_STATE_POSCTL"
  by (rule hazard_refuses_arming) (simp add: hazard_def)

end
