(* ===== verification/External_Properties.thy ===== *)
theory External_Properties
  imports External_Polling External_Report
begin

text \<open>
  Properties of the report's event buffer and of the external arming checks: the events that are
  sent, the registrations, the polling of silent components and the modes that are refused.
\<close>

section \<open>Buffered events\<close>

text \<open>A call of \<^verbatim>\<open>addEvent\<close>: identifier, log levels, modes and the bytes of the other arguments.\<close>

type_synonym event_call = "u32 \<times> LogLevels \<times> u32 \<times> u8 list"

fun call_addEvent :: "event_call \<Rightarrow> Report \<Rightarrow> Report" where
  "call_addEvent (event_id, log_levels, modes, args) r = snd (addEvent event_id log_levels modes args r)"

fun buffered_call :: "event_call \<Rightarrow> buffered_event" where
  "buffered_call (event_id, log_levels, modes, args) =
     (event_id, pack_log_levels log_levels, le_bytes 4 modes @ args)"

lemma overflow_stays: "rp_buffer_overflowed r \<Longrightarrow> rp_buffer_overflowed (fold call_addEvent calls r)"
proof (induction calls arbitrary: r)
  case (Cons call calls)
  then have "rp_buffer_overflowed (call_addEvent call r)"
    by (cases call) (simp add: addEvent_def Let_def)
  then show ?case by (simp add: Cons.IH)
qed simp

lemma call_addEvent_holds:
  assumes "holds_events r es" and "length (snd (snd (snd call))) + 4 \<le> event_arguments_size"
    and "\<not> rp_buffer_overflowed (call_addEvent call r)"
  shows "holds_events (call_addEvent call r) (es @ [buffered_call call])"
proof -
  obtain e l m a where call: "call = (e, l, m, a)" by (cases call)
  obtain added r' where add: "addEvent e l m a r = (added, r')" by (cases "addEvent e l m a r")
  moreover have added
    using assms(3) add by (auto simp: call addEvent_def Let_def split: if_splits)
  ultimately show ?thesis using assms(1,2) addEvent_holds [of r es a e l m r'] by (simp add: call)
qed

lemma fold_addEvent_holds:
  assumes "holds_events r es"
    and "list_all (\<lambda>call. length (snd (snd (snd call))) + 4 \<le> event_arguments_size) calls"
    and "\<not> rp_buffer_overflowed (fold call_addEvent calls r)"
  shows "holds_events (fold call_addEvent calls r) (es @ map buffered_call calls)"
  using assms
proof (induction calls arbitrary: r es)
  case (Cons call calls)
  have "\<not> rp_buffer_overflowed (call_addEvent call r)"
    using Cons.prems(3) overflow_stays [of "call_addEvent call r" calls] by auto
  with Cons.prems have "holds_events (call_addEvent call r) (es @ [buffered_call call])"
    by (intro call_addEvent_holds) auto
  with Cons.IH [OF this] Cons.prems(2,3) show ?case by simp
qed simp

text \<open>
  C24. The events of a run reach the event topic unchanged: when a run of the checks adds events
  whose arguments fit into an event and the buffer does not overflow, a forced report sends, between
  the two summaries, exactly the first fourteen of these events in their order, each with its
  identifier, its log levels and its arguments, filled up with zeros.
\<close>

theorem reported_events_roundtrip:
  assumes "length (rp_event_buffer r) = sizeof_event_buffer"
    and "list_all (\<lambda>(event_id, log_levels, modes, args). length args + 4 \<le> event_arguments_size) calls"
    and "\<not> rp_buffer_overflowed (fold call_addEvent calls (Report_reset r))"
  shows "\<exists>arming_summary health_summary r'.
    report now True (fold call_addEvent calls (Report_reset r)) =
      (True, [arming_summary]
         @ map (\<lambda>(event_id, log_levels, modes, args). CheckEvent
             \<lparr>ev_id = event_id, ev_log_levels = pack_log_levels log_levels,
              ev_arguments = le_bytes 4 modes @ args
                @ replicate (event_arguments_size - (4 + length args)) 0\<rparr>) (take 14 calls)
         @ [health_summary], r')"
proof -
  let ?r = "fold call_addEvent calls (Report_reset r)"
  have "holds_events ?r ([] @ map buffered_call calls)"
    using assms by (intro fold_addEvent_holds holds_events_reset) (auto simp: list_all_iff)
  then have "buffered_events 14 (rp_event_buffer ?r) (rp_next_buffer_idx ?r) 0 =
      map (\<lambda>call. padded_event (buffered_call call)) (take 14 calls)"
    by (simp add: holds_events_sent take_map)
  also have "\<dots> = map (\<lambda>(event_id, log_levels, modes, args).
      \<lparr>ev_id = event_id, ev_log_levels = pack_log_levels log_levels,
       ev_arguments = le_bytes 4 modes @ args
         @ replicate (event_arguments_size - (4 + length args)) 0\<rparr>) (take 14 calls)"
    by (rule map_cong) auto
  finally show ?thesis by (simp add: report_def Let_def split_beta comp_def)
qed

definition demo_call :: event_call where
  "demo_call = (0x01020304, log_both Log_Error, 0x10, [7])"

theorem reported_events_roundtrip_witness:
  "\<exists>arming_summary health_summary r'.
    report 5 True (fold call_addEvent [demo_call, demo_call] (Report_reset (Report_init failsafe_flags_zero 1))) =
      (True, [arming_summary]
         @ map (\<lambda>(event_id, log_levels, modes, args). CheckEvent
             \<lparr>ev_id = event_id, ev_log_levels = pack_log_levels log_levels,
              ev_arguments = le_bytes 4 modes @ args
                @ replicate (event_arguments_size - (4 + length args)) 0\<rparr>) (take 14 [demo_call, demo_call])
         @ [health_summary], r')"
  by (rule reported_events_roundtrip)
     (simp_all add: Report_init_def demo_call_def addEvent_def Let_def Report_reset_def
       addEventToBuffer_def map_current_def)

section \<open>Registrations\<close>

lemma hasFree_dom:
  assumes "ec_ok s"
  shows "hasFreeRegistrations s \<longleftrightarrow> dom (registered_modes s) \<noteq> {0..<int MAX_NUM_REGISTRATIONS}"
proof -
  have "dom (registered_modes s) = {0..<int MAX_NUM_REGISTRATIONS} \<longleftrightarrow>
      (\<forall>i < MAX_NUM_REGISTRATIONS. registrationValid i s)"
  proof
    assume eq: "dom (registered_modes s) = {0..<int MAX_NUM_REGISTRATIONS}"
    have "registrationValid i s" if "i < MAX_NUM_REGISTRATIONS" for i
    proof -
      have "int i \<in> dom (registered_modes s)" unfolding eq using that by simp
      then show ?thesis by (auto simp: registered_modes_def split: if_splits)
    qed
    then show "\<forall>i < MAX_NUM_REGISTRATIONS. registrationValid i s" by blast
  qed (auto simp: registered_modes_def dom_def)
  also have "\<dots> \<longleftrightarrow> free_registration 0 MAX_NUM_REGISTRATIONS s = None"
    using free_registration_None [of 0 8 s] free_registration_Some [of 0 8 s]
    by (metis add_0 not_None_eq zero_le)
  finally show ?thesis by (simp add: hasFree_iff [OF assms])
qed

text \<open>
  C25. The registrations implement a partial map from registration identifiers to modes: while a
  slot is free, \<^verbatim>\<open>addRegistration\<close> returns an identifier that was not in use and maps it to the given
  mode, leaving every other registration as it was; when all slots are used it returns -1 and
  changes nothing; \<^verbatim>\<open>removeRegistration\<close> succeeds exactly when the identifier is mapped to the given
  mode, and then removes that entry and no other.
\<close>

theorem registrations_refine_map:
  assumes "ec_ok s"
  shows "(hasFreeRegistrations s \<longleftrightarrow> dom (registered_modes s) \<noteq> {0..<int MAX_NUM_REGISTRATIONS}) \<and>
    (if hasFreeRegistrations s
     then 0 \<le> fst (addRegistration n r s) \<and>
       fst (addRegistration n r s) < int MAX_NUM_REGISTRATIONS \<and>
       registered_modes s (fst (addRegistration n r s)) = None \<and>
       registered_modes (snd (addRegistration n r s)) =
         (registered_modes s)(fst (addRegistration n r s) \<mapsto> n)
     else addRegistration n r s = (-1, s)) \<and>
    (fst (removeRegistration k n s) \<longleftrightarrow> registered_modes s k = Some n) \<and>
    registered_modes (snd (removeRegistration k n s)) =
      (if registered_modes s k = Some n then (registered_modes s)(k := None) else registered_modes s)"
proof (intro conjI)
  show "hasFreeRegistrations s \<longleftrightarrow> dom (registered_modes s) \<noteq> {0..<int MAX_NUM_REGISTRATIONS}"
    using assms by (rule hasFree_dom)
  have "fst (addRegistration n r s) < int MAX_NUM_REGISTRATIONS" if free: "hasFreeRegistrations s"
  proof -
    from free have "registered_modes (snd (addRegistration n r s)) (fst (addRegistration n r s)) = Some n"
      using registry.add_registers [OF assms] by simp
    then show ?thesis by (simp add: registered_modes_def split: if_splits)
  qed
  then show "if hasFreeRegistrations s
     then 0 \<le> fst (addRegistration n r s) \<and>
       fst (addRegistration n r s) < int MAX_NUM_REGISTRATIONS \<and>
       registered_modes s (fst (addRegistration n r s)) = None \<and>
       registered_modes (snd (addRegistration n r s)) =
         (registered_modes s)(fst (addRegistration n r s) \<mapsto> n)
     else addRegistration n r s = (-1, s)"
    using registry.add_fresh [OF assms] registry.add_registers [OF assms] registry.add_full [OF assms]
    by auto
  show "fst (removeRegistration k n s) \<longleftrightarrow> registered_modes s k = Some n"
    using registry.remove_registered [OF assms] registry.remove_other [OF assms]
    by (metis fst_conv)
  show "registered_modes (snd (removeRegistration k n s)) =
      (if registered_modes s k = Some n then (registered_modes s)(k := None) else registered_modes s)"
    using registry.remove_registered [OF assms] registry.remove_other [OF assms] by simp
qed

text \<open>Registrations for the modes 23 and 24, the latter replacing mode 3, in registrations 0 and 1.\<close>

definition demo_registrations :: ExternalChecks where
  "demo_registrations = snd (addRegistration 24 3
     (snd (addRegistration 23 (-1) (setExternalNavStates 23 30 (ExternalChecks_init False)))))"

lemma demo_registrations_ok: "ec_ok demo_registrations"
proof -
  have "ec_ok (setExternalNavStates 23 30 (ExternalChecks_init False))"
    using ExternalChecks_init_ok [of False]
    by (simp add: setExternalNavStates_def ec_ok_def registrationValid_def)
  then show ?thesis unfolding demo_registrations_def by (intro registry.add_ok)
qed

theorem registrations_refine_map_witness:
  "registered_modes (snd (removeRegistration 1 24 demo_registrations)) =
     (registered_modes demo_registrations)(1 := None)"
proof -
  have "registered_modes demo_registrations 1 = Some 24" by code_simp
  then show ?thesis
    using registrations_refine_map [OF demo_registrations_ok, of 24 0 1] by simp
qed

section \<open>Polling\<close>


definition demo_polls :: "nat \<Rightarrow> poll_input list" where
  "demo_polls n = map (\<lambda>k. (of_nat (Suc (Suc k)) * 400000, 0, [])) [0..<n]"




section \<open>Refused modes\<close>

text \<open>The registration has been answered for by its own component and provides mode \<open>nav\<close>.\<close>

definition answered_for :: "int \<Rightarrow> nat \<Rightarrow> ExternalChecks \<Rightarrow> bool" where
  "answered_for nav i s \<longleftrightarrow>
     rg_nav_mode_id (ec_registrations s ! i) = nav \<and>
     map_option (\<lambda>r. unat (acr_registration_id r)) (rg_reply (ec_registrations s ! i)) = Some i"

lemma answered_for_handle_reply:
  "answered_for nav i s \<Longrightarrow> i < length (ec_registrations s) \<Longrightarrow>
     answered_for nav i (handle_reply now r s)"
  by (auto simp: answered_for_def handle_reply_def Let_def)

lemma answered_for_receive:
  "answered_for nav i s \<Longrightarrow> i < length (ec_registrations s) \<Longrightarrow>
     answered_for nav i (fst (receive_replies n now rs s))"
  by (induction n now rs s rule: receive_replies.induct) (simp_all add: answered_for_handle_reply)

lemma answered_for_missing:
  "answered_for nav i s \<Longrightarrow> i < length (ec_registrations s) \<Longrightarrow>
     answered_for nav i (fold (count_missing_reply m) xs s)"
proof (induction xs arbitrary: s)
  case (Cons x xs)
  then have "answered_for nav i (count_missing_reply m x s)"
    by (auto simp: answered_for_def count_missing_reply_def Let_def)
  with Cons show ?case by simp
qed simp

lemma answered_for_update:
  assumes "answered_for nav i s" and "i < length (ec_registrations s)"
  shows "answered_for nav i (fst (snd (ExternalChecks_update now t rs s)))"
proof (cases "ec_active_registrations_mask s = 0")
  case True
  with assms show ?thesis by (simp add: ExternalChecks_update_def)
next
  case False
  let ?r = "fst (receive_replies arming_check_reply_ORB_QUEUE_LENGTH now rs s)"
  have "answered_for nav i ?r" using assms by (rule answered_for_receive)
  then have "answered_for nav i (?r\<lparr>ec_had_timeout := True\<rparr>)" by (simp add: answered_for_def)
  with \<open>answered_for nav i ?r\<close> have "answered_for nav i (check_timeout now ?r)"
    using assms(2) by (simp add: check_timeout_def Let_def answered_for_missing)
  then show ?thesis using False by (simp add: update_state answered_for_def)
qed

lemma run_updates_invariant:
  assumes "P s" and "\<And>s now t rs. P s \<Longrightarrow> P (fst (snd (ExternalChecks_update now t rs s)))"
  shows "P (run_updates inputs s)"
  using assms(1) by (induction inputs arbitrary: s) (auto simp: run_updates_def assms(2))

lemma given_up_bound: "given_up i s \<Longrightarrow> i < length (ec_registrations s)"
  by (simp add: given_up_def)

text \<open>
  C27. A component that has become unresponsive more than three times is not trusted again: whatever
  replies arrive in whatever sequence of updates, its registration stays unresponsive, and every
  later report of the external checks refuses arming in its mode and marks the mode as one that
  cannot run.
\<close>

theorem given_up_mode_stays_refused:
  assumes "ec_ok s" and "given_up i s" and "answered_for nav i s" and "0 \<le> nav" and "nav < 32"
  shows "isUnresponsive (int i) (run_updates inputs s) \<and>
    \<not> bit (can_arm (snd (ExternalChecks_checkAndReport c (run_updates inputs s) r))) (nat nav) \<and>
    bit (ff_mode_req (rp_failsafe_flags (snd (ExternalChecks_checkAndReport c
      (run_updates inputs s) r))) mode_req_other) (nat nav)"
proof -
  let ?P = "\<lambda>s. ec_ok s \<and> given_up i s \<and> answered_for nav i s"
  have "?P (run_updates inputs s)"
    by (rule run_updates_invariant)
       (use assms in \<open>auto simp: ec_ok_update given_up_update
          intro: answered_for_update given_up_bound\<close>)
  then have s: "ec_ok (run_updates inputs s)" and up: "given_up i (run_updates inputs s)"
    and "answered_for nav i (run_updates inputs s)" by auto
  then have refuses: "refuses (run_updates inputs s) i nav"
    by (auto simp: refuses_def given_up_def answered_for_def Let_def)
  have i: "i < MAX_NUM_REGISTRATIONS" using s up by (simp add: given_up_def ec_ok_def)
  show ?thesis
    using ExternalChecks_blocks [OF s refuses i assms(4,5), of c r] up i
    by (auto simp: isUnresponsive_def given_up_def requires_other_def)
qed

definition demo_given_up :: ExternalChecks where
  "demo_given_up = map_registration 1
     (\<lambda>g. g\<lparr>rg_unresponsive := True, rg_total_num_unresponsive := 4,
           rg_reply := Some (arming_check_reply_zero\<lparr>acr_registration_id := 1,
             acr_can_arm_and_run := True\<rparr>)\<rparr>) demo_registrations"

theorem given_up_mode_stays_refused_witness:
  "isUnresponsive 1 (run_updates (demo_polls 3) demo_given_up)"
proof -
  have "ec_ok demo_given_up"
    unfolding demo_given_up_def using demo_registrations_ok
    by (rule ec_ok_map_registration) (simp_all add: reply_stored_def)
  moreover have "given_up 1 demo_given_up" and "answered_for 24 1 demo_given_up" by code_simp+
  ultimately have "isUnresponsive (int 1) (run_updates (demo_polls 3) demo_given_up)"
    by (intro conjunct1 [OF given_up_mode_stays_refused [of _ _ 24]]) simp_all
  then show ?thesis by simp
qed

text \<open>
  C28. A mode in the range of external modes for which no registration exists can be neither armed
  in nor run: every report of the external checks takes its arming permission away and sets its bit
  in \<^verbatim>\<open>mode_req_other\<close>, which no mode check can satisfy.
\<close>

theorem unregistered_mode_refused:
  assumes "ec_first_external_nav_state s \<le> m" and "m \<le> ec_last_external_nav_state s" and "m < 32"
    and "uint m \<notin> ran (registered_modes s)"
  shows "\<not> canArm (snd (ExternalChecks_checkAndReport c s r)) m \<and>
    bit (ff_mode_req (rp_failsafe_flags (snd (ExternalChecks_checkAndReport c s r))) mode_req_other)
      (unat m)"
proof -
  have "unat m \<in> {unat (ec_first_external_nav_state s)..<Suc (unat (ec_last_external_nav_state s))}"
    using assms(1,2) by (simp add: word_le_nat_alt)
  then have "of_nat (unat m) \<in> set (external_nav_states s)"
    unfolding external_nav_states_def set_map set_upt by (rule imageI)
  then have "m \<in> set (external_nav_states s)" by simp
  moreover have "\<not> mode_registered m s"
  proof
    assume "mode_registered m s"
    then obtain i where "i < MAX_NUM_REGISTRATIONS" "registrationValid i s"
      "rg_nav_mode_id (ec_registrations s ! i) = uint m"
      by (auto simp: mode_registered_def list_ex_iff)
    then have "registered_modes s (int i) = Some (uint m)" by (simp add: registered_modes_def)
    with assms(4) show False by (auto simp: ran_def)
  qed
  moreover have "unat m < 32" using assms(3) by (simp add: word_less_nat_alt)
  ultimately show ?thesis
    using unregistered_mode_blocked [of m s c r] by (simp add: canArm_bit requires_other_def)
qed

theorem unregistered_mode_refused_witness:
  "\<not> canArm (snd (ExternalChecks_checkAndReport
     \<lparr>cx_status = vehicle_status_zero, cx_is_arming_request = False\<rparr> demo_registrations
     (Report_init failsafe_flags_zero 1))) 25"
proof -
  have "ec_first_external_nav_state demo_registrations = 23"
    and "ec_last_external_nav_state demo_registrations = 30"
    and "\<not> mode_registered 25 demo_registrations" by code_simp+
  moreover from this(3) have "uint (25 :: u8) \<notin> ran (registered_modes demo_registrations)"
    by (auto simp: ran_def registered_modes_def mode_registered_def list_ex_iff split: if_splits)
  ultimately show ?thesis by (intro conjunct1 [OF unregistered_mode_refused]) simp_all
qed



end
