(* ===== verification/Mode_Management.thy ===== *)
theory Mode_Management
  imports External_Registry Control_Mode
begin

text \<open>
  The classes \<^verbatim>\<open>ModeExecutors\<close>, \<^verbatim>\<open>Modes\<close> and \<^verbatim>\<open>ModeManagement\<close> of \<^verbatim>\<open>ModeManagement.{hpp,cpp}\<close>: external
  components register navigation modes, which may replace an internal mode, and mode executors,
  which may take charge of the vehicle.

  The C strings of fixed size are lists of characters without the terminator. The parameters
  \<^verbatim>\<open>COM_MODE0_HASH\<close> to \<^verbatim>\<open>COM_MODE7_HASH\<close> are a list of optional values; \<open>None\<close> is a parameter that is
  not found or not read. Messages waiting in the queue of a subscription are lists, published
  messages are results, without their timestamps. Console messages are left out.
\<close>

section \<open>Messages\<close>

record config_overrides_s =
  co_timestamp :: hrt_abstime
  co_disable_auto_disarm :: bool
  co_defer_failsafes :: bool
  co_defer_failsafes_timeout_s :: int
  co_disable_auto_set_home :: bool
  co_source_type :: int
  co_source_id :: u8

definition config_overrides_zero :: config_overrides_s where
  "config_overrides_zero =
     \<lparr>co_timestamp = 0, co_disable_auto_disarm = False, co_defer_failsafes = False,
      co_defer_failsafes_timeout_s = 0, co_disable_auto_set_home = False, co_source_type = 0,
      co_source_id = 0\<rparr>"

abbreviation SOURCE_TYPE_MODE :: int where "SOURCE_TYPE_MODE \<equiv> 0"
abbreviation SOURCE_TYPE_MODE_EXECUTOR :: int where "SOURCE_TYPE_MODE_EXECUTOR \<equiv> 1"
abbreviation config_overrides_ORB_QUEUE_LENGTH :: nat where
  "config_overrides_ORB_QUEUE_LENGTH \<equiv> 4"

record register_ext_component_request_s =
  rq_request_id :: u64
  rq_name :: string
  rq_register_arming_check :: bool
  rq_register_mode :: bool
  rq_register_mode_executor :: bool
  rq_enable_replace_internal_mode :: bool
  rq_replace_internal_mode :: u8
  rq_activate_mode_immediately :: bool
  rq_not_user_selectable :: bool
  rq_request_offboard_setpoints :: bool

abbreviation LATEST_PX4_ROS2_API_VERSION :: u16 where "LATEST_PX4_ROS2_API_VERSION \<equiv> 2"

record register_ext_component_reply_s =
  ry_request_id :: u64
  ry_name :: string
  ry_px4_ros2_api_version :: u16
  ry_success :: bool
  ry_arming_check_id :: int
  ry_mode_id :: int
  ry_mode_executor_id :: int
  ry_not_user_selectable :: bool

record unregister_ext_component_s =
  un_name :: string
  un_arming_check_id :: int
  un_mode_id :: int
  un_mode_executor_id :: int

record setpoint_config_s =
  sc_type :: u16
  sc_source_id :: u8
  sc_should_apply :: bool

record setpoint_config_reply_s =
  sr_type :: u16
  sr_source_id :: u8
  sr_result :: SetpointTypeResult
  sr_mode_req_angular_velocity :: bool
  sr_mode_req_attitude :: bool
  sr_mode_req_local_alt :: bool
  sr_mode_req_local_position :: bool

text \<open>
  The cast of a message's setpoint type. For a value that is not an enumerator, \<^verbatim>\<open>isSetpointTypeValid\<close>
  leaves its switch and answers as for \<^verbatim>\<open>Invalid\<close>.
\<close>

definition setpoint_type_of :: "u16 \<Rightarrow> SetpointType" where
  "setpoint_type_of t =
    (let types = [SP_Invalid, SP_DirectActuators, SP_Goto, SP_FixedwingLateralLongitudinal,
           SP_Trajectory, SP_Rates, SP_Attitude, SP_RoverPosition, SP_RoverSpeedAttitude,
           SP_RoverSpeedRate, SP_RoverSpeedSteering, SP_RoverThrottleAttitude,
           SP_RoverThrottleRate, SP_RoverThrottleSteering, SP_Trajectory_6dof,
           SP_ThrustAndTorque, SP_PositionTriplet]
     in if unat t < length types then types ! unat t else SP_Invalid)"

section \<open>Mode executors\<close>

record ModeExecutor =
  me_overrides :: config_overrides_s
  me_owned_nav_state :: u8
  me_valid :: bool

definition ModeExecutor_init :: ModeExecutor where
  "ModeExecutor_init =
     \<lparr>me_overrides = config_overrides_zero, me_owned_nav_state = 0, me_valid = False\<rparr>"

abbreviation AUTOPILOT_EXECUTOR_ID :: int where "AUTOPILOT_EXECUTOR_ID \<equiv> 0"
abbreviation FIRST_EXECUTOR_ID :: int where "FIRST_EXECUTOR_ID \<equiv> 1"
abbreviation ModeExecutors_MAX_NUM :: nat where "ModeExecutors_MAX_NUM \<equiv> 5"

type_synonym ModeExecutors = "ModeExecutor list"

definition executor :: "int \<Rightarrow> ModeExecutors \<Rightarrow> ModeExecutor" where
  "executor i es = es ! nat (i - FIRST_EXECUTOR_ID)"

definition executor_valid :: "int \<Rightarrow> ModeExecutors \<Rightarrow> bool" where
  "executor_valid i es \<longleftrightarrow>
     i \<ge> FIRST_EXECUTOR_ID \<and> i < FIRST_EXECUTOR_ID + int ModeExecutors_MAX_NUM \<and> me_valid (executor i es)"

definition map_executor :: "int \<Rightarrow> (ModeExecutor \<Rightarrow> ModeExecutor) \<Rightarrow> ModeExecutors \<Rightarrow> ModeExecutors" where
  "map_executor i f es = es[nat (i - FIRST_EXECUTOR_ID) := f (executor i es)]"

definition hasFreeExecutors :: "ModeExecutors \<Rightarrow> bool" where
  "hasFreeExecutors es \<longleftrightarrow> list_ex (\<lambda>i. \<not> me_valid (es ! i)) [0..<ModeExecutors_MAX_NUM]"

definition addExecutor :: "ModeExecutor \<Rightarrow> ModeExecutors \<Rightarrow> int \<times> ModeExecutors" where
  "addExecutor e es =
    (case filter (\<lambda>i. \<not> me_valid (es ! i)) [0..<ModeExecutors_MAX_NUM] of
       i # _ \<Rightarrow> (int i + FIRST_EXECUTOR_ID, es[i := e\<lparr>me_valid := True\<rparr>])
     | [] \<Rightarrow> (-1, es))"

definition removeExecutor :: "int \<Rightarrow> ModeExecutors \<Rightarrow> ModeExecutors" where
  "removeExecutor i es =
     (if executor_valid i es then map_executor i (\<lambda>e. e\<lparr>me_valid := False\<rparr>) es else es)"

section \<open>External modes\<close>

abbreviation REPLACES_NAV_STATE_NONE :: u8 where "REPLACES_NAV_STATE_NONE \<equiv> 0xff"
abbreviation kDefaultSetpointType :: SetpointType where "kDefaultSetpointType \<equiv> SP_Trajectory"

record Mode =
  md_name :: string
  md_valid :: bool
  md_replaces_nav_state :: u8
  md_unresponsive_reported :: bool
  md_arming_check_registration_id :: int
  md_mode_executor_registration_id :: int
  md_request_offboard_setpoints :: bool
  md_overrides :: config_overrides_s
  md_current_setpoint_type :: SetpointType

definition Mode_init :: Mode where
  "Mode_init =
     \<lparr>md_name = [], md_valid = False, md_replaces_nav_state = REPLACES_NAV_STATE_NONE,
      md_unresponsive_reported = False, md_arming_check_registration_id = -1,
      md_mode_executor_registration_id = -1, md_request_offboard_setpoints = False,
      md_overrides = config_overrides_zero, md_current_setpoint_type = kDefaultSetpointType\<rparr>"

abbreviation FIRST_EXTERNAL_NAV_STATE :: u8 where
  "FIRST_EXTERNAL_NAV_STATE \<equiv> NAVIGATION_STATE_EXTERNAL1"
abbreviation LAST_EXTERNAL_NAV_STATE :: u8 where
  "LAST_EXTERNAL_NAV_STATE \<equiv> NAVIGATION_STATE_EXTERNAL8"
abbreviation Modes_MAX_NUM :: nat where "Modes_MAX_NUM \<equiv> 8"

type_synonym Modes = "Mode list"
type_synonym mode_hashes = "u32 option list"

definition mode_at :: "u8 \<Rightarrow> Modes \<Rightarrow> Mode" where
  "mode_at nav_state ms = ms ! unat (nav_state - FIRST_EXTERNAL_NAV_STATE)"

definition mode_valid :: "u8 \<Rightarrow> Modes \<Rightarrow> bool" where
  "mode_valid nav_state ms \<longleftrightarrow>
     nav_state \<ge> FIRST_EXTERNAL_NAV_STATE \<and> nav_state \<le> LAST_EXTERNAL_NAV_STATE \<and>
     md_valid (mode_at nav_state ms)"

text \<open>An update through a reference to a mode; outside of the array it has no effect.\<close>

definition map_mode :: "u8 \<Rightarrow> (Mode \<Rightarrow> Mode) \<Rightarrow> Modes \<Rightarrow> Modes" where
  "map_mode nav_state f ms =
     ms[unat (nav_state - FIRST_EXTERNAL_NAV_STATE) := f (mode_at nav_state ms)]"

text \<open>The loops from \<^verbatim>\<open>FIRST_EXTERNAL_NAV_STATE\<close> to \<^verbatim>\<open>LAST_EXTERNAL_NAV_STATE\<close>.\<close>

abbreviation external_navs :: "u8 list" where
  "external_navs \<equiv> map of_nat [23..<31]"

definition hasFreeExternalModes :: "Modes \<Rightarrow> bool" where
  "hasFreeExternalModes ms \<longleftrightarrow> list_ex (\<lambda>i. \<not> md_valid (ms ! i)) [0..<Modes_MAX_NUM]"

definition mode_name_hash :: "string \<Rightarrow> u32" where
  "mode_name_hash name =
    (let h = hash_32_fnv1a_const name val_32_const in if h = 0 then 1 else h)"

text \<open>The loop over the parameters: the first unused, the last matching and the first invalid index.\<close>

definition first_unused_idx :: "mode_hashes \<Rightarrow> Modes \<Rightarrow> nat option" where
  "first_unused_idx hs ms = List.find (\<lambda>i. \<not> md_valid (ms ! i) \<and> hs ! i = Some 0) [0..<Modes_MAX_NUM]"

definition matching_idx :: "u32 \<Rightarrow> mode_hashes \<Rightarrow> nat option" where
  "matching_idx h hs =
     fold (\<lambda>i found. if hs ! i = Some h then Some i else found) [0..<Modes_MAX_NUM] None"

definition first_invalid_idx :: "mode_hashes \<Rightarrow> Modes \<Rightarrow> nat option" where
  "first_invalid_idx hs ms =
     List.find (\<lambda>i. \<not> md_valid (ms ! i) \<and> hs ! i \<noteq> None) [0..<Modes_MAX_NUM]"

text \<open>The index for a new mode, and the hash to be stored there, if any.\<close>

definition new_mode_idx :: "u32 \<Rightarrow> mode_hashes \<Rightarrow> Modes \<Rightarrow> nat option \<times> u32 option" where
  "new_mode_idx h hs ms =
    (case matching_idx h hs of
       Some i \<Rightarrow>
         if md_valid (ms ! i)
         then (case first_unused_idx hs ms of
                 Some j \<Rightarrow> (Some j, None)
               | None \<Rightarrow> (first_invalid_idx hs ms, Some 0))
         else (Some i, None)
     | None \<Rightarrow>
        (case first_unused_idx hs ms of
           Some j \<Rightarrow> (Some j, Some h)
         | None \<Rightarrow> (first_invalid_idx hs ms, Some h)))"

definition addExternalMode ::
  "Mode \<Rightarrow> mode_hashes \<times> Modes \<Rightarrow> u8 \<times> mode_hashes \<times> Modes" where
  "addExternalMode mode = (\<lambda>(hs, ms).
    (case new_mode_idx (mode_name_hash (md_name mode)) hs ms of
       (Some i, update_param) \<Rightarrow>
         if \<not> md_valid (ms ! i)
         then (of_nat i + FIRST_EXTERNAL_NAV_STATE,
               (case update_param of
                  None \<Rightarrow> hs
                | Some h \<Rightarrow> if hs ! i \<noteq> None then hs[i := Some h] else hs),
               ms[i := mode\<lparr>md_valid := True\<rparr>])
         else (-1, hs, ms)
     | (None, _) \<Rightarrow> (-1, hs, ms)))"

definition removeExternalMode :: "u8 \<Rightarrow> string \<Rightarrow> Modes \<Rightarrow> bool \<times> Modes" where
  "removeExternalMode nav_state name ms =
     (if mode_valid nav_state ms \<and> name = md_name (mode_at nav_state ms)
      then (True, map_mode nav_state (\<lambda>m. m\<lparr>md_valid := False\<rparr>) ms)
      else (False, ms))"

section \<open>Mode management\<close>

datatype ModeChangeSource = MCS_User | MCS_ModeExecutor

record ModeManagement =
  mm_external_checks :: ExternalChecks
  mm_mode_executors :: ModeExecutors
  mm_modes :: Modes
  mm_failsafe_action_active :: bool
  mm_mode_executor_in_charge :: int
  mm_invalid_mode_printed :: bool
  mm_last_served_nav_state :: u8
  mm_mode_hashes :: mode_hashes

definition ModeManagement_init :: "ExternalChecks \<Rightarrow> mode_hashes \<Rightarrow> ModeManagement" where
  "ModeManagement_init external_checks hs =
     \<lparr>mm_external_checks =
        setExternalNavStates FIRST_EXTERNAL_NAV_STATE LAST_EXTERNAL_NAV_STATE external_checks,
      mm_mode_executors = replicate ModeExecutors_MAX_NUM ModeExecutor_init,
      mm_modes = replicate Modes_MAX_NUM Mode_init, mm_failsafe_action_active = False,
      mm_mode_executor_in_charge = AUTOPILOT_EXECUTOR_ID, mm_invalid_mode_printed = False,
      mm_last_served_nav_state = 0xff, mm_mode_hashes = hs\<rparr>"

record UpdateRequest =
  ur_change_user_intended_nav_state :: bool
  ur_user_intended_nav_state :: u8
  ur_control_setpoint_update :: bool

definition UpdateRequest_init :: UpdateRequest where
  "UpdateRequest_init =
     \<lparr>ur_change_user_intended_nav_state = False, ur_user_intended_nav_state = 0,
      ur_control_setpoint_update = False\<rparr>"

definition setFailsafeState :: "bool \<Rightarrow> ModeManagement \<Rightarrow> ModeManagement" where
  "setFailsafeState failsafe_action_active s = s\<lparr>mm_failsafe_action_active := failsafe_action_active\<rparr>"

definition modeExecutorInCharge :: "ModeManagement \<Rightarrow> int" where
  "modeExecutorInCharge s =
     (if mm_failsafe_action_active s then AUTOPILOT_EXECUTOR_ID else mm_mode_executor_in_charge s)"

definition removeModeExecutor :: "int \<Rightarrow> ModeManagement \<Rightarrow> ModeManagement" where
  "removeModeExecutor mode_executor_id s =
    (if mode_executor_id = -1 then s
     else
       (let s = (if mm_mode_executor_in_charge s = mode_executor_id
                 then s\<lparr>mm_mode_executor_in_charge := AUTOPILOT_EXECUTOR_ID\<rparr> else s)
        in s\<lparr>mm_mode_executors := removeExecutor mode_executor_id (mm_mode_executors s)\<rparr>))"

subsection \<open>Registrations\<close>

text \<open>
  \<^verbatim>\<open>request.name[sizeof(request.name) - 1] = '\0'\<close>: the string ends at the first terminator, or after
  24 characters.
\<close>

definition terminated :: "string \<Rightarrow> string" where
  "terminated name = takeWhile (\<lambda>c. c \<noteq> CHR 0x00) (take 24 name)"

definition request_valid :: "register_ext_component_request_s \<Rightarrow> bool" where
  "request_valid rq \<longleftrightarrow>
     (rq_register_mode_executor rq \<longrightarrow> rq_register_mode rq) \<and>
     (rq_register_mode rq \<longrightarrow> rq_register_arming_check rq)"

text \<open>Another mode already replaces the mode the request wants to replace.\<close>

definition already_replaced :: "u8 \<Rightarrow> Modes \<Rightarrow> bool" where
  "already_replaced nav ms \<longleftrightarrow>
     list_ex (\<lambda>i. mode_valid i ms \<and> md_replaces_nav_state (mode_at i ms) = nav) external_navs"

definition registration_possible ::
  "register_ext_component_request_s \<Rightarrow> ModeManagement \<Rightarrow> bool" where
  "registration_possible rq s \<longleftrightarrow>
     \<not> (rq_register_arming_check rq \<and> \<not> hasFreeRegistrations (mm_external_checks s)) \<and>
     (rq_register_mode rq \<longrightarrow>
        hasFreeExternalModes (mm_modes s) \<and>
        \<not> (rq_enable_replace_internal_mode rq \<and>
           already_replaced (rq_replace_internal_mode rq) (mm_modes s))) \<and>
     \<not> (rq_register_mode_executor rq \<and> \<not> hasFreeExecutors (mm_mode_executors s))"

definition new_mode :: "register_ext_component_request_s \<Rightarrow> Mode" where
  "new_mode rq =
     Mode_init\<lparr>md_name := terminated (rq_name rq),
               md_replaces_nav_state :=
                 (if rq_enable_replace_internal_mode rq then rq_replace_internal_mode rq
                  else REPLACES_NAV_STATE_NONE),
               md_request_offboard_setpoints := rq_request_offboard_setpoints rq\<rparr>"

text \<open>
  The three parts of a registration. The mode identifier is an \<^verbatim>\<open>int\<close>; it is -1 unless a mode has
  been registered.
\<close>

definition register_mode ::
  "register_ext_component_request_s \<Rightarrow> ModeManagement \<Rightarrow> int \<times> ModeManagement" where
  "register_mode rq s =
    (if rq_register_mode rq
     then let (nav, hs, ms) = addExternalMode (new_mode rq) (mm_mode_hashes s, mm_modes s)
          in (uint nav, s\<lparr>mm_mode_hashes := hs, mm_modes := ms\<rparr>)
     else (-1, s))"

definition register_executor ::
  "register_ext_component_request_s \<Rightarrow> int \<Rightarrow> ModeManagement \<Rightarrow> int \<times> ModeManagement" where
  "register_executor rq nav_mode_id s =
    (if rq_register_mode_executor rq
     then let (i, es) = addExecutor
                (ModeExecutor_init\<lparr>me_owned_nav_state := word_of_int nav_mode_id\<rparr>)
                (mm_mode_executors s);
              s = s\<lparr>mm_mode_executors := es\<rparr>
          in (i, if nav_mode_id \<noteq> -1
                 then s\<lparr>mm_modes := map_mode (word_of_int nav_mode_id)
                          (\<lambda>m. m\<lparr>md_mode_executor_registration_id := i\<rparr>) (mm_modes s)\<rparr>
                 else s)
     else (-1, s))"

text \<open>The mode to be replaced is passed on as a signed 8-bit value.\<close>

definition register_arming_check ::
  "register_ext_component_request_s \<Rightarrow> int \<Rightarrow> ModeManagement \<Rightarrow> int \<times> ModeManagement" where
  "register_arming_check rq nav_mode_id s =
    (if rq_register_arming_check rq
     then let replaces = (if rq_enable_replace_internal_mode rq
                          then sint (rq_replace_internal_mode rq) else -1);
              (i, ec) = addRegistration (sint (word_of_int nav_mode_id :: u8)) replaces
                (mm_external_checks s);
              s = s\<lparr>mm_external_checks := ec\<rparr>
          in (i, if nav_mode_id \<noteq> -1
                 then s\<lparr>mm_modes := map_mode (word_of_int nav_mode_id)
                          (\<lambda>m. m\<lparr>md_arming_check_registration_id := i\<rparr>) (mm_modes s)\<rparr>
                 else s)
     else (-1, s))"

definition activates :: "register_ext_component_request_s \<Rightarrow> int \<Rightarrow> bool" where
  "activates rq nav_mode_id \<longleftrightarrow>
     rq_register_mode_executor rq \<and> rq_activate_mode_immediately rq \<and> nav_mode_id \<noteq> -1"

definition refusal :: "register_ext_component_request_s \<Rightarrow> register_ext_component_reply_s" where
  "refusal rq =
     \<lparr>ry_request_id = rq_request_id rq, ry_name = terminated (rq_name rq),
      ry_px4_ros2_api_version = LATEST_PX4_ROS2_API_VERSION, ry_success = False,
      ry_arming_check_id = -1, ry_mode_id = -1, ry_mode_executor_id = -1,
      ry_not_user_selectable = rq_not_user_selectable rq\<rparr>"

text \<open>The body of the loop in \<^verbatim>\<open>checkNewRegistrations\<close>.\<close>

definition handle_registration ::
  "register_ext_component_request_s \<Rightarrow> UpdateRequest \<times> ModeManagement \<Rightarrow>
   register_ext_component_reply_s \<times> UpdateRequest \<times> ModeManagement" where
  "handle_registration rq = (\<lambda>(ur, s).
    (if request_valid rq \<and> registration_possible rq s
     then
       (let (nav_mode_id, s) = register_mode rq s;
            (mode_executor_id, s) = register_executor rq nav_mode_id s;
            (arming_check_id, s) = register_arming_check rq nav_mode_id s
        in ((refusal rq)\<lparr>ry_success := True, ry_arming_check_id := arming_check_id,
              ry_mode_id := sint (word_of_int nav_mode_id :: u8),
              ry_mode_executor_id := mode_executor_id\<rparr>,
            if activates rq nav_mode_id
            then ur\<lparr>ur_change_user_intended_nav_state := True,
                    ur_user_intended_nav_state := word_of_int nav_mode_id\<rparr>
            else ur,
            s))
     else (refusal rq, ur, s)))"

text \<open>
  The loops read a message before they test their counter; the message read when the counter has
  run out is dropped.
\<close>

fun checkNewRegistrations ::
  "nat \<Rightarrow> register_ext_component_request_s list \<Rightarrow> UpdateRequest \<times> ModeManagement \<Rightarrow>
   register_ext_component_reply_s list \<times> UpdateRequest \<times> ModeManagement" where
  "checkNewRegistrations n [] x = ([], x)"
| "checkNewRegistrations 0 (rq # rqs) x = ([], x)"
| "checkNewRegistrations (Suc n) (rq # rqs) x =
    (if ur_change_user_intended_nav_state (fst x) then ([], x)
     else let (reply, x) = handle_registration rq x;
              (replies, x) = checkNewRegistrations n rqs x
          in (reply # replies, x))"

text \<open>The body of the loop in \<^verbatim>\<open>checkUnregistrations\<close>; identifiers are signed 8-bit values.\<close>

definition handle_unregistration ::
  "u8 \<Rightarrow> unregister_ext_component_s \<Rightarrow> UpdateRequest \<times> ModeManagement \<Rightarrow>
   UpdateRequest \<times> ModeManagement" where
  "handle_unregistration user_intended_nav_state un = (\<lambda>(ur, s).
    (let s = (if un_arming_check_id un \<noteq> -1
              then s\<lparr>mm_external_checks := snd (removeRegistration (un_arming_check_id un)
                       (un_mode_id un) (mm_external_checks s))\<rparr>
              else s)
     in if un_mode_id un = -1 then (ur, s)
        else
          (let (removed, ms) = removeExternalMode (word_of_int (un_mode_id un))
                 (terminated (un_name un)) (mm_modes s);
               s = s\<lparr>mm_modes := ms\<rparr>;
               s = (if removed then removeModeExecutor (un_mode_executor_id un) s else s)
           in (if uint user_intended_nav_state = un_mode_id un
               then ur\<lparr>ur_change_user_intended_nav_state := True,
                       ur_user_intended_nav_state := NAVIGATION_STATE_AUTO_LOITER\<rparr>
               else ur,
               s))))"

fun checkUnregistrations ::
  "nat \<Rightarrow> u8 \<Rightarrow> unregister_ext_component_s list \<Rightarrow> UpdateRequest \<times> ModeManagement \<Rightarrow>
   UpdateRequest \<times> ModeManagement" where
  "checkUnregistrations n nav [] x = x"
| "checkUnregistrations 0 nav (un # uns) x = x"
| "checkUnregistrations (Suc n) nav (un # uns) x =
    (if ur_change_user_intended_nav_state (fst x) then x
     else checkUnregistrations n nav uns (handle_unregistration nav un x))"

text \<open>The body of the loop over the modes that removes unresponsive ones.\<close>

definition remove_unresponsive :: "u8 \<Rightarrow> u8 \<Rightarrow> ModeManagement \<Rightarrow> ModeManagement" where
  "remove_unresponsive user_intended_nav_state i s =
    (let mode = mode_at i (mm_modes s) in
     if mode_valid i (mm_modes s) \<and> user_intended_nav_state \<noteq> i \<and>
        isUnresponsive (md_arming_check_registration_id mode) (mm_external_checks s)
     then
       (let s = s\<lparr>mm_external_checks := snd (removeRegistration
                    (md_arming_check_registration_id mode) (uint i) (mm_external_checks s))\<rparr>;
            s = removeModeExecutor (md_mode_executor_registration_id mode) s
        in s\<lparr>mm_modes := snd (removeExternalMode i (md_name mode) (mm_modes s))\<rparr>)
     else s)"

subsection \<open>Setpoint types and overrides\<close>

definition handle_setpoint_config ::
  "u8 \<Rightarrow> setpoint_config_s \<Rightarrow> ModeManagement \<Rightarrow> setpoint_config_reply_s \<times> bool \<times> ModeManagement"
where
  "handle_setpoint_config vehicle_type sc s =
    (let reply = \<lparr>sr_type = sc_type sc, sr_source_id = sc_source_id sc,
                  sr_result = SPR_FailureOther, sr_mode_req_angular_velocity = False,
                  sr_mode_req_attitude = False, sr_mode_req_local_alt = False,
                  sr_mode_req_local_position = False\<rparr>
     in if mode_valid (sc_source_id sc) (mm_modes s)
        then
          (let setpoint_type = setpoint_type_of (sc_type sc);
               reply = reply\<lparr>sr_result := isSetpointTypeValid setpoint_type vehicle_type\<rparr>
           in if sr_result reply = SPR_Success
              then
                (let cm = getControlMode setpoint_type vehicle_control_mode_zero
                 in (reply\<lparr>sr_mode_req_angular_velocity := flag_control_rates_enabled cm,
                       sr_mode_req_attitude := flag_control_attitude_enabled cm,
                       sr_mode_req_local_alt := (flag_control_altitude_enabled cm \<or>
                         flag_control_climb_rate_enabled cm),
                       sr_mode_req_local_position := (flag_control_position_enabled cm \<or>
                         flag_control_velocity_enabled cm)\<rparr>,
                     sc_should_apply sc,
                     if sc_should_apply sc
                     then s\<lparr>mm_modes := map_mode (sc_source_id sc)
                              (\<lambda>m. m\<lparr>md_current_setpoint_type := setpoint_type\<rparr>) (mm_modes s)\<rparr>
                     else s))
              else (reply, False, s))
        else (reply, False, s\<lparr>mm_invalid_mode_printed := True\<rparr>))"

fun checkConfigControlSetpointUpdates ::
  "nat \<Rightarrow> u8 \<Rightarrow> setpoint_config_s list \<Rightarrow> ModeManagement \<Rightarrow>
   setpoint_config_reply_s list \<times> bool \<times> ModeManagement" where
  "checkConfigControlSetpointUpdates n vehicle_type [] s = ([], False, s)"
| "checkConfigControlSetpointUpdates 0 vehicle_type (sc # scs) s = ([], False, s)"
| "checkConfigControlSetpointUpdates (Suc n) vehicle_type (sc # scs) s =
    (let (reply, had_update, s) = handle_setpoint_config vehicle_type sc s;
         (replies, had_update', s) = checkConfigControlSetpointUpdates n vehicle_type scs s
     in (reply # replies, had_update \<or> had_update', s))"

definition handle_override :: "config_overrides_s \<Rightarrow> ModeManagement \<Rightarrow> ModeManagement" where
  "handle_override co s =
    (if co_source_type co = SOURCE_TYPE_MODE_EXECUTOR
     then if executor_valid (uint (co_source_id co)) (mm_mode_executors s)
          then s\<lparr>mm_mode_executors := map_executor (uint (co_source_id co))
                   (\<lambda>e. e\<lparr>me_overrides := co\<rparr>) (mm_mode_executors s)\<rparr>
          else s
     else if co_source_type co = SOURCE_TYPE_MODE
     then if mode_valid (co_source_id co) (mm_modes s)
          then s\<lparr>mm_modes := map_mode (co_source_id co) (\<lambda>m. m\<lparr>md_overrides := co\<rparr>) (mm_modes s)\<rparr>
          else s
     else s)"

text \<open>Every request that is handled is confirmed with a copy.\<close>

fun checkConfigOverrides ::
  "nat \<Rightarrow> config_overrides_s list \<Rightarrow> ModeManagement \<Rightarrow> config_overrides_s list \<times> ModeManagement"
where
  "checkConfigOverrides n [] s = ([], s)"
| "checkConfigOverrides 0 (co # cos) s = ([], s)"
| "checkConfigOverrides (Suc n) (co # cos) s =
    (let (confirmed, s) = checkConfigOverrides n cos (handle_override co s) in (co # confirmed, s))"

subsection \<open>The update\<close>

text \<open>The messages waiting when the update runs, and the times it reads.\<close>

record mm_input =
  mi_now :: hrt_abstime
  mi_request_time :: hrt_abstime
  mi_check_replies :: "arming_check_reply_s list"
  mi_registrations :: "register_ext_component_request_s list"
  mi_unregistrations :: "unregister_ext_component_s list"
  mi_setpoint_configs :: "setpoint_config_s list"
  mi_override_requests :: "config_overrides_s list"

record mm_output =
  mo_check_request :: "arming_check_request_s option"
  mo_registration_replies :: "register_ext_component_reply_s list"
  mo_setpoint_replies :: "setpoint_config_reply_s list"
  mo_confirmed_overrides :: "config_overrides_s list"

text \<open>
  The reply to a registration request while armed. Its identifiers keep the value 0 of the
  initialised message.
\<close>

definition armed_refusal :: "register_ext_component_request_s \<Rightarrow> register_ext_component_reply_s" where
  "armed_refusal rq =
     \<lparr>ry_request_id = rq_request_id rq, ry_name = takeWhile (\<lambda>c. c \<noteq> CHR 0x00) (rq_name rq),
      ry_px4_ros2_api_version = LATEST_PX4_ROS2_API_VERSION, ry_success = False,
      ry_arming_check_id = 0, ry_mode_id = 0, ry_mode_executor_id = 0,
      ry_not_user_selectable = False\<rparr>"

definition ModeManagement_update ::
  "u8 \<Rightarrow> bool \<Rightarrow> u8 \<Rightarrow> mm_input \<Rightarrow> UpdateRequest \<Rightarrow> ModeManagement \<Rightarrow>
   mm_output \<times> UpdateRequest \<times> ModeManagement" where
  "ModeManagement_update vehicle_type armed user_intended_nav_state inp ur s =
    (let (check_request, ec, _) = ExternalChecks_update (mi_now inp) (mi_request_time inp)
           (mi_check_replies inp) (mm_external_checks s);
         s = s\<lparr>mm_external_checks := ec\<rparr>;
         (replies, ur, s) =
           (if armed \<and> \<not> allowUpdateWhileArmed ec
            then (map armed_refusal (take 1 (mi_registrations inp)), ur, s)
            else
              (let s = fold (remove_unresponsive user_intended_nav_state) external_navs s;
                   (replies, x) = checkNewRegistrations 5 (mi_registrations inp) (ur, s)
               in (replies,
                   checkUnregistrations 5 user_intended_nav_state (mi_unregistrations inp) x)));
         (setpoint_replies, control_setpoint_update, s) =
           checkConfigControlSetpointUpdates 5 vehicle_type (mi_setpoint_configs inp) s;
         (confirmed, s) =
           checkConfigOverrides config_overrides_ORB_QUEUE_LENGTH (mi_override_requests inp) s
     in (\<lparr>mo_check_request = check_request, mo_registration_replies = replies,
          mo_setpoint_replies = setpoint_replies, mo_confirmed_overrides = confirmed\<rparr>,
         ur\<lparr>ur_control_setpoint_update := control_setpoint_update\<rparr>, s))"

subsection \<open>Mode changes and queries\<close>

definition onUserIntendedNavStateChange ::
  "ModeChangeSource \<Rightarrow> u8 \<Rightarrow> ModeManagement \<Rightarrow> ModeManagement" where
  "onUserIntendedNavStateChange source user_intended_nav_state s =
    (let mode_executor = (if mode_valid user_intended_nav_state (mm_modes s)
           then md_mode_executor_registration_id (mode_at user_intended_nav_state (mm_modes s))
           else -1)
     in if mode_executor = -1
        then if source = MCS_User
             then s\<lparr>mm_mode_executor_in_charge := AUTOPILOT_EXECUTOR_ID\<rparr> else s
        else s\<lparr>mm_mode_executor_in_charge := mode_executor\<rparr>)"

text \<open>
  The first valid mode that replaces \<open>nav_state\<close> decides. The third component tells whether the event
  about the fallback to the internal mode is sent.
\<close>

definition getNavStateReplacementIfValid ::
  "u8 \<Rightarrow> bool \<Rightarrow> ModeManagement \<Rightarrow> u8 \<times> ModeManagement \<times> bool" where
  "getNavStateReplacementIfValid nav_state report_error s =
    (case List.find (\<lambda>i. mode_valid i (mm_modes s) \<and>
            md_replaces_nav_state (mode_at i (mm_modes s)) = nav_state) external_navs of
       None \<Rightarrow> (nav_state, s, False)
     | Some i \<Rightarrow>
        (let mode = mode_at i (mm_modes s) in
         if isUnresponsive (md_arming_check_registration_id mode) (mm_external_checks s)
         then if \<not> md_unresponsive_reported mode \<and> report_error
              then (nav_state,
                    s\<lparr>mm_modes := map_mode i (\<lambda>m. m\<lparr>md_unresponsive_reported := True\<rparr>) (mm_modes s)\<rparr>,
                    True)
              else (nav_state, s, False)
         else (i, s, False)))"

definition getReplacedModeIfAny :: "u8 \<Rightarrow> ModeManagement \<Rightarrow> u8" where
  "getReplacedModeIfAny nav_state s =
    (if mode_valid nav_state (mm_modes s) \<and>
        md_replaces_nav_state (mode_at nav_state (mm_modes s)) \<noteq> REPLACES_NAV_STATE_NONE
     then md_replaces_nav_state (mode_at nav_state (mm_modes s))
     else nav_state)"

definition ModeManagement_onDisarm :: "u8 \<Rightarrow> ModeManagement \<Rightarrow> u8 \<times> ModeManagement" where
  "ModeManagement_onDisarm stored_nav_state s =
    (let nav = (if executor_valid (mm_mode_executor_in_charge s) (mm_mode_executors s)
           then me_owned_nav_state (executor (mm_mode_executor_in_charge s) (mm_mode_executors s))
           else stored_nav_state);
         nav = (if mode_valid nav (mm_modes s) \<and>
                   isUnresponsive (md_arming_check_registration_id (mode_at nav (mm_modes s)))
                     (mm_external_checks s)
                then NAVIGATION_STATE_AUTO_LOITER else nav)
     in (nav, onUserIntendedNavStateChange MCS_User nav s))"

definition getNavStateDisplay :: "u8 \<Rightarrow> ModeManagement \<Rightarrow> u8" where
  "getNavStateDisplay nav_state s =
    (if executor_valid (modeExecutorInCharge s) (mm_mode_executors s)
     then me_owned_nav_state (executor (modeExecutorInCharge s) (mm_mode_executors s))
     else nav_state)"

definition getSetpointType :: "u8 \<Rightarrow> ModeManagement \<Rightarrow> SetpointType \<times> ModeManagement" where
  "getSetpointType nav_state s =
    (let last = mm_last_served_nav_state s;
         s = (if nav_state \<noteq> last
              then (if mode_valid last (mm_modes s)
                    then s\<lparr>mm_modes := map_mode last
                             (\<lambda>m. m\<lparr>md_current_setpoint_type := kDefaultSetpointType\<rparr>) (mm_modes s)\<rparr>
                    else s)\<lparr>mm_last_served_nav_state := nav_state\<rparr>
              else s)
     in (if mode_valid nav_state (mm_modes s)
         then md_current_setpoint_type (mode_at nav_state (mm_modes s))
         else kDefaultSetpointType, s))"

text \<open>The overrides of the mode, with those of the executor in charge on top.\<close>

definition active_overrides :: "u8 \<Rightarrow> ModeManagement \<Rightarrow> config_overrides_s" where
  "active_overrides nav_state s =
    (let co = (if mode_valid nav_state (mm_modes s) then md_overrides (mode_at nav_state (mm_modes s))
               else config_overrides_zero);
         i = modeExecutorInCharge s
     in if executor_valid i (mm_mode_executors s)
        then
          (let ex = me_overrides (executor i (mm_mode_executors s));
               co = (if co_disable_auto_disarm ex then co\<lparr>co_disable_auto_disarm := True\<rparr> else co);
               co = (if co_disable_auto_set_home ex then co\<lparr>co_disable_auto_set_home := True\<rparr> else co)
           in if co_defer_failsafes ex
              then co\<lparr>co_defer_failsafes := True,
                      co_defer_failsafes_timeout_s := co_defer_failsafes_timeout_s ex\<rparr>
              else co)
        else co)"

text \<open>The result is the new value of the caller's overrides, and whether it is published.\<close>

definition updateActiveConfigOverrides ::
  "hrt_abstime \<Rightarrow> u8 \<Rightarrow> config_overrides_s \<Rightarrow> ModeManagement \<Rightarrow> config_overrides_s \<times> bool" where
  "updateActiveConfigOverrides now nav_state overrides s =
    (let co = (active_overrides nav_state s)\<lparr>co_timestamp := co_timestamp overrides\<rparr>
     in if overrides \<noteq> co \<or> hrt_elapsed_time now (co_timestamp co) > time_ms 500
        then (co\<lparr>co_timestamp := now\<rparr>, True)
        else (overrides, False))"

definition getValidNavStates :: u32 where
  "getValidNavStates =
     fold (\<lambda>m acc. acc OR bit_mask m)
       [NAVIGATION_STATE_MANUAL, NAVIGATION_STATE_ALTCTL, NAVIGATION_STATE_ALTITUDE_CRUISE,
        NAVIGATION_STATE_POSCTL, NAVIGATION_STATE_AUTO_MISSION, NAVIGATION_STATE_AUTO_LOITER,
        NAVIGATION_STATE_GUIDED_COURSE, NAVIGATION_STATE_AUTO_RTL, NAVIGATION_STATE_POSITION_SLOW,
        NAVIGATION_STATE_ACRO, NAVIGATION_STATE_TERMINATION, NAVIGATION_STATE_OFFBOARD,
        NAVIGATION_STATE_STAB, NAVIGATION_STATE_AUTO_TAKEOFF, NAVIGATION_STATE_AUTO_LAND,
        NAVIGATION_STATE_DESCEND, NAVIGATION_STATE_AUTO_FOLLOW_TARGET,
        NAVIGATION_STATE_AUTO_PRECLAND, NAVIGATION_STATE_ORBIT,
        NAVIGATION_STATE_AUTO_VTOL_TAKEOFF] 0"

text \<open>One step of the loop that adds the external modes to the two masks.\<close>

definition add_external_status :: "Modes \<Rightarrow> u8 \<Rightarrow> u32 \<times> u32 \<Rightarrow> u32 \<times> u32" where
  "add_external_status ms i = (\<lambda>(valid_mask, can_set_mask).
    (valid_mask OR bit_mask i,
     if mode_valid i ms
     then
       (let can_set_mask = can_set_mask OR bit_mask i;
            replaces = md_replaces_nav_state (mode_at i ms)
        in if replaces \<noteq> REPLACES_NAV_STATE_NONE then can_set_mask AND NOT (bit_mask replaces)
           else can_set_mask)
     else can_set_mask))"

definition getModeStatus :: "ModeManagement \<Rightarrow> u32 \<times> u32" where
  "getModeStatus s =
     fold (add_external_status (mm_modes s)) external_navs
       (getValidNavStates,
        getValidNavStates AND
          NOT (bit_mask NAVIGATION_STATE_TERMINATION OR bit_mask NAVIGATION_STATE_DESCEND))"

definition currentModeAcceptsOffboardSetpoints :: "u8 \<Rightarrow> ModeManagement \<Rightarrow> bool" where
  "currentModeAcceptsOffboardSetpoints nav_state s \<longleftrightarrow>
     nav_state = NAVIGATION_STATE_OFFBOARD \<or>
     mode_valid nav_state (mm_modes s) \<and>
     md_request_offboard_setpoints (mode_at nav_state (mm_modes s))"

end
