(* ===== verification/Mode_Invariant.thy ===== *)
theory Mode_Invariant
  imports Mode_Management External_Polling
begin

text \<open>
  The consistency of the mode management: every valid mode has its own registration with the
  external checks and, if it has an executor, an executor that owns it, and the other way round.
\<close>

named_theorems mode_slots \<open>modes and executors after an update of one slot\<close>

section \<open>Slots\<close>

definition external :: "u8 \<Rightarrow> bool" where
  "external nav \<longleftrightarrow> FIRST_EXTERNAL_NAV_STATE \<le> nav \<and> nav \<le> LAST_EXTERNAL_NAV_STATE"

lemma external_index:
  assumes "external nav"
  shows "unat (nav - FIRST_EXTERNAL_NAV_STATE) = unat nav - 23" and "unat nav \<ge> 23"
    and "unat nav < 31"
proof -
  have "23 \<le> nav" "nav \<le> 30" using assms by (simp_all add: external_def)
  then show "unat (nav - 23) = unat nav - 23" by (simp add: unat_sub)
  show "unat nav \<ge> 23" "unat nav < 31"
    using \<open>23 \<le> nav\<close> \<open>nav \<le> 30\<close> by (simp_all add: word_le_nat_alt)
qed

lemma mode_valid_external: "mode_valid nav ms \<Longrightarrow> external nav"
  by (simp add: mode_valid_def external_def)

lemma external_navs_iff: "nav \<in> set external_navs \<longleftrightarrow> external nav"
proof
  assume "nav \<in> set external_navs"
  then show "external nav" by (auto simp: external_def)
next
  assume "external nav"
  then have "unat nav \<in> {23..<31}" using external_index [of nav] by simp
  then have "of_nat (unat nav) \<in> set external_navs" unfolding set_map set_upt by (rule imageI)
  then show "nav \<in> set external_navs" by simp
qed

lemma mode_at_map_mode [mode_slots]:
  assumes "external i" and "external j" and "length ms = Modes_MAX_NUM"
  shows "mode_at j (map_mode i f ms) = (if j = i then f (mode_at i ms) else mode_at j ms)"
  using assms external_index [OF assms(1)] external_index [OF assms(2)]
  by (auto simp: mode_at_def map_mode_def nth_list_update word_unat_eq_iff)

lemma length_map_mode [simp]: "length (map_mode i f ms) = length ms"
  by (simp add: map_mode_def)

lemma mode_valid_map_mode [mode_slots]:
  assumes "external i" and "length ms = Modes_MAX_NUM"
  shows "mode_valid j (map_mode i f ms) \<longleftrightarrow>
    (if j = i then md_valid (f (mode_at i ms)) else mode_valid j ms)"
  using assms mode_at_map_mode [OF assms(1) _ assms(2)]
  by (auto simp: mode_valid_def external_def)

lemma length_map_executor [simp]: "length (map_executor i f es) = length es"
  by (simp add: map_executor_def)

lemma executor_map_executor [mode_slots]:
  assumes "1 \<le> i" and "i \<le> 5" and "1 \<le> j" and "length es = ModeExecutors_MAX_NUM"
  shows "executor j (map_executor i f es) = (if j = i then f (executor i es) else executor j es)"
  using assms by (auto simp: executor_def map_executor_def nth_list_update)

section \<open>Links\<close>

text \<open>
  The tables as partial maps: the registration, the executor and the replaced navigation state of a
  valid mode, and the mode a valid executor owns.
\<close>

definition mode_reg :: "Modes \<Rightarrow> u8 \<Rightarrow> int option" where
  "mode_reg ms i =
     (if mode_valid i ms then Some (md_arming_check_registration_id (mode_at i ms)) else None)"

definition mode_exec :: "Modes \<Rightarrow> u8 \<Rightarrow> int option" where
  "mode_exec ms i =
     (if mode_valid i ms \<and> md_mode_executor_registration_id (mode_at i ms) \<noteq> -1
      then Some (md_mode_executor_registration_id (mode_at i ms)) else None)"

definition mode_repl :: "Modes \<Rightarrow> u8 \<Rightarrow> u8 option" where
  "mode_repl ms i =
     (if mode_valid i ms \<and> md_replaces_nav_state (mode_at i ms) \<noteq> REPLACES_NAV_STATE_NONE
      then Some (md_replaces_nav_state (mode_at i ms)) else None)"

definition exec_owned :: "ModeExecutors \<Rightarrow> int \<Rightarrow> u8 option" where
  "exec_owned es k =
     (if executor_valid k es then Some (me_owned_nav_state (executor k es)) else None)"

lemmas link_defs = mode_reg_def mode_exec_def mode_repl_def exec_owned_def

text \<open>
  The invariant: registrations for modes and registrations of modes are inverse to each other, so
  are executors and owned modes, the executor in charge exists, and a navigation state is replaced
  by at most one mode.
\<close>

definition modes_registered :: "(int \<rightharpoonup> int) \<Rightarrow> (u8 \<rightharpoonup> int) \<Rightarrow> bool" where
  "modes_registered registered reg \<longleftrightarrow>
     (\<forall>k n. registered k = Some n \<longrightarrow> n = -1 \<or> n \<in> range (uint :: u8 \<Rightarrow> int)) \<and>
     (\<forall>k i. registered k = Some (uint i) \<longleftrightarrow> reg i = Some k)"

definition inverse_maps :: "('a \<rightharpoonup> 'b) \<Rightarrow> ('b \<rightharpoonup> 'a) \<Rightarrow> bool" where
  "inverse_maps f g \<longleftrightarrow> (\<forall>x y. f x = Some y \<longleftrightarrow> g y = Some x)"

definition injective_map :: "('a \<rightharpoonup> 'b) \<Rightarrow> bool" where
  "injective_map f \<longleftrightarrow> (\<forall>x y z. f x = Some z \<longrightarrow> f y = Some z \<longrightarrow> x = y)"

definition mm_sized :: "ModeManagement \<Rightarrow> bool" where
  "mm_sized s \<longleftrightarrow>
     ec_ok (mm_external_checks s) \<and> length (mm_modes s) = Modes_MAX_NUM \<and>
     length (mm_mode_executors s) = ModeExecutors_MAX_NUM \<and>
     length (mm_mode_hashes s) = Modes_MAX_NUM \<and> None \<notin> set (mm_mode_hashes s)"

definition mm_ok :: "ModeManagement \<Rightarrow> bool" where
  "mm_ok s \<longleftrightarrow>
     mm_sized s \<and>
     modes_registered (registered_modes (mm_external_checks s)) (mode_reg (mm_modes s)) \<and>
     inverse_maps (exec_owned (mm_mode_executors s)) (mode_exec (mm_modes s)) \<and>
     (mm_mode_executor_in_charge s = AUTOPILOT_EXECUTOR_ID \<or>
      exec_owned (mm_mode_executors s) (mm_mode_executor_in_charge s) \<noteq> None) \<and>
     injective_map (mode_repl (mm_modes s))"

lemma mm_ok_init:
  assumes "ec_ok ec" and "registered_modes ec = Map.empty" and "length hs = Modes_MAX_NUM"
    and "None \<notin> set hs"
  shows "mm_ok (ModeManagement_init ec hs)"
proof -
  have no_mode: "\<not> mode_valid i (replicate 8 Mode_init)" for i
    using external_index [of i] mode_valid_external [of i "replicate 8 Mode_init"]
    by (auto simp: mode_valid_def mode_at_def Mode_init_def external_def)
  have no_executor: "\<not> executor_valid k (replicate 5 ModeExecutor_init)" for k
    by (auto simp: executor_valid_def executor_def ModeExecutor_init_def)
  have "registered_modes (setExternalNavStates 23 30 ec) = registered_modes ec"
    by (auto simp: registered_modes_def fun_eq_iff setExternalNavStates_def registrationValid_def)
  moreover have "ec_ok (setExternalNavStates 23 30 ec)"
    using assms(1) by (simp add: setExternalNavStates_def ec_ok_def registrationValid_def)
  ultimately show ?thesis
    using assms no_mode no_executor
    by (simp add: mm_ok_def mm_sized_def modes_registered_def inverse_maps_def injective_map_def
        link_defs ModeManagement_init_def)
qed

text \<open>The tables after an update of one slot.\<close>

lemma mode_maps_map_mode:
  assumes "external i" and "length ms = Modes_MAX_NUM"
  shows "mode_reg (map_mode i f ms) = (mode_reg ms)(i := (let m = f (mode_at i ms) in
      if md_valid m then Some (md_arming_check_registration_id m) else None))"
    and "mode_exec (map_mode i f ms) = (mode_exec ms)(i := (let m = f (mode_at i ms) in
      if md_valid m \<and> md_mode_executor_registration_id m \<noteq> -1
      then Some (md_mode_executor_registration_id m) else None))"
    and "mode_repl (map_mode i f ms) = (mode_repl ms)(i := (let m = f (mode_at i ms) in
      if md_valid m \<and> md_replaces_nav_state m \<noteq> REPLACES_NAV_STATE_NONE
      then Some (md_replaces_nav_state m) else None))"
  using mode_at_map_mode [OF assms(1) _ assms(2), of _ f] mode_valid_map_mode [OF assms]
    mode_valid_external
  by (auto simp: fun_eq_iff link_defs Let_def assms(1) split: if_splits)

lemma exec_owned_map_executor:
  assumes "1 \<le> k" and "k \<le> 5" and "length es = ModeExecutors_MAX_NUM"
  shows "exec_owned (map_executor k f es) = (exec_owned es)(k :=
    (let e = f (executor k es) in if me_valid e then Some (me_owned_nav_state e) else None))"
  using executor_map_executor [OF assms(1,2) _ assms(3)] assms(1,2)
  by (auto simp: fun_eq_iff exec_owned_def executor_valid_def Let_def split: if_splits)

section \<open>Polling\<close>

text \<open>Polling only drops registrations that belong to no mode.\<close>

definition drops :: "ExternalChecks \<Rightarrow> ExternalChecks \<Rightarrow> bool" where
  "drops ec ec' \<longleftrightarrow>
     (\<forall>k. registered_modes ec' k = registered_modes ec k \<or>
          registered_modes ec k = Some (-1) \<and> registered_modes ec' k = None)"

lemma drops_refl: "drops ec ec"
  by (simp add: drops_def)

lemma drops_trans: "drops ec ec' \<Longrightarrow> drops ec' ec'' \<Longrightarrow> drops ec ec''"
  unfolding drops_def by (metis option.distinct(1))

lemma drops_same:
  assumes "ec_active_registrations_mask ec' = ec_active_registrations_mask ec"
    and "\<And>i. i < MAX_NUM_REGISTRATIONS \<Longrightarrow>
      rg_nav_mode_id (ec_registrations ec' ! i) = rg_nav_mode_id (ec_registrations ec ! i)"
  shows "drops ec ec'"
  using assms by (auto simp: drops_def registered_modes_def registrationValid_def)

lemma drops_map_registration:
  "length (ec_registrations ec) = MAX_NUM_REGISTRATIONS \<Longrightarrow>
   (\<And>g. rg_nav_mode_id (f g) = rg_nav_mode_id g) \<Longrightarrow> drops ec (map_registration i f ec)"
  by (rule drops_same) auto

lemma drops_handle_reply:
  "length (ec_registrations ec) = MAX_NUM_REGISTRATIONS \<Longrightarrow> drops ec (handle_reply now r ec)"
  by (rule drops_same) (auto simp: handle_reply_def Let_def)

lemma drops_receive:
  "length (ec_registrations ec) = MAX_NUM_REGISTRATIONS \<Longrightarrow>
   drops ec (fst (receive_replies n now rs ec))"
proof (induction n now rs ec rule: receive_replies.induct)
  case (3 n now r rs ec)
  then show ?case using drops_trans [OF drops_handle_reply [OF 3(2)]] by simp
qed (simp_all add: drops_refl)

lemma drops_remove:
  assumes "ec_ok ec"
  shows "drops ec (snd (removeRegistration k (-1) ec))"
  using registry.remove_only [OF assms, of k "-1"] by (auto simp: drops_def split: if_splits)

lemma drops_count_missing:
  assumes "ec_ok ec" and "i < MAX_NUM_REGISTRATIONS"
  shows "drops ec (count_missing_reply m i ec)"
proof -
  have len: "length (ec_registrations ec) = MAX_NUM_REGISTRATIONS" using assms by (simp add: ec_ok_def)
  let ?n = "\<lambda>g. g\<lparr>rg_num_no_response := rg_num_no_response (ec_registrations ec ! i) + 1\<rparr>"
  have ok: "ec_ok (map_registration i ?n ec)"
    using assms by (intro ec_ok_map_registration) (simp_all add: reply_stored_def)
  have step: "drops ec (map_registration i ?n ec)" using len by (rule drops_map_registration) simp
  note removed = drops_trans [OF step drops_remove [OF ok]]
  have marked: "drops ec (map_registration i f (map_registration i ?n ec))"
    if "\<And>g. rg_nav_mode_id (f g) = rg_nav_mode_id g" for f
    using drops_trans [OF step drops_map_registration] len that by simp
  show ?thesis
    unfolding count_missing_reply_def Let_def
    by (auto intro!: drops_refl step removed marked split del: if_split split: if_splits)
qed

lemma drops_fold_missing:
  "ec_ok ec \<Longrightarrow> set xs \<subseteq> {..<MAX_NUM_REGISTRATIONS} \<Longrightarrow>
   drops ec (fold (count_missing_reply m) xs ec)"
proof (induction xs arbitrary: ec)
  case (Cons x xs)
  then show ?case
    using drops_trans [OF drops_count_missing [of ec x m]] ec_ok_count_missing_reply [of ec x m]
    by simp
qed (simp add: drops_refl)

lemma drops_update:
  assumes "ec_ok ec"
  shows "drops ec (fst (snd (ExternalChecks_update now t rs ec)))"
proof (cases "ec_active_registrations_mask ec = 0")
  case True
  then show ?thesis by (simp add: ExternalChecks_update_def drops_refl)
next
  case False
  let ?r = "fst (receive_replies arming_check_reply_ORB_QUEUE_LENGTH now rs ec)"
  have r: "ec_ok ?r" using assms by (rule ec_ok_receive_replies)
  have "drops ec ?r" using assms by (intro drops_receive) (simp add: ec_ok_def)
  moreover have "drops ?r (check_timeout now ?r)"
  proof -
    have "drops ?r (?r\<lparr>ec_had_timeout := True\<rparr>)" by (rule drops_same) simp_all
    moreover have "drops (?r\<lparr>ec_had_timeout := True\<rparr>)
        (fold (count_missing_reply m) [0..<MAX_NUM_REGISTRATIONS] (?r\<lparr>ec_had_timeout := True\<rparr>))" for m
      using r by (intro drops_fold_missing) auto
    ultimately show ?thesis
      unfolding check_timeout_def Let_def by (auto intro: drops_refl drops_trans)
  qed
  moreover have "drops c (snd (start_request now t c))" for c by (rule drops_same) simp_all
  ultimately show ?thesis unfolding update_state [OF False] by (meson drops_trans)
qed

lemma modes_registered_drops:
  assumes "modes_registered (registered_modes ec) reg" and "drops ec ec'"
  shows "modes_registered (registered_modes ec') reg"
proof -
  have "registered_modes ec' k = Some n \<longleftrightarrow> registered_modes ec k = Some n" if "n \<noteq> -1" for k n
    using assms(2) that unfolding drops_def by (metis option.distinct(1) option.inject)
  moreover have "uint i \<noteq> -1" for i :: u8 using uint_ge_0 [of i] by linarith
  ultimately show ?thesis using assms(1) unfolding modes_registered_def by metis
qed

lemma mm_ok_drops:
  "mm_ok s \<Longrightarrow> drops (mm_external_checks s) ec \<Longrightarrow> ec_ok ec \<Longrightarrow> mm_ok (s\<lparr>mm_external_checks := ec\<rparr>)"
  using modes_registered_drops [of "mm_external_checks s" "mode_reg (mm_modes s)" ec]
  by (simp add: mm_ok_def mm_sized_def)

section \<open>Operations that keep the links\<close>

definition mode_links :: "Mode \<Rightarrow> bool \<times> int \<times> int \<times> u8" where
  "mode_links m = (md_valid m, md_arming_check_registration_id m,
     md_mode_executor_registration_id m, md_replaces_nav_state m)"

lemma mm_ok_map_mode:
  assumes "mm_ok s" and "mode_valid i (mm_modes s)" and "\<And>m. mode_links (f m) = mode_links m"
  shows "mm_ok (s\<lparr>mm_modes := map_mode i f (mm_modes s)\<rparr>)"
proof -
  have len: "length (mm_modes s) = Modes_MAX_NUM" using assms(1) by (simp add: mm_ok_def mm_sized_def)
  have f: "md_valid (f m) = md_valid m"
    "md_arming_check_registration_id (f m) = md_arming_check_registration_id m"
    "md_mode_executor_registration_id (f m) = md_mode_executor_registration_id m"
    "md_replaces_nav_state (f m) = md_replaces_nav_state m" for m
    using assms(3) by (simp_all add: mode_links_def)
  have "mode_reg (map_mode i f (mm_modes s)) = mode_reg (mm_modes s)"
    and "mode_exec (map_mode i f (mm_modes s)) = mode_exec (mm_modes s)"
    and "mode_repl (map_mode i f (mm_modes s)) = mode_repl (mm_modes s)"
    using assms(2) unfolding mode_maps_map_mode [OF mode_valid_external [OF assms(2)] len] Let_def f
    by (auto simp: fun_eq_iff link_defs mode_valid_def)
  with assms(1) show ?thesis by (simp add: mm_ok_def mm_sized_def)
qed

lemma mm_ok_map_executor:
  assumes "mm_ok s" and "executor_valid k (mm_mode_executors s)"
    and "\<And>e. me_valid (f e) = me_valid e" and "\<And>e. me_owned_nav_state (f e) = me_owned_nav_state e"
  shows "mm_ok (s\<lparr>mm_mode_executors := map_executor k f (mm_mode_executors s)\<rparr>)"
proof -
  have "1 \<le> k" "k \<le> 5" "length (mm_mode_executors s) = ModeExecutors_MAX_NUM"
    using assms(1,2) by (auto simp: executor_valid_def mm_ok_def mm_sized_def)
  then have "exec_owned (map_executor k f (mm_mode_executors s)) = exec_owned (mm_mode_executors s)"
    using assms(2-4) by (auto simp: exec_owned_map_executor exec_owned_def Let_def executor_valid_def)
  with assms(1) show ?thesis by (simp add: mm_ok_def mm_sized_def)
qed

lemma mm_ok_flags [simp]:
  "mm_ok (s\<lparr>mm_failsafe_action_active := b\<rparr>) = mm_ok s"
  "mm_ok (s\<lparr>mm_invalid_mode_printed := b\<rparr>) = mm_ok s"
  "mm_ok (s\<lparr>mm_last_served_nav_state := nav\<rparr>) = mm_ok s"
  by (simp_all add: mm_ok_def mm_sized_def)

lemma mm_ok_handle_setpoint_config:
  "mm_ok s \<Longrightarrow> mm_ok (snd (snd (handle_setpoint_config vt sc s)))"
  by (auto simp: handle_setpoint_config_def Let_def mode_links_def intro!: mm_ok_map_mode)

lemma mm_ok_setpoint_configs:
  "mm_ok s \<Longrightarrow> mm_ok (snd (snd (checkConfigControlSetpointUpdates n vt scs s)))"
proof (induction n vt scs s rule: checkConfigControlSetpointUpdates.induct)
  case (3 n vt sc scs s)
  obtain reply b s' where h: "handle_setpoint_config vt sc s = (reply, b, s')"
    by (cases "handle_setpoint_config vt sc s")
  then have "mm_ok s'" using mm_ok_handle_setpoint_config [OF "3.prems", of vt sc] by simp
  with "3.IH" [OF h [symmetric] refl] h show ?case by (simp add: split_beta Let_def)
qed simp_all

lemma mm_ok_handle_override: "mm_ok s \<Longrightarrow> mm_ok (handle_override co s)"
  by (auto simp: handle_override_def mode_links_def intro!: mm_ok_map_mode mm_ok_map_executor)

lemma mm_ok_overrides: "mm_ok s \<Longrightarrow> mm_ok (snd (checkConfigOverrides n cos s))"
  by (induction n cos s rule: checkConfigOverrides.induct)
     (simp_all add: split_beta Let_def mm_ok_handle_override)

lemma mm_ok_charge:
  "mm_ok s \<Longrightarrow> k = AUTOPILOT_EXECUTOR_ID \<or> exec_owned (mm_mode_executors s) k \<noteq> None \<Longrightarrow>
     mm_ok (s\<lparr>mm_mode_executor_in_charge := k\<rparr>)"
  by (simp add: mm_ok_def mm_sized_def)

lemma mode_exec_owned:
  "mm_ok s \<Longrightarrow> mode_exec (mm_modes s) i = Some k \<longleftrightarrow> exec_owned (mm_mode_executors s) k = Some i"
  by (simp add: mm_ok_def inverse_maps_def)

lemma onUserIntended_exec:
  "onUserIntendedNavStateChange src nav s =
    (case mode_exec (mm_modes s) nav of
       Some k \<Rightarrow> s\<lparr>mm_mode_executor_in_charge := k\<rparr>
     | None \<Rightarrow> if src = MCS_User then s\<lparr>mm_mode_executor_in_charge := AUTOPILOT_EXECUTOR_ID\<rparr> else s)"
  by (simp add: onUserIntendedNavStateChange_def mode_exec_def Let_def)

lemma mm_ok_onUserIntended: "mm_ok s \<Longrightarrow> mm_ok (onUserIntendedNavStateChange src nav s)"
  by (auto simp: onUserIntended_exec mode_exec_owned intro!: mm_ok_charge split: option.splits)

lemma mm_ok_onDisarm: "mm_ok s \<Longrightarrow> mm_ok (snd (ModeManagement_onDisarm nav s))"
  by (simp add: ModeManagement_onDisarm_def Let_def mm_ok_onUserIntended)

lemma mm_ok_getSetpointType: "mm_ok s \<Longrightarrow> mm_ok (snd (getSetpointType nav s))"
  by (auto simp: getSetpointType_def Let_def mode_links_def intro!: mm_ok_map_mode)

lemma mm_ok_getReplacement: "mm_ok s \<Longrightarrow> mm_ok (fst (snd (getNavStateReplacementIfValid nav b s)))"
proof -
  assume ok: "mm_ok s"
  have "mode_valid i (mm_modes s)"
    if "List.find (\<lambda>i. mode_valid i (mm_modes s) \<and>
      md_replaces_nav_state (mode_at i (mm_modes s)) = nav) navs = Some i" for i navs
    using that by (auto simp: find_Some_iff)
  with ok show ?thesis
    unfolding getNavStateReplacementIfValid_def Let_def
    by (auto simp: mode_links_def simp del: list.map upt_rec_numeral split: option.split intro!: mm_ok_map_mode)
qed

end
