(* ===== verification/Mode_Registration.thy ===== *)
theory Mode_Registration
  imports Mode_Invariant
begin

text \<open>
  Registering and removing modes keeps the tables of the mode management consistent, for components
  that unregister with the identifiers they were given. The states the mode management can reach
  are therefore consistent.
\<close>

section \<open>Inverse partial maps\<close>

lemma modes_registeredD:
  "modes_registered R reg \<Longrightarrow> R k = Some (uint i) \<longleftrightarrow> reg i = Some k"
  by (simp add: modes_registered_def)

lemma modes_registered_remove:
  assumes "modes_registered R reg" and "reg i = Some k"
  shows "modes_registered (R(k := None)) (reg(i := None))"
proof -
  have R: "R k' = Some (uint j) \<longleftrightarrow> reg j = Some k'" for j k'
    using assms(1) by (rule modes_registeredD)
  have "(R(k := None)) k' = Some (uint j) \<longleftrightarrow> (reg(i := None)) j = Some k'" for j k'
    using R [of k j] R [of k i] R [of k' j] assms(2) by (cases "k' = k"; cases "j = i") (auto simp: word_uint_eq_iff)
  then show ?thesis using assms(1) unfolding modes_registered_def by simp
qed

lemma modes_registered_add:
  assumes "modes_registered R reg" and "R k = None" and "reg i = None"
  shows "modes_registered (R(k \<mapsto> uint i)) (reg(i \<mapsto> k))"
proof -
  have R: "R k' = Some (uint j) \<longleftrightarrow> reg j = Some k'" for j k'
    using assms(1) by (rule modes_registeredD)
  have "(R(k \<mapsto> uint i)) k' = Some (uint j) \<longleftrightarrow> (reg(i \<mapsto> k)) j = Some k'" for j k'
    using R [of k j] R [of k' i] R [of k' j] assms(2,3) by (cases "k' = k"; cases "j = i") (auto simp: word_uint_eq_iff)
  then show ?thesis using assms(1) unfolding modes_registered_def by simp
qed

lemma modes_registered_other:
  assumes "modes_registered R reg" and "R k = None"
  shows "modes_registered (R(k \<mapsto> -1)) reg"
proof -
  have R: "R k' = Some (uint j) \<longleftrightarrow> reg j = Some k'" for j k'
    using assms(1) by (rule modes_registeredD)
  have no_mode: "-1 \<noteq> uint j" for j :: u8 using uint_ge_0 [of j] by linarith
  have "(R(k \<mapsto> -1)) k' = Some (uint j) \<longleftrightarrow> reg j = Some k'" for j k'
    using R [of k j] R [of k' j] assms(2) by (cases "k' = k") (auto simp: no_mode)
  then show ?thesis using assms(1) unfolding modes_registered_def by simp
qed

lemma inverse_maps_remove:
  assumes "inverse_maps f g" and "g i = Some k"
  shows "inverse_maps (f(k := None)) (g(i := None))"
proof -
  have fg: "f x = Some y \<longleftrightarrow> g y = Some x" for x y using assms(1) by (simp add: inverse_maps_def)
  have "(f(k := None)) x = Some y \<longleftrightarrow> (g(i := None)) y = Some x" for x y
    using fg [of k i] fg [of k y] fg [of x y] assms(2) by (cases "x = k"; cases "y = i") auto
  then show ?thesis by (simp add: inverse_maps_def)
qed

lemma inverse_maps_add:
  assumes "inverse_maps f g" and "f k = None" and "g i = None"
  shows "inverse_maps (f(k \<mapsto> i)) (g(i \<mapsto> k))"
proof -
  have fg: "f x = Some y \<longleftrightarrow> g y = Some x" for x y using assms(1) by (simp add: inverse_maps_def)
  have "(f(k \<mapsto> i)) x = Some y \<longleftrightarrow> (g(i \<mapsto> k)) y = Some x" for x y
    using fg [of k y] fg [of x i] fg [of x y] assms(2,3) by (cases "x = k"; cases "y = i") auto
  then show ?thesis by (simp add: inverse_maps_def)
qed

lemma injective_map_remove: "injective_map f \<Longrightarrow> injective_map (f(i := None))"
  unfolding injective_map_def by auto

lemma injective_map_add:
  "injective_map f \<Longrightarrow> (\<And>j. f j \<noteq> Some r) \<Longrightarrow> injective_map (f(i \<mapsto> r))"
  unfolding injective_map_def by (auto split: if_splits)

section \<open>Removing a mode\<close>

lemma removeModeExecutor_frame [simp]:
  "mm_external_checks (removeModeExecutor k s) = mm_external_checks s"
  "mm_modes (removeModeExecutor k s) = mm_modes s"
  "mm_mode_hashes (removeModeExecutor k s) = mm_mode_hashes s"
  "length (mm_mode_executors (removeModeExecutor k s)) = length (mm_mode_executors s)"
  by (simp_all add: removeModeExecutor_def removeExecutor_def Let_def)

lemma removeModeExecutor_modes:
  "removeModeExecutor k (s\<lparr>mm_modes := ms\<rparr>) = (removeModeExecutor k s)\<lparr>mm_modes := ms\<rparr>"
  by (simp add: removeModeExecutor_def Let_def)

lemma removeModeExecutor_owned:
  assumes "length (mm_mode_executors s) = ModeExecutors_MAX_NUM" and "k \<noteq> -1"
  shows "exec_owned (mm_mode_executors (removeModeExecutor k s)) =
      (exec_owned (mm_mode_executors s))(k := None)"
    and "mm_mode_executor_in_charge (removeModeExecutor k s) =
      (if mm_mode_executor_in_charge s = k then AUTOPILOT_EXECUTOR_ID
       else mm_mode_executor_in_charge s)"
proof -
  show "mm_mode_executor_in_charge (removeModeExecutor k s) =
      (if mm_mode_executor_in_charge s = k then AUTOPILOT_EXECUTOR_ID
       else mm_mode_executor_in_charge s)"
    using assms(2) by (simp add: removeModeExecutor_def Let_def)
  show "exec_owned (mm_mode_executors (removeModeExecutor k s)) =
      (exec_owned (mm_mode_executors s))(k := None)"
  proof (cases "executor_valid k (mm_mode_executors s)")
    case True
    then have "1 \<le> k" "k \<le> 5" by (simp_all add: executor_valid_def)
    with True assms show ?thesis
      by (simp add: removeModeExecutor_def removeExecutor_def Let_def exec_owned_map_executor)
  next
    case False
    then have "(exec_owned (mm_mode_executors s))(k := None) = exec_owned (mm_mode_executors s)"
      by (simp add: fun_eq_iff exec_owned_def)
    with False assms(2) show ?thesis by (simp add: removeModeExecutor_def removeExecutor_def Let_def)
  qed
qed

lemma mm_ok_remove_executor:
  assumes "mm_ok s" and "external i"
    and "mode_reg (mm_modes s) i = Some k" and "e = md_mode_executor_registration_id (mode_at i (mm_modes s))"
  shows "mm_ok ((removeModeExecutor e
    (s\<lparr>mm_external_checks := snd (removeRegistration k (uint i) (mm_external_checks s))\<rparr>))
      \<lparr>mm_modes := map_mode i (\<lambda>m. m\<lparr>md_valid := False\<rparr>) (mm_modes s)\<rparr>)" (is "mm_ok ?s")
proof -
  let ?ec = "mm_external_checks s"
  have sized: "mm_sized s" and ec: "ec_ok ?ec" and len: "length (mm_modes s) = Modes_MAX_NUM"
    "length (mm_mode_executors s) = ModeExecutors_MAX_NUM"
    and reg: "modes_registered (registered_modes ?ec) (mode_reg (mm_modes s))"
    and inv: "inverse_maps (exec_owned (mm_mode_executors s)) (mode_exec (mm_modes s))"
    and charge: "mm_mode_executor_in_charge s = AUTOPILOT_EXECUTOR_ID \<or>
      exec_owned (mm_mode_executors s) (mm_mode_executor_in_charge s) \<noteq> None"
    and repl: "injective_map (mode_repl (mm_modes s))"
    using assms(1) by (simp_all add: mm_ok_def mm_sized_def)
  have "registered_modes ?ec k = Some (uint i)"
    using modes_registeredD [OF reg] assms(3) by simp
  then have removed: "registered_modes (snd (removeRegistration k (uint i) ?ec)) =
      (registered_modes ?ec)(k := None)"
    using registry.remove_registered [OF ec] by simp
  note maps = mode_maps_map_mode [OF assms(2) len(1), of "\<lambda>m. m\<lparr>md_valid := False\<rparr>"]
  have valid: "mode_valid i (mm_modes s)" using assms(3) by (simp add: mode_reg_def split: if_splits)
  have links: "inverse_maps (exec_owned (mm_mode_executors ?s)) ((mode_exec (mm_modes s))(i := None)) \<and>
    (mm_mode_executor_in_charge ?s = AUTOPILOT_EXECUTOR_ID \<or>
     exec_owned (mm_mode_executors ?s) (mm_mode_executor_in_charge ?s) \<noteq> None)"
  proof (cases "e = -1")
    case True
    then have "(mode_exec (mm_modes s))(i := None) = mode_exec (mm_modes s)"
      using assms(4) by (simp add: fun_eq_iff mode_exec_def)
    with True inv charge show ?thesis by (simp add: removeModeExecutor_def)
  next
    case False
    then have "mode_exec (mm_modes s) i = Some e" using valid assms(4) by (simp add: mode_exec_def)
    from inverse_maps_remove [OF inv this] charge False len(2) show ?thesis
      by (auto simp: removeModeExecutor_owned)
  qed
  have "mm_sized ?s"
    using sized ec_ok_remove [OF ec] by (simp add: mm_sized_def)
  moreover have "modes_registered (registered_modes (mm_external_checks ?s)) (mode_reg (mm_modes ?s))"
    using modes_registered_remove [OF reg assms(3)] by (simp add: removed maps)
  moreover have "injective_map (mode_repl (mm_modes ?s))"
    using injective_map_remove [OF repl] by (simp add: maps)
  ultimately show ?thesis using links by (simp add: mm_ok_def maps)
qed

lemma removeExternalMode_valid:
  "mode_valid i ms \<Longrightarrow> removeExternalMode i (md_name (mode_at i ms)) ms =
     (True, map_mode i (\<lambda>m. m\<lparr>md_valid := False\<rparr>) ms)"
  by (simp add: removeExternalMode_def)

lemma mm_ok_remove_unresponsive:
  assumes "mm_ok s"
  shows "mm_ok (remove_unresponsive nav i s)"
proof (cases "mode_valid i (mm_modes s)")
  case True
  have "mode_reg (mm_modes s) i = Some (md_arming_check_registration_id (mode_at i (mm_modes s)))"
    using True by (simp add: mode_reg_def)
  from mm_ok_remove_executor [OF assms mode_valid_external [OF True] this refl] True assms
  show ?thesis by (simp add: remove_unresponsive_def Let_def removeExternalMode_valid)
next
  case False
  with assms show ?thesis by (simp add: remove_unresponsive_def Let_def)
qed

lemma mm_ok_remove_all_unresponsive:
  "mm_ok s \<Longrightarrow> mm_ok (fold (remove_unresponsive nav) navs s)"
  by (induction navs arbitrary: s) (simp_all add: mm_ok_remove_unresponsive)

text \<open>
  An honest request for unregistration names either a registered mode, with the identifiers of its
  registration and of its executor, or no mode, or a mode that is not registered any more.
\<close>

definition honest :: "unregister_ext_component_s \<Rightarrow> ModeManagement \<Rightarrow> bool" where
  "honest un s \<longleftrightarrow>
    (let i = word_of_int (un_mode_id un) :: u8; m = mode_at i (mm_modes s) in
     un_mode_id un = -1 \<or>
     un_mode_id un = uint i \<and>
     (if mode_valid i (mm_modes s) \<and> terminated (un_name un) = md_name m
      then un_arming_check_id un = md_arming_check_registration_id m \<and>
           un_mode_executor_id un = md_mode_executor_registration_id m
      else registered_modes (mm_external_checks s) (un_arming_check_id un) \<noteq> Some (un_mode_id un)))"

lemma mm_ok_handle_unregistration:
  assumes "mm_ok s" and "honest un s"
  shows "mm_ok (snd (handle_unregistration nav un (ur, s)))"
proof -
  let ?i = "word_of_int (un_mode_id un) :: u8"
  let ?ec = "mm_external_checks s"
  have ec: "ec_ok ?ec" using assms(1) by (simp add: mm_ok_def mm_sized_def)
  have none: "removeRegistration k n ?ec = (False, ?ec)" if "registered_modes ?ec k \<noteq> Some n" for k n
    using registry.remove_other [OF ec that] .
  consider (component) "un_mode_id un = -1"
    | (removed) "mode_valid ?i (mm_modes s)" "terminated (un_name un) = md_name (mode_at ?i (mm_modes s))"
        "un_arming_check_id un = md_arming_check_registration_id (mode_at ?i (mm_modes s))"
        "un_mode_executor_id un = md_mode_executor_registration_id (mode_at ?i (mm_modes s))"
        "un_mode_id un = uint ?i" "un_mode_id un \<noteq> -1"
    | (gone) "\<not> (mode_valid ?i (mm_modes s) \<and>
        terminated (un_name un) = md_name (mode_at ?i (mm_modes s)))"
        "registered_modes ?ec (un_arming_check_id un) \<noteq> Some (un_mode_id un)" "un_mode_id un \<noteq> -1"
    using assms(2) unfolding honest_def Let_def by (auto split: if_splits)
  then show ?thesis
  proof cases
    case component
    have "mm_ok (s\<lparr>mm_external_checks := snd (removeRegistration (un_arming_check_id un) (-1) ?ec)\<rparr>)"
      using mm_ok_drops [OF assms(1) drops_remove [OF ec] ec_ok_remove [OF ec]] .
    with component assms(1) show ?thesis by (simp add: handle_unregistration_def Let_def)
  next
    case removed
    have reg: "mode_reg (mm_modes s) ?i = Some (un_arming_check_id un)"
      using removed by (simp add: mode_reg_def)
    have "registered_modes ?ec (un_arming_check_id un) = Some (uint ?i)"
      using assms(1) reg unfolding mm_ok_def by (blast intro: modes_registeredD [THEN iffD2])
    then have "un_arming_check_id un \<noteq> -1" by (auto simp: registered_modes_def split: if_splits)
    with mm_ok_remove_executor [OF assms(1) mode_valid_external [OF removed(1)] reg removed(4)] removed
    show ?thesis
      by (simp add: handle_unregistration_def Let_def removeExternalMode_valid removeModeExecutor_modes)
  next
    case gone
    with assms(1) none [OF gone(2)] show ?thesis
      by (auto simp: handle_unregistration_def Let_def removeExternalMode_def)
  qed
qed

section \<open>Adding a mode\<close>

lemma find_index_Some: "List.find P [0..<n] = Some i \<Longrightarrow> i < n \<and> P i"
  by (auto simp: find_Some_iff)

lemma fold_last_match:
  "fold (\<lambda>i found. if P i then Some i else found) is found =
     (case filter P (rev is) of [] \<Rightarrow> found | i # _ \<Rightarrow> Some i)"
  by (induction "is" arbitrary: found) (auto split: list.split)

lemma matching_idx_Some:
  assumes "matching_idx h hs = Some i"
  shows "i < Modes_MAX_NUM \<and> hs ! i = Some h"
proof -
  have "i < n \<and> hs ! i = Some h"
    if "fold (\<lambda>i found. if hs ! i = Some h then Some i else found) [0..<n] None = Some i" for n
  proof -
    from that obtain "is" where "filter (\<lambda>i. hs ! i = Some h) (rev [0..<n]) = i # is"
      by (simp only: fold_last_match) (auto split: list.splits)
    then have "i \<in> set (filter (\<lambda>i. hs ! i = Some h) (rev [0..<n]))" by (simp only: list.set_intros)
    then show ?thesis by auto
  qed
  from this [OF assms [unfolded matching_idx_def]] show ?thesis .
qed

lemma matching_idx_None:
  assumes "matching_idx h hs = None" and "i < Modes_MAX_NUM"
  shows "hs ! i \<noteq> Some h"
proof -
  have "hs ! i \<noteq> Some h" if "i < n"
    "fold (\<lambda>i found. if hs ! i = Some h then Some i else found) [0..<n] None = None" for n
  proof -
    from that(2) have "filter (\<lambda>i. hs ! i = Some h) (rev [0..<n]) = []"
      by (simp only: fold_last_match) (auto split: list.splits)
    with that(1) show ?thesis by (auto simp: filter_empty_conv)
  qed
  from this [OF assms(2) assms(1) [unfolded matching_idx_def]] show ?thesis .
qed

lemma list_ex_upt: "list_ex P [0..<n] \<longleftrightarrow> (\<exists>i < n. P i)"
  by (auto simp: list_ex_iff)

lemma first_invalid_exists:
  assumes "hasFreeExternalModes ms" and "length hs = Modes_MAX_NUM" and "None \<notin> set hs"
  obtains i where "first_invalid_idx hs ms = Some i" and "i < Modes_MAX_NUM" and "\<not> md_valid (ms ! i)"
proof -
  from assms(1) obtain j where j: "j < 8" "\<not> md_valid (ms ! j)"
    unfolding hasFreeExternalModes_def list_ex_upt by blast
  moreover have "hs ! j \<noteq> None" using assms(2,3) j(1) by (metis nth_mem)
  ultimately have "first_invalid_idx hs ms \<noteq> None"
    unfolding first_invalid_idx_def find_None_iff set_upt by auto
  then obtain i where "first_invalid_idx hs ms = Some i" by blast
  moreover from find_index_Some [OF this [unfolded first_invalid_idx_def]]
  have "i < 8" "\<not> md_valid (ms ! i)" by auto
  ultimately show ?thesis by (rule that)
qed

lemma new_mode_idx_free:
  assumes "hasFreeExternalModes ms" and "length hs = Modes_MAX_NUM" and "None \<notin> set hs"
  obtains i update_param where "new_mode_idx h hs ms = (Some i, update_param)"
    and "i < Modes_MAX_NUM" and "\<not> md_valid (ms ! i)"
proof -
  obtain f where f: "first_invalid_idx hs ms = Some f" "f < Modes_MAX_NUM" "\<not> md_valid (ms ! f)"
    using assms by (rule first_invalid_exists)
  have unused: "i < Modes_MAX_NUM \<and> \<not> md_valid (ms ! i)" if "first_unused_idx hs ms = Some i" for i
    using find_index_Some [OF that [unfolded first_unused_idx_def]] by simp
  have "\<exists>i u. new_mode_idx h hs ms = (Some i, u) \<and> i < Modes_MAX_NUM \<and> \<not> md_valid (ms ! i)"
    using f unused matching_idx_Some [of h hs]
    by (cases "matching_idx h hs"; cases "first_unused_idx hs ms") (simp_all add: new_mode_idx_def)
  with that show ?thesis by blast
qed

lemma update_slot: "i < Modes_MAX_NUM \<Longrightarrow> length ms = Modes_MAX_NUM \<Longrightarrow>
    ms[i := m] = map_mode (of_nat i + FIRST_EXTERNAL_NAV_STATE) (\<lambda>_. m) ms"
  by (simp add: map_mode_def unsigned_of_nat take_bit_nat_eq_self)

lemma external_of_index: "i < Modes_MAX_NUM \<Longrightarrow> external (of_nat i + FIRST_EXTERNAL_NAV_STATE)"
  and mode_at_index: "i < Modes_MAX_NUM \<Longrightarrow> mode_at (of_nat i + FIRST_EXTERNAL_NAV_STATE) ms = ms ! i"
proof -
  assume i: "i < Modes_MAX_NUM"
  have "unat (of_nat i + 23 :: u8) = i + 23"
    using i by (simp add: unat_word_ariths unsigned_of_nat take_bit_nat_eq_self)
  then show "external (of_nat i + FIRST_EXTERNAL_NAV_STATE)"
    using i by (simp add: external_def word_le_nat_alt)
  show "mode_at (of_nat i + FIRST_EXTERNAL_NAV_STATE) ms = ms ! i"
    using i by (simp add: mode_at_def unsigned_of_nat take_bit_nat_eq_self)
qed

lemma addExternalMode_free:
  assumes "hasFreeExternalModes ms" and "length ms = Modes_MAX_NUM"
    and "length hs = Modes_MAX_NUM" and "None \<notin> set hs"
  obtains nav hs' where "addExternalMode m (hs, ms) =
      (nav, hs', map_mode nav (\<lambda>_. m\<lparr>md_valid := True\<rparr>) ms)"
    and "external nav" and "\<not> mode_valid nav ms"
    and "length hs' = Modes_MAX_NUM" and "None \<notin> set hs'"
proof -
  obtain i u where i: "new_mode_idx (mode_name_hash (md_name m)) hs ms = (Some i, u)"
    "i < Modes_MAX_NUM" "\<not> md_valid (ms ! i)"
    using assms(1,3,4) by (rule new_mode_idx_free)
  let ?hs = "case u of None \<Rightarrow> hs | Some h \<Rightarrow> if hs ! i \<noteq> None then hs[i := Some h] else hs"
  have "None \<notin> set ?hs"
    using assms(4) by (auto split: option.split dest!: set_update_subset_insert [THEN subsetD])
  moreover have "length ?hs = Modes_MAX_NUM" using assms(3) by (simp split: option.split)
  moreover have "\<not> mode_valid (of_nat i + 23) ms"
    using i by (simp add: mode_valid_def mode_at_index)
  ultimately show ?thesis
    using i assms(2) external_of_index [OF i(2)]
    by (intro that) (simp_all add: addExternalMode_def update_slot)
qed

lemma addExecutor_free:
  assumes "hasFreeExecutors es" and "length es = ModeExecutors_MAX_NUM"
  obtains k where "addExecutor e es = (k, map_executor k (\<lambda>_. e\<lparr>me_valid := True\<rparr>) es)"
    and "1 \<le> k" and "k \<le> 5" and "exec_owned es k = None"
proof -
  from assms(1) have "filter (\<lambda>i. \<not> me_valid (es ! i)) [0..<5] \<noteq> []"
    unfolding hasFreeExecutors_def list_ex_upt filter_empty_conv set_upt by auto
  then obtain i "is" where xs: "filter (\<lambda>i. \<not> me_valid (es ! i)) [0..<5] = i # is"
    by (meson list.exhaust)
  then have "i \<in> set (filter (\<lambda>i. \<not> me_valid (es ! i)) [0..<5])" by (simp only: list.set_intros)
  then have "i < 5" "\<not> me_valid (es ! i)" unfolding set_filter set_upt by auto
  with xs assms(2) show ?thesis
    by (intro that [of "int i + 1"])
       (simp_all add: addExecutor_def map_executor_def exec_owned_def executor_valid_def executor_def)
qed

text \<open>
  What each part of a registration does to the tables, for a registration of the mode \<open>nav\<close>.
\<close>

lemma external_word: "external nav \<Longrightarrow> word_of_int (uint nav) = nav"
  and external_sint: "external nav \<Longrightarrow> sint nav = uint nav"
  and external_uint: "external nav \<Longrightarrow> uint nav \<noteq> -1"
proof -
  show "word_of_int (uint nav) = nav" by simp
  show "uint nav \<noteq> -1" using uint_ge_0 [of nav] by linarith
  assume "external nav"
  then have "uint nav < 128" by (simp add: external_def word_le_def)
  moreover have "- (2 ^ 7) \<le> uint nav" by (rule order_trans [OF _ uint_ge_0]) simp
  ultimately have "signed_take_bit 7 (uint nav) = uint nav"
    by (intro signed_take_bit_int_eq_self) simp_all
  then show "sint nav = uint nav" by (simp add: sint_uint)
qed

lemma register_mode_tables:
  assumes "mm_sized s" and "registration_possible rq s" and "rq_register_mode rq"
  obtains nav hs where "register_mode rq s = (uint nav, s\<lparr>mm_mode_hashes := hs,
      mm_modes := map_mode nav (\<lambda>_. (new_mode rq)\<lparr>md_valid := True\<rparr>) (mm_modes s)\<rparr>)"
    and "external nav" and "\<not> mode_valid nav (mm_modes s)"
    and "length hs = Modes_MAX_NUM" and "None \<notin> set hs"
proof -
  have "hasFreeExternalModes (mm_modes s)" "length (mm_modes s) = Modes_MAX_NUM"
    "length (mm_mode_hashes s) = Modes_MAX_NUM" "None \<notin> set (mm_mode_hashes s)"
    using assms by (simp_all add: registration_possible_def mm_sized_def)
  then obtain nav hs where "addExternalMode (new_mode rq) (mm_mode_hashes s, mm_modes s) =
      (nav, hs, map_mode nav (\<lambda>_. (new_mode rq)\<lparr>md_valid := True\<rparr>) (mm_modes s))"
    "external nav" "\<not> mode_valid nav (mm_modes s)" "length hs = Modes_MAX_NUM" "None \<notin> set hs"
    by (rule addExternalMode_free)
  with assms(3) show ?thesis by (intro that [of nav hs]) (simp_all add: register_mode_def)
qed

lemma register_executor_tables:
  assumes "hasFreeExecutors (mm_mode_executors s)"
    and "length (mm_mode_executors s) = ModeExecutors_MAX_NUM"
    and "rq_register_mode_executor rq" and "external nav"
  obtains k where "register_executor rq (uint nav) s = (k, s\<lparr>
      mm_mode_executors := map_executor k
        (\<lambda>_. ModeExecutor_init\<lparr>me_owned_nav_state := nav, me_valid := True\<rparr>) (mm_mode_executors s),
      mm_modes := map_mode nav (\<lambda>m. m\<lparr>md_mode_executor_registration_id := k\<rparr>) (mm_modes s)\<rparr>)"
    and "1 \<le> k" and "k \<le> 5" and "exec_owned (mm_mode_executors s) k = None"
proof -
  let ?e = "ModeExecutor_init\<lparr>me_owned_nav_state := nav\<rparr>"
  obtain k where "addExecutor ?e (mm_mode_executors s) =
      (k, map_executor k (\<lambda>_. ?e\<lparr>me_valid := True\<rparr>) (mm_mode_executors s))"
    "1 \<le> k" "k \<le> 5" "exec_owned (mm_mode_executors s) k = None"
    using assms(1,2) by (rule addExecutor_free)
  with assms(3) external_uint [OF assms(4)] show ?thesis
    by (intro that [of k]) (simp_all add: register_executor_def Let_def)
qed

lemma not_already_replaced:
  assumes "\<not> already_replaced nav ms"
  shows "mode_repl ms i \<noteq> Some nav"
proof
  assume "mode_repl ms i = Some nav"
  then have "mode_valid i ms" "md_replaces_nav_state (mode_at i ms) = nav"
    by (auto simp: mode_repl_def split: if_splits)
  with assms(1) external_navs_iff [of i] mode_valid_external [of i ms] show False
    unfolding already_replaced_def list_ex_iff by blast
qed

lemma sint_word_uint: "sint (word_of_int (uint nav) :: u8) = sint nav" for nav :: u8
  by simp

text \<open>
  The tables after a mode with its arming check, and possibly an executor, has been registered. The
  executor's identifier is -1 if there is none.
\<close>

lemma mm_ok_new_mode:
  assumes "mm_ok s" and "external nav" and "\<not> mode_valid nav (mm_modes s)"
    and "md_replaces_nav_state m \<noteq> REPLACES_NAV_STATE_NONE \<Longrightarrow>
      \<not> already_replaced (md_replaces_nav_state m) (mm_modes s)"
    and "length hs = Modes_MAX_NUM" and "None \<notin> set hs"
    and "ec_ok ec" and "registered_modes (mm_external_checks s) k = None"
    and "registered_modes ec = (registered_modes (mm_external_checks s))(k \<mapsto> uint nav)"
    and "length es = ModeExecutors_MAX_NUM"
    and "exec_owned (mm_mode_executors s) e = None"
    and "exec_owned es = (exec_owned (mm_mode_executors s))(e := (if e = -1 then None else Some nav))"
    and "md_valid m" and "md_arming_check_registration_id m = k"
    and "md_mode_executor_registration_id m = e"
  shows "mm_ok (s\<lparr>mm_mode_hashes := hs, mm_external_checks := ec, mm_mode_executors := es,
    mm_modes := map_mode nav (\<lambda>_. m) (mm_modes s)\<rparr>)" (is "mm_ok ?s")
proof -
  have len: "length (mm_modes s) = Modes_MAX_NUM" using assms(1) by (simp add: mm_ok_def mm_sized_def)
  note maps = mode_maps_map_mode [OF assms(2) len, of "\<lambda>_. m"]
  have fresh: "mode_reg (mm_modes s) nav = None" "mode_exec (mm_modes s) nav = None"
    using assms(3) by (simp_all add: link_defs)
  have "modes_registered (registered_modes ec) (mode_reg (mm_modes ?s))"
    using modes_registered_add [of "registered_modes (mm_external_checks s)" "mode_reg (mm_modes s)" k nav]
      assms(1,8,9,13,14) fresh by (simp add: mm_ok_def maps)
  moreover have "inverse_maps (exec_owned es) (mode_exec (mm_modes ?s))"
  proof (cases "e = -1")
    case True
    then have "exec_owned es = exec_owned (mm_mode_executors s)"
      "mode_exec (mm_modes ?s) = mode_exec (mm_modes s)"
      using assms(11,12,15) fresh by (simp_all add: maps fun_upd_idem)
    with assms(1) show ?thesis by (simp add: mm_ok_def)
  next
    case False
    with inverse_maps_add [of "exec_owned (mm_mode_executors s)" "mode_exec (mm_modes s)" e nav]
      assms(1,11,12,13,15) fresh show ?thesis by (simp add: mm_ok_def maps)
  qed
  moreover have "mm_mode_executor_in_charge s = AUTOPILOT_EXECUTOR_ID \<or>
      exec_owned es (mm_mode_executor_in_charge s) \<noteq> None"
    using assms(1,11,12) by (auto simp: mm_ok_def)
  moreover have "injective_map (mode_repl (mm_modes ?s))"
  proof -
    have inj: "injective_map (mode_repl (mm_modes s))" using assms(1) by (simp add: mm_ok_def)
    show ?thesis
    proof (cases "md_replaces_nav_state m = REPLACES_NAV_STATE_NONE")
      case True
      then show ?thesis using injective_map_remove [OF inj] by (simp add: maps)
    next
      case False
      then show ?thesis
        using injective_map_add [OF inj not_already_replaced [OF assms(4)]] assms(13)
        by (simp add: maps)
    qed
  qed
  ultimately show ?thesis using assms by (simp add: mm_ok_def mm_sized_def)
qed

lemma map_mode_map_mode:
  assumes "external nav" and "length ms = Modes_MAX_NUM"
  shows "map_mode nav f (map_mode nav g ms) = map_mode nav (\<lambda>m. f (g m)) ms"
  using assms mode_at_map_mode [OF assms(1,1,2), of g] by (simp add: map_mode_def)

lemma register_arming_check_tables:
  assumes "ec_ok (mm_external_checks s)" and "hasFreeRegistrations (mm_external_checks s)"
    and "rq_register_arming_check rq" and "external nav"
  obtains k ec where "register_arming_check rq (uint nav) s = (k, s\<lparr>mm_external_checks := ec,
      mm_modes := map_mode nav (\<lambda>m. m\<lparr>md_arming_check_registration_id := k\<rparr>) (mm_modes s)\<rparr>)"
    and "ec_ok ec" and "registered_modes (mm_external_checks s) k = None"
    and "registered_modes ec = (registered_modes (mm_external_checks s))(k \<mapsto> uint nav)"
proof -
  let ?add = "addRegistration (uint nav) (if rq_enable_replace_internal_mode rq
    then sint (rq_replace_internal_mode rq) else -1) (mm_external_checks s)"
  have "register_arming_check rq (uint nav) s = (fst ?add, s\<lparr>mm_external_checks := snd ?add,
      mm_modes := map_mode nav (\<lambda>m. m\<lparr>md_arming_check_registration_id := fst ?add\<rparr>) (mm_modes s)\<rparr>)"
    using assms(3) external_uint [OF assms(4)] external_sint [OF assms(4)]
    by (simp add: register_arming_check_def Let_def split_beta)
  then show ?thesis
    using registry.add_ok [OF assms(1)] registry.add_fresh [OF assms(1,2)]
      registry.add_registers [OF assms(1,2)]
    by (intro that [of "fst ?add" "snd ?add"]) simp_all
qed

lemma mm_ok_register_mode:
  assumes "mm_ok s" and "request_valid rq" and "registration_possible rq s" and "rq_register_mode rq"
  shows "mm_ok (snd (snd (handle_registration rq (ur, s))))"
proof -
  have sized: "mm_sized s" using assms(1) by (simp add: mm_ok_def)
  then have len: "length (mm_modes s) = Modes_MAX_NUM"
    "length (mm_mode_executors s) = ModeExecutors_MAX_NUM" "ec_ok (mm_external_checks s)"
    by (simp_all add: mm_sized_def)
  obtain nav hs where mode: "register_mode rq s = (uint nav, s\<lparr>mm_mode_hashes := hs,
      mm_modes := map_mode nav (\<lambda>_. (new_mode rq)\<lparr>md_valid := True\<rparr>) (mm_modes s)\<rparr>)"
    and nav: "external nav" "\<not> mode_valid nav (mm_modes s)"
    and hs: "length hs = Modes_MAX_NUM" "None \<notin> set hs"
    using sized assms(3,4) by (rule register_mode_tables)
  let ?s1 = "s\<lparr>mm_mode_hashes := hs,
      mm_modes := map_mode nav (\<lambda>_. (new_mode rq)\<lparr>md_valid := True\<rparr>) (mm_modes s)\<rparr>"
  obtain e es where executor: "register_executor rq (uint nav) ?s1 = (e, ?s1\<lparr>mm_mode_executors := es,
      mm_modes := map_mode nav (\<lambda>m. m\<lparr>md_mode_executor_registration_id := e\<rparr>) (mm_modes ?s1)\<rparr>)"
    and es: "length es = ModeExecutors_MAX_NUM" "exec_owned (mm_mode_executors s) e = None"
      "exec_owned es = (exec_owned (mm_mode_executors s))(e := (if e = -1 then None else Some nav))"
  proof (cases "rq_register_mode_executor rq")
    case True
    have "hasFreeExecutors (mm_mode_executors ?s1)" "length (mm_mode_executors ?s1) = 5"
      using True assms(3) len by (simp_all add: registration_possible_def)
    then show ?thesis
      using True nav(1) by (rule register_executor_tables)
        (rule that, auto simp: exec_owned_map_executor len(2))
  next
    case False
    have "map_mode nav (\<lambda>m. m\<lparr>md_mode_executor_registration_id := -1\<rparr>) (mm_modes ?s1) = mm_modes ?s1"
      using nav(1) len(1) by (simp add: map_mode_map_mode new_mode_def Mode_init_def)
    moreover have "exec_owned (mm_mode_executors s) (-1) = None"
      by (simp add: exec_owned_def executor_valid_def)
    ultimately show ?thesis
      using False len(2)
      by (intro that [of "-1" "mm_mode_executors s"]) (simp_all add: register_executor_def fun_upd_idem)
  qed
  let ?s2 = "?s1\<lparr>mm_mode_executors := es,
      mm_modes := map_mode nav (\<lambda>m. m\<lparr>md_mode_executor_registration_id := e\<rparr>) (mm_modes ?s1)\<rparr>"
  have "ec_ok (mm_external_checks ?s2)" "hasFreeRegistrations (mm_external_checks ?s2)"
    "rq_register_arming_check rq"
    using assms(2-4) len(3) by (simp_all add: registration_possible_def request_valid_def)
  from register_arming_check_tables [OF this nav(1)] obtain k ec where
    check: "register_arming_check rq (uint nav) ?s2 = (k, ?s2\<lparr>mm_external_checks := ec,
      mm_modes := map_mode nav (\<lambda>m. m\<lparr>md_arming_check_registration_id := k\<rparr>) (mm_modes ?s2)\<rparr>)"
    and ec: "ec_ok ec" "registered_modes (mm_external_checks s) k = None"
      "registered_modes ec = (registered_modes (mm_external_checks s))(k \<mapsto> uint nav)"
    by auto
  let ?m = "(new_mode rq)\<lparr>md_valid := True, md_mode_executor_registration_id := e,
    md_arming_check_registration_id := k\<rparr>"
  let ?s3 = "?s2\<lparr>mm_external_checks := ec,
      mm_modes := map_mode nav (\<lambda>m. m\<lparr>md_arming_check_registration_id := k\<rparr>) (mm_modes ?s2)\<rparr>"
  have "snd (snd (handle_registration rq (ur, s))) = ?s3"
    unfolding handle_registration_def prod.case Let_def mode executor check
    using assms(2,3) by (simp only: simp_thms if_True snd_conv)
  also have "?s3 = s\<lparr>mm_mode_hashes := hs, mm_external_checks := ec,
      mm_mode_executors := es, mm_modes := map_mode nav (\<lambda>_. ?m) (mm_modes s)\<rparr>"
    using nav(1) len(1) by (simp add: map_mode_map_mode)
  finally have "snd (snd (handle_registration rq (ur, s))) = \<dots>" .
  moreover have "\<not> already_replaced (md_replaces_nav_state ?m) (mm_modes s)"
    if "md_replaces_nav_state ?m \<noteq> REPLACES_NAV_STATE_NONE"
    using that assms(3,4) by (simp add: new_mode_def registration_possible_def split: if_splits)
  ultimately show ?thesis
    using mm_ok_new_mode [OF assms(1) nav _ hs ec es, of ?m] by simp
qed

lemma mm_ok_handle_registration:
  assumes "mm_ok s"
  shows "mm_ok (snd (snd (handle_registration rq (ur, s))))"
proof (cases "request_valid rq \<and> registration_possible rq s")
  case True
  show ?thesis
  proof (cases "rq_register_mode rq")
    case no_mode: False
    let ?add = "addRegistration (-1) (if rq_enable_replace_internal_mode rq
      then sint (rq_replace_internal_mode rq) else -1) (mm_external_checks s)"
    have "snd (snd (handle_registration rq (ur, s))) =
        (if rq_register_arming_check rq then s\<lparr>mm_external_checks := snd ?add\<rparr> else s)"
      using True no_mode by (simp add: handle_registration_def register_mode_def
          register_executor_def register_arming_check_def request_valid_def Let_def split_beta)
    moreover have "mm_ok (s\<lparr>mm_external_checks := snd ?add\<rparr>)" if "rq_register_arming_check rq"
    proof -
      have ec: "ec_ok (mm_external_checks s)" "hasFreeRegistrations (mm_external_checks s)"
        using assms True that by (simp_all add: mm_ok_def mm_sized_def registration_possible_def)
      show ?thesis
        using assms modes_registered_other [of "registered_modes (mm_external_checks s)"
            "mode_reg (mm_modes s)" "fst ?add"]
          registry.add_ok [OF ec(1)] registry.add_fresh [OF ec] registry.add_registers [OF ec]
        by (simp add: mm_ok_def mm_sized_def)
    qed
    ultimately show ?thesis using assms by simp
  qed (use assms True mm_ok_register_mode in blast)
next
  case False
  with assms show ?thesis by (auto simp: handle_registration_def)
qed

end
