(* ===== verification/Mode_Reachable.thy ===== *)
theory Mode_Reachable
  imports Mode_Registration External_Report
begin

text \<open>
  The states the mode management can reach through its operations and those of the external checks,
  with components that unregister honestly, and what holds in all of them.
\<close>

section \<open>Sequences of requests\<close>

lemma mm_ok_checkNewRegistrations:
  "mm_ok (snd x) \<Longrightarrow> mm_ok (snd (snd (checkNewRegistrations n rqs x)))"
proof (induction n rqs x rule: checkNewRegistrations.induct)
  case (3 n rq rqs x)
  obtain ur s where x: "x = (ur, s)" by (cases x)
  obtain reply y where h: "handle_registration rq x = (reply, y)" by (cases "handle_registration rq x")
  have "mm_ok (snd y)" using mm_ok_handle_registration [of s rq ur] "3.prems" h x by simp
  with "3.IH" [OF _ h [symmetric] refl] "3.prems" h show ?case
    by (simp add: split_beta Let_def)
qed simp_all

text \<open>Each request that is handled is honest when it is handled.\<close>

fun all_honest ::
  "nat \<Rightarrow> u8 \<Rightarrow> unregister_ext_component_s list \<Rightarrow> UpdateRequest \<times> ModeManagement \<Rightarrow> bool" where
  "all_honest n nav [] x = True"
| "all_honest 0 nav (un # uns) x = True"
| "all_honest (Suc n) nav (un # uns) x =
    (ur_change_user_intended_nav_state (fst x) \<or>
     honest un (snd x) \<and> all_honest n nav uns (handle_unregistration nav un x))"

lemma mm_ok_checkUnregistrations:
  "mm_ok (snd x) \<Longrightarrow> all_honest n nav uns x \<Longrightarrow> mm_ok (snd (checkUnregistrations n nav uns x))"
proof (induction n nav uns x rule: checkUnregistrations.induct)
  case (3 n nav un uns x)
  then show ?case
    using mm_ok_handle_unregistration [of "snd x" un nav "fst x"] by (cases x) auto
qed simp_all

section \<open>The update\<close>

text \<open>The state in which an update handles the requests for registration and unregistration.\<close>

definition after_poll :: "mm_input \<Rightarrow> ModeManagement \<Rightarrow> ModeManagement" where
  "after_poll inp s = s\<lparr>mm_external_checks := fst (snd (ExternalChecks_update (mi_now inp)
     (mi_request_time inp) (mi_check_replies inp) (mm_external_checks s)))\<rparr>"

definition after_registrations ::
  "u8 \<Rightarrow> mm_input \<Rightarrow> UpdateRequest \<Rightarrow> ModeManagement \<Rightarrow> UpdateRequest \<times> ModeManagement" where
  "after_registrations nav inp ur s = snd (checkNewRegistrations 5 (mi_registrations inp)
     (ur, fold (remove_unresponsive nav) external_navs (after_poll inp s)))"

definition honest_input ::
  "u8 \<Rightarrow> mm_input \<Rightarrow> UpdateRequest \<Rightarrow> ModeManagement \<Rightarrow> bool" where
  "honest_input nav inp ur s \<longleftrightarrow>
     all_honest 5 nav (mi_unregistrations inp) (after_registrations nav inp ur s)"

lemma mm_ok_after_poll: "mm_ok s \<Longrightarrow> mm_ok (after_poll inp s)"
  unfolding after_poll_def
  by (rule mm_ok_drops) (simp_all add: drops_update ec_ok_update mm_ok_def mm_sized_def)

lemma mm_ok_after_registrations: "mm_ok s \<Longrightarrow> mm_ok (snd (after_registrations nav inp ur s))"
  unfolding after_registrations_def
  by (intro mm_ok_checkNewRegistrations) (simp only: snd_conv mm_ok_remove_all_unresponsive mm_ok_after_poll)

lemma update_parts:
  obtains s' where "snd (snd (ModeManagement_update vt armed nav inp ur s)) =
      snd (checkConfigOverrides config_overrides_ORB_QUEUE_LENGTH (mi_override_requests inp)
        (snd (snd (checkConfigControlSetpointUpdates 5 vt (mi_setpoint_configs inp) s'))))"
    and "s' = after_poll inp s \<or>
      s' = snd (checkUnregistrations 5 nav (mi_unregistrations inp) (after_registrations nav inp ur s))"
proof -
  let ?s = "after_poll inp s"
  let ?x = "after_registrations nav inp ur s"
  let ?s' = "if armed \<and> \<not> allowUpdateWhileArmed (mm_external_checks ?s) then ?s
    else snd (checkUnregistrations 5 nav (mi_unregistrations inp) ?x)"
  have "snd (snd (ModeManagement_update vt armed nav inp ur s)) =
      snd (checkConfigOverrides config_overrides_ORB_QUEUE_LENGTH (mi_override_requests inp)
        (snd (snd (checkConfigControlSetpointUpdates 5 vt (mi_setpoint_configs inp) ?s'))))"
    unfolding ModeManagement_update_def after_registrations_def after_poll_def Let_def
    by (simp only: split_beta prod.sel simps if_distrib [of fst] if_distrib [of snd]) simp
  then show ?thesis by (rule that) simp
qed

lemma mm_ok_update:
  assumes "mm_ok s" and "honest_input nav inp ur s"
  shows "mm_ok (snd (snd (ModeManagement_update vt armed nav inp ur s)))"
proof -
  obtain s' where "snd (snd (ModeManagement_update vt armed nav inp ur s)) =
      snd (checkConfigOverrides config_overrides_ORB_QUEUE_LENGTH (mi_override_requests inp)
        (snd (snd (checkConfigControlSetpointUpdates 5 vt (mi_setpoint_configs inp) s'))))"
    and s': "s' = after_poll inp s \<or>
      s' = snd (checkUnregistrations 5 nav (mi_unregistrations inp) (after_registrations nav inp ur s))"
    by (rule update_parts)
  moreover have "mm_ok s'"
    using s' assms mm_ok_after_poll mm_ok_checkUnregistrations [OF mm_ok_after_registrations]
    unfolding honest_input_def by blast
  ultimately show ?thesis by (simp only: mm_ok_overrides mm_ok_setpoint_configs)
qed

section \<open>Reports\<close>

lemma ec_ok_same_answers:
  assumes "ec_ok s" and "same_answers s s'"
  shows "ec_ok s'"
proof -
  have "reply_stored i (ec_registrations s' ! i) = reply_stored i (ec_registrations s ! i) \<and>
      (rg_reply (ec_registrations s' ! i) = None) = (rg_reply (ec_registrations s ! i) = None)"
    if "i < MAX_NUM_REGISTRATIONS" for i
  proof -
    have "map_option (\<lambda>r. (acr_registration_id r, acr_can_arm_and_run r)) (rg_reply (ec_registrations s' ! i))
        = map_option (\<lambda>r. (acr_registration_id r, acr_can_arm_and_run r)) (rg_reply (ec_registrations s ! i))"
      using assms that by (simp add: same_answers_def ec_ok_def Let_def)
    then show ?thesis
      by (cases "rg_reply (ec_registrations s' ! i)"; cases "rg_reply (ec_registrations s ! i)")
         (simp_all add: reply_stored_def)
  qed
  then show ?thesis
    using assms by (simp add: ec_ok_def same_answers_def registrationValid_def)
qed

lemma same_answers_report:
  "same_answers s (fst (ExternalChecks_checkAndReport c s r))"
proof -
  have refl: "same_answers s s" by (simp add: same_answers_def Let_def)
  have "same_answers s (fst (snd (fold check_registration is (m, s, r))))" for "is" m r
    using same_answers_fold [of s "(m, s, r)" "is"] refl by simp
  with refl show ?thesis
    unfolding ExternalChecks_checkAndReport_def Let_def split_beta by (simp only: fst_conv split: if_split) simp
qed

lemma mm_ok_report:
  assumes "mm_ok s"
  shows "mm_ok (s\<lparr>mm_external_checks := fst (ExternalChecks_checkAndReport c (mm_external_checks s) r)\<rparr>)"
proof -
  let ?ec = "mm_external_checks s"
  let ?ec' = "fst (ExternalChecks_checkAndReport c ?ec r)"
  have ok: "ec_ok ?ec" using assms by (simp add: mm_ok_def mm_sized_def)
  note same = same_answers_report [of ?ec c r]
  have "drops ?ec ?ec'"
    using same ok by (intro drops_same) (simp_all add: same_answers_def ec_ok_def Let_def)
  then show ?thesis using assms ec_ok_same_answers [OF ok same] by (intro mm_ok_drops)
qed

section \<open>Reachable states\<close>

inductive mm_reachable :: "ModeManagement \<Rightarrow> bool" where
  init: "length hs = Modes_MAX_NUM \<Longrightarrow> None \<notin> set hs \<Longrightarrow>
    mm_reachable (ModeManagement_init (ExternalChecks_init com_mode_arm_chk) hs)"
| update: "mm_reachable s \<Longrightarrow> honest_input nav inp ur s \<Longrightarrow>
    mm_reachable (snd (snd (ModeManagement_update vehicle_type armed nav inp ur s)))"
| report: "mm_reachable s \<Longrightarrow> mm_reachable (s\<lparr>mm_external_checks :=
    fst (ExternalChecks_checkAndReport c (mm_external_checks s) r)\<rparr>)"
| mode_change: "mm_reachable s \<Longrightarrow> mm_reachable (onUserIntendedNavStateChange source nav s)"
| disarm: "mm_reachable s \<Longrightarrow> mm_reachable (snd (ModeManagement_onDisarm nav s))"
| failsafe: "mm_reachable s \<Longrightarrow> mm_reachable (setFailsafeState b s)"
| setpoint_type: "mm_reachable s \<Longrightarrow> mm_reachable (snd (getSetpointType nav s))"
| replacement: "mm_reachable s \<Longrightarrow> mm_reachable (fst (snd (getNavStateReplacementIfValid nav b s)))"

lemma mm_reachable_ok: "mm_reachable s \<Longrightarrow> mm_ok s"
proof (induction rule: mm_reachable.induct)
  case (init hs com_mode_arm_chk)
  have "registered_modes (ExternalChecks_init com_mode_arm_chk) = Map.empty"
    by (simp add: registered_modes_def registrationValid_def ExternalChecks_init_def fun_eq_iff)
  with init show ?case by (intro mm_ok_init ExternalChecks_init_ok)
qed (simp_all add: mm_ok_update mm_ok_report mm_ok_onUserIntended mm_ok_onDisarm setFailsafeState_def
    mm_ok_getSetpointType mm_ok_getReplacement)

end
