(* ===== verification/Mode_Manager_Properties.thy ===== *)
theory Mode_Manager_Properties
  imports Mode_Reachable
begin

text \<open>
  Properties of the mode management: its tables agree with the registrations of the external checks,
  a mode keeps its index, who is in charge after a mode change, and replaced modes.
\<close>

section \<open>Consistency\<close>

lemma mode_registered_iff:
  "mode_registered nav ec \<longleftrightarrow> (\<exists>k. registered_modes ec k = Some (uint nav))"
proof
  assume "mode_registered nav ec"
  then obtain i where "i < MAX_NUM_REGISTRATIONS" "registrationValid i ec"
    "rg_nav_mode_id (ec_registrations ec ! i) = uint nav"
    unfolding mode_registered_def list_ex_upt by blast
  then have "registered_modes ec (int i) = Some (uint nav)" by (simp add: registered_modes_def)
  then show "\<exists>k. registered_modes ec k = Some (uint nav)" ..
next
  assume "\<exists>k. registered_modes ec k = Some (uint nav)"
  then obtain k where "0 \<le> k" "k < 8" "registrationValid (nat k) ec"
    "rg_nav_mode_id (ec_registrations ec ! nat k) = uint nav"
    by (auto simp: registered_modes_def split: if_splits)
  moreover from this have "nat k < 8" by simp
  ultimately show "mode_registered nav ec" unfolding mode_registered_def list_ex_upt by blast
qed

text \<open>
  C30. In every state the mode management reaches, if components unregister with the identifiers
  they were given, its tables are consistent (every valid mode has its own arming check
  registration, modes and executors point to each other, the executor in charge exists, and no
  internal mode is replaced twice), and a mode is registered with the external checks exactly if it
  is a valid mode.
\<close>

theorem reachable_modes_consistent:
  assumes "mm_reachable s"
  shows "mm_ok s \<and> (mode_registered nav (mm_external_checks s) \<longleftrightarrow> mode_valid nav (mm_modes s))"
proof
  show ok: "mm_ok s" using assms by (rule mm_reachable_ok)
  then have "registered_modes (mm_external_checks s) k = Some (uint nav) \<longleftrightarrow>
      mode_reg (mm_modes s) nav = Some k" for k
    by (intro modes_registeredD) (simp add: mm_ok_def)
  then show "mode_registered nav (mm_external_checks s) \<longleftrightarrow> mode_valid nav (mm_modes s)"
    by (simp add: mode_registered_iff mode_reg_def)
qed

definition demo_request :: register_ext_component_request_s where
  "demo_request =
     \<lparr>rq_request_id = 7, rq_name = ''Survey'', rq_register_arming_check = True,
      rq_register_mode = True, rq_register_mode_executor = True,
      rq_enable_replace_internal_mode = True, rq_replace_internal_mode = NAVIGATION_STATE_AUTO_RTL,
      rq_activate_mode_immediately = False, rq_not_user_selectable = False,
      rq_request_offboard_setpoints = False\<rparr>"

definition demo_mm_input :: mm_input where
  "demo_mm_input =
     \<lparr>mi_now = 1000, mi_request_time = 1000, mi_check_replies = [],
      mi_registrations = [demo_request], mi_unregistrations = [], mi_setpoint_configs = [],
      mi_override_requests = []\<rparr>"

definition demo_manager :: ModeManagement where
  "demo_manager = snd (snd (ModeManagement_update VEHICLE_TYPE_ROTARY_WING False
     NAVIGATION_STATE_POSCTL demo_mm_input UpdateRequest_init
     (ModeManagement_init (ExternalChecks_init False) (replicate 8 (Some 0)))))"

lemma demo_manager_reachable: "mm_reachable demo_manager"
  unfolding demo_manager_def
  by (intro mm_reachable.update mm_reachable.init) (simp_all add: honest_input_def demo_mm_input_def)

lemma demo_manager_tables:
  "mode_valid 23 (mm_modes demo_manager)" "exec_owned (mm_mode_executors demo_manager) 1 = Some 23"
  "mode_exec (mm_modes demo_manager) 23 = Some 1"
  "md_replaces_nav_state (mode_at 23 (mm_modes demo_manager)) = NAVIGATION_STATE_AUTO_RTL"
  by code_simp+

theorem reachable_modes_consistent_witness:
  "mm_ok demo_manager \<and> mode_registered 23 (mm_external_checks demo_manager)"
  using reachable_modes_consistent [OF demo_manager_reachable, of 23] demo_manager_tables(1) by simp

section \<open>The index of a mode\<close>

text \<open>The indexes that no mode uses and whose stored hash is 0.\<close>

definition unused :: "mode_hashes \<Rightarrow> Modes \<Rightarrow> nat set" where
  "unused hs ms = {i. i < Modes_MAX_NUM \<and> \<not> md_valid (ms ! i) \<and> hs ! i = Some 0}"

lemma finite_unused [simp]: "finite (unused hs ms)"
  by (rule finite_subset [of _ "{..<8}"]) (auto simp: unused_def)

lemma first_unused_mem: "first_unused_idx hs ms = Some i \<Longrightarrow> i \<in> unused hs ms"
  unfolding first_unused_idx_def by (drule find_index_Some) (simp add: unused_def)

lemma first_unused_exists: "unused hs ms \<noteq> {} \<Longrightarrow> first_unused_idx hs ms \<noteq> None"
  unfolding first_unused_idx_def find_None_iff set_upt by (auto simp: unused_def)

lemma mode_name_hash_nonzero [simp]: "mode_name_hash name \<noteq> 0"
  by (simp add: mode_name_hash_def Let_def)

lemma matching_idx_update_other:
  assumes "matching_idx h hs = Some i" and "hs ! j \<noteq> Some h" and "h' \<noteq> h" and "length hs = Modes_MAX_NUM"
  shows "matching_idx h (hs[j := Some h']) = Some i"
proof -
  have "(hs[j := Some h'] ! k = Some h) = (hs ! k = Some h)" if "k < Modes_MAX_NUM" for k
    using assms that by (cases "k = j") auto
  then have "filter (\<lambda>k. hs[j := Some h'] ! k = Some h) (rev [0..<n]) =
      filter (\<lambda>k. hs ! k = Some h) (rev [0..<n])" if "n \<le> Modes_MAX_NUM" for n
    using that by (intro filter_cong) auto
  from this [of Modes_MAX_NUM] assms(1) show ?thesis
    unfolding matching_idx_def fold_last_match by (simp only: order_refl)
qed

lemma matching_idx_new:
  assumes "matching_idx h hs = None" and "j < Modes_MAX_NUM" and "length hs = Modes_MAX_NUM"
  shows "matching_idx h (hs[j := Some h]) = Some j"
proof -
  have "matching_idx h (hs[j := Some h]) \<noteq> None"
    using matching_idx_None [of h "hs[j := Some h]" j] assms by auto
  then obtain k where k: "matching_idx h (hs[j := Some h]) = Some k" by blast
  have "k = j"
  proof (rule ccontr)
    assume "k \<noteq> j"
    with matching_idx_Some [OF k] matching_idx_None [OF assms(1), of k] show False by simp
  qed
  with k show ?thesis by simp
qed

text \<open>
  Adding a mode whose hash is not in use by a valid mode stores the hash at the index of the mode.
\<close>

lemma addExternalMode_index:
  assumes "addExternalMode m (hs, ms) = (nav, hs', ms')" and "nav \<noteq> -1"
  obtains i u where "i < Modes_MAX_NUM" and "nav = of_nat i + FIRST_EXTERNAL_NAV_STATE"
    and "\<not> md_valid (ms ! i)" and "ms' = ms[i := m\<lparr>md_valid := True\<rparr>]"
    and "new_mode_idx (mode_name_hash (md_name m)) hs ms = (Some i, u)"
    and "hs' = (case u of None \<Rightarrow> hs | Some h \<Rightarrow> if hs ! i \<noteq> None then hs[i := Some h] else hs)"
proof -
  obtain idx u where new: "new_mode_idx (mode_name_hash (md_name m)) hs ms = (idx, u)"
    by (cases "new_mode_idx (mode_name_hash (md_name m)) hs ms")
  with assms obtain i where i: "idx = Some i" "\<not> md_valid (ms ! i)"
    by (cases idx) (auto simp: addExternalMode_def split: if_splits)
  have "i < Modes_MAX_NUM"
    using new i matching_idx_Some find_index_Some
    unfolding new_mode_idx_def first_unused_idx_def first_invalid_idx_def
    by (auto split: option.splits if_splits simp del: upt_rec_numeral)
  with assms new i show ?thesis by (intro that [of i u]) (simp_all add: addExternalMode_def)
qed

lemma new_mode_idx_unused:
  assumes "unused hs ms \<noteq> {}"
  obtains (free) j where "new_mode_idx h hs ms = (Some j, None)" and "j \<in> unused hs ms"
  | (known) k where "new_mode_idx h hs ms = (Some k, None)" and "hs ! k = Some h"
      and "k < Modes_MAX_NUM" and "\<not> md_valid (ms ! k)"
  | (stored) j where "new_mode_idx h hs ms = (Some j, Some h)" and "j \<in> unused hs ms"
proof -
  obtain j where j: "first_unused_idx hs ms = Some j" "j \<in> unused hs ms"
    using first_unused_exists [OF assms] first_unused_mem [of hs ms] by blast
  show ?thesis
  proof (cases "matching_idx h hs")
    case None
    with j show ?thesis by (intro stored [of j]) (simp_all add: new_mode_idx_def)
  next
    case (Some k)
    with j free [of j] known [of k] matching_idx_Some [of h hs k] show ?thesis
      by (cases "md_valid (ms ! k)") (simp_all add: new_mode_idx_def)
  qed
qed

lemma addExternalMode_succeeds:
  assumes "addExternalMode m (hs, ms) = (nav, hs', ms')" and "unused hs ms \<noteq> {}"
  shows "nav \<noteq> -1"
proof -
  obtain k u where "new_mode_idx (mode_name_hash (md_name m)) hs ms = (Some k, u)"
    "k < Modes_MAX_NUM" "\<not> md_valid (ms ! k)"
    using assms(2) by (rule new_mode_idx_unused [of hs ms "mode_name_hash (md_name m)"])
      (auto simp: unused_def)
  with assms(1) external_of_index [of k] have "external nav" by (auto simp: addExternalMode_def)
  moreover have "\<not> external (-1)" by code_simp
  ultimately show ?thesis by auto
qed

text \<open>
  Adding a mode with another hash, while an index is unused, leaves the index of the hash \<open>h\<close> and the
  mode there alone and uses up at most one unused index.
\<close>

lemma addExternalMode_keeps:
  assumes "addExternalMode m (hs, ms) = (nav, hs', ms')" and "mode_name_hash (md_name m) \<noteq> h"
    and "h \<noteq> 0" and "matching_idx h hs = Some i" and "unused hs ms \<noteq> {}"
    and "length hs = Modes_MAX_NUM" and "length ms = Modes_MAX_NUM" and "md_valid (ms ! i)"
  shows "matching_idx h hs' = Some i" and "card (unused hs ms) \<le> Suc (card (unused hs' ms'))"
    and "ms' ! i = ms ! i" and "length hs' = Modes_MAX_NUM" and "length ms' = Modes_MAX_NUM"
proof -
  have "matching_idx h hs' = Some i \<and> (\<exists>j. unused hs ms - {j} \<subseteq> unused hs' ms') \<and>
    ms' ! i = ms ! i \<and> length hs' = Modes_MAX_NUM \<and> length ms' = Modes_MAX_NUM"
  proof -
    obtain k u where k: "k < Modes_MAX_NUM" "\<not> md_valid (ms ! k)" "ms' = ms[k := m\<lparr>md_valid := True\<rparr>]"
      "new_mode_idx (mode_name_hash (md_name m)) hs ms = (Some k, u)"
      "hs' = (case u of None \<Rightarrow> hs | Some h \<Rightarrow> if hs ! k \<noteq> None then hs[k := Some h] else hs)"
      using assms(1) addExternalMode_succeeds [OF assms(1,5)] by (rule addExternalMode_index) blast
    have "k \<noteq> i" using k(2) assms(8) by auto
    have rest: "unused hs ms - {k} \<subseteq> unused (hs[k := x]) ms'" "unused hs ms - {k} \<subseteq> unused hs ms'" for x
      using k(1,3) by (auto simp: unused_def)
    have same: ?thesis if "hs' = hs"
      unfolding that k(3) using assms(4,6,7) \<open>k \<noteq> i\<close> rest(2) k(3) by auto
    from assms(5) show ?thesis
    proof (cases rule: new_mode_idx_unused [of hs ms "mode_name_hash (md_name m)"])
      case (stored j)
      then have hs': "hs' = hs[k := Some (mode_name_hash (md_name m))]" and "hs ! k \<noteq> Some h"
        using k assms(3) by (auto simp: unused_def)
      then have "matching_idx h hs' = Some i"
        unfolding hs' using assms by (intro matching_idx_update_other)
      then show ?thesis unfolding hs' k(3) using assms(6,7) \<open>k \<noteq> i\<close> rest(1) k(3) by auto
    qed (use k same in simp_all)
  qed
  then obtain j where "unused hs ms - {j} \<subseteq> unused hs' ms'" and
    rest: "matching_idx h hs' = Some i" "ms' ! i = ms ! i" "length hs' = 8" "length ms' = 8" by blast
  then have "card (unused hs ms - {j}) \<le> card (unused hs' ms')" by (intro card_mono) simp_all
  then show "card (unused hs ms) \<le> Suc (card (unused hs' ms'))"
    using card_Diff1_le [of "unused hs ms" j] card_Suc_Diff1 [of "unused hs ms" j]
    by (cases "j \<in> unused hs ms") simp_all
  show "matching_idx h hs' = Some i" and "ms' ! i = ms ! i" and "length hs' = Modes_MAX_NUM"
    and "length ms' = Modes_MAX_NUM"
    using rest by simp_all
qed

lemma addExternalModes_keep:
  assumes "list_all (\<lambda>m. mode_name_hash (md_name m) \<noteq> h) others"
    and "h \<noteq> 0" and "matching_idx h hs = Some i" and "length others \<le> card (unused hs ms)"
    and "length hs = Modes_MAX_NUM" and "length ms = Modes_MAX_NUM" and "md_valid (ms ! i)"
  shows "\<exists>hs' ms'. fold (\<lambda>m x. snd (addExternalMode m x)) others (hs, ms) = (hs', ms') \<and>
    matching_idx h hs' = Some i \<and> ms' ! i = ms ! i \<and> length hs' = Modes_MAX_NUM \<and>
    length ms' = Modes_MAX_NUM"
  using assms
proof (induction others arbitrary: hs ms)
  case (Cons m others)
  obtain nav hs1 ms1 where add: "addExternalMode m (hs, ms) = (nav, hs1, ms1)"
    by (cases "addExternalMode m (hs, ms)")
  have "unused hs ms \<noteq> {}" using Cons.prems(4) by auto
  note keeps = addExternalMode_keeps [OF add _ Cons.prems(2,3) this Cons.prems(5-7)]
  have "mode_name_hash (md_name m) \<noteq> h" using Cons.prems(1) by simp
  note keeps = keeps [OF this]
  have "length others \<le> card (unused hs1 ms1)" using keeps(2) Cons.prems(4) by simp
  with Cons.IH [of hs1 ms1] keeps Cons.prems show ?case by (simp add: add)
qed simp

text \<open>
  C31. A mode always gets the same index: let a mode be added whose name hash no valid mode uses,
  then any number of modes with other hashes, as long as there are unused indexes for them, and let
  the mode be removed. When it registers again it gets the same navigation state as before.
\<close>

theorem mode_keeps_nav_state:
  assumes "length hs = Modes_MAX_NUM" and "None \<notin> set hs" and "length ms = Modes_MAX_NUM"
    and "\<And>i. matching_idx (mode_name_hash (md_name m)) hs = Some i \<Longrightarrow> \<not> md_valid (ms ! i)"
    and "unused hs ms \<noteq> {}"
    and "addExternalMode m (hs, ms) = (nav, hs1, ms1)"
    and "list_all (\<lambda>m'. mode_name_hash (md_name m') \<noteq> mode_name_hash (md_name m)) others"
    and "length others \<le> card (unused hs1 ms1)"
    and "fold (\<lambda>m x. snd (addExternalMode m x)) others (hs1, ms1) = (hs2, ms2)"
    and "removeExternalMode nav (md_name m) ms2 = (removed, ms3)"
  shows "removed \<and> fst (addExternalMode m (hs2, ms3)) = nav"
proof -
  let ?h = "mode_name_hash (md_name m)"
  obtain i u where i: "i < Modes_MAX_NUM" "nav = of_nat i + FIRST_EXTERNAL_NAV_STATE"
    "ms1 = ms[i := m\<lparr>md_valid := True\<rparr>]" "new_mode_idx ?h hs ms = (Some i, u)"
    "hs1 = (case u of None \<Rightarrow> hs | Some h \<Rightarrow> if hs ! i \<noteq> None then hs[i := Some h] else hs)"
    using assms(6) addExternalMode_succeeds [OF assms(6,5)] by (rule addExternalMode_index) blast
  have "hs ! i \<noteq> None" using assms(1,2) i(1) by (metis nth_mem)
  have "matching_idx ?h hs1 = Some i \<and> length hs1 = Modes_MAX_NUM"
  proof (cases "matching_idx ?h hs")
    case None
    obtain j where "first_unused_idx hs ms = Some j" using first_unused_exists [OF assms(5)] by blast
    with None i \<open>hs ! i \<noteq> None\<close> have "hs1 = hs[i := Some ?h]" by (auto simp: new_mode_idx_def)
    with None i(1) assms(1) show ?thesis by (simp add: matching_idx_new)
  next
    case (Some k)
    with i(4,5) assms(4) [OF Some] have "hs1 = hs" "k = i" by (auto simp: new_mode_idx_def)
    with Some assms(1) show ?thesis by simp
  qed
  moreover have "md_valid (ms1 ! i)" "md_name (ms1 ! i) = md_name m" "length ms1 = Modes_MAX_NUM"
    using i(1,3) assms(3) by simp_all
  ultimately have final: "matching_idx ?h hs2 = Some i" "md_valid (ms2 ! i)"
    "md_name (ms2 ! i) = md_name m" "length ms2 = Modes_MAX_NUM"
    using addExternalModes_keep [OF assms(7) _ _ assms(8), of i] assms(9) by auto
  have nav: "external nav" "mode_at nav ms2 = ms2 ! i"
    using i(1,2) external_of_index mode_at_index by simp_all
  then have "removed" and ms3: "ms3 = map_mode nav (\<lambda>m. m\<lparr>md_valid := False\<rparr>) ms2"
    using assms(10) final by (auto simp: removeExternalMode_def mode_valid_def external_def)
  have "ms3 ! i = mode_at nav ms3" using i(2) by (simp add: mode_at_index [OF i(1)])
  then have "\<not> md_valid (ms3 ! i)" unfolding ms3 mode_at_map_mode [OF nav(1,1) final(4)] by simp
  with final(1) i(2) \<open>removed\<close> show ?thesis by (simp add: addExternalMode_def new_mode_idx_def)
qed

definition demo_slots :: "mode_hashes \<times> Modes" where
  "demo_slots = (replicate 8 (Some 0), replicate 8 Mode_init)"

definition demo_other :: Mode where
  "demo_other = Mode_init\<lparr>md_name := ''Inspect''\<rparr>"

theorem mode_keeps_nav_state_witness:
  "\<exists>nav hs1 ms1 hs2 ms2 removed ms3.
     addExternalMode (new_mode demo_request) demo_slots = (nav, hs1, ms1) \<and>
     snd (addExternalMode demo_other (hs1, ms1)) = (hs2, ms2) \<and>
     removeExternalMode nav ''Survey'' ms2 = (removed, ms3) \<and>
     removed \<and> fst (addExternalMode (new_mode demo_request) (hs2, ms3)) = nav"
proof -
  let ?m = "new_mode demo_request"
  obtain nav hs1 ms1 where add: "addExternalMode ?m demo_slots = (nav, hs1, ms1)"
    by (cases "addExternalMode ?m demo_slots")
  obtain hs2 ms2 where other: "snd (addExternalMode demo_other (hs1, ms1)) = (hs2, ms2)"
    by (cases "snd (addExternalMode demo_other (hs1, ms1))")
  obtain removed ms3 where rem: "removeExternalMode nav ''Survey'' ms2 = (removed, ms3)"
    by (cases "removeExternalMode nav ''Survey'' ms2")
  have name: "md_name ?m = ''Survey''" by code_simp
  have "fst (snd (addExternalMode ?m demo_slots)) ! 7 = Some 0 \<and>
      \<not> md_valid (snd (snd (addExternalMode ?m demo_slots)) ! 7)"
    by code_simp
  then have "7 \<in> unused hs1 ms1" by (simp add: add unused_def)
  then have "card {7 :: nat} \<le> card (unused hs1 ms1)" by (intro card_mono) auto
  moreover have "7 \<in> unused (replicate 8 (Some 0)) (replicate 8 Mode_init)"
    by (simp add: unused_def Mode_init_def)
  moreover have "mode_name_hash (md_name demo_other) \<noteq> mode_name_hash (md_name ?m)" by code_simp
  ultimately have "removed \<and> fst (addExternalMode ?m (hs2, ms3)) = nav"
    using add other rem
    by (intro mode_keeps_nav_state [of "replicate 8 (Some 0)" "replicate 8 Mode_init" ?m nav hs1 ms1
          "[demo_other]"])
       (auto simp: demo_slots_def name dest: matching_idx_Some simp: Mode_init_def)
  with add other rem show ?thesis by blast
qed

section \<open>Executors in charge\<close>

text \<open>
  C32. After a mode change by the user, an executor is in charge only if it owns the selected mode;
  otherwise the pilot has control. A mode change by an executor to a mode that no executor owns does
  not change who is in charge. While a failsafe action is active no executor is in charge.
\<close>

theorem executor_in_charge_owns_mode:
  assumes "mm_reachable s"
  shows "(let s' = onUserIntendedNavStateChange MCS_User nav s; k = modeExecutorInCharge s' in
      k = AUTOPILOT_EXECUTOR_ID \<or>
      executor_valid k (mm_mode_executors s') \<and>
      me_owned_nav_state (executor k (mm_mode_executors s')) = nav) \<and>
    ((\<nexists>k. executor_valid k (mm_mode_executors s) \<and>
        me_owned_nav_state (executor k (mm_mode_executors s)) = nav) \<longrightarrow>
      modeExecutorInCharge (onUserIntendedNavStateChange MCS_User nav s) = AUTOPILOT_EXECUTOR_ID \<and>
      onUserIntendedNavStateChange MCS_ModeExecutor nav s = s) \<and>
    modeExecutorInCharge (setFailsafeState True s) = AUTOPILOT_EXECUTOR_ID"
proof -
  have owned: "mode_exec (mm_modes s) nav = Some k \<longleftrightarrow> executor_valid k (mm_mode_executors s) \<and>
      me_owned_nav_state (executor k (mm_mode_executors s)) = nav" for k
    using mode_exec_owned [OF mm_reachable_ok [OF assms]] by (auto simp: exec_owned_def)
  show ?thesis
  proof (cases "mode_exec (mm_modes s) nav")
    case None
    then show ?thesis by (simp add: onUserIntended_exec modeExecutorInCharge_def setFailsafeState_def)
  next
    case (Some k)
    with owned [of k] show ?thesis
      by (auto simp: onUserIntended_exec modeExecutorInCharge_def setFailsafeState_def Let_def)
  qed
qed

theorem executor_in_charge_owns_mode_witness:
  "modeExecutorInCharge (onUserIntendedNavStateChange MCS_User 23 demo_manager) = 1 \<and>
   modeExecutorInCharge (setFailsafeState True demo_manager) = AUTOPILOT_EXECUTOR_ID"
proof -
  have "modeExecutorInCharge (onUserIntendedNavStateChange MCS_User 23 demo_manager) = 1" by code_simp
  then show ?thesis using executor_in_charge_owns_mode [OF demo_manager_reachable, of 23] by simp
qed

section \<open>Replaced modes\<close>

text \<open>
  C33. Replacing a mode and going back are inverse: for an internal mode, the mode replaced by its
  replacement is the mode itself, also when the replacement is unresponsive; and a responsive valid
  mode is the replacement of the internal mode it replaces.
\<close>

theorem replacement_roundtrip:
  assumes "mm_reachable s"
  shows "(\<not> external nav \<longrightarrow> nav \<noteq> REPLACES_NAV_STATE_NONE \<longrightarrow>
      getReplacedModeIfAny (fst (getNavStateReplacementIfValid nav b s)) s = nav) \<and>
    (mode_valid m (mm_modes s) \<and>
     md_replaces_nav_state (mode_at m (mm_modes s)) = nav \<and> nav \<noteq> REPLACES_NAV_STATE_NONE \<and>
     \<not> isUnresponsive (md_arming_check_registration_id (mode_at m (mm_modes s))) (mm_external_checks s) \<longrightarrow>
      fst (getNavStateReplacementIfValid nav b s) = m)"
proof -
  let ?P = "\<lambda>i. mode_valid i (mm_modes s) \<and> md_replaces_nav_state (mode_at i (mm_modes s)) = nav"
  have inj: "injective_map (mode_repl (mm_modes s))"
    using mm_reachable_ok [OF assms] by (simp add: mm_ok_def)
  have one: "i = m" if "?P i" "?P m" "nav \<noteq> REPLACES_NAV_STATE_NONE" for i
    using inj that unfolding injective_map_def mode_repl_def by (metis (full_types))
  have find: "?P i" if "List.find ?P navs = Some i" for navs i
    using that by (auto simp: find_Some_iff)
  have found: "List.find ?P external_navs \<noteq> None" if "?P m"
    using that external_navs_iff [of m] mode_valid_external [of m] unfolding find_None_iff by blast
  have internal: "\<not> mode_valid nav (mm_modes s)" if "\<not> external nav"
    using that mode_valid_external by blast
  show ?thesis
  proof (cases "List.find ?P external_navs")
    case None
    then have "fst (getNavStateReplacementIfValid nav b s) = nav"
      unfolding getNavStateReplacementIfValid_def by (simp only: option.case fst_conv)
    with None found internal show ?thesis by (auto simp: getReplacedModeIfAny_def)
  next
    case (Some i)
    then have eq: "fst (getNavStateReplacementIfValid nav b s) =
        (if isUnresponsive (md_arming_check_registration_id (mode_at i (mm_modes s)))
           (mm_external_checks s) then nav else i)"
      unfolding getNavStateReplacementIfValid_def Let_def by (simp only: option.case) simp
    show ?thesis
      unfolding eq using find [OF Some] one [of i] internal by (auto simp: getReplacedModeIfAny_def)
  qed
qed

theorem replacement_roundtrip_witness:
  "fst (getNavStateReplacementIfValid NAVIGATION_STATE_AUTO_RTL True demo_manager) = 23 \<and>
   getReplacedModeIfAny 23 demo_manager = NAVIGATION_STATE_AUTO_RTL"
proof -
  have "\<not> isUnresponsive (md_arming_check_registration_id (mode_at 23 (mm_modes demo_manager)))
      (mm_external_checks demo_manager)" and "\<not> external NAVIGATION_STATE_AUTO_RTL" by code_simp+
  with replacement_roundtrip [OF demo_manager_reachable, of NAVIGATION_STATE_AUTO_RTL True 23]
  show ?thesis by (auto simp: demo_manager_tables)
qed

section \<open>Unregistering\<close>

text \<open>
  C34. A request to unregister the mode the user has selected leads to Hold even if nothing is
  removed: when the name of the request is not the name of the mode, and it names no arming check
  registration of the mode, the state stays as it is, and Hold is requested all the same.
\<close>

theorem unregistration_switches_to_hold:
  assumes "mm_reachable s" and "un_mode_id un = uint nav"
    and "mode_valid nav (mm_modes s) \<Longrightarrow> terminated (un_name un) \<noteq> md_name (mode_at nav (mm_modes s))"
    and "registered_modes (mm_external_checks s) (un_arming_check_id un) \<noteq> Some (uint nav)"
  shows "handle_unregistration nav un (ur, s) =
    (ur\<lparr>ur_change_user_intended_nav_state := True,
        ur_user_intended_nav_state := NAVIGATION_STATE_AUTO_LOITER\<rparr>, s)"
proof -
  have "ec_ok (mm_external_checks s)"
    using mm_reachable_ok [OF assms(1)] by (simp add: mm_ok_def mm_sized_def)
  from registry.remove_other [OF this assms(4)]
  have "snd (removeRegistration (un_arming_check_id un) (uint nav) (mm_external_checks s)) =
      mm_external_checks s" by simp
  moreover have "uint nav \<noteq> -1" using uint_ge_0 [of nav] by linarith
  ultimately show ?thesis
    using assms(2,3) by (auto simp: handle_unregistration_def Let_def removeExternalMode_def)
qed

theorem unregistration_switches_to_hold_witness:
  "handle_unregistration 23 \<lparr>un_name = ''Other'', un_arming_check_id = -1, un_mode_id = 23,
       un_mode_executor_id = 1\<rparr> (UpdateRequest_init, demo_manager) =
     (UpdateRequest_init\<lparr>ur_change_user_intended_nav_state := True,
        ur_user_intended_nav_state := NAVIGATION_STATE_AUTO_LOITER\<rparr>, demo_manager)"
proof (rule unregistration_switches_to_hold [OF demo_manager_reachable])
  have "md_name (mode_at 23 (mm_modes demo_manager)) = ''Survey''" by code_simp
  then show "terminated (un_name \<lparr>un_name = ''Other'', un_arming_check_id = -1, un_mode_id = 23,
      un_mode_executor_id = 1\<rparr>) \<noteq> md_name (mode_at 23 (mm_modes demo_manager))"
    by (simp add: terminated_def)
qed (simp_all add: registered_modes_def)

end
