(* ===== verification/User_Mode.thy ===== *)
theory User_Mode
  imports Arming_Update Mode_Reachable
begin

text \<open>
  The classes \<^verbatim>\<open>UserModeIntention\<close> and \<^verbatim>\<open>Safety\<close> of the commander. The abstract class
  \<^verbatim>\<open>ModeChangeHandler\<close> is a record of functions on the handler's state; the locale
  \<open>mode_change_handler\<close> states what the user mode intention relies on, and the mode management is its
  instance. The pointer to the handler may be null.
\<close>

section \<open>User mode intention\<close>

record 'h ModeChangeHandler =
  mh_onUserIntendedNavStateChange :: "ModeChangeSource \<Rightarrow> u8 \<Rightarrow> 'h \<Rightarrow> 'h"
  mh_getReplacedModeIfAny :: "u8 \<Rightarrow> 'h \<Rightarrow> u8"
  mh_onDisarm :: "u8 \<Rightarrow> 'h \<Rightarrow> u8 \<times> 'h"

record UserModeIntention =
  um_user_intented_nav_state :: u8
  um_nav_state_after_disarming :: u8
  um_had_mode_change :: bool

definition UserModeIntention_init :: UserModeIntention where
  "UserModeIntention_init =
     \<lparr>um_user_intented_nav_state = NAVIGATION_STATE_POSCTL,
      um_nav_state_after_disarming = NAVIGATION_STATE_POSCTL, um_had_mode_change = False\<rparr>"

definition isTakeOffIntended :: "u8 \<Rightarrow> bool" where
  "isTakeOffIntended nav_state \<longleftrightarrow>
     nav_state = NAVIGATION_STATE_AUTO_TAKEOFF \<or> nav_state = NAVIGATION_STATE_AUTO_VTOL_TAKEOFF"

text \<open>Whether the change is allowed, for the mode after the lookup of replaced modes.\<close>

definition allow_change :: "vehicle_status_s \<Rightarrow> Report \<Rightarrow> u8 \<Rightarrow> bool \<Rightarrow> bool \<Rightarrow> bool" where
  "allow_change status r nav_state allow_fallback force \<longleftrightarrow>
    (let always_allow = (force \<or> vs_arming_state status \<noteq> ARMING_STATE_ARMED);
         allowed = (if always_allow then True
           else if \<not> canRun r nav_state \<and> allow_fallback \<and> nav_state = NAVIGATION_STATE_POSCTL
           then canRun r NAVIGATION_STATE_ALTCTL
           else canRun r nav_state)
     in allowed \<and> vs_nav_state status \<noteq> NAVIGATION_STATE_TERMINATION)"

definition UserModeIntention_change ::
  "'h ModeChangeHandler option \<Rightarrow> vehicle_status_s \<Rightarrow> Report \<Rightarrow> u8 \<Rightarrow> ModeChangeSource \<Rightarrow>
   bool \<Rightarrow> bool \<Rightarrow> UserModeIntention \<times> 'h \<Rightarrow> bool \<times> UserModeIntention \<times> 'h" where
  "UserModeIntention_change handler status r user_intended_nav_state source allow_fallback force =
    (\<lambda>(u, h).
      (let nav = (case handler of None \<Rightarrow> user_intended_nav_state
             | Some H \<Rightarrow> mh_getReplacedModeIfAny H user_intended_nav_state h)
       in if allow_change status r nav allow_fallback force
          then
            (let u = u\<lparr>um_had_mode_change := True, um_user_intented_nav_state := nav\<rparr>;
                 u = (if \<not> modePreventsArming r nav \<and> \<not> isTakeOffIntended nav \<or>
                         nav = NAVIGATION_STATE_TERMINATION
                      then u\<lparr>um_nav_state_after_disarming := nav\<rparr> else u)
             in (True, u,
                 case handler of None \<Rightarrow> h
                 | Some H \<Rightarrow> mh_onUserIntendedNavStateChange H source nav h))
          else (False, u, h)))"

definition UserModeIntention_onDisarm ::
  "'h ModeChangeHandler option \<Rightarrow> UserModeIntention \<times> 'h \<Rightarrow> UserModeIntention \<times> 'h" where
  "UserModeIntention_onDisarm handler = (\<lambda>(u, h).
    (case handler of
       None \<Rightarrow> (u\<lparr>um_user_intented_nav_state := um_nav_state_after_disarming u\<rparr>, h)
     | Some H \<Rightarrow>
        (let (nav, h) = mh_onDisarm H (um_nav_state_after_disarming u) h
         in (u\<lparr>um_user_intented_nav_state := nav\<rparr>, h))))"

definition getHadModeChangeAndClear :: "UserModeIntention \<Rightarrow> bool \<times> UserModeIntention" where
  "getHadModeChangeAndClear u = (um_had_mode_change u, u\<lparr>um_had_mode_change := False\<rparr>)"

section \<open>Safety\<close>

record Safety =
  sf_button_available :: bool
  sf_safety_off :: bool
  sf_previous_safety_off :: bool
  sf_safety_disabled :: bool

text \<open>The circuit breaker \<^verbatim>\<open>CBRK_IO_SAFETY\<close> decides whether safety is disabled.\<close>

definition Safety_init :: "bool \<Rightarrow> Safety" where
  "Safety_init disabled =
     \<lparr>sf_button_available = disabled, sf_safety_off = disabled, sf_previous_safety_off = False,
      sf_safety_disabled = disabled\<rparr>"

text \<open>The waiting button events are given by their field \<^verbatim>\<open>triggered\<close>.\<close>

definition safetyButtonHandler :: "bool \<Rightarrow> bool list \<Rightarrow> Safety \<Rightarrow> bool \<times> Safety" where
  "safetyButtonHandler advertised triggered s =
    (let s = (if \<not> sf_safety_disabled s
              then s\<lparr>sf_button_available := (sf_button_available s \<or> advertised),
                     sf_safety_off := fold (\<lambda>t off. off \<or> t) triggered (sf_safety_off s)\<rparr>
              else s);
         safety_changed = (sf_previous_safety_off s \<noteq> sf_safety_off s)
     in (safety_changed, s\<lparr>sf_previous_safety_off := sf_safety_off s\<rparr>))"

definition activateSafety :: "Safety \<Rightarrow> Safety" where
  "activateSafety s = (if \<not> sf_safety_disabled s then s\<lparr>sf_safety_off := False\<rparr> else s)"

definition deactivateSafety :: "Safety \<Rightarrow> Safety" where
  "deactivateSafety s = (if \<not> sf_safety_disabled s then s\<lparr>sf_safety_off := True\<rparr> else s)"

section \<open>The contract of a mode change handler\<close>

text \<open>
  The operations keep the handler's invariant, and on disarming the handler chooses the stored mode,
  a mode that it owns, or Hold.
\<close>

locale mode_change_handler =
  fixes H :: "'h ModeChangeHandler"
    and ok :: "'h \<Rightarrow> bool"
    and owned :: "'h \<Rightarrow> u8 set"
  assumes change_ok: "ok h \<Longrightarrow> ok (mh_onUserIntendedNavStateChange H source nav h)"
    and change_owned: "ok h \<Longrightarrow> owned (mh_onUserIntendedNavStateChange H source nav h) = owned h"
    and disarm_ok: "ok h \<Longrightarrow> ok (snd (mh_onDisarm H nav h))"
    and disarm_owned: "ok h \<Longrightarrow> owned (snd (mh_onDisarm H nav h)) = owned h"
    and disarm_choice: "ok h \<Longrightarrow>
      fst (mh_onDisarm H nav h) \<in> {nav, NAVIGATION_STATE_AUTO_LOITER} \<union> owned h"
begin

lemma change_keeps_ok:
  "ok (snd x) \<Longrightarrow> ok (snd (snd (UserModeIntention_change (Some H) status r nav source fb force x)))"
  by (cases x) (simp add: UserModeIntention_change_def Let_def change_ok)

text \<open>The mode for the time after disarming is never a takeoff mode.\<close>

lemma change_after_disarming:
  "\<not> isTakeOffIntended (um_nav_state_after_disarming (fst x)) \<Longrightarrow>
   \<not> isTakeOffIntended (um_nav_state_after_disarming
     (fst (snd (UserModeIntention_change (Some H) status r nav source fb force x))))"
  by (cases x) (auto simp: UserModeIntention_change_def Let_def isTakeOffIntended_def)

lemma disarm_selects:
  assumes "ok (snd x)"
  shows "um_user_intented_nav_state (fst (UserModeIntention_onDisarm (Some H) x)) \<in>
    {um_nav_state_after_disarming (fst x), NAVIGATION_STATE_AUTO_LOITER} \<union> owned (snd x)"
  using disarm_choice [OF assms, of "um_nav_state_after_disarming (fst x)"]
  by (simp add: UserModeIntention_onDisarm_def split_beta Let_def)

lemma disarm_keeps_ok: "ok (snd x) \<Longrightarrow> ok (snd (UserModeIntention_onDisarm (Some H) x))"
  by (simp add: UserModeIntention_onDisarm_def split_beta Let_def disarm_ok)

lemma disarm_keeps_stored: "um_nav_state_after_disarming (fst (UserModeIntention_onDisarm (Some H) x)) =
    um_nav_state_after_disarming (fst x)"
  by (simp add: UserModeIntention_onDisarm_def split_beta Let_def)

end

section \<open>The mode management as a handler\<close>

definition ModeManagement_handler :: "ModeManagement ModeChangeHandler" where
  "ModeManagement_handler =
     \<lparr>mh_onUserIntendedNavStateChange = onUserIntendedNavStateChange,
      mh_getReplacedModeIfAny = getReplacedModeIfAny,
      mh_onDisarm = ModeManagement_onDisarm\<rparr>"

definition owned_modes :: "ModeManagement \<Rightarrow> u8 set" where
  "owned_modes s = ran (exec_owned (mm_mode_executors s))"

lemma onUserIntended_frame [simp]:
  "mm_mode_executors (onUserIntendedNavStateChange source nav s) = mm_mode_executors s"
  "mm_modes (onUserIntendedNavStateChange source nav s) = mm_modes s"
  by (simp_all add: onUserIntendedNavStateChange_def Let_def)

lemma onDisarm_choice:
  "fst (ModeManagement_onDisarm nav s) \<in> {nav, NAVIGATION_STATE_AUTO_LOITER} \<union> owned_modes s"
proof -
  have "me_owned_nav_state (executor k (mm_mode_executors s)) \<in> owned_modes s"
    if "executor_valid k (mm_mode_executors s)" for k
    using that by (auto simp: owned_modes_def ran_def exec_owned_def)
  then show ?thesis by (simp add: ModeManagement_onDisarm_def Let_def)
qed

interpretation mode_manager: mode_change_handler ModeManagement_handler mm_ok owned_modes
proof unfold_locales
  fix s :: ModeManagement and source nav
  assume "mm_ok s"
  then show "mm_ok (mh_onUserIntendedNavStateChange ModeManagement_handler source nav s)"
    and "mm_ok (snd (mh_onDisarm ModeManagement_handler nav s))"
    by (simp_all add: ModeManagement_handler_def mm_ok_onUserIntended mm_ok_onDisarm)
  show "owned_modes (mh_onUserIntendedNavStateChange ModeManagement_handler source nav s) = owned_modes s"
    and "owned_modes (snd (mh_onDisarm ModeManagement_handler nav s)) = owned_modes s"
    by (simp_all add: ModeManagement_handler_def owned_modes_def ModeManagement_onDisarm_def Let_def)
  show "fst (mh_onDisarm ModeManagement_handler nav s) \<in>
      {nav, NAVIGATION_STATE_AUTO_LOITER} \<union> owned_modes s"
    using onDisarm_choice by (simp add: ModeManagement_handler_def)
qed

end
