(* ===== verification/Commander_Arming.thy ===== *)
theory Commander_Arming
  imports User_Mode
begin

text \<open>
  \<^verbatim>\<open>Commander::arm\<close> and \<^verbatim>\<open>Commander::disarm\<close>, with the parts of the commander's state they read and
  write. The external checks exist once: the arming checks refer to the object the mode management
  holds. The position of the throttle stick, a floating-point number, is given by the three
  comparisons the code makes. Events, tunes and the request to set the home position are outputs.
\<close>

datatype arm_disarm_reason_t =
    stick_gesture | rc_switch | command_internal | command_external | mission_start | landing
  | preflight_inaction | kill_switch | rc_button | failsafe_reason

fun arm_disarm_reason_value :: "arm_disarm_reason_t \<Rightarrow> u8" where
  "arm_disarm_reason_value stick_gesture = 1"
| "arm_disarm_reason_value rc_switch = 2"
| "arm_disarm_reason_value command_internal = 3"
| "arm_disarm_reason_value command_external = 4"
| "arm_disarm_reason_value mission_start = 5"
| "arm_disarm_reason_value landing = 6"
| "arm_disarm_reason_value preflight_inaction = 7"
| "arm_disarm_reason_value kill_switch = 8"
| "arm_disarm_reason_value rc_button = 13"
| "arm_disarm_reason_value failsafe_reason = 14"

datatype transition_result_t = TRANSITION_DENIED | TRANSITION_NOT_CHANGED | TRANSITION_CHANGED

datatype commander_output =
    CO_event string
  | CO_event_reason string u8
  | CO_tune_negative
  | CO_set_home_position

text \<open>\<^verbatim>\<open>|throttle| < 0.2\<close>, \<^verbatim>\<open>throttle <= 0.2\<close> and \<^verbatim>\<open>throttle < -0.8\<close>.\<close>

record throttle_position =
  tp_near_center :: bool
  tp_at_or_below_center :: bool
  tp_at_bottom :: bool

record Commander =
  cm_vehicle_status :: vehicle_status_s
  cm_actuator_armed :: actuator_armed_s
  cm_vehicle_control_mode :: vehicle_control_mode_s
  cm_landed :: bool
  cm_maybe_landed :: bool
  cm_health_and_arming_checks :: HealthAndArmingChecks
  cm_check_world :: check_world
  cm_mode_management :: ModeManagement
  cm_user_mode_intention :: UserModeIntention
  cm_safety :: Safety
  cm_last_manual_throttle :: throttle_position
  cm_last_disarmed_timestamp :: hrt_abstime
  cm_have_taken_off_since_arming :: bool
  cm_mission_in_progress :: bool
  cm_config_overrides :: config_overrides_s
  cm_status_changed :: bool
  cm_param_com_home_en :: bool
  cm_param_com_force_safety :: bool
  cm_param_com_flight_uuid :: u32

abbreviation commander_report :: "Commander \<Rightarrow> Report" where
  "commander_report c \<equiv> ha_reporter (cm_health_and_arming_checks c)"

definition Commander_isArmed :: "Commander \<Rightarrow> bool" where
  "Commander_isArmed c \<longleftrightarrow> vs_arming_state (cm_vehicle_status c) = ARMING_STATE_ARMED"

text \<open>The MAVLink types of boats and ground rovers.\<close>

definition is_ground_vehicle :: "vehicle_status_s \<Rightarrow> bool" where
  "is_ground_vehicle status \<longleftrightarrow> vs_system_type status = 11 \<or> vs_system_type status = 10"

text \<open>An update of the arming checks, on the external checks of the mode management.\<close>

definition Commander_check_input :: "Commander \<Rightarrow> check_world \<times> HealthAndArmingChecks" where
  "Commander_check_input c =
     ((cm_check_world c)\<lparr>cw_external := mm_external_checks (cm_mode_management c)\<rparr>,
      cm_health_and_arming_checks c)"

definition Commander_update_checks ::
  "check_world check list \<Rightarrow> hrt_abstime \<times> hrt_abstime \<times> hrt_abstime \<Rightarrow> bool \<Rightarrow> bool \<Rightarrow>
   Commander \<Rightarrow> Commander" where
  "Commander_update_checks checks clock force_reporting is_arming_request c =
    (let (_, _, w, h) = HealthAndArmingChecks_update checks (cm_vehicle_status c) clock
           force_reporting is_arming_request (Commander_check_input c)
     in c\<lparr>cm_check_world := w, cm_health_and_arming_checks := h,
          cm_mode_management := (cm_mode_management c)\<lparr>mm_external_checks := cw_external w\<rparr>\<rparr>)"

section \<open>Arming\<close>

definition calibrating :: "Commander \<Rightarrow> bool" where
  "calibrating c \<longleftrightarrow>
     vs_calibration_enabled (cm_vehicle_status c) \<or>
     vs_rc_calibration_in_progress (cm_vehicle_status c) \<or>
     aa_in_esc_calibration_mode (cm_actuator_armed c)"

text \<open>The grace period for arming again with the switch of the remote control.\<close>

definition rearm_grace :: "hrt_abstime \<Rightarrow> arm_disarm_reason_t \<Rightarrow> Commander \<Rightarrow> bool" where
  "rearm_grace now calling_reason c \<longleftrightarrow>
     calling_reason = rc_switch \<and> cm_last_disarmed_timestamp c \<noteq> 0 \<and>
     hrt_elapsed_time now (cm_last_disarmed_timestamp c) < time_s 5"

definition throttle_safe :: "Commander \<Rightarrow> bool" where
  "throttle_safe c \<longleftrightarrow>
    (if vs_vehicle_type (cm_vehicle_status c) = VEHICLE_TYPE_ROVER
     then tp_near_center (cm_last_manual_throttle c)
     else if flag_control_climb_rate_enabled (cm_vehicle_control_mode c)
     then tp_at_or_below_center (cm_last_manual_throttle c)
     else tp_at_bottom (cm_last_manual_throttle c))"

definition throttle_denies :: "Commander \<Rightarrow> bool" where
  "throttle_denies c \<longleftrightarrow>
     flag_control_manual_enabled (cm_vehicle_control_mode c) \<and>
     \<not> ff_flag (rp_failsafe_flags (commander_report c)) manual_control_signal_lost \<and>
     \<not> throttle_safe c"

definition set_armed :: "hrt_abstime \<Rightarrow> arm_disarm_reason_t \<Rightarrow> Commander \<Rightarrow> Commander" where
  "set_armed now calling_reason c =
     c\<lparr>cm_vehicle_status := (cm_vehicle_status c)
         \<lparr>vs_armed_time := now, vs_arming_state := ARMING_STATE_ARMED,
          vs_latest_arming_reason := arm_disarm_reason_value calling_reason\<rparr>,
       cm_status_changed := True\<rparr>"

definition arm_outputs :: "arm_disarm_reason_t \<Rightarrow> Commander \<Rightarrow> commander_output list" where
  "arm_outputs calling_reason c =
     CO_event_reason ''commander_armed_by'' (arm_disarm_reason_value calling_reason) #
     (if cm_param_com_home_en c \<and> \<not> cm_mission_in_progress c \<and>
         \<not> co_disable_auto_set_home (cm_config_overrides c)
      then [CO_set_home_position] else [])"

definition Commander_arm ::
  "check_world check list \<Rightarrow> hrt_abstime \<Rightarrow> hrt_abstime \<times> hrt_abstime \<times> hrt_abstime \<Rightarrow>
   arm_disarm_reason_t \<Rightarrow> bool \<Rightarrow> Commander \<Rightarrow>
   transition_result_t \<times> commander_output list \<times> Commander" where
  "Commander_arm checks now clock calling_reason run_preflight_checks c =
    (if Commander_isArmed c then (TRANSITION_NOT_CHANGED, [], c)
     else if calibrating c
     then (TRANSITION_DENIED, [CO_event ''commander_arm_denied_calibrating'', CO_tune_negative], c)
     else if run_preflight_checks \<and> \<not> rearm_grace now calling_reason c
     then
       if throttle_denies c
       then (TRANSITION_DENIED,
             [CO_event ''commander_arm_denied_throttle_unsafe'', CO_tune_negative], c)
       else
         (let c = Commander_update_checks checks clock False True c
          in if \<not> canArm (commander_report c) (vs_nav_state (cm_vehicle_status c))
             then (TRANSITION_DENIED,
                   [CO_tune_negative, CO_event ''commander_arm_denied_resolve_failures''], c)
             else (TRANSITION_CHANGED, arm_outputs calling_reason c, set_armed now calling_reason c))
     else (TRANSITION_CHANGED, arm_outputs calling_reason c, set_armed now calling_reason c))"

section \<open>Disarming\<close>

definition commanded_by_rc :: "arm_disarm_reason_t \<Rightarrow> bool" where
  "commanded_by_rc calling_reason \<longleftrightarrow>
     calling_reason = stick_gesture \<or> calling_reason = rc_switch \<or> calling_reason = rc_button"

definition disarm_permitted :: "arm_disarm_reason_t \<Rightarrow> Commander \<Rightarrow> bool" where
  "disarm_permitted calling_reason c \<longleftrightarrow>
    (let landed = (cm_landed c \<or> cm_maybe_landed c \<or> is_ground_vehicle (cm_vehicle_status c));
         mc_manual_thrust_mode =
           (vs_vehicle_type (cm_vehicle_status c) = VEHICLE_TYPE_ROTARY_WING \<and>
            flag_control_manual_enabled (cm_vehicle_control_mode c) \<and>
            \<not> flag_control_climb_rate_enabled (cm_vehicle_control_mode c))
     in landed \<or> mc_manual_thrust_mode \<and> commanded_by_rc calling_reason)"

definition set_disarmed :: "hrt_abstime \<Rightarrow> arm_disarm_reason_t \<Rightarrow> Commander \<Rightarrow> Commander" where
  "set_disarmed now calling_reason c =
    (let c = c\<lparr>cm_vehicle_status := (cm_vehicle_status c)
                 \<lparr>vs_armed_time := 0, vs_arming_state := ARMING_STATE_DISARMED,
                  vs_latest_disarming_reason := arm_disarm_reason_value calling_reason,
                  vs_takeoff_time := 0\<rparr>,
               cm_have_taken_off_since_arming := False, cm_last_disarmed_timestamp := now\<rparr>;
         (u, m) = UserModeIntention_onDisarm (Some ModeManagement_handler)
           (cm_user_mode_intention c, cm_mode_management c)
     in c\<lparr>cm_user_mode_intention := u, cm_mode_management := m,
          cm_safety := (if cm_param_com_force_safety c then activateSafety (cm_safety c)
                        else cm_safety c),
          cm_param_com_flight_uuid := cm_param_com_flight_uuid c + 1, cm_status_changed := True\<rparr>)"

definition Commander_disarm ::
  "hrt_abstime \<Rightarrow> arm_disarm_reason_t \<Rightarrow> bool \<Rightarrow> Commander \<Rightarrow>
   transition_result_t \<times> commander_output list \<times> Commander" where
  "Commander_disarm now calling_reason forced c =
    (if \<not> Commander_isArmed c then (TRANSITION_NOT_CHANGED, [], c)
     else if \<not> forced \<and> \<not> disarm_permitted calling_reason c
     then (TRANSITION_DENIED,
           if calling_reason \<noteq> stick_gesture
           then [CO_event ''commander_disarm_denied_not_landed''] else [], c)
     else (TRANSITION_CHANGED,
           [CO_event_reason ''commander_disarmed_by'' (arm_disarm_reason_value calling_reason)],
           set_disarmed now calling_reason c))"

end
