(* ===== verification/Commander_Properties.thy ===== *)
theory Commander_Properties
  imports Commander_Arming Arming_Properties
begin

text \<open>
  Properties of the user mode intention and of arming and disarming: an armed vehicle only changes
  to a mode that can run, it is in no takeoff mode after disarming, hazards deny arming, and when
  disarming is accepted.
\<close>

section \<open>Mode changes\<close>

text \<open>
  C35. While armed, a mode change that is not forced is accepted only if the failsafe flags of the
  last update of the arming checks let the selected mode run, or if the selected mode is Position,
  a fallback is permitted and Altitude can run; and never out of termination.
\<close>

theorem armed_mode_change_can_run:
  assumes "vs_arming_state status = ARMING_STATE_ARMED"
    and "r = after_update (pre @ [on_report OffboardChecks, on_report ModeChecks] @ late_checks)
      checked_status clock force request (w, ha)"
    and "UserModeIntention_change handler status r nav source allow_fallback False (u, h) =
      (True, u', h')"
  shows "vs_nav_state status \<noteq> NAVIGATION_STATE_TERMINATION \<and>
    (modeCanRun (rp_failsafe_flags r) (um_user_intented_nav_state u') \<or>
     allow_fallback \<and> um_user_intented_nav_state u' = NAVIGATION_STATE_POSCTL \<and>
     modeCanRun (rp_failsafe_flags r) NAVIGATION_STATE_ALTCTL)"
proof -
  let ?nav = "case handler of None \<Rightarrow> nav | Some H \<Rightarrow> mh_getReplacedModeIfAny H nav h"
  have can: "modeCanRun (rp_failsafe_flags r) m" if "canRun r m" for m
    using that unfolding assms(2) by (rule update_can_run)
  have "allow_change status r ?nav allow_fallback False" and "um_user_intented_nav_state u' = ?nav"
    using assms(3) by (auto simp: UserModeIntention_change_def Let_def split: if_splits)
  moreover from this(1) have "vs_nav_state status \<noteq> NAVIGATION_STATE_TERMINATION"
    "canRun r ?nav \<or> allow_fallback \<and> ?nav = NAVIGATION_STATE_POSCTL \<and> canRun r NAVIGATION_STATE_ALTCTL"
    using assms(1) by (auto simp: allow_change_def Let_def split: if_splits)
  ultimately show ?thesis using can by metis
qed

definition demo_armed_status :: vehicle_status_s where
  "demo_armed_status = vehicle_status_zero\<lparr>vs_arming_state := ARMING_STATE_ARMED\<rparr>"

theorem armed_mode_change_can_run_witness:
  "\<exists>r u' h'. UserModeIntention_change (None :: ModeManagement ModeChangeHandler option)
     demo_armed_status r NAVIGATION_STATE_TERMINATION MCS_User False False
     (UserModeIntention_init, ModeManagement_init (ExternalChecks_init False) []) = (True, u', h') \<and>
     modeCanRun (rp_failsafe_flags r) (um_user_intented_nav_state u')"
proof -
  let ?r = "after_update ([] @ [on_report OffboardChecks, on_report ModeChecks] @ late_checks)
    vehicle_status_zero (0, 0, 0) False False (demo_world, HealthAndArmingChecks_init)"
  obtain b u' h' where change: "UserModeIntention_change (None :: ModeManagement ModeChangeHandler option)
      demo_armed_status ?r NAVIGATION_STATE_TERMINATION MCS_User False False
      (UserModeIntention_init, ModeManagement_init (ExternalChecks_init False) []) = (b, u', h')"
    by (cases "UserModeIntention_change (None :: ModeManagement ModeChangeHandler option)
      demo_armed_status ?r NAVIGATION_STATE_TERMINATION MCS_User False False
      (UserModeIntention_init, ModeManagement_init (ExternalChecks_init False) [])")
  have "allow_change demo_armed_status ?r NAVIGATION_STATE_TERMINATION False False"
    using demo_termination_can_run
    by (simp add: allow_change_def demo_armed_status_def vehicle_status_zero_def del: append.simps)
  with change have b: "b" by (simp add: UserModeIntention_change_def Let_def del: append.simps split: if_splits)
  have armed: "vs_arming_state demo_armed_status = ARMING_STATE_ARMED"
    by (simp add: demo_armed_status_def)
  note changed = change [unfolded eqTrueI [OF b]]
  from armed_mode_change_can_run [OF armed refl changed]
  have "modeCanRun (rp_failsafe_flags ?r) (um_user_intented_nav_state u')" by blast
  with changed show ?thesis by (intro exI conjI)
qed

section \<open>The mode after disarming\<close>

text \<open>The calls that change the user mode intention; between them the mode management runs.\<close>

datatype intention_call =
    Change vehicle_status_s Report u8 ModeChangeSource bool bool
  | Disarm
  | Clear

fun intention_step :: "intention_call \<times> ModeManagement \<Rightarrow> UserModeIntention \<Rightarrow> UserModeIntention" where
  "intention_step (Change status r nav source allow_fallback force, m) u =
     fst (snd (UserModeIntention_change (Some ModeManagement_handler) status r nav source
       allow_fallback force (u, m)))"
| "intention_step (Disarm, m) u = fst (UserModeIntention_onDisarm (Some ModeManagement_handler) (u, m))"
| "intention_step (Clear, m) u = snd (getHadModeChangeAndClear u)"

lemma intention_step_stored:
  "\<not> isTakeOffIntended (um_nav_state_after_disarming u) \<Longrightarrow>
     \<not> isTakeOffIntended (um_nav_state_after_disarming (intention_step (call, m) u))"
  using mode_manager.change_after_disarming [of "(u, m)"] mode_manager.disarm_keeps_stored [of "(u, m)"]
  by (cases call) (simp_all add: getHadModeChangeAndClear_def)

lemma owned_not_takeoff:
  assumes "mm_ok m" and "nav \<in> owned_modes m"
  shows "\<not> isTakeOffIntended nav"
proof -
  from assms obtain k where "mode_exec (mm_modes m) nav = Some k"
    using mode_exec_owned [OF assms(1)] by (auto simp: owned_modes_def ran_def)
  then have "external nav" by (auto simp: mode_exec_def mode_valid_external split: if_splits)
  then show ?thesis by (auto simp: external_def isTakeOffIntended_def)
qed

text \<open>
  C36. Whatever mode changes the pilot, the ground station or executors make, and whatever the mode
  management does in between, the mode selected on disarming is no takeoff mode: the vehicle does not
  take off by being armed again.
\<close>

theorem no_takeoff_after_disarm:
  assumes "mm_ok m"
  shows "\<not> isTakeOffIntended (um_user_intented_nav_state (intention_step (Disarm, m)
    (fold intention_step calls UserModeIntention_init)))"
proof -
  let ?u = "fold intention_step calls UserModeIntention_init"
  have "\<not> isTakeOffIntended (um_nav_state_after_disarming (fold intention_step calls u))"
    if "\<not> isTakeOffIntended (um_nav_state_after_disarming u)" for u
    using that by (induction calls arbitrary: u) (auto simp: intention_step_stored)
  then have stored: "\<not> isTakeOffIntended (um_nav_state_after_disarming ?u)"
    by (simp add: UserModeIntention_init_def isTakeOffIntended_def)
  have "um_user_intented_nav_state (intention_step (Disarm, m) ?u) \<in>
      {um_nav_state_after_disarming ?u, NAVIGATION_STATE_AUTO_LOITER} \<union> owned_modes m"
    using mode_manager.disarm_selects [of "(?u, m)"] assms by simp
  with stored owned_not_takeoff [OF assms] show ?thesis by (auto simp: isTakeOffIntended_def)
qed

lemma demo_management_ok: "mm_ok (ModeManagement_init (ExternalChecks_init False) (replicate 8 (Some 0)))"
  by (rule mm_reachable_ok [OF mm_reachable.init]) simp_all

theorem no_takeoff_after_disarm_witness:
  "\<not> isTakeOffIntended (um_user_intented_nav_state (intention_step
     (Disarm, ModeManagement_init (ExternalChecks_init False) (replicate 8 (Some 0)))
     (fold intention_step
       [(Change vehicle_status_zero (Report_init failsafe_flags_zero 1) NAVIGATION_STATE_AUTO_TAKEOFF
           MCS_User False False,
         ModeManagement_init (ExternalChecks_init False) (replicate 8 (Some 0)))]
       UserModeIntention_init)))"
  using demo_management_ok by (rule no_takeoff_after_disarm)

section \<open>Arming\<close>

lemma update_checks_report:
  "commander_report (Commander_update_checks checks clock force request c) =
     after_update checks (cm_vehicle_status c) clock force request (Commander_check_input c)"
  "cm_vehicle_status (Commander_update_checks checks clock force request c) = cm_vehicle_status c"
  by (simp_all add: Commander_update_checks_def split_beta Let_def)

text \<open>
  C37. A hazard denies arming: while the flight is terminated or killed, the failure detector reports
  a failure, arming is not permitted by the configuration or the safety button is not off, an attempt
  to arm a disarmed vehicle with the preflight checks is denied, and the vehicle stays disarmed.
  The only exception is the switch of the remote control within five seconds after disarming.
\<close>

theorem hazard_denies_arming:
  assumes "\<not> Commander_isArmed c" and "hazard (cm_vehicle_status c) (cm_check_world c)"
    and "\<not> rearm_grace now calling_reason c"
  shows "fst (Commander_arm modelled_checks now clock calling_reason True c) = TRANSITION_DENIED \<and>
    \<not> Commander_isArmed (snd (snd (Commander_arm modelled_checks now clock calling_reason True c)))"
proof -
  have hazard: "hazard (cm_vehicle_status c) (fst (Commander_check_input c))"
    using assms(2) by (simp add: hazard_def Commander_check_input_def)
  have "\<not> canArm (after_update modelled_checks (cm_vehicle_status c) clock False True
      (Commander_check_input c)) nav" for nav
    using hazard_no_arming [OF hazard, where h = "snd (Commander_check_input c)"]
    unfolding prod.collapse .
  with assms(1,3) show ?thesis
    by (simp add: Commander_arm_def Let_def update_checks_report Commander_isArmed_def)
qed

definition demo_commander :: Commander where
  "demo_commander =
     \<lparr>cm_vehicle_status = vehicle_status_zero\<lparr>vs_arming_state := ARMING_STATE_DISARMED\<rparr>,
      cm_actuator_armed = \<lparr>aa_armed = False, aa_prearmed = False, aa_ready_to_arm = False,
        aa_lockdown = False, aa_kill = False, aa_termination = False,
        aa_in_esc_calibration_mode = False\<rparr>,
      cm_vehicle_control_mode = vehicle_control_mode_zero, cm_landed = True, cm_maybe_landed = True,
      cm_health_and_arming_checks = HealthAndArmingChecks_init,
      cm_check_world = demo_world\<lparr>cw_params := demo_check_params\<lparr>cp_com_armable := 0\<rparr>\<rparr>,
      cm_mode_management = ModeManagement_init (ExternalChecks_init False) (replicate 8 (Some 0)),
      cm_user_mode_intention = UserModeIntention_init, cm_safety = Safety_init False,
      cm_last_manual_throttle = \<lparr>tp_near_center = False, tp_at_or_below_center = True,
        tp_at_bottom = True\<rparr>,
      cm_last_disarmed_timestamp = 0, cm_have_taken_off_since_arming = False,
      cm_mission_in_progress = False, cm_config_overrides = config_overrides_zero,
      cm_status_changed = False, cm_param_com_home_en = True, cm_param_com_force_safety = True,
      cm_param_com_flight_uuid = 0\<rparr>"

theorem hazard_denies_arming_witness:
  "fst (Commander_arm modelled_checks 10 (0, 0, 0) rc_switch True demo_commander) = TRANSITION_DENIED"
  by (rule conjunct1 [OF hazard_denies_arming])
     (simp_all add: demo_commander_def Commander_isArmed_def hazard_def rearm_grace_def)

section \<open>Disarming\<close>

lemma set_disarmed_frame:
  "\<not> Commander_isArmed (set_disarmed now calling_reason c)"
  "cm_last_disarmed_timestamp (set_disarmed now calling_reason c) = now"
  "calibrating (set_disarmed now calling_reason c) = calibrating c"
  "cm_safety (set_disarmed now calling_reason c) =
     (if cm_param_com_force_safety c then activateSafety (cm_safety c) else cm_safety c)"
  by (simp_all add: set_disarmed_def Commander_isArmed_def calibrating_def Let_def split_beta)

lemma set_disarmed_management:
  "mm_ok (cm_mode_management c) \<Longrightarrow> mm_ok (cm_mode_management (set_disarmed now calling_reason c))"
  using mode_manager.disarm_keeps_ok [of "(cm_user_mode_intention c, cm_mode_management c)"]
  by (simp add: set_disarmed_def Let_def split_beta)

text \<open>
  C38. In flight, a vehicle that is not on the ground is disarmed only by force, or by the remote
  control in a mode in which the pilot controls the thrust of a multicopter; otherwise the request is
  denied without any change. After disarming, the tables of the mode management stay consistent, the
  safety is on again if it is configured so, and an accidental disarming can be undone: within five
  seconds the switch of the remote control arms the vehicle again, whatever the arming checks say,
  unless it is being calibrated.
\<close>

theorem disarming_in_flight:
  assumes "Commander_isArmed c" and "mm_ok (cm_mode_management c)"
  shows "(if forced \<or> cm_landed c \<or> cm_maybe_landed c \<or> is_ground_vehicle (cm_vehicle_status c) \<or>
        vs_vehicle_type (cm_vehicle_status c) = VEHICLE_TYPE_ROTARY_WING \<and>
        flag_control_manual_enabled (cm_vehicle_control_mode c) \<and>
        \<not> flag_control_climb_rate_enabled (cm_vehicle_control_mode c) \<and>
        calling_reason \<in> {stick_gesture, rc_switch, rc_button}
      then
        (let c' = snd (snd (Commander_disarm now calling_reason forced c)) in
         fst (Commander_disarm now calling_reason forced c) = TRANSITION_CHANGED \<and>
         \<not> Commander_isArmed c' \<and> mm_ok (cm_mode_management c') \<and>
         (cm_param_com_force_safety c \<and> \<not> sf_safety_disabled (cm_safety c) \<longrightarrow>
            \<not> sf_safety_off (cm_safety c')) \<and>
         (now \<noteq> 0 \<and> now \<le> later \<and> later - now < time_s 5 \<and> \<not> calibrating c \<longrightarrow>
            fst (Commander_arm checks later clock rc_switch run_preflight_checks c') =
              TRANSITION_CHANGED))
      else fst (Commander_disarm now calling_reason forced c) = TRANSITION_DENIED \<and>
        snd (snd (Commander_disarm now calling_reason forced c)) = c)"
proof (cases "forced \<or> disarm_permitted calling_reason c")
  case True
  then have disarm: "fst (Commander_disarm now calling_reason forced c) = TRANSITION_CHANGED"
    "snd (snd (Commander_disarm now calling_reason forced c)) = set_disarmed now calling_reason c"
    using assms(1) by (auto simp: Commander_disarm_def)
  have "fst (Commander_arm checks later clock rc_switch run_preflight_checks
      (set_disarmed now calling_reason c)) = TRANSITION_CHANGED"
    if "now \<noteq> 0 \<and> now \<le> later \<and> later - now < time_s 5 \<and> \<not> calibrating c"
    using that
    by (auto simp: Commander_arm_def rearm_grace_def set_disarmed_frame hrt_elapsed_time_def)
  moreover have "\<not> sf_safety_off (activateSafety s)" if "\<not> sf_safety_disabled s" for s
    using that by (simp add: activateSafety_def)
  ultimately show ?thesis
    using True disarm set_disarmed_management [OF assms(2)]
    by (auto simp: set_disarmed_frame Let_def disarm_permitted_def commanded_by_rc_def)
next
  case False
  with assms(1) show ?thesis
    by (auto simp: Commander_disarm_def disarm_permitted_def commanded_by_rc_def Let_def)
qed

theorem disarming_in_flight_witness:
  "fst (Commander_arm modelled_checks 2000 (0, 0, 0) rc_switch True
     (snd (snd (Commander_disarm 1000 rc_switch True
       (demo_commander\<lparr>cm_vehicle_status := demo_armed_status\<rparr>))))) = TRANSITION_CHANGED"
proof -
  let ?c = "demo_commander\<lparr>cm_vehicle_status := demo_armed_status\<rparr>"
  have "Commander_isArmed ?c" "mm_ok (cm_mode_management ?c)"
    using demo_management_ok
    by (simp_all add: Commander_isArmed_def demo_armed_status_def demo_commander_def)
  from disarming_in_flight [OF this, of True rc_switch 1000 2000 modelled_checks "(0, 0, 0)" True]
  show ?thesis
    by (simp add: Let_def time_s_def calibrating_def demo_commander_def demo_armed_status_def
        vehicle_status_zero_def)
qed

end
