(* ===== verification/Queue_Buffer.thy ===== *)
theory Queue_Buffer
  imports Px4_Prelude
begin

text \<open>
  The byte queue of the CRSF receiver, \<^verbatim>\<open>QueueBuffer.cpp\<close>: a ring buffer with 32-bit indexes. The
  buffer behind the pointer is a list; an out parameter that is only written on success is an option.
  The locale \<open>byte_queue\<close> is what a client relies on, in terms of the list of queued bytes.
\<close>

section \<open>The ring buffer\<close>

record QueueBuffer_t =
  qb_buffer :: "u8 list"
  qb_buffer_size :: u32
  qb_count :: u32
  qb_head :: u32
  qb_tail :: u32

definition QueueBuffer_Init :: "u8 list \<Rightarrow> u32 \<Rightarrow> QueueBuffer_t" where
  "QueueBuffer_Init buffer buffer_size =
     \<lparr>qb_buffer = buffer, qb_buffer_size = buffer_size, qb_count = 0, qb_head = 0, qb_tail = 0\<rparr>"

definition QueueBuffer_Count :: "QueueBuffer_t \<Rightarrow> u32" where
  "QueueBuffer_Count q = qb_count q"

definition QueueBuffer_Append :: "u8 \<Rightarrow> QueueBuffer_t \<Rightarrow> QueueBuffer_t" where
  "QueueBuffer_Append x q =
    (let q = q\<lparr>qb_buffer := (qb_buffer q)[unat (qb_tail q) := x],
               qb_tail := (qb_tail q + 1) mod qb_buffer_size q\<rparr>
     in if qb_count q < qb_buffer_size q then q\<lparr>qb_count := qb_count q + 1\<rparr> else q)"

definition QueueBuffer_AppendBuffer :: "u8 list \<Rightarrow> u32 \<Rightarrow> QueueBuffer_t \<Rightarrow> bool \<times> QueueBuffer_t" where
  "QueueBuffer_AppendBuffer x append_size q =
    (let buffer_end_size = qb_buffer_size q - qb_tail q
     in if qb_count q + append_size > qb_buffer_size q then (False, q)
        else
          (let buffer =
             (if buffer_end_size \<ge> append_size
              then write_bytes (unat (qb_tail q)) (take (unat append_size) x) (qb_buffer q)
              else write_bytes 0
                (take (unat (append_size - buffer_end_size)) (drop (unat buffer_end_size) x))
                (write_bytes (unat (qb_tail q)) (take (unat buffer_end_size) x) (qb_buffer q)))
           in (True, q\<lparr>qb_buffer := buffer,
                        qb_tail := (qb_tail q + append_size) mod qb_buffer_size q,
                        qb_count := qb_count q + append_size\<rparr>)))"

definition QueueBuffer_IsEmpty :: "QueueBuffer_t \<Rightarrow> bool" where
  "QueueBuffer_IsEmpty q \<longleftrightarrow> qb_count q = 0"

definition QueueBuffer_Get :: "QueueBuffer_t \<Rightarrow> u8 option \<times> QueueBuffer_t" where
  "QueueBuffer_Get q =
    (if qb_count q = 0 then (None, q)
     else (Some (qb_buffer q ! unat (qb_head q)),
           q\<lparr>qb_head := (qb_head q + 1) mod qb_buffer_size q, qb_count := qb_count q - 1\<rparr>))"

definition QueueBuffer_Dequeue :: "u32 \<Rightarrow> QueueBuffer_t \<Rightarrow> QueueBuffer_t" where
  "QueueBuffer_Dequeue n q =
    (if n > qb_count q then q
     else q\<lparr>qb_count := qb_count q - n, qb_head := (qb_head q + n) mod qb_buffer_size q\<rparr>)"

definition QueueBuffer_Peek :: "u32 \<Rightarrow> QueueBuffer_t \<Rightarrow> u8 option" where
  "QueueBuffer_Peek index q =
    (if index \<ge> qb_count q then None
     else Some (qb_buffer q ! unat ((qb_head q + index) mod qb_buffer_size q)))"

text \<open>The bytes are copied to the front of the given buffer.\<close>

definition QueueBuffer_PeekBuffer :: "u32 \<Rightarrow> u8 list \<Rightarrow> u32 \<Rightarrow> QueueBuffer_t \<Rightarrow> bool \<times> u8 list" where
  "QueueBuffer_PeekBuffer index buffer len q =
    (let copy_start = qb_head q + index
     in if index + len > qb_count q then (False, buffer)
        else if copy_start + len \<le> qb_buffer_size q
        then (True, write_bytes 0 (take (unat len) (drop (unat copy_start) (qb_buffer q))) buffer)
        else
          (let copy1Size = qb_buffer_size q - copy_start
           in (True,
               write_bytes (unat copy1Size) (take (unat (len - copy1Size)) (qb_buffer q))
                 (write_bytes 0 (take (unat copy1Size) (drop (unat copy_start) (qb_buffer q)))
                   buffer))))"

section \<open>The queued bytes\<close>

text \<open>The bound on the size keeps sums of indexes below the wrap-around of 32 bits.\<close>

definition qb_ok :: "QueueBuffer_t \<Rightarrow> bool" where
  "qb_ok q \<longleftrightarrow>
     length (qb_buffer q) = unat (qb_buffer_size q) \<and>
     0 < unat (qb_buffer_size q) \<and> unat (qb_buffer_size q) < 2 ^ 30 \<and>
     unat (qb_count q) \<le> unat (qb_buffer_size q) \<and>
     unat (qb_head q) < unat (qb_buffer_size q) \<and>
     unat (qb_tail q) = (unat (qb_head q) + unat (qb_count q)) mod unat (qb_buffer_size q)"

definition qb_bytes :: "QueueBuffer_t \<Rightarrow> u8 list" where
  "qb_bytes q = map (\<lambda>i. qb_buffer q ! ((unat (qb_head q) + i) mod unat (qb_buffer_size q)))
     [0..<unat (qb_count q)]"

lemma length_qb_bytes [simp]: "length (qb_bytes q) = unat (qb_count q)"
  by (simp add: qb_bytes_def)

lemma nth_qb_bytes:
  "i < unat (qb_count q) \<Longrightarrow>
     qb_bytes q ! i = qb_buffer q ! ((unat (qb_head q) + i) mod unat (qb_buffer_size q))"
  by (simp add: qb_bytes_def)

lemma unat_add_small:
  "unat (a :: u32) < 2 ^ 31 \<Longrightarrow> unat b < 2 ^ 31 \<Longrightarrow> unat (a + b) = unat a + unat b"
  by (subst unat_add_lem [THEN iffD1]) simp_all

lemma mod_sum_wrap: "a < m \<Longrightarrow> b \<le> m \<Longrightarrow> (a + b) mod m = (if a + b < m then a + b else a + b - (m :: nat))"
  by (auto simp: mod_if)

lemma mod_advance:
  assumes "n \<le> c"
  shows "((h + n) mod m + c - n) mod m = (h + c) mod (m :: nat)"
proof -
  have "((h + n) mod m + c - n) mod m = ((h + n) mod m + (c - n)) mod m" using assms by simp
  also have "\<dots> = (h + n + (c - n)) mod m" by (simp add: mod_simps)
  finally show ?thesis using assms by simp
qed

lemma Init_ok: "length buffer = unat n \<Longrightarrow> 0 < unat n \<Longrightarrow> unat n < 2 ^ 30 \<Longrightarrow> qb_ok (QueueBuffer_Init buffer n)"
  and Init_bytes: "qb_bytes (QueueBuffer_Init buffer n) = []"
  by (simp_all add: QueueBuffer_Init_def qb_ok_def qb_bytes_def)

lemma Count_bytes: "unat (QueueBuffer_Count q) = length (qb_bytes q)"
  by (simp add: QueueBuffer_Count_def)

lemma Dequeue_bytes:
  assumes "qb_ok q"
  shows "qb_ok (QueueBuffer_Dequeue n q) \<and>
    qb_buffer_size (QueueBuffer_Dequeue n q) = qb_buffer_size q \<and>
    qb_bytes (QueueBuffer_Dequeue n q) =
      (if unat n \<le> length (qb_bytes q) then drop (unat n) (qb_bytes q) else qb_bytes q)"
proof (cases "n \<le> qb_count q")
  case True
  then have n: "unat n \<le> unat (qb_count q)" by (simp add: word_le_nat_alt)
  with assms have head: "unat ((qb_head q + n) mod qb_buffer_size q) =
      (unat (qb_head q) + unat n) mod unat (qb_buffer_size q)"
    by (simp add: qb_ok_def unat_mod unat_add_small)
  have "qb_ok (QueueBuffer_Dequeue n q)"
    using assms True n
    by (auto simp: QueueBuffer_Dequeue_def qb_ok_def head unat_sub mod_advance)
  moreover have "qb_bytes (QueueBuffer_Dequeue n q) = drop (unat n) (qb_bytes q)"
    using assms True n
    by (intro nth_equalityI)
      (auto simp: QueueBuffer_Dequeue_def qb_ok_def nth_qb_bytes head unat_sub mod_simps add.assoc)
  ultimately show ?thesis using n by (simp add: QueueBuffer_Dequeue_def)
next
  case False
  with assms show ?thesis by (simp add: QueueBuffer_Dequeue_def word_le_nat_alt word_less_nat_alt)
qed

lemma Get_Dequeue:
  "snd (QueueBuffer_Get q) = (if qb_count q = 0 then q else QueueBuffer_Dequeue 1 q)"
  by (auto simp: QueueBuffer_Get_def QueueBuffer_Dequeue_def word_less_nat_alt unat_eq_zero)

lemma Get_bytes:
  assumes "qb_ok q"
  shows "qb_ok (snd (QueueBuffer_Get q)) \<and>
    qb_buffer_size (snd (QueueBuffer_Get q)) = qb_buffer_size q \<and>
    (case qb_bytes q of
       [] \<Rightarrow> QueueBuffer_Get q = (None, q)
     | x # xs \<Rightarrow> fst (QueueBuffer_Get q) = Some x \<and> qb_bytes (snd (QueueBuffer_Get q)) = xs)"
proof (cases "qb_bytes q")
  case Nil
  then have "unat (qb_count q) = 0" using length_qb_bytes [of q] by simp
  with Nil assms show ?thesis by (simp add: QueueBuffer_Get_def unat_eq_zero)
next
  case (Cons x xs)
  then have count: "0 < unat (qb_count q)" using length_qb_bytes [of q] by simp
  have "x = qb_bytes q ! 0" using Cons by simp
  then have "fst (QueueBuffer_Get q) = Some x"
    using assms count by (auto simp: QueueBuffer_Get_def nth_qb_bytes qb_ok_def)
  moreover have "qb_bytes q \<noteq> []" using Cons by simp
  ultimately show ?thesis
    using Cons count Dequeue_bytes [OF assms, of 1] by (auto simp: Get_Dequeue)
qed

lemma Peek_bytes:
  assumes "qb_ok q"
  shows "QueueBuffer_Peek n q = (if unat n < length (qb_bytes q) then Some (qb_bytes q ! unat n) else None)"
  using assms
  by (auto simp: QueueBuffer_Peek_def word_le_nat_alt nth_qb_bytes qb_ok_def unat_mod unat_add_small)

text \<open>Writing around the end of the buffer.\<close>

lemma ring_write:
  fixes t m :: nat and x buf :: "u8 list"
  defines "buf' \<equiv> (if length x \<le> m - t then write_bytes t x buf
    else write_bytes 0 (drop (m - t) x) (write_bytes t (take (m - t) x) buf))"
  assumes "t < m" and "length x \<le> m" and "length buf = m"
  shows "length buf' = m"
    and "k < m \<Longrightarrow> buf' ! ((t + k) mod m) = (if k < length x then x ! k else buf ! ((t + k) mod m))"
  using assms by (auto simp: nth_write_bytes mod_sum_wrap)

lemma AppendBuffer_bytes:
  assumes "qb_ok q" and "unat n = length x" and "length x < 2 ^ 30"
  shows "if length (qb_bytes q) + length x \<le> unat (qb_buffer_size q)
    then fst (QueueBuffer_AppendBuffer x n q) \<and> qb_ok (snd (QueueBuffer_AppendBuffer x n q)) \<and>
      qb_buffer_size (snd (QueueBuffer_AppendBuffer x n q)) = qb_buffer_size q \<and>
      qb_bytes (snd (QueueBuffer_AppendBuffer x n q)) = qb_bytes q @ x
    else QueueBuffer_AppendBuffer x n q = (False, q)"
proof (cases "length (qb_bytes q) + length x \<le> unat (qb_buffer_size q)")
  case True
  define t m c h where defs: "t = unat (qb_tail q)" "m = unat (qb_buffer_size q)"
    "c = unat (qb_count q)" "h = unat (qb_head q)"
  have ok: "length (qb_buffer q) = m" "0 < m" "m < 2 ^ 30" "c \<le> m" "h < m" "t = (h + c) mod m"
    using assms(1) by (simp_all add: qb_ok_def defs)
  have fits: "c + length x \<le> m" using True by (simp add: defs)
  have t: "t < m" using ok by simp
  define buf where "buf = (if length x \<le> m - t then write_bytes t x (qb_buffer q)
    else write_bytes 0 (drop (m - t) x) (write_bytes t (take (m - t) x) (qb_buffer q)))"
  let ?q = "q\<lparr>qb_buffer := buf, qb_tail := (qb_tail q + n) mod qb_buffer_size q,
    qb_count := qb_count q + n\<rparr>"
  have sub: "unat (qb_buffer_size q - qb_tail q) = m - t"
    using t by (simp add: defs unat_sub word_le_nat_alt)
  have sum: "unat (qb_count q + n) = c + length x" "unat (qb_tail q + n) = t + length x"
    using ok(3) t fits assms(2) by (simp_all add: unat_add_small defs)
  have append: "QueueBuffer_AppendBuffer x n q = (True, ?q)"
    using fits t sum sub assms(2)
    by (auto simp: QueueBuffer_AppendBuffer_def Let_def buf_def word_less_nat_alt word_le_nat_alt
        unat_sub defs [symmetric])
  have len: "length buf = m"
    and nth: "\<And>k. k < m \<Longrightarrow> buf ! ((t + k) mod m) = (if k < length x then x ! k else qb_buffer q ! ((t + k) mod m))"
    using ring_write [OF t _ ok(1), of x] fits unfolding buf_def by simp_all
  have "qb_ok ?q"
    using ok len fits sum by (simp add: qb_ok_def unat_mod defs [symmetric] mod_simps add.assoc)
  moreover have "qb_bytes ?q ! i = (qb_bytes q @ x) ! i" if "i < c + length x" for i
  proof (cases "i < c")
    case True
    then have idx: "(h + i) mod m = (t + (m - c + i)) mod m"
      using ok mod_advance [of c "m + i" h m] mod_add_self1 [of m "h + i"]
      by (simp add: add.left_commute)
    have "m - c + i < m" and "\<not> m - c + i < length x" using True fits by linarith+
    from nth [OF this(1)] this(2) have "buf ! ((h + i) mod m) = qb_buffer q ! ((h + i) mod m)"
      unfolding idx by (simp only: if_False)
    with True that show ?thesis
      by (simp add: nth_qb_bytes nth_append defs [symmetric] sum)
  next
    case False
    then have idx: "(h + i) mod m = (t + (i - c)) mod m"
      using ok mod_advance [of c i h m] by simp
    have "i - c < m" and "i - c < length x" using False fits that by linarith+
    from nth [OF this(1)] this(2) have "buf ! ((h + i) mod m) = x ! (i - c)"
      unfolding idx by (simp only: if_True)
    with False that show ?thesis
      by (simp add: nth_qb_bytes nth_append defs [symmetric] sum)
  qed
  then have "qb_bytes ?q = qb_bytes q @ x"
    by (intro nth_equalityI) (simp_all add: sum defs [symmetric])
  ultimately show ?thesis using True by (simp add: append)
next
  case False
  moreover from False have "qb_count q + n > qb_buffer_size q"
    using assms by (simp add: word_less_nat_alt unat_add_small qb_ok_def)
  ultimately show ?thesis by (simp add: QueueBuffer_AppendBuffer_def Let_def)
qed

text \<open>
  Peeking from the front. For a later index the copy is right only if it does not start beyond the end
  of the buffer; the receiver always peeks from index 0.
\<close>

lemma write_bytes_twice:
  "length a + length b \<le> length buffer \<Longrightarrow> write_bytes (length a) b (write_bytes 0 a buffer) =
     (a @ b) @ drop (length (a @ b)) buffer"
  by (simp add: write_bytes_def add.commute)

lemma PeekBuffer_bytes:
  assumes "qb_ok q" and "unat n \<le> length (qb_bytes q)" and "unat n \<le> length buffer"
  shows "QueueBuffer_PeekBuffer 0 buffer n q =
    (True, take (unat n) (qb_bytes q) @ drop (unat n) buffer)"
proof -
  define m h where defs: "m = unat (qb_buffer_size q)" "h = unat (qb_head q)"
  have ok: "length (qb_buffer q) = m" "m < 2 ^ 30" "h < m" "unat (qb_count q) \<le> m"
    using assms(1) by (simp_all add: qb_ok_def defs)
  have sum: "unat (qb_head q + n) = h + unat n"
    using ok assms(2) by (simp add: unat_add_small defs)
  have sub: "unat (qb_buffer_size q - qb_head q) = m - h"
    using ok by (simp add: defs unat_sub word_le_nat_alt)
  have byte: "qb_bytes q ! i = qb_buffer q ! (if h + i < m then h + i else h + i - m)" if "i < unat n" for i
    using that ok assms(2) by (simp add: nth_qb_bytes defs [symmetric] mod_sum_wrap)
  show ?thesis
  proof (cases "h + unat n \<le> m")
    case True
    then have "take (unat n) (drop h (qb_buffer q)) = take (unat n) (qb_bytes q)"
      using ok assms(2) byte by (intro nth_equalityI) auto
    then show ?thesis
      using True assms sum
      by (simp add: QueueBuffer_PeekBuffer_def word_le_nat_alt word_less_nat_alt defs [symmetric]
          write_bytes_def min_def)
  next
    case False
    then have n: "m - h \<le> unat n" by simp
    then have rest: "unat (n - (qb_buffer_size q - qb_head q)) = unat n - (m - h)"
      by (subst unat_sub) (simp_all add: word_le_nat_alt sub)
    let ?a = "drop h (qb_buffer q)" and ?b = "take (unat n - (m - h)) (qb_buffer q)"
    have len: "length ?a = m - h" "length ?b = unat n - (m - h)" using ok assms(2) by simp_all
    have "?a @ ?b = take (unat n) (qb_bytes q)"
      using ok assms(2) n False byte by (intro nth_equalityI) (auto simp: nth_append add.commute)
    moreover have "length (?a @ ?b) = unat n" using len n by simp
    moreover have "QueueBuffer_PeekBuffer 0 buffer n q =
        (True, write_bytes (length ?a) ?b (write_bytes 0 ?a buffer))"
      using False ok assms sum sub rest
      by (simp add: QueueBuffer_PeekBuffer_def word_le_nat_alt word_less_nat_alt defs [symmetric])
    ultimately show ?thesis
      using write_bytes_twice [of ?a ?b buffer] len n assms(3) by simp
  qed
qed

lemma Append_AppendBuffer:
  assumes "qb_ok q" and "length (qb_bytes q) < unat (qb_buffer_size q)"
  shows "(True, QueueBuffer_Append x q) = QueueBuffer_AppendBuffer [x] 1 q"
proof -
  have "unat (qb_tail q) < unat (qb_buffer_size q)" "unat (qb_buffer_size q) = length (qb_buffer q)"
    "unat (qb_count q + 1) = unat (qb_count q) + 1"
    using assms by (simp_all add: qb_ok_def unat_add_small)
  moreover from this have "1 \<le> qb_buffer_size q - qb_tail q"
    by (simp add: word_le_nat_alt unat_sub)
  ultimately show ?thesis
    using assms
    by (simp add: QueueBuffer_Append_def QueueBuffer_AppendBuffer_def Let_def write_bytes_def
        word_less_nat_alt upd_conv_take_nth_drop)
qed

section \<open>The contract of a byte queue\<close>

text \<open>The calls of a client and their replies, on any queue and on a bounded list of bytes.\<close>

record 'q queue_interface =
  qi_count :: "'q \<Rightarrow> u32"
  qi_append :: "u8 list \<Rightarrow> u32 \<Rightarrow> 'q \<Rightarrow> bool \<times> 'q"
  qi_get :: "'q \<Rightarrow> u8 option \<times> 'q"
  qi_dequeue :: "u32 \<Rightarrow> 'q \<Rightarrow> 'q"
  qi_peek :: "u32 \<Rightarrow> 'q \<Rightarrow> u8 option"

datatype queue_call = Count | Append "u8 list" | Get | Dequeue u32 | Peek u32

datatype queue_reply = Number nat | Accepted bool | Byte "u8 option" | Done

fun queue_step :: "'q queue_interface \<Rightarrow> queue_call \<Rightarrow> 'q \<Rightarrow> queue_reply \<times> 'q" where
  "queue_step I Count q = (Number (unat (qi_count I q)), q)"
| "queue_step I (Append xs) q = map_prod Accepted id (qi_append I xs (of_nat (length xs)) q)"
| "queue_step I Get q = map_prod Byte id (qi_get I q)"
| "queue_step I (Dequeue n) q = (Done, qi_dequeue I n q)"
| "queue_step I (Peek n) q = (Byte (qi_peek I n q), q)"

fun bounded_list_step :: "nat \<Rightarrow> queue_call \<Rightarrow> u8 list \<Rightarrow> queue_reply \<times> u8 list" where
  "bounded_list_step cap Count bs = (Number (length bs), bs)"
| "bounded_list_step cap (Append xs) bs =
     (if length bs + length xs \<le> cap then (Accepted True, bs @ xs) else (Accepted False, bs))"
| "bounded_list_step cap Get bs = (case bs of [] \<Rightarrow> (Byte None, []) | x # xs \<Rightarrow> (Byte (Some x), xs))"
| "bounded_list_step cap (Dequeue n) bs = (Done, if unat n \<le> length bs then drop (unat n) bs else bs)"
| "bounded_list_step cap (Peek n) bs =
     (Byte (if unat n < length bs then Some (bs ! unat n) else None), bs)"

fun run_calls :: "(queue_call \<Rightarrow> 'q \<Rightarrow> queue_reply \<times> 'q) \<Rightarrow> queue_call list \<Rightarrow> 'q \<Rightarrow> queue_reply list \<times> 'q" where
  "run_calls step [] q = ([], q)"
| "run_calls step (call # calls) q =
    (let (reply, q) = step call q; (replies, q) = run_calls step calls q in (reply # replies, q))"

fun small_call :: "queue_call \<Rightarrow> bool" where
  "small_call (Append xs) \<longleftrightarrow> length xs < 2 ^ 30"
| "small_call _ \<longleftrightarrow> True"

locale byte_queue =
  fixes I :: "'q queue_interface"
    and ok :: "'q \<Rightarrow> bool"
    and bytes :: "'q \<Rightarrow> u8 list"
    and capacity :: "'q \<Rightarrow> nat"
  assumes count: "ok q \<Longrightarrow> unat (qi_count I q) = length (bytes q)"
    and append: "ok q \<Longrightarrow> unat n = length xs \<Longrightarrow> length xs < 2 ^ 30 \<Longrightarrow>
      (if length (bytes q) + length xs \<le> capacity q
       then fst (qi_append I xs n q) \<and> ok (snd (qi_append I xs n q)) \<and>
         capacity (snd (qi_append I xs n q)) = capacity q \<and> bytes (snd (qi_append I xs n q)) = bytes q @ xs
       else qi_append I xs n q = (False, q))"
    and get: "ok q \<Longrightarrow> ok (snd (qi_get I q)) \<and> capacity (snd (qi_get I q)) = capacity q \<and>
      (case bytes q of [] \<Rightarrow> qi_get I q = (None, q)
       | x # xs \<Rightarrow> fst (qi_get I q) = Some x \<and> bytes (snd (qi_get I q)) = xs)"
    and dequeue: "ok q \<Longrightarrow> ok (qi_dequeue I n q) \<and> capacity (qi_dequeue I n q) = capacity q \<and>
      bytes (qi_dequeue I n q) = (if unat n \<le> length (bytes q) then drop (unat n) (bytes q) else bytes q)"
    and peek: "ok q \<Longrightarrow>
      qi_peek I n q = (if unat n < length (bytes q) then Some (bytes q ! unat n) else None)"
begin

lemma step_refines:
  assumes "ok q" and "small_call call"
  shows "ok (snd (queue_step I call q)) \<and> capacity (snd (queue_step I call q)) = capacity q \<and>
    map_prod id bytes (queue_step I call q) = bounded_list_step (capacity q) call (bytes q)"
proof (cases call)
  case (Append xs)
  with assms(2) have "unat (of_nat (length xs) :: u32) = length xs"
    by (simp add: unat_of_nat take_bit_nat_eq_self)
  with Append assms append [OF assms(1) this] show ?thesis
    by (cases "qi_append I xs (of_nat (length xs)) q") (auto split: if_splits)
next
  case Get
  with get [OF assms(1)] assms(1) show ?thesis
    by (cases "qi_get I q"; cases "bytes q") auto
qed (use assms(1) in \<open>simp_all add: count dequeue peek\<close>)

lemma run_refines:
  assumes "ok q" and "list_all small_call calls"
  shows "ok (snd (run_calls (queue_step I) calls q)) \<and>
    map_prod id bytes (run_calls (queue_step I) calls q) =
      run_calls (bounded_list_step (capacity q)) calls (bytes q)"
  using assms
proof (induction calls arbitrary: q)
  case (Cons call calls)
  obtain reply q' where q': "queue_step I call q = (reply, q')" by fastforce
  have "ok q'" "capacity q' = capacity q"
    "bounded_list_step (capacity q) call (bytes q) = (reply, bytes q')"
    using step_refines [of q call] Cons.prems q' by auto
  with Cons.IH [of q'] Cons.prems(2) q' show ?case
    by (auto simp: split_beta Let_def prod_eq_iff)
qed simp

end

definition QueueBuffer_interface :: "QueueBuffer_t queue_interface" where
  "QueueBuffer_interface =
     \<lparr>qi_count = QueueBuffer_Count, qi_append = QueueBuffer_AppendBuffer, qi_get = QueueBuffer_Get,
      qi_dequeue = QueueBuffer_Dequeue, qi_peek = QueueBuffer_Peek\<rparr>"

interpretation rx_queue: byte_queue QueueBuffer_interface qb_ok qb_bytes "\<lambda>q. unat (qb_buffer_size q)"
  using Count_bytes AppendBuffer_bytes Get_bytes Dequeue_bytes Peek_bytes
  by unfold_locales (simp_all add: QueueBuffer_interface_def cong: list.case_cong)

end
