(* ===== verification/Crsf_Crc.thy ===== *)
theory Crsf_Crc
  imports Px4_Prelude
begin

text \<open>
  The checksum of CRSF packets, \<^verbatim>\<open>Crc8.cpp\<close>: the lookup table, and the loop over the data. The table
  computes the bitwise checksum, and the checksum distinguishes any two packets that differ in one
  byte.
\<close>

section \<open>The code\<close>

text \<open>One shift of the inner loop of \<^verbatim>\<open>Crc8Init\<close>.\<close>

definition crc8_shift :: "u8 \<Rightarrow> u8 \<Rightarrow> u8" where
  "crc8_shift poly crc = push_bit 1 crc XOR (if crc AND 0x80 \<noteq> 0 then poly else 0)"

definition Crc8Init :: "u8 \<Rightarrow> u8 list" where
  "Crc8Init poly = map (\<lambda>idx. (crc8_shift poly ^^ 8) (of_nat idx)) [0..<256]"

text \<open>The loop, by the remaining size; the data pointer is a list.\<close>

primrec crc8_loop :: "u8 list \<Rightarrow> nat \<Rightarrow> u8 list \<Rightarrow> u8 \<Rightarrow> u8" where
  "crc8_loop crc8_lut 0 data crc = crc"
| "crc8_loop crc8_lut (Suc n) data crc =
     crc8_loop crc8_lut n (tl data) (crc8_lut ! unat (crc XOR hd data))"

definition Crc8Calc :: "u8 list \<Rightarrow> u8 list \<Rightarrow> u8 \<Rightarrow> u8" where
  "Crc8Calc crc8_lut data n = crc8_loop crc8_lut (unat n) data 0"

section \<open>The table against the bitwise checksum\<close>

definition crc8_byte :: "u8 \<Rightarrow> u8 \<Rightarrow> u8 \<Rightarrow> u8" where
  "crc8_byte poly byte crc = (crc8_shift poly ^^ 8) (crc XOR byte)"

definition crc8_bitwise :: "u8 \<Rightarrow> u8 list \<Rightarrow> u8" where
  "crc8_bitwise poly bytes = fold (crc8_byte poly) bytes 0"

lemma Crc8Init_nth: "Crc8Init poly ! unat w = (crc8_shift poly ^^ 8) w"
proof -
  have "unat w < 2 ^ LENGTH(8)" by (rule unsigned_less)
  then have "unat w < 256" by simp
  then show ?thesis by (simp add: Crc8Init_def del: upt_Suc)
qed

lemma crc8_loop_fold:
  "n \<le> length data \<Longrightarrow> crc8_loop (Crc8Init poly) n data crc = fold (crc8_byte poly) (take n data) crc"
  by (induction n arbitrary: data crc)
     (auto simp: Crc8Init_nth crc8_byte_def take_Suc neq_Nil_conv Suc_le_length_iff)

lemma Crc8Calc_bitwise:
  "unat n \<le> length data \<Longrightarrow> Crc8Calc (Crc8Init poly) data n = crc8_bitwise poly (take (unat n) data)"
  by (simp add: Crc8Calc_def crc8_loop_fold crc8_bitwise_def)

section \<open>Corrupted bytes\<close>

lemma and_0x80: "(crc AND 0x80 = 0) \<longleftrightarrow> \<not> bit (crc :: u8) 7"
proof -
  have "(0x80 :: u8) = 2 ^ 7" by simp
  then have "bit (crc AND 0x80) k \<longleftrightarrow> k = 7 \<and> bit crc 7" for k
    by (auto simp only: bit_and_iff bit_exp_iff) simp_all
  then show ?thesis by (metis bit_0_eq bot_apply bot_bool_def bit_word_eqI bit.conj_zero_right)
qed

lemma xor_right_cancel: "a XOR x = b XOR x \<longleftrightarrow> a = (b :: u8)"
  by (metis xor.assoc xor_self_eq xor.right_neutral)

text \<open>The lowest bit of a shifted checksum is the highest bit of the old one, if the polynomial is odd.\<close>

lemma crc8_shift_inj:
  assumes "bit poly 0" and "crc8_shift poly a = crc8_shift poly b"
  shows "a = b"
proof -
  have "bit (crc8_shift poly c) 0 \<longleftrightarrow> bit c 7" for c
    using assms(1) unfolding crc8_shift_def and_0x80 bit_xor_iff bit_push_bit_iff by simp
  with assms(2) have high: "bit a 7 \<longleftrightarrow> bit b 7" by metis
  with assms(2) have shifted: "push_bit 1 a = push_bit 1 b"
    unfolding crc8_shift_def and_0x80 not_not xor_right_cancel by (cases "bit a 7") (simp_all only: xor_right_cancel if_True if_False)
  have "bit (push_bit 1 c) (Suc n) \<longleftrightarrow> bit c n" if "n < 7" for n and c :: u8
    using that by (simp only: bit_push_bit_iff possible_bit_word) simp
  with shifted have low: "bit a n \<longleftrightarrow> bit b n" if "n < 7" for n
    using that by metis
  show ?thesis
  proof (rule bit_word_eqI)
    fix n assume "n < LENGTH(8)"
    then consider "n < 7" | "n = 7" by fastforce
    then show "bit a n \<longleftrightarrow> bit b n" using high low by cases auto
  qed
qed

lemma crc8_byte_inj:
  assumes "bit poly 0" and "crc8_byte poly x a = crc8_byte poly y b"
  shows "a XOR x = b XOR y"
proof -
  have "u = v" if "(crc8_shift poly ^^ n) u = (crc8_shift poly ^^ n) v" for n u v
    using that by (induction n) (auto dest: crc8_shift_inj [OF assms(1)])
  with assms(2) show ?thesis unfolding crc8_byte_def by blast
qed

lemma crc8_fold_inj:
  assumes "bit poly 0" and "fold (crc8_byte poly) bytes a = fold (crc8_byte poly) bytes b"
  shows "a = b"
  using assms(2)
proof (induction bytes arbitrary: a b)
  case (Cons x bytes)
  then have "crc8_byte poly x a = crc8_byte poly x b" by simp
  from crc8_byte_inj [OF assms(1) this] show ?case by (simp add: xor_right_cancel)
qed simp

lemma crc8_detects_byte:
  assumes "bit poly 0" and "i < length bytes" and "bytes ! i \<noteq> y"
  shows "crc8_bitwise poly (bytes[i := y]) \<noteq> crc8_bitwise poly bytes"
proof
  let ?c = "fold (crc8_byte poly) (take i bytes) 0"
  have split: "crc8_bitwise poly (take i bytes @ x # drop (Suc i) bytes) =
      fold (crc8_byte poly) (drop (Suc i) bytes) (crc8_byte poly x ?c)" for x
    by (simp add: crc8_bitwise_def)
  assume "crc8_bitwise poly (bytes[i := y]) = crc8_bitwise poly bytes"
  then have "fold (crc8_byte poly) (drop (Suc i) bytes) (crc8_byte poly y ?c) =
      fold (crc8_byte poly) (drop (Suc i) bytes) (crc8_byte poly (bytes ! i) ?c)"
    using assms(2) by (metis id_take_nth_drop upd_conv_take_nth_drop split)
  from crc8_byte_inj [OF assms(1) crc8_fold_inj [OF assms(1) this]] assms(3)
  show False by (metis xor.commute xor_right_cancel)
qed

end
