(* ===== verification/Crsf_Parser.thy ===== *)
theory Crsf_Parser
  imports Queue_Buffer Crsf_Crc
begin

text \<open>
  The parser for packets of a CRSF remote control receiver, \<^verbatim>\<open>CrsfParser.cpp\<close>, without the optional
  injection of test packets and the optional video transmitter commands. The static variables of the
  file are the record \<open>CrsfParser\<close>; the table of packet descriptors is a parameter of the parser. The
  loop may not end as far as its definition is concerned, so that its result is an option. Channels
  are kept as the constrained raw values: their linear scaling to floating-point numbers is left out.
\<close>

section \<open>Packets\<close>

abbreviation CRSF_HEADER :: u8 where "CRSF_HEADER \<equiv> 0xc8"
abbreviation CRSF_MAX_PACKET_LEN :: u32 where "CRSF_MAX_PACKET_LEN \<equiv> 64"
abbreviation RX_QUEUE_BUFFER_SIZE :: u32 where "RX_QUEUE_BUFFER_SIZE \<equiv> 200"
abbreviation HEADER_SIZE :: u32 where "HEADER_SIZE \<equiv> 1"
abbreviation PACKET_SIZE_SIZE :: u32 where "PACKET_SIZE_SIZE \<equiv> 1"
abbreviation PACKET_SIZE_TYPE_SIZE :: u32 where "PACKET_SIZE_TYPE_SIZE \<equiv> 2"
abbreviation CRC_SIZE :: u32 where "CRC_SIZE \<equiv> 1"

abbreviation CRSF_PACKET_TYPE_LINK_STATISTICS :: u8 where "CRSF_PACKET_TYPE_LINK_STATISTICS \<equiv> 0x14"
abbreviation CRSF_PACKET_TYPE_RC_CHANNELS_PACKED :: u8 where "CRSF_PACKET_TYPE_RC_CHANNELS_PACKED \<equiv> 0x16"
abbreviation CRSF_PACKET_TYPE_LINK_STATISTICS_TX :: u8 where "CRSF_PACKET_TYPE_LINK_STATISTICS_TX \<equiv> 0x1D"
abbreviation CRSF_PACKET_TYPE_ELRS_STATUS :: u8 where "CRSF_PACKET_TYPE_ELRS_STATUS \<equiv> 0x2E"

record CrsfLinkStatistics_t =
  ls_uplink_rssi_1 :: u8
  ls_uplink_rssi_2 :: u8
  ls_uplink_link_quality :: u8
  ls_uplink_snr :: int
  ls_active_antenna :: u8
  ls_rf_mode :: u8
  ls_uplink_tx_power :: u8
  ls_downlink_rssi :: u8
  ls_downlink_link_quality :: u8
  ls_downlink_snr :: int

record CrsfLinkStatisticsTx_t =
  lt_uplink_rssi :: u8
  lt_uplink_rssi_pct :: u8
  lt_uplink_link_quality :: u8
  lt_uplink_snr :: int
  lt_downlink_power :: u8
  lt_uplink_fps :: u8

record CrsfElrsStatus_t =
  es_packets_bad :: u8
  es_packets_good :: u16
  es_flags :: u8
  es_message :: "u8 list"

text \<open>The message type and the union.\<close>

datatype CrsfPacket_t =
    CRSF_RC_CHANNELS "u32 list"
  | CRSF_LINK_STATISTICS CrsfLinkStatistics_t
  | CRSF_LINK_STATISTICS_TX CrsfLinkStatisticsTx_t
  | CRSF_ELRS_STATUS CrsfElrsStatus_t

record CrsfParserStatistics_t =
  ps_disposed_bytes :: u32
  ps_crcs_valid_known_packets :: u32
  ps_crcs_valid_unknown_packets :: u32
  ps_crcs_invalid :: u32
  ps_invalid_known_packet_sizes :: u32
  ps_invalid_unknown_packet_sizes :: u32

section \<open>Processors\<close>

definition CONSTRAIN_CHAN :: "u32 \<Rightarrow> u32" where
  "CONSTRAIN_CHAN x = (if x < 172 then 172 else if x > 1811 then 1811 else x)"

definition raw_channels :: "u8 list \<Rightarrow> u32 list" where
  "raw_channels data =
    (let d = (\<lambda>i. ucast (data ! i)) in
     [(d 0 OR push_bit 8 (d 1)) AND 0x07FF,
      (drop_bit 3 (d 1) OR push_bit 5 (d 2)) AND 0x07FF,
      (drop_bit 6 (d 2) OR push_bit 2 (d 3) OR push_bit 10 (d 4)) AND 0x07FF,
      (drop_bit 1 (d 4) OR push_bit 7 (d 5)) AND 0x07FF,
      (drop_bit 4 (d 5) OR push_bit 4 (d 6)) AND 0x07FF,
      (drop_bit 7 (d 6) OR push_bit 1 (d 7) OR push_bit 9 (d 8)) AND 0x07FF,
      (drop_bit 2 (d 8) OR push_bit 6 (d 9)) AND 0x07FF,
      (drop_bit 5 (d 9) OR push_bit 3 (d 10)) AND 0x07FF,
      (d 11 OR push_bit 8 (d 12)) AND 0x07FF,
      (drop_bit 3 (d 12) OR push_bit 5 (d 13)) AND 0x07FF,
      (drop_bit 6 (d 13) OR push_bit 2 (d 14) OR push_bit 10 (d 15)) AND 0x07FF,
      (drop_bit 1 (d 15) OR push_bit 7 (d 16)) AND 0x07FF,
      (drop_bit 4 (d 16) OR push_bit 4 (d 17)) AND 0x07FF,
      (drop_bit 7 (d 17) OR push_bit 1 (d 18) OR push_bit 9 (d 19)) AND 0x07FF,
      (drop_bit 2 (d 19) OR push_bit 6 (d 20)) AND 0x07FF,
      (drop_bit 5 (d 20) OR push_bit 3 (d 21)) AND 0x07FF])"

text \<open>A processor gets the data and its size; it returns no packet where the code returns false.\<close>

definition ProcessChannelData :: "u8 list \<Rightarrow> u32 \<Rightarrow> CrsfPacket_t option" where
  "ProcessChannelData data n = Some (CRSF_RC_CHANNELS (map CONSTRAIN_CHAN (raw_channels data)))"

definition ProcessLinkStatistics :: "u8 list \<Rightarrow> u32 \<Rightarrow> CrsfPacket_t option" where
  "ProcessLinkStatistics data n = Some (CRSF_LINK_STATISTICS
     \<lparr>ls_uplink_rssi_1 = data ! 0, ls_uplink_rssi_2 = data ! 1, ls_uplink_link_quality = data ! 2,
      ls_uplink_snr = sint (data ! 3), ls_active_antenna = data ! 4, ls_rf_mode = data ! 5,
      ls_uplink_tx_power = data ! 6, ls_downlink_rssi = data ! 7,
      ls_downlink_link_quality = data ! 8, ls_downlink_snr = sint (data ! 9)\<rparr>)"

definition ProcessLinkStatisticsTx :: "u8 list \<Rightarrow> u32 \<Rightarrow> CrsfPacket_t option" where
  "ProcessLinkStatisticsTx data n = Some (CRSF_LINK_STATISTICS_TX
     \<lparr>lt_uplink_rssi = data ! 0, lt_uplink_rssi_pct = data ! 1, lt_uplink_link_quality = data ! 2,
      lt_uplink_snr = sint (data ! 3), lt_downlink_power = data ! 4, lt_uplink_fps = data ! 5\<rparr>)"

text \<open>\<^verbatim>\<open>strncpy\<close> of at most 47 characters into the 48 of the message, filled with zeros.\<close>

definition ProcessElrsStatus :: "u8 list \<Rightarrow> u32 \<Rightarrow> CrsfPacket_t option" where
  "ProcessElrsStatus data n =
    (let chars = takeWhile (\<lambda>c. c \<noteq> 0) (take 47 (drop 6 data))
     in Some (CRSF_ELRS_STATUS
       \<lparr>es_packets_bad = data ! 2, es_packets_good = push_bit 8 (ucast (data ! 3)) OR ucast (data ! 4),
        es_flags = data ! 5, es_message = chars @ replicate (48 - length chars) 0\<rparr>))"

record CrsfPacketDescriptor_t =
  pd_packet_type :: u8
  pd_packet_size :: int
  pd_processor :: "(u8 list \<Rightarrow> u32 \<Rightarrow> CrsfPacket_t option) option"

definition crsf_packet_descriptors :: "CrsfPacketDescriptor_t list" where
  "crsf_packet_descriptors =
    [\<lparr>pd_packet_type = CRSF_PACKET_TYPE_RC_CHANNELS_PACKED, pd_packet_size = 22,
      pd_processor = Some ProcessChannelData\<rparr>,
     \<lparr>pd_packet_type = CRSF_PACKET_TYPE_LINK_STATISTICS, pd_packet_size = 10,
      pd_processor = Some ProcessLinkStatistics\<rparr>,
     \<lparr>pd_packet_type = CRSF_PACKET_TYPE_LINK_STATISTICS_TX, pd_packet_size = -1,
      pd_processor = Some ProcessLinkStatisticsTx\<rparr>,
     \<lparr>pd_packet_type = CRSF_PACKET_TYPE_ELRS_STATUS, pd_packet_size = -1,
      pd_processor = Some ProcessElrsStatus\<rparr>]"

definition FindCrsfDescriptor :: "CrsfPacketDescriptor_t list \<Rightarrow> u8 \<Rightarrow> CrsfPacketDescriptor_t option" where
  "FindCrsfDescriptor descriptors packet_type = find (\<lambda>d. pd_packet_type d = packet_type) descriptors"

section \<open>The parser\<close>

datatype PARSER_STATE =
    PARSER_STATE_HEADER | PARSER_STATE_SIZE_TYPE | PARSER_STATE_PAYLOAD | PARSER_STATE_CRC

record CrsfParser =
  cp_parser_state :: PARSER_STATE
  cp_working_index :: u32
  cp_working_segment_size :: u32
  cp_rx_queue :: QueueBuffer_t
  cp_process_buffer :: "u8 list"
  cp_working_descriptor :: "CrsfPacketDescriptor_t option"

text \<open>
  The static variables at program start, and the initialisation by the driver. The array
  \<^verbatim>\<open>rx_queue_buffer\<close> is the buffer of the queue from the beginning; its bytes survive an initialisation.
\<close>

definition CrsfParser_static :: CrsfParser where
  "CrsfParser_static =
     \<lparr>cp_parser_state = PARSER_STATE_HEADER, cp_working_index = 0,
      cp_working_segment_size = HEADER_SIZE, cp_rx_queue = QueueBuffer_Init (replicate 200 0) 0,
      cp_process_buffer = replicate 64 0, cp_working_descriptor = None\<rparr>"

definition CrsfParser_Init :: "CrsfParser \<Rightarrow> CrsfParser" where
  "CrsfParser_Init s =
     s\<lparr>cp_rx_queue := QueueBuffer_Init (qb_buffer (cp_rx_queue s)) RX_QUEUE_BUFFER_SIZE\<rparr>"

definition CrsfParser_LoadBuffer :: "u8 list \<Rightarrow> u32 \<Rightarrow> CrsfParser \<Rightarrow> bool \<times> CrsfParser" where
  "CrsfParser_LoadBuffer buffer n s =
    (let (loaded, q) = QueueBuffer_AppendBuffer buffer n (cp_rx_queue s)
     in (loaded, s\<lparr>cp_rx_queue := q\<rparr>))"

definition CrsfParser_FreeQueueSize :: "CrsfParser \<Rightarrow> u32" where
  "CrsfParser_FreeQueueSize s = RX_QUEUE_BUFFER_SIZE - QueueBuffer_Count (cp_rx_queue s)"

text \<open>Back to the search for a header.\<close>

definition await_header :: "CrsfParser \<Rightarrow> CrsfParser" where
  "await_header s = s\<lparr>cp_parser_state := PARSER_STATE_HEADER, cp_working_segment_size := HEADER_SIZE,
     cp_working_index := 0\<rparr>"

definition parse_header ::
  "CrsfParser \<times> CrsfParserStatistics_t \<Rightarrow> CrsfParser \<times> CrsfParserStatistics_t" where
  "parse_header = (\<lambda>(s, st).
    (let (got, q) = QueueBuffer_Get (cp_rx_queue s);
         s = s\<lparr>cp_rx_queue := q\<rparr>
     in if got = Some CRSF_HEADER
        then (s\<lparr>cp_parser_state := PARSER_STATE_SIZE_TYPE,
                cp_working_segment_size := PACKET_SIZE_TYPE_SIZE, cp_working_index := 0\<rparr>, st)
        else (s\<lparr>cp_working_index := 0, cp_working_segment_size := HEADER_SIZE\<rparr>,
              if got = None then st
              else st\<lparr>ps_disposed_bytes := ps_disposed_bytes st + 1\<rparr>)))"

text \<open>
  The two bytes are local variables without initial value; the loop condition makes sure that they
  are in the queue. The size is compared as a signed integer.
\<close>

definition segment_fits :: "CrsfParser \<Rightarrow> bool" where
  "segment_fits s \<longleftrightarrow>
     \<not> cp_working_index s + cp_working_segment_size s + CRC_SIZE > CRSF_MAX_PACKET_LEN"

definition parse_size_type ::
  "CrsfPacketDescriptor_t list \<Rightarrow> CrsfParser \<times> CrsfParserStatistics_t \<Rightarrow>
   CrsfParser \<times> CrsfParserStatistics_t" where
  "parse_size_type descriptors = (\<lambda>(s, st).
    (let packet_size = case_option 0 id (QueueBuffer_Peek (cp_working_index s) (cp_rx_queue s));
         packet_type = case_option 0 id (QueueBuffer_Peek (cp_working_index s + 1) (cp_rx_queue s));
         s = s\<lparr>cp_working_index := cp_working_index s + 2\<rparr>;
         known_size = st\<lparr>ps_invalid_known_packet_sizes := ps_invalid_known_packet_sizes st + 1\<rparr>;
         unknown_size = st\<lparr>ps_invalid_unknown_packet_sizes := ps_invalid_unknown_packet_sizes st + 1\<rparr>
     in if packet_size < 2 then (await_header s, unknown_size)
        else
          (let s = s\<lparr>cp_working_descriptor := FindCrsfDescriptor descriptors packet_type\<rparr>;
               variable = s\<lparr>cp_working_segment_size := ucast packet_size - PACKET_SIZE_TYPE_SIZE\<rparr>;
               payload = (\<lambda>s. s\<lparr>cp_parser_state := PARSER_STATE_PAYLOAD\<rparr>)
           in case cp_working_descriptor s of
                Some d \<Rightarrow>
                  if pd_packet_size d = -1
                  then if segment_fits variable then (payload variable, st)
                       else (await_header variable, known_size)
                  else if uint packet_size \<noteq> pd_packet_size d + 2 then (await_header s, known_size)
                  else (payload (s\<lparr>cp_working_segment_size := of_int (pd_packet_size d)\<rparr>), st)
              | None \<Rightarrow>
                  if segment_fits variable then (payload variable, st)
                  else (await_header variable, unknown_size))))"

definition parse_payload :: "CrsfParser \<Rightarrow> CrsfParser" where
  "parse_payload s = s\<lparr>cp_working_index := cp_working_index s + cp_working_segment_size s,
     cp_working_segment_size := CRC_SIZE, cp_parser_state := PARSER_STATE_CRC\<rparr>"

text \<open>A packet with a valid checksum is removed from the queue; the packet of a known one is returned.\<close>

definition parse_crc ::
  "u8 list \<Rightarrow> CrsfParser \<times> CrsfParserStatistics_t \<Rightarrow>
   CrsfPacket_t option \<times> CrsfParser \<times> CrsfParserStatistics_t" where
  "parse_crc crc8_lut = (\<lambda>(s, st).
    (let index = cp_working_index s;
         (_, buffer) = QueueBuffer_PeekBuffer 0 (cp_process_buffer s) (index + CRC_SIZE) (cp_rx_queue s);
         s = s\<lparr>cp_process_buffer := buffer\<rparr>
     in if Crc8Calc crc8_lut (drop 1 buffer) (ucast (index - PACKET_SIZE_SIZE)) = buffer ! unat index
        then
          (let (packet, st) =
             (case cp_working_descriptor s of
                Some d \<Rightarrow>
                  (case pd_processor d of
                     Some processor \<Rightarrow>
                       (case processor (drop 2 buffer) (index - PACKET_SIZE_TYPE_SIZE) of
                          Some packet \<Rightarrow>
                            (Some packet,
                             st\<lparr>ps_crcs_valid_known_packets := ps_crcs_valid_known_packets st + 1\<rparr>)
                        | None \<Rightarrow> (None, st))
                   | None \<Rightarrow> (None, st))
              | None \<Rightarrow>
                  (None, st\<lparr>ps_crcs_valid_unknown_packets := ps_crcs_valid_unknown_packets st + 1\<rparr>));
             s = s\<lparr>cp_rx_queue := QueueBuffer_Dequeue (index + CRC_SIZE) (cp_rx_queue s)\<rparr>
           in (packet, await_header s, st))
        else (None, await_header s, st\<lparr>ps_crcs_invalid := ps_crcs_invalid st + 1\<rparr>)))"

section \<open>The loop\<close>

definition parser_can_run :: "CrsfParser \<Rightarrow> bool" where
  "parser_can_run s \<longleftrightarrow>
    (let buffer_count = QueueBuffer_Count (cp_rx_queue s)
     in cp_working_index s < buffer_count \<and>
        buffer_count - cp_working_index s \<ge> cp_working_segment_size s)"

definition parser_step ::
  "u8 list \<Rightarrow> CrsfPacketDescriptor_t list \<Rightarrow> CrsfParser \<times> CrsfParserStatistics_t \<Rightarrow>
   CrsfPacket_t option \<times> CrsfParser \<times> CrsfParserStatistics_t" where
  "parser_step crc8_lut descriptors x =
    (case cp_parser_state (fst x) of
       PARSER_STATE_HEADER \<Rightarrow> (None, parse_header x)
     | PARSER_STATE_SIZE_TYPE \<Rightarrow> (None, parse_size_type descriptors x)
     | PARSER_STATE_PAYLOAD \<Rightarrow> (None, parse_payload (fst x), snd x)
     | PARSER_STATE_CRC \<Rightarrow> parse_crc crc8_lut x)"

partial_function (option) CrsfParser_TryParseCrsfPacket ::
  "u8 list \<Rightarrow> CrsfPacketDescriptor_t list \<Rightarrow> CrsfParser \<times> CrsfParserStatistics_t \<Rightarrow>
   (CrsfPacket_t option \<times> CrsfParser \<times> CrsfParserStatistics_t) option" where
  "CrsfParser_TryParseCrsfPacket crc8_lut descriptors x =
    (if parser_can_run (fst x)
     then
       (case parser_step crc8_lut descriptors x of
          (Some packet, y) \<Rightarrow> Some (Some packet, y)
        | (None, y) \<Rightarrow> CrsfParser_TryParseCrsfPacket crc8_lut descriptors y)
     else Some (None, x))"

text \<open>The driver reads packets until there is none left in the queue.\<close>

partial_function (option) read_packets ::
  "u8 list \<Rightarrow> CrsfPacketDescriptor_t list \<Rightarrow> CrsfParser \<times> CrsfParserStatistics_t \<Rightarrow>
   (CrsfPacket_t list \<times> CrsfParser \<times> CrsfParserStatistics_t) option" where
  "read_packets crc8_lut descriptors x =
     Option.bind (CrsfParser_TryParseCrsfPacket crc8_lut descriptors x) (\<lambda>(parsed, y).
       case parsed of
         None \<Rightarrow> Some ([], y)
       | Some packet \<Rightarrow>
           Option.bind (read_packets crc8_lut descriptors y) (\<lambda>(packets, z).
             Some (packet # packets, z)))"

text \<open>One cycle of the driver with the bytes from the serial port, at most 64; it ignores whether they fit.\<close>

definition CrsfRc_receive ::
  "u8 list \<Rightarrow> CrsfPacketDescriptor_t list \<Rightarrow> u8 list \<Rightarrow> CrsfParser \<times> CrsfParserStatistics_t \<Rightarrow>
   (CrsfPacket_t list \<times> CrsfParser \<times> CrsfParserStatistics_t) option" where
  "CrsfRc_receive crc8_lut descriptors new_bytes = (\<lambda>(s, st).
    (if new_bytes \<noteq> []
     then read_packets crc8_lut descriptors
            (snd (CrsfParser_LoadBuffer new_bytes (of_nat (length new_bytes)) s), st)
     else Some ([], s, st)))"

end
