(* ===== verification/Crsf_Invariant.thy ===== *)
theory Crsf_Invariant
  imports Crsf_Parser
begin

text \<open>
  The parser loop ends, for any state and any table of descriptors: every iteration consumes a byte of
  the queue or advances the state machine towards the next header. The locale \<open>packet_descriptors\<close> is
  what the parser relies on in the table; with it the indexes stay within the buffers, and the
  queue has room for the next read of the driver.
\<close>

section \<open>Progress\<close>

fun state_rank :: "PARSER_STATE \<Rightarrow> nat" where
  "state_rank PARSER_STATE_HEADER = 0"
| "state_rank PARSER_STATE_CRC = 1"
| "state_rank PARSER_STATE_PAYLOAD = 2"
| "state_rank PARSER_STATE_SIZE_TYPE = 3"

definition queued :: "CrsfParser \<Rightarrow> nat" where
  "queued s = unat (qb_count (cp_rx_queue s))"

definition remaining_steps :: "CrsfParser \<Rightarrow> nat" where
  "remaining_steps s = 4 * queued s + state_rank (cp_parser_state s)"

lemma await_header_simps [simp]:
  "cp_parser_state (await_header s) = PARSER_STATE_HEADER"
  "cp_working_index (await_header s) = 0"
  "cp_working_segment_size (await_header s) = 1"
  "cp_rx_queue (await_header s) = cp_rx_queue s"
  "cp_process_buffer (await_header s) = cp_process_buffer s"
  by (simp_all add: await_header_def)

lemma can_run_index: "parser_can_run s \<Longrightarrow> unat (cp_working_index s) < queued s"
  by (simp add: parser_can_run_def queued_def QueueBuffer_Count_def word_less_nat_alt Let_def)

lemma can_run_iff:
  "parser_can_run s \<longleftrightarrow> unat (cp_working_index s) < queued s \<and>
     unat (cp_working_index s) + unat (cp_working_segment_size s) \<le> queued s"
  by (auto simp: parser_can_run_def queued_def QueueBuffer_Count_def word_less_nat_alt word_le_nat_alt
      Let_def unat_sub)

lemma Get_count:
  "0 < unat (qb_count q) \<Longrightarrow> unat (qb_count (snd (QueueBuffer_Get q))) = unat (qb_count q) - 1"
  by (auto simp: QueueBuffer_Get_def unat_sub_if')

lemma Dequeue_count:
  "unat (qb_count (QueueBuffer_Dequeue n q)) =
     (if unat n \<le> unat (qb_count q) then unat (qb_count q) - unat n else unat (qb_count q))"
  by (auto simp: QueueBuffer_Dequeue_def word_less_nat_alt word_le_nat_alt unat_sub)

lemma size_type_queue:
  "cp_rx_queue (fst (parse_size_type ds x)) = cp_rx_queue (fst x)"
  "state_rank (cp_parser_state (fst (parse_size_type ds x))) \<le> 2"
  by (auto simp: parse_size_type_def split_beta Let_def split: option.splits)

lemma parse_crc_queue:
  "cp_rx_queue (fst (snd (parse_crc lut x))) = cp_rx_queue (fst x) \<and> fst (parse_crc lut x) = None \<or>
   cp_rx_queue (fst (snd (parse_crc lut x))) =
     QueueBuffer_Dequeue (cp_working_index (fst x) + 1) (cp_rx_queue (fst x))"
  "cp_parser_state (fst (snd (parse_crc lut x))) = PARSER_STATE_HEADER"
  by (auto simp: parse_crc_def split_beta Let_def)

lemma step_progress:
  assumes "parser_can_run (fst x)"
  shows "remaining_steps (fst (snd (parser_step lut ds x))) < remaining_steps (fst x)"
    and "queued (fst (snd (parser_step lut ds x))) \<le> queued (fst x)"
    and "fst (parser_step lut ds x) \<noteq> None \<Longrightarrow> queued (fst (snd (parser_step lut ds x))) < queued (fst x)"
proof -
  have index: "unat (cp_working_index (fst x)) < queued (fst x)"
    using assms by (rule can_run_index)
  then have next_index: "unat (cp_working_index (fst x) + 1) = unat (cp_working_index (fst x)) + 1"
    using unsigned_less [of "qb_count (cp_rx_queue (fst x))", where 'a = nat]
    by (simp add: queued_def unat_word_ariths)
  have header: "queued (fst (parse_header x)) = queued (fst x) - 1"
    "state_rank (cp_parser_state (fst (parse_header x))) \<le> 3" if "cp_parser_state (fst x) = PARSER_STATE_HEADER"
    using that index Get_count [of "cp_rx_queue (fst x)"]
    by (auto simp: parse_header_def queued_def split_beta Let_def)
  have crc: "queued (fst (snd (parse_crc lut x))) \<le> queued (fst x)"
    "fst (parse_crc lut x) \<noteq> None \<Longrightarrow> queued (fst (snd (parse_crc lut x))) < queued (fst x)"
    using parse_crc_queue(1) [of lut x] index next_index by (auto simp: queued_def Dequeue_count)
  show "remaining_steps (fst (snd (parser_step lut ds x))) < remaining_steps (fst x)"
    using header index size_type_queue [of ds x] crc(1) parse_crc_queue(2) [of lut x]
    by (cases "cp_parser_state (fst x)")
      (auto simp: parser_step_def remaining_steps_def queued_def parse_payload_def)
  show "queued (fst (snd (parser_step lut ds x))) \<le> queued (fst x)"
    using header(1) size_type_queue(1) [of ds x] crc(1)
    by (cases "cp_parser_state (fst x)") (auto simp: parser_step_def queued_def parse_payload_def)
  show "queued (fst (snd (parser_step lut ds x))) < queued (fst x)"
    if "fst (parser_step lut ds x) \<noteq> None"
    using that crc(2) by (cases "cp_parser_state (fst x)") (auto simp: parser_step_def)
qed

lemma TryParse_induct:
  assumes "P x" and "\<And>x. P x \<Longrightarrow> parser_can_run (fst x) \<Longrightarrow> P (snd (parser_step lut ds x))"
  shows "\<exists>packet y. CrsfParser_TryParseCrsfPacket lut ds x = Some (packet, y) \<and> P y \<and>
    queued (fst y) \<le> queued (fst x) \<and>
    (if packet = None then \<not> parser_can_run (fst y) else queued (fst y) < queued (fst x))"
  using assms(1)
proof (induction "remaining_steps (fst x)" arbitrary: x rule: less_induct)
  case less
  show ?case
  proof (cases "parser_can_run (fst x)")
    case True
    obtain packet y where step: "parser_step lut ds x = (packet, y)" by (rule prod.exhaust)
    have progress: "remaining_steps (fst y) < remaining_steps (fst x)" "queued (fst y) \<le> queued (fst x)"
      "packet \<noteq> None \<Longrightarrow> queued (fst y) < queued (fst x)" and "P y"
      using step_progress [OF True, of lut ds] assms(2) [OF less.prems True] by (simp_all add: step)
    show ?thesis
    proof (cases packet)
      case None
      have unfolded: "CrsfParser_TryParseCrsfPacket lut ds x = CrsfParser_TryParseCrsfPacket lut ds y"
        by (subst CrsfParser_TryParseCrsfPacket.simps) (simp add: True step None)
      from less.hyps [OF progress(1) \<open>P y\<close>] progress(2) show ?thesis
        unfolding unfolded by (fastforce split: if_splits)
    next
      case (Some p)
      have "CrsfParser_TryParseCrsfPacket lut ds x = Some (Some p, y)"
        by (subst CrsfParser_TryParseCrsfPacket.simps) (simp add: True step Some)
      with \<open>P y\<close> progress Some show ?thesis by simp
    qed
  next
    case False
    then have "CrsfParser_TryParseCrsfPacket lut ds x = Some (None, x)"
      by (subst CrsfParser_TryParseCrsfPacket.simps) simp
    with False less.prems show ?thesis by simp
  qed
qed

lemma read_packets_induct:
  assumes "P x" and "\<And>x. P x \<Longrightarrow> parser_can_run (fst x) \<Longrightarrow> P (snd (parser_step lut ds x))"
  shows "\<exists>packets y. read_packets lut ds x = Some (packets, y) \<and> P y \<and> \<not> parser_can_run (fst y)"
  using assms(1)
proof (induction "queued (fst x)" arbitrary: x rule: less_induct)
  case less
  obtain packet y where parsed: "CrsfParser_TryParseCrsfPacket lut ds x = Some (packet, y)" and "P y"
    and y: "if packet = None then \<not> parser_can_run (fst y) else queued (fst y) < queued (fst x)"
    using TryParse_induct [of P x lut ds] less.prems assms(2) by blast
  show ?case
  proof (cases packet)
    case None
    then have "read_packets lut ds x = Some ([], y)"
      by (subst read_packets.simps) (simp add: parsed)
    with None \<open>P y\<close> y show ?thesis by simp
  next
    case (Some p)
    with y less.hyps [of y] \<open>P y\<close> obtain packets z
      where "read_packets lut ds y = Some (packets, z)" and "P z" and "\<not> parser_can_run (fst z)"
      by auto
    moreover from this Some have "read_packets lut ds x = Some (p # packets, z)"
      by (subst read_packets.simps) (simp add: parsed)
    ultimately show ?thesis by simp
  qed
qed

section \<open>Indexes and buffers\<close>

text \<open>In every state the working index and the segment stay within the 64 bytes of the process buffer.\<close>

definition segment_ok :: "CrsfParser \<Rightarrow> bool" where
  "segment_ok s \<longleftrightarrow>
    (case cp_parser_state s of
       PARSER_STATE_HEADER \<Rightarrow> cp_working_index s = 0 \<and> cp_working_segment_size s = 1
     | PARSER_STATE_SIZE_TYPE \<Rightarrow> cp_working_index s = 0 \<and> cp_working_segment_size s = 2
     | PARSER_STATE_PAYLOAD \<Rightarrow> cp_working_index s = 2 \<and> unat (cp_working_segment_size s) \<le> 61
     | PARSER_STATE_CRC \<Rightarrow> 2 \<le> unat (cp_working_index s) \<and> unat (cp_working_index s) \<le> 63 \<and>
         cp_working_segment_size s = 1)"

definition crsf_ok :: "CrsfParser \<Rightarrow> bool" where
  "crsf_ok s \<longleftrightarrow> qb_ok (cp_rx_queue s) \<and> qb_buffer_size (cp_rx_queue s) = RX_QUEUE_BUFFER_SIZE \<and>
     length (cp_process_buffer s) = 64 \<and> segment_ok s"

lemma await_header_segment [simp]: "segment_ok (await_header s)"
  by (simp add: segment_ok_def)

lemma segment_ok_queue [simp]:
  "segment_ok (s\<lparr>cp_rx_queue := q\<rparr>) = segment_ok s"
  "segment_ok (s\<lparr>cp_process_buffer := b\<rparr>) = segment_ok s"
  by (simp_all add: segment_ok_def cong: PARSER_STATE.case_cong)

lemma Init_crsf_ok:
  "length (qb_buffer (cp_rx_queue s)) = 200 \<Longrightarrow> length (cp_process_buffer s) = 64 \<Longrightarrow> segment_ok s \<Longrightarrow>
     crsf_ok (CrsfParser_Init s)"
  using Init_ok [of "qb_buffer (cp_rx_queue s)" 200]
  by (simp add: crsf_ok_def CrsfParser_Init_def QueueBuffer_Init_def)

lemma static_ok: "crsf_ok (CrsfParser_Init CrsfParser_static)"
  by (rule Init_crsf_ok) (simp_all add: CrsfParser_static_def QueueBuffer_Init_def segment_ok_def)

lemma parse_header_ok: "crsf_ok (fst x) \<Longrightarrow> cp_parser_state (fst x) = PARSER_STATE_HEADER \<Longrightarrow>
    crsf_ok (fst (parse_header x))"
  using Get_bytes [of "cp_rx_queue (fst x)"]
  by (auto simp: crsf_ok_def parse_header_def segment_ok_def split_beta Let_def)

lemma parse_payload_ok: "crsf_ok s \<Longrightarrow> cp_parser_state s = PARSER_STATE_PAYLOAD \<Longrightarrow> crsf_ok (parse_payload s)"
  by (simp add: crsf_ok_def parse_payload_def segment_ok_def unat_add_small)

text \<open>The block that the checksum is computed of fits the process buffer.\<close>

lemma crc_block:
  assumes "crsf_ok s" and "parser_can_run s" and "cp_parser_state s = PARSER_STATE_CRC"
  defines "n \<equiv> Suc (unat (cp_working_index s))"
  shows "unat (cp_working_index s + 1) = n" and "3 \<le> n" and "n \<le> 64"
    and "n \<le> length (qb_bytes (cp_rx_queue s))"
    and "QueueBuffer_PeekBuffer 0 (cp_process_buffer s) (cp_working_index s + 1) (cp_rx_queue s) =
      (True, take n (qb_bytes (cp_rx_queue s)) @ drop n (cp_process_buffer s))"
proof -
  have index: "2 \<le> unat (cp_working_index s)" "unat (cp_working_index s) \<le> 63"
    using assms by (simp_all add: crsf_ok_def segment_ok_def)
  then show n: "unat (cp_working_index s + 1) = n" "3 \<le> n" "n \<le> 64"
    by (simp_all add: n_def unat_add_small)
  show len: "n \<le> length (qb_bytes (cp_rx_queue s))"
    using can_run_index [OF assms(2)] by (simp add: n_def queued_def)
  show "QueueBuffer_PeekBuffer 0 (cp_process_buffer s) (cp_working_index s + 1) (cp_rx_queue s) =
      (True, take n (qb_bytes (cp_rx_queue s)) @ drop n (cp_process_buffer s))"
    using PeekBuffer_bytes [of "cp_rx_queue s" "cp_working_index s + 1" "cp_process_buffer s"]
      assms(1) n len by (simp add: crsf_ok_def)
qed

lemma parse_crc_ok:
  assumes "crsf_ok (fst x)" and "parser_can_run (fst x)" and "cp_parser_state (fst x) = PARSER_STATE_CRC"
  shows "crsf_ok (fst (snd (parse_crc lut x)))"
proof -
  have "length (cp_process_buffer (fst (snd (parse_crc lut x)))) = 64"
    using crc_block [OF assms] assms(1)
    by (simp add: parse_crc_def split_beta Let_def crsf_ok_def)
  moreover have "segment_ok (fst (snd (parse_crc lut x)))"
    by (simp add: parse_crc_def split_beta Let_def)
  ultimately show ?thesis
    using assms(1) parse_crc_queue(1) [of lut x]
      Dequeue_bytes [of "cp_rx_queue (fst x)" "cp_working_index (fst x) + 1"]
    by (auto simp: crsf_ok_def)
qed

lemma idle_queue: "crsf_ok s \<Longrightarrow> \<not> parser_can_run s \<Longrightarrow> queued s < 64"
  by (cases "cp_parser_state s") (auto simp: crsf_ok_def segment_ok_def can_run_iff)

lemma unat_ucast_byte: "unat (ucast (w :: u8) :: u32) = unat w"
  by (simp add: unsigned_ucast_eq take_bit_nat_eq_self order.strict_trans [OF unsigned_less])

lemma variable_segment:
  assumes "\<not> (w :: u8) < 2"
  shows "unat (ucast w - 2 :: u32) = unat w - 2" and "unat w < 256"
proof -
  have "unat w < 2 ^ LENGTH(8)" by (rule unsigned_less)
  then show "unat w < 256" by simp
  show "unat (ucast w - 2 :: u32) = unat w - 2"
    using assms by (subst unat_sub) (simp_all add: word_le_nat_alt word_less_nat_alt unat_ucast_byte)
qed

locale packet_descriptors =
  fixes descriptors :: "CrsfPacketDescriptor_t list"
  assumes sizes: "d \<in> set descriptors \<Longrightarrow>
    pd_packet_size d = -1 \<or> 0 \<le> pd_packet_size d \<and> pd_packet_size d \<le> 61"
begin

lemma parse_size_type_ok:
  assumes "crsf_ok (fst x)" and "cp_parser_state (fst x) = PARSER_STATE_SIZE_TYPE"
  shows "crsf_ok (fst (parse_size_type descriptors x))"
proof -
  have "unat (cp_working_segment_size s) \<le> 61" if "segment_fits s" "cp_working_index s = 2"
    "cp_working_segment_size s = ucast (w :: u8) - 2" "\<not> w < 2" for s w
    using variable_segment [OF that(4)] that(1-3)
    by (simp add: segment_fits_def word_less_nat_alt not_less unat_add_small unat_ucast_byte)
  moreover have "unat (of_int (pd_packet_size d) :: u32) \<le> 61"
    if "FindCrsfDescriptor descriptors t = Some d" "pd_packet_size d \<noteq> - 1" for d t
    using sizes [of d] that
    by (auto simp: FindCrsfDescriptor_def find_Some_iff nat_le_iff take_bit_int_eq_self unsigned_of_int)
  ultimately show ?thesis
    using assms
    by (auto simp: parse_size_type_def split_beta Let_def crsf_ok_def segment_ok_def
       split: option.splits)
qed

lemma step_ok:
  "crsf_ok (fst x) \<Longrightarrow> parser_can_run (fst x) \<Longrightarrow> crsf_ok (fst (snd (parser_step lut descriptors x)))"
  by (cases "cp_parser_state (fst x)")
     (simp_all add: parser_step_def parse_header_ok parse_payload_ok parse_size_type_ok parse_crc_ok)

text \<open>A cycle of the driver ends with less than 64 bytes in the queue, and the next read fits.\<close>

lemma receive_ok:
  assumes "crsf_ok s" and "queued s < 64" and "length new_bytes \<le> 64"
  shows "fst (CrsfParser_LoadBuffer new_bytes (of_nat (length new_bytes)) s)"
    and "\<exists>packets t st'. CrsfRc_receive lut descriptors new_bytes (s, st) = Some (packets, t, st') \<and>
      crsf_ok t \<and> queued t < 64"
proof -
  have n: "unat (of_nat (length new_bytes) :: u32) = length new_bytes"
    using assms(3) by (simp add: unat_of_nat take_bit_nat_eq_self)
  let ?load = "CrsfParser_LoadBuffer new_bytes (of_nat (length new_bytes)) s"
  have append: "length (qb_bytes (cp_rx_queue s)) + length new_bytes \<le> unat (qb_buffer_size (cp_rx_queue s))"
    using assms by (simp add: crsf_ok_def queued_def)
  from assms AppendBuffer_bytes [OF _ n, of "cp_rx_queue s"] append
  have loaded: "fst ?load" and ok: "crsf_ok (snd ?load)"
    by (simp_all add: CrsfParser_LoadBuffer_def split_beta crsf_ok_def)
  from loaded show "fst ?load" .
  from read_packets_induct [of "\<lambda>x. crsf_ok (fst x)" "(snd ?load, st)" lut descriptors] ok step_ok
  obtain packets y where "read_packets lut descriptors (snd ?load, st) = Some (packets, y)"
    and "crsf_ok (fst y)" and "\<not> parser_can_run (fst y)" by auto
  moreover from this idle_queue have "queued (fst y) < 64" by blast
  ultimately show "\<exists>packets t st'. CrsfRc_receive lut descriptors new_bytes (s, st) = Some (packets, t, st') \<and>
      crsf_ok t \<and> queued t < 64"
    using assms(1,2) by (cases y) (auto simp: CrsfRc_receive_def)
qed

end

interpretation crsf_packets: packet_descriptors crsf_packet_descriptors
  by unfold_locales (auto simp: crsf_packet_descriptors_def)

end
