(* ===== verification/Crsf_Frames.thy ===== *)
theory Crsf_Frames
  imports Crsf_Invariant
begin

text \<open>
  What the sender of a packet relies on: the frame around a payload and the packing of sixteen
  channels of eleven bits, and that the parser finds the frame and decodes the channels.
\<close>

section \<open>Channels\<close>

text \<open>The channels are eleven bits each, one after the other, from the lowest bit of each byte on.\<close>

definition pack_channels :: "u32 list \<Rightarrow> u8 list" where
  "pack_channels channels = map (\<lambda>i. horner_sum of_bool 2
     (map (\<lambda>j. bit (channels ! ((8 * i + j) div 11)) ((8 * i + j) mod 11)) [0..<8])) [0..<22]"

lemma length_pack_channels [simp]: "length (pack_channels channels) = 22"
  by (simp add: pack_channels_def)

lemma bit_pack_channels:
  assumes "i < 22" and "j < 8"
  shows "bit (pack_channels channels ! i) j \<longleftrightarrow> bit (channels ! ((8 * i + j) div 11)) ((8 * i + j) mod 11)"
  using assms by (simp add: pack_channels_def bit_horner_sum_bit_iff possible_bit_word del: upt_Suc)

lemma bit_0x7FF: "bit (x AND 0x07FF :: u32) n \<longleftrightarrow> n < 11 \<and> bit x n"
proof -
  have "(0x07FF :: u32) = mask 11" by (simp add: mask_eq_exp_minus_1)
  then show ?thesis by (auto simp only: bit_and_iff bit_mask_iff possible_bit_word dest: bit_imp_le_length)
qed

text \<open>A channel at a bit offset within its first byte; up to offset 5 it ends in the second byte.\<close>

definition stream_bit :: "u8 \<Rightarrow> u8 \<Rightarrow> u8 \<Rightarrow> nat \<Rightarrow> bool" where
  "stream_bit x y z m \<longleftrightarrow> (if m < 8 then bit x m else if m < 16 then bit y (m - 8) else bit z (m - 16))"

lemma bit_of_byte: "bit (w :: u8) m \<Longrightarrow> m < 8"
  using bit_imp_le_length [of w m] by simp

lemma bit_two_bytes:
  assumes "a + b = 8" and "a \<le> 5"
  shows "bit ((drop_bit a (ucast x) OR push_bit b (ucast y)) AND 0x07FF :: u32) n \<longleftrightarrow>
    n < 11 \<and> stream_bit x y z (a + n)"
proof -
  have "n - b = a + n - 8" "b \<le> n \<longleftrightarrow> 8 \<le> a + n" using assms(1) by arith+
  then show ?thesis
    using assms(2) unfolding bit_0x7FF stream_bit_def bit_or_iff bit_drop_bit_eq bit_push_bit_iff
    by (auto simp: bit_ucast_iff possible_bit_word dest: bit_of_byte)
qed

lemma bit_three_bytes:
  assumes "a + b = 8" and "a + c = 16"
  shows "bit ((drop_bit a (ucast x) OR push_bit b (ucast y) OR push_bit c (ucast z)) AND 0x07FF :: u32) n \<longleftrightarrow>
    n < 11 \<and> stream_bit x y z (a + n)"
proof -
  have "n - b = a + n - 8" "b \<le> n \<longleftrightarrow> 8 \<le> a + n" "n - c = a + n - 16" "c \<le> n \<longleftrightarrow> 16 \<le> a + n"
    using assms by arith+
  then show ?thesis
    unfolding bit_0x7FF stream_bit_def bit_or_iff bit_drop_bit_eq bit_push_bit_iff
    by (auto simp: bit_ucast_iff possible_bit_word dest: bit_of_byte)
qed

lemma stream_bit_data:
  assumes "j = 8 * i + a" and "a < 8" and "n < 11"
  shows "stream_bit (data ! i) (data ! Suc i) (data ! Suc (Suc i)) (a + n) \<longleftrightarrow>
    bit (data ! ((j + n) div 8)) ((j + n) mod 8)"
proof -
  have "(j + n) div 8 = i + (a + n) div 8" "(j + n) mod 8 = (a + n) mod 8"
    using assms(1) by (simp_all add: add.assoc)
  moreover consider "a + n < 8" | "8 \<le> a + n" "a + n < 16" | "16 \<le> a + n" "a + n < 24"
    using assms(2,3) by linarith
  then have "(a + n) div 8 = (if a + n < 8 then 0 else if a + n < 16 then 1 else 2) \<and>
      (a + n) mod 8 = (if a + n < 8 then a + n else if a + n < 16 then a + n - 8 else a + n - 16)"
    by cases (auto simp: div_nat_eqI mod_if)
  ultimately show ?thesis by (auto simp: stream_bit_def)
qed

definition channel_at :: "u8 list \<Rightarrow> nat \<Rightarrow> nat \<Rightarrow> u32" where
  "channel_at data i a =
    (let d = (\<lambda>i. ucast (data ! i)) in
     if a \<le> 5 then (drop_bit a (d i) OR push_bit (8 - a) (d (i + 1))) AND 0x07FF
     else (drop_bit a (d i) OR push_bit (8 - a) (d (i + 1)) OR push_bit (16 - a) (d (i + 2))) AND 0x07FF)"

lemma raw_channels_at: "raw_channels data = map (\<lambda>k. channel_at data (11 * k div 8) (11 * k mod 8)) [0..<16]"
  by (simp add: raw_channels_def channel_at_def upt_rec flip: numeral_2_eq_2)

lemma bit_raw_channels:
  assumes "k < 16"
  shows "bit (raw_channels data ! k) n \<longleftrightarrow> n < 11 \<and> bit (data ! ((11 * k + n) div 8)) ((11 * k + n) mod 8)"
proof -
  define i a where "i = 11 * k div 8" and "a = 11 * k mod 8"
  then have pos: "11 * k = 8 * i + a" "a < 8" by simp_all
  have "raw_channels data ! k = channel_at data i a"
    using assms by (simp add: raw_channels_at i_def a_def del: upt_Suc)
  moreover have "bit (channel_at data i a) n \<longleftrightarrow>
      n < 11 \<and> stream_bit (data ! i) (data ! Suc i) (data ! Suc (Suc i)) (a + n)"
    using bit_two_bytes [of a "8 - a"] bit_three_bytes [of a "8 - a" "16 - a"] pos(2)
    by (simp add: channel_at_def Let_def)
  ultimately show ?thesis using stream_bit_data [OF pos] by auto
qed

lemma raw_channels_pack:
  assumes "length channels = 16" and "\<forall>c \<in> set channels. c < 2048"
  shows "raw_channels (pack_channels channels) = channels"
proof (rule nth_equalityI)
  show "length (raw_channels (pack_channels channels)) = length channels"
    using assms(1) by (simp add: raw_channels_at)
  fix k assume "k < length (raw_channels (pack_channels channels))"
  then have k: "k < 16" by (simp add: raw_channels_at)
  then have "channels ! k < 2048" using assms by simp
  then have "take_bit 11 (unat (channels ! k)) = unat (channels ! k)"
    by (simp add: take_bit_nat_eq_self word_less_nat_alt)
  then have "bit (channels ! k) n \<Longrightarrow> n < 11" for n
    by (metis bit_take_bit_iff bit_unsigned_iff possible_bit_nat)
  moreover have "bit (pack_channels channels ! ((11 * k + n) div 8)) ((11 * k + n) mod 8) \<longleftrightarrow>
      bit (channels ! k) n" if "n < 11" for n
    using that k bit_pack_channels [of "(11 * k + n) div 8" "(11 * k + n) mod 8" channels]
    by (simp add: div_less_iff_less_mult)
  ultimately show "raw_channels (pack_channels channels) ! k = channels ! k"
    using k by (intro bit_word_eqI) (auto simp: bit_raw_channels)
qed

section \<open>Frames\<close>

definition crsf_frame :: "u8 \<Rightarrow> u8 list \<Rightarrow> u8 list" where
  "crsf_frame packet_type payload =
     [CRSF_HEADER, of_nat (length payload + 2), packet_type] @ payload @
     [crc8_bitwise 0xd5 (packet_type # payload)]"

text \<open>The parser searches a header, with these bytes in the queue.\<close>

definition searching :: "u8 list \<Rightarrow> CrsfParser \<Rightarrow> bool" where
  "searching bytes s \<longleftrightarrow>
     crsf_ok s \<and> cp_parser_state s = PARSER_STATE_HEADER \<and> qb_bytes (cp_rx_queue s) = bytes"

lemma TryParse_step:
  "parser_can_run (fst x) \<Longrightarrow> parser_step lut ds x = (None, y) \<Longrightarrow>
     CrsfParser_TryParseCrsfPacket lut ds x = CrsfParser_TryParseCrsfPacket lut ds y"
  by (subst CrsfParser_TryParseCrsfPacket.simps) simp

lemma TryParse_packet:
  "parser_can_run (fst x) \<Longrightarrow> parser_step lut ds x = (Some packet, y) \<Longrightarrow>
     CrsfParser_TryParseCrsfPacket lut ds x = Some (Some packet, y)"
  by (subst CrsfParser_TryParseCrsfPacket.simps) simp

lemma queued_bytes: "queued s = length (qb_bytes (cp_rx_queue s))"
  by (simp add: queued_def)

lemma searching_can_run: "searching (b # bs) s \<Longrightarrow> parser_can_run s"
  by (auto simp: searching_def can_run_iff queued_bytes crsf_ok_def segment_ok_def)

text \<open>A byte that is no header is disposed of.\<close>

lemma noise_step:
  assumes "searching (b # bs) s" and "b \<noteq> CRSF_HEADER"
  shows "\<exists>t. CrsfParser_TryParseCrsfPacket lut ds (s, st) =
      CrsfParser_TryParseCrsfPacket lut ds (t, st\<lparr>ps_disposed_bytes := ps_disposed_bytes st + 1\<rparr>) \<and>
    searching bs t \<and> cp_process_buffer t = cp_process_buffer s"
proof -
  obtain t st' where step: "parse_header (s, st) = (t, st')" by (rule prod.exhaust)
  have "parser_step lut ds (s, st) = (None, t, st')"
    using assms(1) step by (simp add: parser_step_def searching_def)
  moreover have "searching bs t" and "cp_process_buffer t = cp_process_buffer s"
    and "st' = st\<lparr>ps_disposed_bytes := ps_disposed_bytes st + 1\<rparr>"
    using assms step Get_bytes [of "cp_rx_queue s"] parse_header_ok [of "(s, st)"]
    by (auto simp: searching_def crsf_ok_def parse_header_def split_beta Let_def)
  ultimately show ?thesis
    using TryParse_step [of "(s, st)"] searching_can_run [OF assms(1)] by auto
qed

lemma noise_skipped:
  assumes "searching (noise @ bs) s" and "CRSF_HEADER \<notin> set noise"
  shows "\<exists>t. CrsfParser_TryParseCrsfPacket lut ds (s, st) =
      CrsfParser_TryParseCrsfPacket lut ds
        (t, st\<lparr>ps_disposed_bytes := ps_disposed_bytes st + of_nat (length noise)\<rparr>) \<and>
    searching bs t \<and> cp_process_buffer t = cp_process_buffer s"
  using assms
proof (induction noise arbitrary: s st)
  case (Cons b noise)
  from Cons.prems noise_step [of b "noise @ bs" s lut ds st] obtain t
    where t: "CrsfParser_TryParseCrsfPacket lut ds (s, st) =
      CrsfParser_TryParseCrsfPacket lut ds (t, st\<lparr>ps_disposed_bytes := ps_disposed_bytes st + 1\<rparr>)"
      "searching (noise @ bs) t" "cp_process_buffer t = cp_process_buffer s" by auto
  from Cons.IH [OF t(2), of "st\<lparr>ps_disposed_bytes := ps_disposed_bytes st + 1\<rparr>"] Cons.prems(2)
  show ?case unfolding t(1) t(3) [symmetric] by (simp add: add.assoc)
qed auto

lemma header_step:
  assumes "searching (CRSF_HEADER # bs) s"
  shows "\<exists>t. CrsfParser_TryParseCrsfPacket lut ds (s, st) = CrsfParser_TryParseCrsfPacket lut ds (t, st) \<and>
    crsf_ok t \<and> cp_parser_state t = PARSER_STATE_SIZE_TYPE \<and> qb_bytes (cp_rx_queue t) = bs \<and>
    cp_process_buffer t = cp_process_buffer s"
proof -
  obtain t st' where step: "parse_header (s, st) = (t, st')" by (rule prod.exhaust)
  have "parser_step lut ds (s, st) = (None, t, st')"
    using assms(1) step by (simp add: parser_step_def searching_def)
  moreover have "crsf_ok t" "cp_parser_state t = PARSER_STATE_SIZE_TYPE" "qb_bytes (cp_rx_queue t) = bs"
    "st' = st" "cp_process_buffer t = cp_process_buffer s"
    using assms step Get_bytes [of "cp_rx_queue s"] parse_header_ok [of "(s, st)"]
    by (auto simp: searching_def crsf_ok_def parse_header_def split_beta Let_def)
  ultimately show ?thesis
    using TryParse_step [of "(s, st)"] searching_can_run [OF assms(1)] by auto
qed

text \<open>A descriptor accepts payloads of this length.\<close>

definition accepts_length :: "CrsfPacketDescriptor_t \<Rightarrow> nat \<Rightarrow> bool" where
  "accepts_length d n \<longleftrightarrow> n \<le> 61 \<and> (pd_packet_size d = -1 \<or> pd_packet_size d = int n)"

lemma size_step:
  assumes "crsf_ok s" and "cp_parser_state s = PARSER_STATE_SIZE_TYPE"
    and bytes: "qb_bytes (cp_rx_queue s) = b # packet_type # bs"
    and b: "unat b = n + 2" and d: "FindCrsfDescriptor ds packet_type = Some d" "accepts_length d n"
  shows "\<exists>t. CrsfParser_TryParseCrsfPacket lut ds (s, st) = CrsfParser_TryParseCrsfPacket lut ds (t, st) \<and>
    crsf_ok t \<and> cp_parser_state t = PARSER_STATE_PAYLOAD \<and> cp_rx_queue t = cp_rx_queue s \<and>
    cp_process_buffer t = cp_process_buffer s \<and>
    unat (cp_working_segment_size t) = n \<and> cp_working_descriptor t = Some d"
proof -
  have q: "qb_ok (cp_rx_queue s)" "cp_working_index s = 0" "cp_working_segment_size s = 2"
    using assms(1,2) by (simp_all add: crsf_ok_def segment_ok_def)
  have peek: "QueueBuffer_Peek 0 (cp_rx_queue s) = Some b" "QueueBuffer_Peek 1 (cp_rx_queue s) = Some packet_type"
    by (simp_all add: Peek_bytes [OF q(1)] bytes del: length_qb_bytes)
  have big: "\<not> b < 2" using b by (simp add: word_less_nat_alt)
  have seg: "unat (ucast b - 2 :: u32) = n" using variable_segment [OF big] b by simp
  have "uint b = int (unat b)" by simp
  then have n: "n \<le> 61" "uint b = int n + 2" using d(2) b by (simp_all add: accepts_length_def)
  define t where "t = s\<lparr>cp_working_index := 2, cp_working_descriptor := Some d,
    cp_working_segment_size := ucast b - 2, cp_parser_state := PARSER_STATE_PAYLOAD\<rparr>"
  have "(of_int (int n) :: u32) = of_nat (unat (ucast b - 2 :: u32))"
    by (simp only: seg of_int_of_nat_eq)
  then have fixed: "(of_int (int n) :: u32) = ucast b - 2" by simp
  have fits: "segment_fits (s\<lparr>cp_working_index := 2, cp_working_descriptor := Some d,
      cp_working_segment_size := ucast b - 2\<rparr>)"
    using seg n(1) big b by (simp add: segment_fits_def word_less_nat_alt not_less unat_add_small unat_ucast_byte)
  have "parse_size_type ds (s, st) = (t, st)"
  proof (cases "pd_packet_size d = -1")
    case True
    then show ?thesis
      by (simp add: parse_size_type_def q(2,3) peek Let_def t_def d(1) big fits)
  next
    case False
    then have "uint b = pd_packet_size d + 2" "of_int (pd_packet_size d) = (ucast b - 2 :: u32)"
      using d(2) n(2) fixed by (auto simp only: accepts_length_def)
    with False show ?thesis
      by (simp add: parse_size_type_def q(2,3) peek Let_def t_def d(1) big)
  qed
  then have "parser_step lut ds (s, st) = (None, t, st)"
    using assms(2) by (simp add: parser_step_def)
  moreover have "parser_can_run s"
    by (simp add: can_run_iff queued_bytes bytes q del: length_qb_bytes)
  ultimately have "CrsfParser_TryParseCrsfPacket lut ds (s, st) = CrsfParser_TryParseCrsfPacket lut ds (t, st)"
    using TryParse_step [of "(s, st)"] by simp
  moreover have "crsf_ok t" using assms(1) seg n(1) by (simp add: crsf_ok_def segment_ok_def t_def)
  ultimately show ?thesis using seg by (intro exI [of _ t]) (simp add: t_def)
qed

lemma payload_step:
  assumes "crsf_ok s" and "cp_parser_state s = PARSER_STATE_PAYLOAD"
    and n: "unat (cp_working_segment_size s) = n" and "n + 3 \<le> length (qb_bytes (cp_rx_queue s))"
  shows "CrsfParser_TryParseCrsfPacket lut ds (s, st) =
      CrsfParser_TryParseCrsfPacket lut ds (parse_payload s, st)"
    and "unat (cp_working_index (parse_payload s)) = n + 2" and "parser_can_run (parse_payload s)"
proof -
  have index: "cp_working_index s = 2" "n \<le> 61"
    using assms(1,2) n by (simp_all add: crsf_ok_def segment_ok_def)
  with assms(4) n show "unat (cp_working_index (parse_payload s)) = n + 2"
    by (simp add: parse_payload_def unat_add_small)
  with assms(4) show "parser_can_run (parse_payload s)"
    by (simp add: can_run_iff queued_def) (simp add: parse_payload_def)
  have "parser_can_run s" using assms(4) n index by (simp add: can_run_iff queued_def)
  moreover have "parser_step lut ds (s, st) = (None, parse_payload s, st)"
    using assms(2) by (simp add: parser_step_def)
  ultimately show "CrsfParser_TryParseCrsfPacket lut ds (s, st) =
      CrsfParser_TryParseCrsfPacket lut ds (parse_payload s, st)"
    using TryParse_step [of "(s, st)"] by simp
qed

text \<open>The checksum that is compared is the one of the packet type and the payload.\<close>

definition crc_pending :: "u8 \<Rightarrow> u8 list \<Rightarrow> u8 \<Rightarrow> u8 list \<Rightarrow> CrsfParser \<Rightarrow> bool" where
  "crc_pending packet_type payload crc rest s \<longleftrightarrow>
     crsf_ok s \<and> parser_can_run s \<and> cp_parser_state s = PARSER_STATE_CRC \<and>
     unat (cp_working_index s) = length payload + 2 \<and>
     (\<exists>b. qb_bytes (cp_rx_queue s) = b # packet_type # payload @ crc # rest)"

lemma crc_compared:
  assumes "crc_pending packet_type payload crc rest s"
  shows "\<exists>b. let buffer = b # packet_type # payload @ crc # drop (length payload + 3) (cp_process_buffer s) in
    QueueBuffer_PeekBuffer 0 (cp_process_buffer s) (cp_working_index s + 1) (cp_rx_queue s) = (True, buffer) \<and>
    Crc8Calc (Crc8Init poly) (drop 1 buffer) (ucast (cp_working_index s - 1)) =
      crc8_bitwise poly (packet_type # payload) \<and>
    buffer ! unat (cp_working_index s) = crc \<and>
    qb_bytes (QueueBuffer_Dequeue (cp_working_index s + 1) (cp_rx_queue s)) = rest"
proof -
  let ?i = "cp_working_index s" and ?n = "length payload"
  obtain b where bytes: "qb_bytes (cp_rx_queue s) = b # packet_type # payload @ crc # rest"
    and ok: "crsf_ok s" "parser_can_run s" "cp_parser_state s = PARSER_STATE_CRC" and i: "unat ?i = ?n + 2"
    using assms by (auto simp: crc_pending_def)
  note block = crc_block [OF ok]
  have peek: "QueueBuffer_PeekBuffer 0 (cp_process_buffer s) (?i + 1) (cp_rx_queue s) =
      (True, b # packet_type # payload @ crc # drop (?n + 3) (cp_process_buffer s))"
    using block(5) by (simp add: i bytes eval_nat_numeral)
  have "unat (?i - 1) = ?n + 1" using i by (simp add: unat_sub_if')
  moreover have "?n + 2 < 64" using block(3) i by simp
  ultimately have "unat (ucast (?i - 1) :: u8) = ?n + 1"
    by (simp add: unsigned_ucast_eq take_bit_nat_eq_self)
  then have calc: "Crc8Calc (Crc8Init poly) (packet_type # payload @ crc # xs) (ucast (?i - 1)) =
      crc8_bitwise poly (packet_type # payload)" for xs
    by (subst Crc8Calc_bitwise) simp_all
  have "qb_bytes (QueueBuffer_Dequeue (?i + 1) (cp_rx_queue s)) = drop (?n + 3) (qb_bytes (cp_rx_queue s))"
    using Dequeue_bytes [of "cp_rx_queue s" "?i + 1"] ok(1) block(1,4) i
    by (simp add: crsf_ok_def eval_nat_numeral)
  then have "qb_bytes (QueueBuffer_Dequeue (?i + 1) (cp_rx_queue s)) = rest"
    by (simp add: bytes eval_nat_numeral)
  with peek calc i show ?thesis by (intro exI [of _ b]) (simp add: Let_def nth_append)
qed

text \<open>A packet that the table knows, with the right checksum, is returned and removed.\<close>

lemma crc_accepted:
  assumes "crc_pending packet_type payload (crc8_bitwise poly (packet_type # payload)) rest s"
    and "cp_working_descriptor s = Some d" and "pd_processor d = Some processor"
    and "processor (payload @ crc8_bitwise poly (packet_type # payload) #
        drop (length payload + 3) (cp_process_buffer s)) (of_nat (length payload)) = Some packet"
  shows "\<exists>t. CrsfParser_TryParseCrsfPacket (Crc8Init poly) ds (s, st) = Some (Some packet, t,
      st\<lparr>ps_crcs_valid_known_packets := ps_crcs_valid_known_packets st + 1\<rparr>) \<and> searching rest t"
proof -
  have ok: "crsf_ok s" "parser_can_run s" "cp_parser_state s = PARSER_STATE_CRC"
    and i: "unat (cp_working_index s) = length payload + 2"
    using assms(1) by (simp_all add: crc_pending_def)
  have "unat (cp_working_index s - 2) = length payload" using i by (simp add: unat_sub_if')
  then have len: "of_nat (length payload) = cp_working_index s - 2" by (simp flip: \<open>unat _ = length payload\<close>)
  obtain t where step: "parse_crc (Crc8Init poly) (s, st) =
      (Some packet, t, st\<lparr>ps_crcs_valid_known_packets := ps_crcs_valid_known_packets st + 1\<rparr>)"
    and t: "qb_bytes (cp_rx_queue t) = rest" "cp_parser_state t = PARSER_STATE_HEADER"
    using crc_compared [OF assms(1), of poly] assms(2-4)
    by (auto simp: parse_crc_def Let_def len)
  moreover have "crsf_ok t" using parse_crc_ok [of "(s, st)" "Crc8Init poly"] ok step by simp
  ultimately show ?thesis
    using TryParse_packet [of "(s, st)"] ok by (auto simp: parser_step_def searching_def)
qed

text \<open>A wrong checksum: nothing is returned or removed, and the search for a header starts again.\<close>

lemma crc_refused:
  assumes "crc_pending packet_type payload crc rest s" and "crc8_bitwise poly (packet_type # payload) \<noteq> crc"
  shows "\<exists>t. parse_crc (Crc8Init poly) (s, st) = (None, t, st\<lparr>ps_crcs_invalid := ps_crcs_invalid st + 1\<rparr>) \<and>
    searching (qb_bytes (cp_rx_queue s)) t"
proof -
  have ok: "crsf_ok s" "parser_can_run s" "cp_parser_state s = PARSER_STATE_CRC"
    using assms(1) by (simp_all add: crc_pending_def)
  obtain t where "parse_crc (Crc8Init poly) (s, st) = (None, t, st\<lparr>ps_crcs_invalid := ps_crcs_invalid st + 1\<rparr>)"
    and "cp_rx_queue t = cp_rx_queue s" "cp_parser_state t = PARSER_STATE_HEADER"
    using crc_compared [OF assms(1), of poly] assms(2) by (auto simp: parse_crc_def Let_def)
  with parse_crc_ok [of "(s, st)" "Crc8Init poly"] ok show ?thesis by (auto simp: searching_def)
qed

text \<open>A frame of a known packet is read up to its checksum, whatever its last byte is.\<close>

lemma frame_reaches_crc:
  assumes "searching (CRSF_HEADER # of_nat (length payload + 2) # packet_type # payload @ crc # rest) s"
    and d: "FindCrsfDescriptor ds packet_type = Some d" "accepts_length d (length payload)"
  shows "\<exists>t. CrsfParser_TryParseCrsfPacket lut ds (s, st) = CrsfParser_TryParseCrsfPacket lut ds (t, st) \<and>
    crc_pending packet_type payload crc rest t \<and> cp_working_descriptor t = Some d \<and>
    cp_process_buffer t = cp_process_buffer s \<and>
    qb_bytes (cp_rx_queue t) = of_nat (length payload + 2) # packet_type # payload @ crc # rest"
proof -
  let ?P = "CrsfParser_TryParseCrsfPacket lut ds" and ?n = "length payload"
  define b :: u8 where "b = of_nat (?n + 2)"
  have n: "?n \<le> 61" using d(2) by (simp add: accepts_length_def)
  then have b: "unat b = ?n + 2" unfolding b_def unat_of_nat by (simp add: take_bit_nat_eq_self)
  obtain t where t: "?P (s, st) = ?P (t, st)" "crsf_ok t" "cp_parser_state t = PARSER_STATE_SIZE_TYPE"
    "qb_bytes (cp_rx_queue t) = b # packet_type # payload @ crc # rest"
    "cp_process_buffer t = cp_process_buffer s"
    using header_step [OF assms(1), of lut ds st] unfolding b_def by blast
  obtain u where u: "?P (t, st) = ?P (u, st)" "crsf_ok u" "cp_parser_state u = PARSER_STATE_PAYLOAD"
    "cp_rx_queue u = cp_rx_queue t" "unat (cp_working_segment_size u) = ?n" "cp_working_descriptor u = Some d"
    "cp_process_buffer u = cp_process_buffer t"
    using size_step [OF t(2-4) b d, of lut st] by blast
  have "?n + 3 \<le> length (qb_bytes (cp_rx_queue u))" unfolding u(4) t(4) by simp
  note payload = payload_step [OF u(2,3,5) this]
  have "crc_pending packet_type payload crc rest (parse_payload u)"
    using payload(2,3) parse_payload_ok [OF u(2,3)] t(4) u(4)
    by (simp add: crc_pending_def) (simp add: parse_payload_def)
  with t u(4,6,7) show ?thesis
    unfolding t(1) u(1) payload(1) b_def [symmetric]
    by (intro exI [of _ "parse_payload u"]) (simp add: parse_payload_def)
qed

text \<open>
  The parser finds a frame after noise without header bytes. The processor sees the payload, followed
  by the checksum and what earlier packets have left in the buffer.
\<close>

lemma frame_parsed:
  assumes "searching (noise @ crsf_frame packet_type payload @ rest) s" and "CRSF_HEADER \<notin> set noise"
    and d: "FindCrsfDescriptor ds packet_type = Some d" "accepts_length d (length payload)"
    and "pd_processor d = Some processor"
    and processor: "processor (payload @ crc8_bitwise 0xd5 (packet_type # payload) #
      drop (length payload + 3) (cp_process_buffer s)) (of_nat (length payload)) = Some packet"
  shows "\<exists>u. CrsfParser_TryParseCrsfPacket (Crc8Init 0xd5) ds (s, st) = Some (Some packet, u,
      st\<lparr>ps_disposed_bytes := ps_disposed_bytes st + of_nat (length noise),
         ps_crcs_valid_known_packets := ps_crcs_valid_known_packets st + 1\<rparr>) \<and> searching rest u"
proof -
  let ?P = "CrsfParser_TryParseCrsfPacket (Crc8Init 0xd5) ds"
  let ?crc = "crc8_bitwise 0xd5 (packet_type # payload)"
  let ?st = "st\<lparr>ps_disposed_bytes := ps_disposed_bytes st + of_nat (length noise)\<rparr>"
  obtain t where t: "?P (s, st) = ?P (t, ?st)"
    "searching (CRSF_HEADER # of_nat (length payload + 2) # packet_type # payload @ ?crc # rest) t"
    "cp_process_buffer t = cp_process_buffer s"
    using noise_skipped [OF assms(1,2), of "Crc8Init 0xd5" ds st] by (auto simp: crsf_frame_def)
  obtain u where u: "?P (t, ?st) = ?P (u, ?st)" "crc_pending packet_type payload ?crc rest u"
    "cp_working_descriptor u = Some d" "cp_process_buffer u = cp_process_buffer t"
    using frame_reaches_crc [OF t(2) d, of "Crc8Init 0xd5" ?st] by blast
  from crc_accepted [OF u(2,3) assms(5), of packet ds ?st] processor show ?thesis
    unfolding t(1) u(1) u(4) t(3) by simp
qed

text \<open>With a wrong checksum the search goes on behind the header of the frame.\<close>

lemma frame_refused:
  assumes "searching (CRSF_HEADER # of_nat (length payload + 2) # packet_type # payload @ crc # rest) s"
    and d: "FindCrsfDescriptor ds packet_type = Some d" "accepts_length d (length payload)"
    and "crc8_bitwise poly (packet_type # payload) \<noteq> crc"
  shows "\<exists>t. CrsfParser_TryParseCrsfPacket (Crc8Init poly) ds (s, st) =
      CrsfParser_TryParseCrsfPacket (Crc8Init poly) ds (t, st\<lparr>ps_crcs_invalid := ps_crcs_invalid st + 1\<rparr>) \<and>
    searching (of_nat (length payload + 2) # packet_type # payload @ crc # rest) t"
proof -
  let ?P = "CrsfParser_TryParseCrsfPacket (Crc8Init poly) ds"
  obtain t where t: "?P (s, st) = ?P (t, st)" "crc_pending packet_type payload crc rest t"
    "qb_bytes (cp_rx_queue t) = of_nat (length payload + 2) # packet_type # payload @ crc # rest"
    using frame_reaches_crc [OF assms(1) d, of "Crc8Init poly" st] by blast
  obtain u where u: "parse_crc (Crc8Init poly) (t, st) = (None, u, st\<lparr>ps_crcs_invalid := ps_crcs_invalid st + 1\<rparr>)"
    "searching (qb_bytes (cp_rx_queue t)) u"
    using crc_refused [OF t(2) assms(4), of st] by blast
  have "?P (t, st) = ?P (u, st\<lparr>ps_crcs_invalid := ps_crcs_invalid st + 1\<rparr>)"
    using TryParse_step [of "(t, st)"] t(2) u(1) by (simp add: parser_step_def crc_pending_def)
  with u(2) show ?thesis unfolding t(1) t(3) by blast
qed

lemma raw_channels_stale: "length payload = 22 \<Longrightarrow> raw_channels (payload @ stale) = raw_channels payload"
  by (simp add: raw_channels_def nth_append)

definition rc_packet :: "u32 list \<Rightarrow> CrsfPacket_t" where
  "rc_packet channels = CRSF_RC_CHANNELS (map CONSTRAIN_CHAN channels)"

lemma channels_parsed:
  assumes "searching (noise @ crsf_frame CRSF_PACKET_TYPE_RC_CHANNELS_PACKED (pack_channels channels) @ rest) s"
    and "CRSF_HEADER \<notin> set noise" and "length channels = 16" and "\<forall>c \<in> set channels. c < 2048"
  shows "\<exists>u. CrsfParser_TryParseCrsfPacket (Crc8Init 0xd5) crsf_packet_descriptors (s, st) =
      Some (Some (rc_packet channels), u,
        st\<lparr>ps_disposed_bytes := ps_disposed_bytes st + of_nat (length noise),
           ps_crcs_valid_known_packets := ps_crcs_valid_known_packets st + 1\<rparr>) \<and> searching rest u"
  using assms(1,2)
proof (rule frame_parsed)
  let ?d = "\<lparr>pd_packet_type = CRSF_PACKET_TYPE_RC_CHANNELS_PACKED, pd_packet_size = 22,
      pd_processor = Some ProcessChannelData\<rparr>"
  show "FindCrsfDescriptor crsf_packet_descriptors CRSF_PACKET_TYPE_RC_CHANNELS_PACKED = Some ?d"
    by (simp add: FindCrsfDescriptor_def crsf_packet_descriptors_def)
  show "accepts_length ?d (length (pack_channels channels))" by (simp add: accepts_length_def)
  show "pd_processor ?d = Some ProcessChannelData" by simp
  have "ProcessChannelData (pack_channels channels @ stale) n = Some (rc_packet channels)" for stale n
    using raw_channels_pack [OF assms(3,4)]
    by (simp add: ProcessChannelData_def raw_channels_stale rc_packet_def)
  then show "ProcessChannelData (pack_channels channels @
      crc8_bitwise 0xd5 (CRSF_PACKET_TYPE_RC_CHANNELS_PACKED # pack_channels channels) #
      drop (length (pack_channels channels) + 3) (cp_process_buffer s))
      (of_nat (length (pack_channels channels))) = Some (rc_packet channels)" .
qed

text \<open>
  The processors of packets with variable length do not look at the length: statistics of a packet
  without payload are the checksum and bytes of earlier packets.
\<close>

lemma empty_statistics_accepted:
  assumes "searching (crsf_frame CRSF_PACKET_TYPE_LINK_STATISTICS_TX [] @ rest) s"
  shows "\<exists>u st' tx. CrsfParser_TryParseCrsfPacket (Crc8Init 0xd5) crsf_packet_descriptors (s, st) =
      Some (Some (CRSF_LINK_STATISTICS_TX tx), u, st') \<and>
    lt_uplink_link_quality tx = cp_process_buffer s ! 4 \<and> lt_downlink_power tx = cp_process_buffer s ! 6"
proof -
  let ?d = "\<lparr>pd_packet_type = CRSF_PACKET_TYPE_LINK_STATISTICS_TX, pd_packet_size = -1,
      pd_processor = Some ProcessLinkStatisticsTx\<rparr>"
  have d: "FindCrsfDescriptor crsf_packet_descriptors CRSF_PACKET_TYPE_LINK_STATISTICS_TX = Some ?d"
    "accepts_length ?d (length [])" "pd_processor ?d = Some ProcessLinkStatisticsTx"
    by (simp_all add: FindCrsfDescriptor_def crsf_packet_descriptors_def accepts_length_def)
  have "length (cp_process_buffer s) = 64" using assms by (simp add: searching_def crsf_ok_def)
  then have "drop 3 (cp_process_buffer s) ! 1 = cp_process_buffer s ! 4"
    "drop 3 (cp_process_buffer s) ! 3 = cp_process_buffer s ! 6" by simp_all
  with frame_parsed [of "[]", OF _ _ d] assms show ?thesis
    by (fastforce simp: ProcessLinkStatisticsTx_def)
qed

end
