(* ===== verification/Crsf_Properties.thy ===== *)
theory Crsf_Properties
  imports Crsf_Frames
begin

text \<open>
  Properties of the CRSF receiver: its queue is a bounded list of bytes, the parser always returns,
  no byte from the serial port is lost and no index leaves its buffer, channels arrive as they were
  sent, and a corrupted byte is noticed.
\<close>

section \<open>The queue\<close>

text \<open>
  C40. The ring buffer is a bounded first-in first-out queue: starting from its initialisation, any
  sequence of calls gets the same replies as on a list of bytes that is bounded by the size of the
  buffer, including refused appends, and the queued bytes are that list.
\<close>

theorem queue_refines_list:
  assumes "length buffer = unat n" and "0 < unat n" and "unat n < 2 ^ 30"
    and "list_all small_call calls"
  shows "map_prod id qb_bytes (run_calls (queue_step QueueBuffer_interface) calls (QueueBuffer_Init buffer n)) =
    run_calls (bounded_list_step (unat n)) calls []"
  using rx_queue.run_refines [OF Init_ok [OF assms(1-3)] assms(4)]
  by (simp add: Init_bytes) (simp add: QueueBuffer_Init_def)

theorem queue_refines_list_witness:
  "fst (run_calls (queue_step QueueBuffer_interface) [Append [1, 2], Get, Append [3, 4], Append [5], Get, Get, Get, Get]
     (QueueBuffer_Init [0, 0, 0] 3)) =
   [Accepted True, Byte (Some 1), Accepted True, Accepted False, Byte (Some 2), Byte (Some 3), Byte (Some 4), Byte None]"
proof -
  let ?calls = "[Append [1, 2], Get, Append [3, 4], Append [5], Get, Get, Get, Get]"
  have "map_prod id qb_bytes (run_calls (queue_step QueueBuffer_interface) ?calls (QueueBuffer_Init [0, 0, 0] 3)) =
      run_calls (bounded_list_step (unat (3 :: u32))) ?calls []"
    by (rule queue_refines_list) simp_all
  then have "fst (map_prod id qb_bytes (run_calls (queue_step QueueBuffer_interface) ?calls (QueueBuffer_Init [0, 0, 0] 3))) =
      fst (run_calls (bounded_list_step (unat (3 :: u32))) ?calls [])" by (rule arg_cong)
  then show ?thesis unfolding fst_map_prod id_apply by simp
qed

section \<open>The loops\<close>

text \<open>
  C39. The parser and the driver loop around it always return, whatever the queue, the state and the
  table of descriptors are: the search for a packet ends with a packet or without one, and a cycle of
  the driver ends after finitely many packets.
\<close>

theorem crsf_receive_returns:
  "(\<exists>packet y. CrsfParser_TryParseCrsfPacket crc8_lut descriptors x = Some (packet, y)) \<and>
   (\<exists>packets y. CrsfRc_receive crc8_lut descriptors new_bytes x = Some (packets, y))"
proof (intro conjI)
  show "\<exists>packet y. CrsfParser_TryParseCrsfPacket crc8_lut descriptors x = Some (packet, y)"
    using TryParse_induct [of "\<lambda>_. True" x crc8_lut descriptors] by blast
  have "\<exists>packets z. read_packets crc8_lut descriptors y = Some (packets, z)" for y
    using read_packets_induct [of "\<lambda>_. True" y crc8_lut descriptors] by blast
  then show "\<exists>packets y. CrsfRc_receive crc8_lut descriptors new_bytes x = Some (packets, y)"
    by (cases x) (auto simp: CrsfRc_receive_def)
qed

fun crsf_cycles ::
  "u8 list \<Rightarrow> u8 list list \<Rightarrow> CrsfParser \<times> CrsfParserStatistics_t \<Rightarrow>
   (CrsfPacket_t list \<times> CrsfParser \<times> CrsfParserStatistics_t) option" where
  "crsf_cycles crc8_lut [] x = Some ([], x)"
| "crsf_cycles crc8_lut (new_bytes # reads) x =
     Option.bind (CrsfRc_receive crc8_lut crsf_packet_descriptors new_bytes x) (\<lambda>(packets, y).
       Option.bind (crsf_cycles crc8_lut reads y) (\<lambda>(more, z). Some (packets @ more, z)))"

lemma crsf_cycles_ok:
  assumes "crsf_ok s" and "queued s < 64" and "list_all (\<lambda>r. length r \<le> 64) reads"
  shows "\<exists>packets t st'. crsf_cycles crc8_lut reads (s, st) = Some (packets, t, st') \<and>
    crsf_ok t \<and> queued t < 64"
  using assms
proof (induction reads arbitrary: s st)
  case (Cons r reads)
  then obtain packets t st' where receive: "CrsfRc_receive crc8_lut crsf_packet_descriptors r (s, st) = Some (packets, t, st')"
    and "crsf_ok t" "queued t < 64"
    using crsf_packets.receive_ok(2) [of s r crc8_lut st] by auto
  with Cons.IH [of t st'] Cons.prems(3) obtain more u st''
    where "crsf_cycles crc8_lut reads (t, st') = Some (more, u, st'')" "crsf_ok u" "queued u < 64"
    by auto
  with receive show ?case by auto
qed simp

text \<open>
  C19. No byte from the serial port is lost and no index leaves its buffer. After the driver has
  initialised the parser, in whatever state an earlier run has left its static variables, and after
  any number of cycles that read at most 64 bytes each: less than 64 bytes are left in the queue, so
  that the next read fits whatever it holds, although the driver does not check it; and the packet
  under construction with its checksum fits the 64 bytes of the process buffer.
\<close>

theorem crsf_reads_fit:
  assumes "length (qb_buffer (cp_rx_queue s)) = 200" and "length (cp_process_buffer s) = 64"
    and "segment_ok s"
    and "list_all (\<lambda>r. length r \<le> 64) reads" and "length new_bytes \<le> 64"
  shows "\<exists>packets t st'. crsf_cycles crc8_lut reads (CrsfParser_Init s, st) = Some (packets, t, st') \<and>
    QueueBuffer_Count (cp_rx_queue t) < 64 \<and>
    fst (CrsfParser_LoadBuffer new_bytes (of_nat (length new_bytes)) t) \<and>
    cp_working_index t + CRC_SIZE \<le> CRSF_MAX_PACKET_LEN \<and> length (cp_process_buffer t) = 64"
proof -
  have "queued (CrsfParser_Init s) < 64"
    by (simp add: queued_def CrsfParser_Init_def QueueBuffer_Init_def)
  from crsf_cycles_ok [OF Init_crsf_ok [OF assms(1-3)] this assms(4), of crc8_lut st]
  obtain packets t st' where cycles: "crsf_cycles crc8_lut reads (CrsfParser_Init s, st) = Some (packets, t, st')"
    and t: "crsf_ok t" "queued t < 64" by blast
  from t(1) have "unat (cp_working_index t) < 64"
    by (cases "cp_parser_state t") (auto simp: crsf_ok_def segment_ok_def)
  then have "cp_working_index t + 1 \<le> 64" by (simp add: word_le_nat_alt unat_add_small)
  moreover have "QueueBuffer_Count (cp_rx_queue t) < 64"
    using t(2) by (simp add: queued_def QueueBuffer_Count_def word_less_nat_alt)
  ultimately show ?thesis
    using cycles t(1) crsf_packets.receive_ok(1) [OF t assms(5)] by (auto simp: crsf_ok_def)
qed

definition statistics_zero :: CrsfParserStatistics_t where
  "statistics_zero = \<lparr>ps_disposed_bytes = 0, ps_crcs_valid_known_packets = 0,
     ps_crcs_valid_unknown_packets = 0, ps_crcs_invalid = 0, ps_invalid_known_packet_sizes = 0,
     ps_invalid_unknown_packet_sizes = 0\<rparr>"

theorem crsf_reads_fit_witness:
  "\<exists>packets t st'. crsf_cycles (Crc8Init 0xd5) (replicate 9 (replicate 64 CRSF_HEADER))
     (CrsfParser_Init CrsfParser_static, statistics_zero) = Some (packets, t, st') \<and>
     fst (CrsfParser_LoadBuffer (replicate 64 CRSF_HEADER) 64 t)"
proof -
  have "length (qb_buffer (cp_rx_queue CrsfParser_static)) = 200"
    "length (cp_process_buffer CrsfParser_static) = 64" "segment_ok CrsfParser_static"
    "list_all (\<lambda>r. length r \<le> 64) (replicate 9 (replicate 64 CRSF_HEADER))"
    "length (replicate 64 CRSF_HEADER) \<le> 64"
    by (simp_all add: CrsfParser_static_def QueueBuffer_Init_def segment_ok_def list_all_iff)
  from crsf_reads_fit [OF this, of "Crc8Init 0xd5" statistics_zero] show ?thesis
    by auto
qed

section \<open>Packets\<close>

definition rc_frame :: "u32 list \<Rightarrow> u8 list" where
  "rc_frame channels = crsf_frame CRSF_PACKET_TYPE_RC_CHANNELS_PACKED (pack_channels channels)"

text \<open>Frames with noise in front of them.\<close>

definition rc_stream :: "(u8 list \<times> u32 list) list \<Rightarrow> u8 list" where
  "rc_stream segments = concat (map (\<lambda>(noise, channels). noise @ rc_frame channels) segments)"

definition rc_segment :: "u8 list \<times> u32 list \<Rightarrow> bool" where
  "rc_segment = (\<lambda>(noise, channels). CRSF_HEADER \<notin> set noise \<and> length channels = 16 \<and>
     (\<forall>c \<in> set channels. c < 2048))"

lemma loaded_searching:
  assumes "searching [] s" and "length bytes \<le> 200"
  shows "searching bytes (snd (CrsfParser_LoadBuffer bytes (of_nat (length bytes)) s))"
proof -
  have n: "unat (of_nat (length bytes) :: u32) = length bytes"
    using assms(2) by (simp add: unat_of_nat take_bit_nat_eq_self)
  show ?thesis
    using assms AppendBuffer_bytes [OF _ n, of "cp_rx_queue s"] length_qb_bytes [of "cp_rx_queue s"]
    by (simp add: searching_def crsf_ok_def CrsfParser_LoadBuffer_def split_beta)
qed

lemma static_searching: "searching [] (CrsfParser_Init CrsfParser_static)"
  using static_ok by (simp add: searching_def CrsfParser_Init_def CrsfParser_static_def Init_bytes)

lemma stream_parsed:
  assumes "searching (rc_stream segments) s" and "list_all rc_segment segments"
  shows "\<exists>u st'. read_packets (Crc8Init 0xd5) crsf_packet_descriptors (s, st) =
      Some (map (rc_packet \<circ> snd) segments, u, st') \<and> searching [] u \<and>
    ps_disposed_bytes st' = ps_disposed_bytes st + of_nat (length (concat (map fst segments)))"
  using assms
proof (induction segments arbitrary: s st)
  case Nil
  then have "\<not> parser_can_run s" by (simp add: searching_def rc_stream_def can_run_iff queued_bytes)
  then have "CrsfParser_TryParseCrsfPacket (Crc8Init 0xd5) crsf_packet_descriptors (s, st) = Some (None, s, st)"
    by (subst CrsfParser_TryParseCrsfPacket.simps) simp
  with Nil show ?case by (subst read_packets.simps) (simp add: rc_stream_def)
next
  case (Cons seg segments)
  obtain noise channels where seg: "seg = (noise, channels)" by (rule prod.exhaust)
  let ?st = "st\<lparr>ps_disposed_bytes := ps_disposed_bytes st + of_nat (length noise),
    ps_crcs_valid_known_packets := ps_crcs_valid_known_packets st + 1\<rparr>"
  from Cons.prems seg obtain t where t: "searching (rc_stream segments) t"
    "CrsfParser_TryParseCrsfPacket (Crc8Init 0xd5) crsf_packet_descriptors (s, st) =
      Some (Some (rc_packet channels), t, ?st)"
    using channels_parsed [of noise channels "rc_stream segments" s st]
    by (auto simp: rc_stream_def rc_frame_def rc_segment_def)
  from Cons.IH [OF t(1), of ?st] Cons.prems(2) seg t(2) show ?case
    by (subst read_packets.simps) (auto simp: add.assoc)
qed

text \<open>
  C21. Channels arrive as they were sent. If the parser is waiting for a packet and a cycle of the
  driver reads frames with sixteen channels of eleven bits each, with noise in front of them that
  holds no header byte, then it gets exactly these channels in this order, constrained to the
  range of valid values, disposes of exactly the noise and is waiting again.
\<close>

theorem rc_packets_delivered:
  assumes "searching [] s" and "list_all rc_segment segments" and "length (rc_stream segments) \<le> 200"
  shows "\<exists>u st'. CrsfRc_receive (Crc8Init 0xd5) crsf_packet_descriptors (rc_stream segments) (s, st) =
      Some (map (\<lambda>(noise, channels). CRSF_RC_CHANNELS (map CONSTRAIN_CHAN channels)) segments, u, st') \<and>
    searching [] u \<and>
    ps_disposed_bytes st' = ps_disposed_bytes st + of_nat (length (concat (map fst segments)))"
proof -
  let ?bytes = "rc_stream segments"
  let ?load = "CrsfParser_LoadBuffer ?bytes (of_nat (length ?bytes)) s"
  from stream_parsed [OF loaded_searching [OF assms(1,3)] assms(2), of st] obtain u st'
    where read: "read_packets (Crc8Init 0xd5) crsf_packet_descriptors (snd ?load, st) =
        Some (map (rc_packet \<circ> snd) segments, u, st')"
      and u: "searching [] u"
        "ps_disposed_bytes st' = ps_disposed_bytes st + of_nat (length (concat (map fst segments)))" by blast
  have packets: "map (rc_packet \<circ> snd) segments =
      map (\<lambda>(noise, channels). CRSF_RC_CHANNELS (map CONSTRAIN_CHAN channels)) segments"
    by (simp add: rc_packet_def split_beta comp_def)
  show ?thesis
  proof (cases "?bytes = []")
    case True
    then have "segments = []" by (cases segments) (auto simp: rc_stream_def rc_frame_def crsf_frame_def split_beta)
    with assms(1) show ?thesis by (simp add: CrsfRc_receive_def rc_stream_def)
  next
    case False
    with read u show ?thesis unfolding packets by (simp add: CrsfRc_receive_def)
  qed
qed

theorem rc_packets_delivered_witness:
  "\<exists>u st'. CrsfRc_receive (Crc8Init 0xd5) crsf_packet_descriptors
     (rc_stream [([7, 7], replicate 16 992), ([], replicate 16 0)])
     (CrsfParser_Init CrsfParser_static, statistics_zero) =
     Some ([CRSF_RC_CHANNELS (replicate 16 992), CRSF_RC_CHANNELS (replicate 16 172)], u, st')"
proof -
  let ?segments = "[([7, 7], replicate 16 992), ([], replicate 16 0)] :: (u8 list \<times> u32 list) list"
  have "list_all rc_segment ?segments" by (simp add: rc_segment_def)
  moreover have "length (rc_stream ?segments) \<le> 200" by (simp add: rc_stream_def rc_frame_def crsf_frame_def)
  ultimately show ?thesis
    using rc_packets_delivered [OF static_searching, of ?segments statistics_zero]
    by (auto simp: CONSTRAIN_CHAN_def)
qed

text \<open>
  C9. A corrupted byte is noticed. If one byte of the payload or the checksum of a frame of a known
  packet is changed on the way, the frame is not taken for a packet: the search goes on behind its
  header byte, with one more invalid checksum counted.
\<close>

theorem corrupted_byte_refused:
  assumes "FindCrsfDescriptor crsf_packet_descriptors packet_type = Some d" and "accepts_length d (length payload)"
    and "3 \<le> i" and "i < length (crsf_frame packet_type payload)" and "y \<noteq> crsf_frame packet_type payload ! i"
    and "searching ((crsf_frame packet_type payload)[i := y] @ rest) s"
  shows "\<exists>t. CrsfParser_TryParseCrsfPacket (Crc8Init 0xd5) crsf_packet_descriptors (s, st) =
      CrsfParser_TryParseCrsfPacket (Crc8Init 0xd5) crsf_packet_descriptors
        (t, st\<lparr>ps_crcs_invalid := ps_crcs_invalid st + 1\<rparr>) \<and>
    searching (tl ((crsf_frame packet_type payload)[i := y]) @ rest) t"
proof -
  let ?crc = "crc8_bitwise 0xd5 (packet_type # payload)"
  have "i = Suc (Suc (Suc (i - 3)))" using assms(3) by simp
  then obtain k where i: "i = Suc (Suc (Suc k))" by blast
  obtain p c where frame: "(crsf_frame packet_type payload)[i := y] =
      CRSF_HEADER # of_nat (length p + 2) # packet_type # p @ [c]" and p: "length p = length payload"
    and wrong: "crc8_bitwise 0xd5 (packet_type # p) \<noteq> c"
  proof (cases "k < length payload")
    case True
    then have "crc8_bitwise 0xd5 ((packet_type # payload)[Suc k := y]) \<noteq> ?crc"
      using assms(5) by (intro crc8_detects_byte) (auto simp: i crsf_frame_def nth_append)
    with True that [of "payload[k := y]" ?crc] show ?thesis by (simp add: i crsf_frame_def list_update_append)
  next
    case False
    then have "k = length payload" using assms(4) by (simp add: i crsf_frame_def)
    with assms(5) that [of payload y] show ?thesis by (auto simp: i crsf_frame_def)
  qed
  from frame_refused [of p packet_type c rest s crsf_packet_descriptors d "0xd5" st] assms(1,2,6) p wrong
  show ?thesis unfolding frame by simp
qed

theorem corrupted_byte_refused_witness:
  "\<exists>s t. CrsfParser_TryParseCrsfPacket (Crc8Init 0xd5) crsf_packet_descriptors (s, statistics_zero) =
      CrsfParser_TryParseCrsfPacket (Crc8Init 0xd5) crsf_packet_descriptors
        (t, statistics_zero\<lparr>ps_crcs_invalid := 1\<rparr>)"
proof -
  let ?frame = "crsf_frame CRSF_PACKET_TYPE_LINK_STATISTICS (replicate 10 5)"
  let ?d = "\<lparr>pd_packet_type = CRSF_PACKET_TYPE_LINK_STATISTICS, pd_packet_size = 10,
      pd_processor = Some ProcessLinkStatistics\<rparr>"
  let ?s = "snd (CrsfParser_LoadBuffer (?frame[3 := 6]) (of_nat (length (?frame[3 := 6])))
    (CrsfParser_Init CrsfParser_static))"
  have "FindCrsfDescriptor crsf_packet_descriptors CRSF_PACKET_TYPE_LINK_STATISTICS = Some ?d"
    "accepts_length ?d (length (replicate 10 (5 :: u8)))" "3 < length ?frame" "6 \<noteq> ?frame ! 3"
    by (simp_all add: FindCrsfDescriptor_def crsf_packet_descriptors_def accepts_length_def crsf_frame_def
        nth_append del: replicate.simps)
  moreover have "searching (?frame[3 := 6] @ []) ?s"
    using loaded_searching [OF static_searching, of "?frame[3 := 6]"] by (simp add: crsf_frame_def)
  ultimately show ?thesis
    using corrupted_byte_refused [of CRSF_PACKET_TYPE_LINK_STATISTICS ?d "replicate 10 5" 3 6 "[]" ?s statistics_zero]
    by (auto simp: statistics_zero_def)
qed

end
