(* ===== verification/Spec2Isabelle.thy ===== *)
theory Spec2Isabelle
  imports Mode_Properties Failsafe_Properties Arming_Properties External_Properties
    Mode_Manager_Properties Commander_Properties Crsf_Properties
begin

text \<open>
  Verification of the safety logic of a PX4 flight stack: the commander module, which decides when
  the vehicle may be armed, in which mode it flies and what it does after a failure, and the receiver
  of the pilot's commands. Files are named relative to \<^verbatim>\<open>src/\<close>; \<^verbatim>\<open>commander/\<close> stands for
  \<^verbatim>\<open>src/modules/commander/\<close>.

  \<^bold>\<open>The parts and how they interact.\<close> The receiver driver (\<^verbatim>\<open>src/drivers/rc/crsf_rc\<close>) turns bytes from a
  serial port into packets with the stick positions. The commander runs its health and arming checks
  (\<^verbatim>\<open>commander/HealthAndArmingChecks\<close>), which fill the failsafe flags and a report with the modes in
  which the vehicle can arm and run; components outside of the autopilot take part through the
  external checks. The mode management (\<^verbatim>\<open>commander/ModeManagement\<close>) registers modes and executors of
  such components. The user mode intention (\<^verbatim>\<open>commander/UserModeIntention\<close>) holds the mode the pilot
  has selected, and asks the report whether a change is allowed. \<^verbatim>\<open>Commander::arm\<close> and
  \<^verbatim>\<open>Commander::disarm\<close> use all of them. The failsafe state machine (\<^verbatim>\<open>commander/failsafe\<close>) reads the
  failsafe flags in every cycle and replaces the selected mode if an action is necessary. The mode
  utilities (\<^verbatim>\<open>commander/ModeUtil\<close>) give the requirements and the controllers of a mode.

  \<^bold>\<open>How code is represented.\<close> A class or struct is a record with the members as fields, a method is a
  function on the record that returns it updated, an enum is a datatype, an integer of fixed width is
  a word (signed 8-bit identifiers are integers). Virtual methods and function pointers are fields of
  a record of functions. Events, messages and callbacks are results. The time is an argument. A
  subscription is the list of messages it delivers. Floating-point comparisons are represented by
  their outcome. A member function of another class is called as in the code.

  \<^bold>\<open>Foundations.\<close> \<^verbatim>\<open>Px4_Prelude\<close> has the integer types, the time literals of \<^verbatim>\<open>src/drivers/drv_hrt.h\<close>
  and shared lemmas. \<^verbatim>\<open>Vehicle_Messages\<close> and \<^verbatim>\<open>Vehicle_Status\<close> have the messages of \<^verbatim>\<open>msg/\<close> that are
  used, and the event identifiers of \<^verbatim>\<open>platforms/common/include/px4_platform_common/events.h\<close>.

  \<^bold>\<open>Modes.\<close> \<^verbatim>\<open>Mode_Util\<close> models \<^verbatim>\<open>mode_requirements.cpp\<close>, \<^verbatim>\<open>Control_Mode\<close> models \<^verbatim>\<open>control_mode.cpp\<close> and
  \<^verbatim>\<open>setpoint_types.cpp\<close>, \<^verbatim>\<open>Custom_Mode\<close> models \<^verbatim>\<open>conversions.hpp\<close>, \<^verbatim>\<open>px4_custom_mode.h\<close> and the mode command
  of \<^verbatim>\<open>Commander.cpp\<close>. \<^verbatim>\<open>Mode_Properties\<close> shows that the requirements of fallback modes are nested, that
  the controllers of a mode form a complete cascade, and that a reported mode can be commanded.

  \<^bold>\<open>Failsafe.\<close> \<^verbatim>\<open>Failsafe_Types\<close> has the data of \<^verbatim>\<open>framework.h\<close>, \<^verbatim>\<open>Failsafe_Framework\<close> the class
  \<^verbatim>\<open>FailsafeBase\<close> of \<^verbatim>\<open>framework.cpp\<close>, \<^verbatim>\<open>Failsafe_Actions\<close> the actions of the parameters and
  \<^verbatim>\<open>Failsafe_Policy\<close> the class \<^verbatim>\<open>Failsafe\<close> of \<^verbatim>\<open>failsafe.cpp\<close>. \<^verbatim>\<open>Failsafe_Table\<close> has the invariant of the
  action table, \<^verbatim>\<open>Failsafe_Select\<close> the selection of an action against its specification,
  \<^verbatim>\<open>Failsafe_Machine\<close> the contract of the virtual methods (locale \<open>failsafe_hooks\<close>) and the update for
  any subclass, \<^verbatim>\<open>Failsafe_Checks\<close> the proof that the class \<^verbatim>\<open>Failsafe\<close> meets it and the reachable states,
  \<^verbatim>\<open>Failsafe_Identity\<close> that caller identifiers are unique, \<^verbatim>\<open>Failsafe_Critical\<close> that a critical failure
  terminates, and \<^verbatim>\<open>Failsafe_Demo\<close> a concrete vehicle. \<^verbatim>\<open>Failsafe_Properties\<close> shows, for all reachable
  states and all parameter values: critical failures terminate at once and for good, the selected
  action can run, what user takeover, deferral and delay can and cannot hide, and the missing
  reaction to a failed battery.

  \<^bold>\<open>Arming checks.\<close> \<^verbatim>\<open>Health_Report\<close> is the class \<^verbatim>\<open>Report\<close> of \<^verbatim>\<open>Common.{hpp,cpp}\<close>, \<^verbatim>\<open>Report_Lemmas\<close> its
  lemmas. \<^verbatim>\<open>External_Checks\<close> is \<^verbatim>\<open>externalChecks.{hpp,cpp}\<close>; \<^verbatim>\<open>External_Registry\<close> refines its
  registrations to a partial map (locale \<open>check_registry\<close>), \<^verbatim>\<open>External_Polling\<close> follows one registration
  through the polls, \<^verbatim>\<open>External_Report\<close> is about its report. \<^verbatim>\<open>Arming_Checks\<close> has the individual checks,
  \<^verbatim>\<open>Arming_Update\<close> the class \<^verbatim>\<open>HealthAndArmingChecks\<close> with the contract of a check (locale
  \<open>arming_checks\<close>). \<^verbatim>\<open>Arming_Properties\<close> shows that a mode which the report lets run meets its
  requirements on the failsafe flags and that hazards refuse arming; \<^verbatim>\<open>External_Properties\<close> that no
  event is lost, that registrations form a map, and how silent, given-up and unregistered modes are
  refused.

  \<^bold>\<open>Mode management and commander.\<close> \<^verbatim>\<open>Mode_Management\<close> is \<^verbatim>\<open>ModeManagement.{hpp,cpp}\<close>; \<^verbatim>\<open>Mode_Invariant\<close>,
  \<^verbatim>\<open>Mode_Registration\<close> and \<^verbatim>\<open>Mode_Reachable\<close> show that its tables agree with each other and with the
  external checks in every reachable state, which \<^verbatim>\<open>Mode_Manager_Properties\<close> uses. \<^verbatim>\<open>User_Mode\<close> has the
  classes \<^verbatim>\<open>UserModeIntention\<close> and \<^verbatim>\<open>Safety\<close> with the contract of a handler (locale
  \<open>mode_change_handler\<close>, which the mode management meets), \<^verbatim>\<open>Commander_Arming\<close> arming and disarming.
  \<^verbatim>\<open>Commander_Properties\<close> shows which mode changes are accepted in flight, that the mode after disarming
  is no takeoff mode, that hazards deny arming, and when disarming is accepted.

  \<^bold>\<open>Receiver.\<close> \<^verbatim>\<open>Queue_Buffer\<close> is \<^verbatim>\<open>QueueBuffer.cpp\<close>, a ring buffer, and its contract (locale
  \<open>byte_queue\<close>); \<^verbatim>\<open>Crsf_Crc\<close> is \<^verbatim>\<open>Crc8.cpp\<close>; \<^verbatim>\<open>Crsf_Parser\<close> is \<^verbatim>\<open>CrsfParser.cpp\<close> and the receive loop of
  \<^verbatim>\<open>CrsfRc.cpp\<close>; \<^verbatim>\<open>Crsf_Invariant\<close> has its progress and its invariant for any table of packet
  descriptors (locale \<open>packet_descriptors\<close>); \<^verbatim>\<open>Crsf_Frames\<close> has frames and channels as a sender makes
  them. \<^verbatim>\<open>Crsf_Properties\<close> shows that the queue is a bounded list, that the loops return, that no byte
  is lost and no buffer overrun, that channels arrive as sent, and that corrupted frames are refused.

  \<^bold>\<open>Bounds and termination.\<close> There is no fuel. The loops over arrays and message queues are recursions
  on lists or on a count; the logarithm of a component index is a terminating function. The loops of
  the receiver are partial functions whose result is an option, and they are proved to return. The
  sizes of the tables (8 failsafe actions, 8 registrations, 8 modes, 5 executors, 200 bytes in the queue,
  64 bytes in a packet) are those of the code. The layout of the generated struct of
  failsafe flags is a parameter, of which only is assumed that distinct flags have distinct offsets
  within the struct (\<open>layout_ok\<close>); it is witnessed by a concrete layout.

  \<^bold>\<open>Not modelled.\<close> The main loop of the commander with its subscriptions and publications, the other
  vehicle commands, LEDs and tunes: input and output around the modelled parts. The home position,
  the failure detector, calibration, and the checks of sensors, estimators, batteries, power, motor
  controllers and wind: floating-point computations, whose results are inputs of the model. The text
  messages for old ground stations and the console output. In the receiver: the scaling of channels to
  floating-point numbers, telemetry, binding, and the two optional features that are off by default
  (injected packets and video transmitter commands). The estimators, controllers, navigator, other
  drivers, MAVLink, logging, the message bus and the parameter storage.
\<close>

end
